(* ===== verification/Prelude.thy ===== *)
theory Prelude
  imports Main
begin

text \<open>
  The vocabulary every component shares: Go strings as lists of bytes with the functions of
  the standard package \<open>strings\<close> that the framework calls, decimal printing, slicing with
  Go's range check, and the collections of rewrite rules that the component theories extend.

  A Go \<open>string\<close> is a sequence of bytes, and so is an Isabelle \<^typ>\<open>string\<close>
  (a list of 8-bit characters): \<open>length\<close> is Go's \<open>len\<close>.
\<close>

named_theorems frame \<comment> \<open>fields that an operation leaves alone\<close>
named_theorems step_unfold \<comment> \<open>definitions a step of the agent loop unfolds to\<close>

section \<open>Prefixes, search, joining\<close>

definition has_prefix :: "string \<Rightarrow> string \<Rightarrow> bool" where
  "has_prefix p s \<longleftrightarrow> take (length p) s = p"

fun index_of :: "string \<Rightarrow> string \<Rightarrow> nat option" where
  "index_of sub [] = (if sub = [] then Some 0 else None)"
| "index_of sub (c # s) =
     (if has_prefix sub (c # s) then Some 0 else map_option Suc (index_of sub s))"

fun last_index_of :: "string \<Rightarrow> string \<Rightarrow> nat option" where
  "last_index_of sub [] = (if sub = [] then Some 0 else None)"
| "last_index_of sub (c # s) =
     (case last_index_of sub s of
        Some i \<Rightarrow> Some (Suc i)
      | None \<Rightarrow> if has_prefix sub (c # s) then Some 0 else None)"

definition contains :: "string \<Rightarrow> string \<Rightarrow> bool" where
  "contains s sub \<longleftrightarrow> index_of sub s \<noteq> None"

fun join :: "string \<Rightarrow> string list \<Rightarrow> string" where
  "join sep [] = []"
| "join sep [x] = x"
| "join sep (x # xs) = x @ sep @ join sep xs"

definition newline :: string where
  "newline = [CHR 0x0A]"

fun split_on :: "char \<Rightarrow> string \<Rightarrow> string list" where
  "split_on c [] = [[]]"
| "split_on c (x # xs) =
     (if x = c then [] # split_on c xs
      else (case split_on c xs of [] \<Rightarrow> [[x]] | y # ys \<Rightarrow> (x # y) # ys))"

fun lower_char :: "char \<Rightarrow> char" where
  "lower_char c =
     (if 65 \<le> (of_char c :: nat) \<and> (of_char c :: nat) \<le> 90
      then char_of ((of_char c :: nat) + 32) else c)"

text \<open>
  \<open>strings.ToLower\<close> on the ASCII letters. The framework compares the result with ASCII
  keywords only, so letters outside ASCII are left as they are.
\<close>

definition to_lower :: "string \<Rightarrow> string" where
  "to_lower s = map lower_char s"

section \<open>White space\<close>

text \<open>
  \<open>strings.TrimSpace\<close> removes the characters of Unicode class White Space from both
  ends. They are listed here by their UTF-8 encodings.
\<close>

definition space_runes :: "string list" where
  "space_runes =
     [[CHR 0x20], [CHR 0x09], [CHR 0x0A], [CHR 0x0B], [CHR 0x0C], [CHR 0x0D],
      [CHR 0xC2, CHR 0x85], [CHR 0xC2, CHR 0xA0], [CHR 0xE1, CHR 0x9A, CHR 0x80],
      [CHR 0xE2, CHR 0x80, CHR 0x80], [CHR 0xE2, CHR 0x80, CHR 0x81],
      [CHR 0xE2, CHR 0x80, CHR 0x82], [CHR 0xE2, CHR 0x80, CHR 0x83],
      [CHR 0xE2, CHR 0x80, CHR 0x84], [CHR 0xE2, CHR 0x80, CHR 0x85],
      [CHR 0xE2, CHR 0x80, CHR 0x86], [CHR 0xE2, CHR 0x80, CHR 0x87],
      [CHR 0xE2, CHR 0x80, CHR 0x88], [CHR 0xE2, CHR 0x80, CHR 0x89],
      [CHR 0xE2, CHR 0x80, CHR 0x8A], [CHR 0xE2, CHR 0x80, CHR 0xA8],
      [CHR 0xE2, CHR 0x80, CHR 0xA9], [CHR 0xE2, CHR 0x80, CHR 0xAF],
      [CHR 0xE2, CHR 0x81, CHR 0x9F], [CHR 0xE3, CHR 0x80, CHR 0x80]]"

text \<open>
  \<open>strip ps s\<close> removes members of \<open>ps\<close> from the front of \<open>s\<close> as long as one is
  there. An empty member would never end the loop, so it is skipped.
\<close>

function strip :: "string list \<Rightarrow> string \<Rightarrow> string" where
  "strip ps s =
     (case find (\<lambda>p. p \<noteq> [] \<and> has_prefix p s) ps of
        None \<Rightarrow> s
      | Some p \<Rightarrow> strip ps (drop (length p) s))"
  by pat_completeness auto
termination
proof (relation "measure (\<lambda>(ps, s). length s)", goal_cases)
  case (2 ps s p)
  then have p: "p \<noteq> []" "take (length p) s = p"
    by (auto simp: find_Some_iff has_prefix_def)
  then have "s \<noteq> []" by auto
  with p show ?case by (simp add: diff_less)
qed simp

declare strip.simps [simp del]

definition trim_left :: "string \<Rightarrow> string" where
  "trim_left s = strip space_runes s"

definition trim_right :: "string \<Rightarrow> string" where
  "trim_right s = rev (strip (map rev space_runes) (rev s))"

definition trim_space :: "string \<Rightarrow> string" where
  "trim_space s = trim_right (trim_left s)"

section \<open>Numbers as text\<close>

fun nat_text :: "nat \<Rightarrow> string" where
  "nat_text n =
     (if n < 10 then [char_of (48 + n)] else nat_text (n div 10) @ [char_of (48 + n mod 10)])"

declare nat_text.simps [simp del]

definition int_text :: "int \<Rightarrow> string" where
  "int_text i = (if i < 0 then ''-'' @ nat_text (nat (- i)) else nat_text (nat i))"

section \<open>Slices and integer division\<close>

text \<open>
  \<open>xs[lo:hi]\<close> panics unless \<open>0 \<le> lo \<le> hi \<le> len(xs)\<close>; \<^const>\<open>None\<close> stands for the panic.
  Go's integer division truncates towards zero.
\<close>

definition slice :: "'a list \<Rightarrow> int \<Rightarrow> int \<Rightarrow> 'a list option" where
  "slice xs lo hi =
     (if 0 \<le> lo \<and> lo \<le> hi \<and> hi \<le> int (length xs)
      then Some (take (nat (hi - lo)) (drop (nat lo) xs)) else None)"

definition go_div :: "int \<Rightarrow> int \<Rightarrow> int" where
  "go_div a b = sgn a * sgn b * (\<bar>a\<bar> div \<bar>b\<bar>)"

section \<open>Lemmas\<close>

lemma has_prefix_append [simp]: "has_prefix p (p @ s)"
  by (simp add: has_prefix_def)

lemma has_prefix_iff: "has_prefix p s \<longleftrightarrow> (\<exists>t. s = p @ t)"
proof
  assume "has_prefix p s"
  then have "s = p @ drop (length p) s"
    by (metis append_take_drop_id has_prefix_def)
  then show "\<exists>t. s = p @ t" ..
qed auto

lemma find_None_all: "find P xs = None \<longleftrightarrow> (\<forall>x \<in> set xs. \<not> P x)"
  by (auto simp: find_None_iff)

lemma strip_done:
  "\<forall>p \<in> set ps. p \<noteq> [] \<longrightarrow> \<not> has_prefix p s \<Longrightarrow> strip ps s = s"
proof -
  assume "\<forall>p \<in> set ps. p \<noteq> [] \<longrightarrow> \<not> has_prefix p s"
  then have "find (\<lambda>p. p \<noteq> [] \<and> has_prefix p s) ps = None"
    by (auto simp: find_None_all)
  then show ?thesis by (simp add: strip.simps [of ps s])
qed

lemma strip_no_prefix: "p \<in> set ps \<Longrightarrow> p \<noteq> [] \<Longrightarrow> \<not> has_prefix p (strip ps s)"
proof (induction ps s rule: strip.induct)
  case (1 ps s)
  show ?case
  proof (cases "find (\<lambda>p. p \<noteq> [] \<and> has_prefix p s) ps")
    case None
    then have "\<forall>x \<in> set ps. x \<noteq> [] \<longrightarrow> \<not> has_prefix x s" by (auto simp: find_None_all)
    with "1.prems" show ?thesis by (simp add: strip_done)
  next
    case (Some q)
    with "1.IH" [OF Some] "1.prems" show ?thesis
      by (simp add: strip.simps [of ps s])
  qed
qed

lemma strip_suffix: "\<exists>t. s = t @ strip ps s"
proof (induction ps s rule: strip.induct)
  case (1 ps s)
  show ?case
  proof (cases "find (\<lambda>p. p \<noteq> [] \<and> has_prefix p s) ps")
    case None
    then show ?thesis by (simp add: strip.simps [of ps s])
  next
    case (Some q)
    from "1.IH" [OF Some] obtain t where "drop (length q) s = t @ strip ps (drop (length q) s)"
      by blast
    then have "s = (take (length q) s @ t) @ strip ps (drop (length q) s)"
      by (metis append.assoc append_take_drop_id)
    moreover from Some have "strip ps s = strip ps (drop (length q) s)"
      by (simp add: strip.simps [of ps s])
    ultimately show ?thesis by metis
  qed
qed

lemma strip_strip [simp]: "strip ps (strip ps s) = strip ps s"
  by (rule strip_done) (simp add: strip_no_prefix)

lemma trim_right_prefix: "\<exists>t. s = trim_right s @ t"
proof -
  obtain t where "rev s = t @ strip (map rev space_runes) (rev s)"
    using strip_suffix by blast
  then have "s = trim_right s @ rev t"
    by (metis rev_append rev_rev_ident trim_right_def)
  then show ?thesis ..
qed

text \<open>Trimming is idempotent, so an answer that was trimmed once is stable.\<close>

lemma trim_space_idem [simp]: "trim_space (trim_space s) = trim_space s"
proof -
  let ?l = "trim_left s"
  have "trim_left (trim_right ?l) = trim_right ?l"
    unfolding trim_left_def [of "trim_right ?l"]
  proof (rule strip_done, intro ballI impI notI)
    fix p assume p: "p \<in> set space_runes" "p \<noteq> []" "has_prefix p (trim_right ?l)"
    obtain t where "?l = trim_right ?l @ t" using trim_right_prefix by blast
    with p(3) have "has_prefix p ?l"
      by (metis append.assoc has_prefix_iff)
    with p(1,2) strip_no_prefix show False by (simp add: trim_left_def)
  qed
  then show ?thesis
    by (simp add: trim_space_def trim_right_def)
qed

lemma trim_space_Nil [simp]: "trim_space [] = []"
  by (simp add: trim_space_def trim_left_def trim_right_def strip_done has_prefix_def)

lemma go_div_nonneg: "0 \<le> a \<Longrightarrow> 0 < b \<Longrightarrow> go_div a b = a div b"
  by (cases "a = 0") (auto simp: go_div_def)

lemma length_slice: "slice xs lo hi = Some ys \<Longrightarrow> int (length ys) = hi - lo"
  by (auto simp: slice_def split: if_splits)

lemma slice_take: "n \<le> length xs \<Longrightarrow> slice xs 0 (int n) = Some (take n xs)"
  by (simp add: slice_def)

lemma slice_drop: "n \<le> length xs \<Longrightarrow> slice xs (int n) (int (length xs)) = Some (drop n xs)"
  by (simp add: slice_def nat_diff_distrib')

lemma length_takeWhile_dropWhile:
  "length (takeWhile P xs) + length (dropWhile P xs) = length xs"
  by (metis length_append takeWhile_dropWhile_id)

end
