(* ===== verification/GoRuntime.thy ===== *)
theory GoRuntime
  imports Prelude
begin

text \<open>
  Go's error values, contexts and dynamically typed values, as far as the framework uses
  them, and the shape every stateful operation of the development has.
\<close>

section \<open>Errors\<close>

text \<open>
  Package \<open>errors\<close>: the sentinel errors, compared by identity, among them those of the
  packages \<open>context\<close>, \<open>os\<close> and \<open>model\<close>. \<open>ErrNew\<close> is \<open>errors.New\<close> or \<open>fmt.Errorf\<close>
  without a wrapped error, \<open>ErrWrapf\<close> is \<open>fmt.Errorf\<close> with one \<open>%w\<close> between two texts.
\<close>

datatype sentinel =
    ErrMaxIterationsExceeded | ErrTokenBudgetExceeded | ErrTimeout | ErrHITLDenied
  | ErrHITLTimeout | ErrToolNotFound | ErrToolExecFailed | ErrOutputValidation
  | ErrModelUnavailable | ErrLoopDetected
  | ErrStreamNotSupported | ErrMaxRetriesExceeded | ErrNonRetryable
  | ErrCanceled | ErrDeadlineExceeded | ErrNotExist

record field_violation =
  fv_field :: string
  fv_rule :: string
  fv_expected :: string
  fv_actual :: string
  fv_message :: string

record structured_validation_error =
  sve_message :: string
  sve_expected_schema :: string
  sve_violations :: "field_violation list"
  sve_hint :: string

datatype goerr =
    ErrSentinel sentinel
  | ErrNew string
  | ErrWrapf string goerr string
  | ErrStructured structured_validation_error
  | ErrHTTPStatus int string
  | ErrDefaultRetryable string bool int

fun sentinel_text :: "sentinel \<Rightarrow> string" where
  "sentinel_text ErrMaxIterationsExceeded = ''max iterations exceeded''"
| "sentinel_text ErrTokenBudgetExceeded = ''token budget exceeded''"
| "sentinel_text ErrTimeout = ''operation timed out''"
| "sentinel_text ErrHITLDenied = ''human denied the action''"
| "sentinel_text ErrHITLTimeout = ''human response timed out''"
| "sentinel_text ErrToolNotFound = ''tool not registered''"
| "sentinel_text ErrToolExecFailed = ''tool execution failed''"
| "sentinel_text ErrOutputValidation = ''output validation failed''"
| "sentinel_text ErrModelUnavailable = ''model provider unavailable''"
| "sentinel_text ErrLoopDetected =
     ''suspected infinite loop: model repeatedly called same tool with identical parameters''"
| "sentinel_text ErrStreamNotSupported = ''stream not supported''"
| "sentinel_text ErrMaxRetriesExceeded = ''max retries exceeded''"
| "sentinel_text ErrNonRetryable = ''non-retryable error''"
| "sentinel_text ErrCanceled = ''context canceled''"
| "sentinel_text ErrDeadlineExceeded = ''context deadline exceeded''"
| "sentinel_text ErrNotExist = ''file does not exist''"

definition sve_error :: "structured_validation_error \<Rightarrow> string" where
  "sve_error e =
     (if sve_message e \<noteq> [] then sve_message e else ''structured validation error'')"

fun err_text :: "goerr \<Rightarrow> string" where
  "err_text (ErrSentinel s) = sentinel_text s"
| "err_text (ErrNew t) = t"
| "err_text (ErrWrapf p e s) = p @ err_text e @ s"
| "err_text (ErrStructured e) = sve_error e"
| "err_text (ErrHTTPStatus code msg) = ''http status '' @ int_text code @ '': '' @ msg"
| "err_text (ErrDefaultRetryable t r d) = t"

fun err_is :: "goerr \<Rightarrow> sentinel \<Rightarrow> bool" where
  "err_is (ErrSentinel s) t = (s = t)"
| "err_is (ErrWrapf p e s) t = err_is e t"
| "err_is _ t = False"

fun as_structured :: "goerr \<Rightarrow> structured_validation_error option" where
  "as_structured (ErrStructured e) = Some e"
| "as_structured (ErrWrapf p e s) = as_structured e"
| "as_structured _ = None"

section \<open>Contexts and the runtime\<close>

text \<open>
  \<open>ctx.Err()\<close> is nil until the context is cancelled and keeps the same error from then on.
  Cancellation comes from outside, at any moment, and the code sees it only when it asks.
  \<open>CancelAfter n e\<close> is a context whose first \<open>n\<close> polls still answer nil: a statement about
  every context is a statement about every moment at which the context may be cancelled.
\<close>

datatype ctx = Background | CancelAfter nat goerr

fun ctx_poll :: "ctx \<Rightarrow> goerr option \<times> ctx" where
  "ctx_poll Background = (None, Background)"
| "ctx_poll (CancelAfter 0 e) = (Some e, CancelAfter 0 e)"
| "ctx_poll (CancelAfter (Suc n) e) = (None, CancelAfter n e)"

lemma ctx_poll_monotone: "ctx_poll c = (Some e, c') \<Longrightarrow> ctx_poll c' = (Some e, c')"
  by (cases c rule: ctx_poll.cases) auto

text \<open>
  The runtime of an operation: its context and the world outside the framework (models,
  tools, humans, clocks), whose type is a parameter. A call out of the framework takes the
  world and returns the new one, so it may answer differently every time.
\<close>

record 'w rt =
  rt_ctx :: ctx
  rt_world :: 'w

definition poll :: "'w rt \<Rightarrow> goerr option \<times> 'w rt" where
  "poll r = (case ctx_poll (rt_ctx r) of (e, c) \<Rightarrow> (e, r\<lparr>rt_ctx := c\<rparr>))"

text \<open>The result of an operation: a value, an error, or a run-time panic.\<close>

datatype 'a res = Ok 'a | Err goerr | Panic string

type_synonym ('w, 's, 'a) op = "'w rt \<Rightarrow> 's \<Rightarrow> 'a res \<times> 'w rt \<times> 's"

definition go_return :: "'a \<Rightarrow> ('w, 's, 'a) op" where
  "go_return x r s = (Ok x, r, s)"

definition go_fail :: "goerr \<Rightarrow> ('w, 's, 'a) op" where
  "go_fail e r s = (Err e, r, s)"

text \<open>\<open>if err != nil { return err }\<close> after a call: the rest runs only on success.\<close>

definition go_bind :: "('w, 's, 'a) op \<Rightarrow> ('a \<Rightarrow> ('w, 's, 'b) op) \<Rightarrow> ('w, 's, 'b) op" where
  "go_bind m f r s =
     (case m r s of
        (Ok x, r', s') \<Rightarrow> f x r' s'
      | (Err e, r', s') \<Rightarrow> (Err e, r', s')
      | (Panic p, r', s') \<Rightarrow> (Panic p, r', s'))"

text \<open>\<open>if err := ctx.Err(); err != nil { return err }\<close>\<close>

definition go_check_ctx :: "('w, 's, unit) op" where
  "go_check_ctx r s = (case poll r of (None, r') \<Rightarrow> (Ok (), r', s) | (Some e, r') \<Rightarrow> (Err e, r', s))"

definition go_get :: "('w, 's, 's) op" where
  "go_get r s = (Ok s, r, s)"

definition go_put :: "'s \<Rightarrow> ('w, 's, unit) op" where
  "go_put s' r s = (Ok (), r, s')"

text \<open>An operation on a part of the state, run inside the whole.\<close>

definition go_zoom ::
    "('m \<Rightarrow> 's) \<Rightarrow> ('s \<Rightarrow> 'm \<Rightarrow> 'm) \<Rightarrow> ('w, 's, 'a) op \<Rightarrow> ('w, 'm, 'a) op" where
  "go_zoom get put f r m = (case f r (get m) of (x, r', s') \<Rightarrow> (x, r', put s' m))"

lemma go_bind_Ok:
  "go_bind m f r s = (Ok y, r2, s2) \<longleftrightarrow>
     (\<exists>x r1 s1. m r s = (Ok x, r1, s1) \<and> f x r1 s1 = (Ok y, r2, s2))"
  by (auto simp: go_bind_def split: prod.splits res.splits)

lemma go_bind_Err:
  "go_bind m f r s = (Err e, r2, s2) \<longleftrightarrow>
     m r s = (Err e, r2, s2) \<or>
     (\<exists>x r1 s1. m r s = (Ok x, r1, s1) \<and> f x r1 s1 = (Err e, r2, s2))"
  by (auto simp: go_bind_def split: prod.splits res.splits)

lemma go_bind_Panic:
  "go_bind m f r s = (Panic p, r2, s2) \<longleftrightarrow>
     m r s = (Panic p, r2, s2) \<or>
     (\<exists>x r1 s1. m r s = (Ok x, r1, s1) \<and> f x r1 s1 = (Panic p, r2, s2))"
  by (auto simp: go_bind_def split: prod.splits res.splits)

lemmas go_bind_cases = go_bind_Ok go_bind_Err go_bind_Panic

lemma go_check_ctx_Ok: "go_check_ctx r s = (Ok u, r', s') \<Longrightarrow> s' = s"
  by (auto simp: go_check_ctx_def split: prod.splits option.splits)

section \<open>Dynamically typed values\<close>

text \<open>
  Values of type \<open>any\<close>, as \<open>encoding/json\<close> decodes them and as callers of the library pass
  them. A number is kept as the text \<open>encoding/json\<close> prints for it: the framework never
  computes with it. A map is the list of its entries, in some order, with distinct keys.
  \<open>params\<close> is \<open>map[string]any\<close>, whose nil value is \<^const>\<open>None\<close>.
\<close>

datatype gval =
    VNil
  | VBool bool
  | VNum string
  | VStr string
  | VStrs "string list"
  | VList "gval list"
  | VMap "(string \<times> gval) list"

type_synonym params = "(string \<times> gval) list option"

definition params_get :: "params \<Rightarrow> string \<Rightarrow> gval option" where
  "params_get p k = (case p of None \<Rightarrow> None | Some m \<Rightarrow> map_of m k)"

text \<open>\<open>s, ok := input[k].(string)\<close>\<close>

definition params_string :: "params \<Rightarrow> string \<Rightarrow> string option" where
  "params_string p k = (case params_get p k of Some (VStr s) \<Rightarrow> Some s | _ \<Rightarrow> None)"

definition zero_string :: "string option \<Rightarrow> string" where
  "zero_string x = (case x of None \<Rightarrow> [] | Some s \<Rightarrow> s)"

end
