(* ===== verification/Schema.thy ===== *)
theory Schema
  imports GoRuntime
begin

text \<open>
  \<open>tool/schema.go\<close>: the JSON schema a tool declares for its input, and the generator that
  derives it from a Go type by reflection. A \<open>reflect.Type\<close> is a finite term of the datatype
  below, so a type that contains itself through a pointer is outside the model: on such a
  type \<open>GenerateSchema\<close> recurses without end.
\<close>

section \<open>Association lists for Go maps\<close>

text \<open>\<open>m[k] = v\<close> on a map kept as the list of its entries.\<close>

fun map_put :: "'k \<Rightarrow> 'v \<Rightarrow> ('k \<times> 'v) list \<Rightarrow> ('k \<times> 'v) list" where
  "map_put k v [] = [(k, v)]"
| "map_put k v ((k', v') # m) = (if k = k' then (k, v) # m else (k', v') # map_put k v m)"

lemma map_of_map_put [simp]: "map_of (map_put k v m) = (map_of m)(k \<mapsto> v)"
  by (induction k v m rule: map_put.induct) auto

lemma keys_map_put [simp]: "fst ` set (map_put k v m) = insert k (fst ` set m)"
  by (induction k v m rule: map_put.induct) (simp_all add: insert_commute)

lemma set_map_put: "set (map_put k v m) \<subseteq> insert (k, v) (set m)"
  by (induction k v m rule: map_put.induct) (simp_all, blast+)

lemma distinct_map_put: "distinct (map fst m) \<Longrightarrow> distinct (map fst (map_put k v m))"
  by (induction k v m rule: map_put.induct) simp_all

section \<open>Schemas\<close>

datatype schema_property =
  SchemaProperty
    (sp_type: string)
    (sp_description: string)
    (sp_enum: "string list")
    (sp_properties: "(string \<times> schema_property) list option")
    (sp_required: "string list")
    (sp_items: "schema_property option")

definition with_description :: "string \<Rightarrow> schema_property \<Rightarrow> schema_property" where
  "with_description d p =
     SchemaProperty (sp_type p) d (sp_enum p) (sp_properties p) (sp_required p) (sp_items p)"

definition with_enum :: "string list \<Rightarrow> schema_property \<Rightarrow> schema_property" where
  "with_enum e p =
     SchemaProperty (sp_type p) (sp_description p) e (sp_properties p) (sp_required p) (sp_items p)"

section \<open>Go types, as reflection shows them\<close>

datatype kind =
    KString | KInt | KInt8 | KInt16 | KInt32 | KInt64
  | KUint | KUint8 | KUint16 | KUint32 | KUint64
  | KFloat32 | KFloat64 | KBool | KOther

datatype go_type =
    TBasic kind
  | TPtr go_type
  | TSlice go_type
  | TArray go_type
  | TMap go_type go_type
  | TStruct "go_field list"
and go_field =
  GoField (f_name: string) (f_exported: bool) (f_anonymous: bool) (f_type: go_type)
    (f_tags: "(string \<times> string) list")

text \<open>\<open>field.Tag.Get(k)\<close> is the empty string for a missing key.\<close>

definition tag_get :: "go_field \<Rightarrow> string \<Rightarrow> string" where
  "tag_get f k = zero_string (map_of (f_tags f) k)"

definition fieldJSONName :: "go_field \<Rightarrow> string" where
  "fieldJSONName f =
     (let tag = tag_get f ''json'' in
      if tag = [] then f_name f
      else let name = hd (split_on CHR '','' tag) in
           if name = [] then f_name f else name)"

fun goKindToJSONType :: "kind \<Rightarrow> string" where
  "goKindToJSONType KString = ''string''"
| "goKindToJSONType KInt = ''integer''"
| "goKindToJSONType KInt8 = ''integer''"
| "goKindToJSONType KInt16 = ''integer''"
| "goKindToJSONType KInt32 = ''integer''"
| "goKindToJSONType KInt64 = ''integer''"
| "goKindToJSONType KUint = ''integer''"
| "goKindToJSONType KUint8 = ''integer''"
| "goKindToJSONType KUint16 = ''integer''"
| "goKindToJSONType KUint32 = ''integer''"
| "goKindToJSONType KUint64 = ''integer''"
| "goKindToJSONType KFloat32 = ''number''"
| "goKindToJSONType KFloat64 = ''number''"
| "goKindToJSONType KBool = ''boolean''"
| "goKindToJSONType KOther = ''string''"

text \<open>
  The body of the loop over the fields keeps two variables, the property map and the list of
  required names. \<open>put_all\<close> is the loop that copies an embedded struct's properties.
\<close>

definition put_all ::
    "(string \<times> 'v) list \<Rightarrow> (string \<times> 'v) list \<Rightarrow> (string \<times> 'v) list" where
  "put_all new m = fold (\<lambda>(k, v) acc. map_put k v acc) new m"

definition tagged_prop :: "go_field \<Rightarrow> schema_property \<Rightarrow> schema_property" where
  "tagged_prop f prop =
     (let d = tag_get f ''description'';
          p1 = (if d \<noteq> [] then with_description d prop else prop);
          e = tag_get f ''enum''
      in if e \<noteq> [] then with_enum (split_on CHR '','' e) p1 else p1)"

definition put_field ::
    "go_field \<Rightarrow> schema_property \<Rightarrow> (string \<times> schema_property) list \<times> string list \<Rightarrow>
     (string \<times> schema_property) list \<times> string list" where
  "put_field f prop acc =
     (let name = fieldJSONName f in
      (map_put name (tagged_prop f prop) (fst acc),
       if tag_get f ''required'' = ''true'' then snd acc @ [name] else snd acc))"

fun generateType :: "go_type \<Rightarrow> schema_property"
  and generateObject ::
    "go_field list \<Rightarrow> (string \<times> schema_property) list \<times> string list \<Rightarrow>
     (string \<times> schema_property) list \<times> string list"
where
  "generateType (TPtr t) = generateType t"
| "generateType (TStruct fs) =
     (case generateObject fs ([], []) of
        (props, req) \<Rightarrow> SchemaProperty ''object'' [] [] (Some props) req None)"
| "generateType (TSlice t) = SchemaProperty ''array'' [] [] None [] (Some (generateType t))"
| "generateType (TArray t) = SchemaProperty ''array'' [] [] None [] (Some (generateType t))"
| "generateType (TMap k v) = SchemaProperty ''object'' [] [] None [] None"
| "generateType (TBasic k) = SchemaProperty (goKindToJSONType k) [] [] None [] None"
| "generateObject [] acc = acc"
| "generateObject (GoField nm False anon t tags # fs) acc = generateObject fs acc"
| "generateObject (GoField nm True True (TStruct es) tags # fs) acc =
     (let emb = generateObject es ([], [])
      in generateObject fs (put_all (fst emb) (fst acc), snd acc @ snd emb))"
| "generateObject (GoField nm True anon t tags # fs) acc =
     (let f = GoField nm True anon t tags in
      if fieldJSONName f = ''-'' then generateObject fs acc
      else generateObject fs (put_field f (generateType t) acc))"

definition GenerateSchema :: "go_type \<Rightarrow> schema_property" where
  "GenerateSchema t = generateType t"

section \<open>Well-formed schemas\<close>

text \<open>
  A schema a model can follow: a known JSON type, items exactly for arrays, and every required
  name among the properties, at every level.
\<close>

definition json_types :: "string set" where
  "json_types = {''object'', ''array'', ''string'', ''integer'', ''number'', ''boolean''}"

fun wf_schema :: "schema_property \<Rightarrow> bool" where
  "wf_schema (SchemaProperty ty d en props req items) \<longleftrightarrow>
     ty \<in> json_types \<and>
     (ty = ''array'' \<longleftrightarrow> items \<noteq> None) \<and>
     (case items of None \<Rightarrow> True | Some i \<Rightarrow> wf_schema i) \<and>
     (case props of None \<Rightarrow> req = []
      | Some ps \<Rightarrow> ty = ''object'' \<and> distinct (map fst ps) \<and> set req \<subseteq> fst ` set ps \<and>
                   (\<forall>p \<in> set ps. wf_schema (snd p)))"

definition wf_props :: "(string \<times> schema_property) list \<times> string list \<Rightarrow> bool" where
  "wf_props acc \<longleftrightarrow>
     distinct (map fst (fst acc)) \<and> set (snd acc) \<subseteq> fst ` set (fst acc) \<and>
     (\<forall>p \<in> set (fst acc). wf_schema (snd p))"

lemma wf_with [simp]:
  "wf_schema (with_description d p) = wf_schema p"
  "wf_schema (with_enum e p) = wf_schema p"
  by (cases p, simp add: with_description_def with_enum_def)+

lemma wf_tagged_prop [simp]: "wf_schema (tagged_prop f p) = wf_schema p"
  by (simp add: tagged_prop_def Let_def)

lemma wf_props_put:
  "wf_props (ps, req) \<Longrightarrow> wf_schema v \<Longrightarrow> wf_props (map_put k v ps, req)"
  using set_map_put [of k v ps]
  by (auto simp: wf_props_def distinct_map_put)

lemma wf_put_field: "wf_props acc \<Longrightarrow> wf_schema p \<Longrightarrow> wf_props (put_field f p acc)"
proof -
  assume "wf_props acc" and "wf_schema p"
  then have "wf_props (map_put (fieldJSONName f) (tagged_prop f p) (fst acc), snd acc)"
    by (cases acc) (simp add: wf_props_put)
  then show ?thesis by (simp add: put_field_def wf_props_def Let_def)
qed

lemma put_all_keys: "fst ` set (put_all new m) = fst ` set new \<union> fst ` set m"
proof (induction new arbitrary: m)
  case (Cons a new)
  have "put_all (a # new) m = put_all new (map_put (fst a) (snd a) m)"
    by (simp add: put_all_def case_prod_beta)
  with Cons show ?case by simp
qed (simp add: put_all_def)

lemma put_all_wf:
  "\<forall>p \<in> set new. wf_schema (snd p) \<Longrightarrow> wf_props (ps, []) \<Longrightarrow> wf_props (put_all new ps, [])"
  unfolding put_all_def by (induction new arbitrary: ps) (auto simp: wf_props_put)

lemma wf_props_put_all:
  "wf_props new \<Longrightarrow> wf_props acc \<Longrightarrow>
   wf_props (put_all (fst new) (fst acc), snd acc @ snd new)"
proof -
  assume new: "wf_props new" and acc: "wf_props acc"
  then have "wf_props (put_all (fst new) (fst acc), [])"
    by (intro put_all_wf) (simp_all add: wf_props_def)
  then show ?thesis
    using new acc unfolding wf_props_def fst_conv snd_conv put_all_keys by auto
qed

lemma json_types_intro [simp]: "''object'' \<in> json_types" "''array'' \<in> json_types"
  by (simp_all add: json_types_def)

lemma kind_type [simp]: "goKindToJSONType k \<in> json_types" "goKindToJSONType k \<noteq> ''array''"
  by (cases k; simp add: json_types_def)+

lemma generate_wf:
  "wf_schema (generateType t)"
  "wf_props acc \<Longrightarrow> wf_props (generateObject fs acc)"
proof (induction t and fs acc rule: generateType_generateObject.induct)
  case (2 fs)
  then have "wf_props (generateObject fs ([], []))" by (simp add: wf_props_def)
  then show ?case
    by (cases "generateObject fs ([], [])") (simp add: wf_props_def)
next
  case (9 nm es tags fs acc)
  then have "wf_props (generateObject es ([], []))" by (simp add: wf_props_def)
  with 9 show ?case by (simp add: Let_def wf_props_put_all)
qed (simp_all add: wf_put_field Let_def)

text \<open>
  C25. Every schema \<open>GenerateSchema\<close> derives from a Go type is well formed at every level: its
  type is one of the JSON types, an array has an item schema and nothing else has one, property
  names are distinct, and every required name is a property, whatever the struct tags, pointers,
  nesting and embedded structs of the type.
\<close>

theorem GenerateSchema_wf: "wf_schema (GenerateSchema t)"
  by (simp add: GenerateSchema_def generate_wf)

end
