(* ===== verification/ChatModel.thy ===== *)
theory ChatModel
  imports Schema
begin

text \<open>
  Package \<open>model\<close>: messages, call options, the interface of a chat model, and the stream
  iterator that reads a model's answer from two channels.
\<close>

section \<open>Messages (\<open>message.go\<close>)\<close>

text \<open>
  A \<open>Role\<close> is a string: providers copy whatever role the remote side answers with.
\<close>

type_synonym role = string

abbreviation RoleSystem :: role where "RoleSystem \<equiv> ''system''"
abbreviation RoleUser :: role where "RoleUser \<equiv> ''user''"
abbreviation RoleAssistant :: role where "RoleAssistant \<equiv> ''assistant''"
abbreviation RoleTool :: role where "RoleTool \<equiv> ''tool''"

record tool_call =
  tc_id :: string
  tc_name :: string
  tc_arguments :: params

record chat_message =
  msg_role :: role
  msg_content :: string
  msg_tool_calls :: "tool_call list"
  msg_tool_call_id :: string
  msg_name :: string

definition text_message :: "role \<Rightarrow> string \<Rightarrow> chat_message" where
  "text_message r c =
     \<lparr>msg_role = r, msg_content = c, msg_tool_calls = [], msg_tool_call_id = [], msg_name = []\<rparr>"

lemma text_message_sel [simp]:
  "msg_role (text_message r c) = r"
  "msg_content (text_message r c) = c"
  "msg_tool_calls (text_message r c) = []"
  "msg_tool_call_id (text_message r c) = []"
  by (simp_all add: text_message_def)

record usage =
  prompt_tokens :: int
  completion_tokens :: int
  total_tokens :: int

record chat_response =
  resp_message :: chat_message
  resp_usage :: usage

section \<open>Call options (\<open>option.go\<close>)\<close>

text \<open>
  A tool's parameters are \<open>any\<close>: a schema pointer, which may be nil, an empty map, or nil. Temperature and top-p are
  handed on and never computed with; they are kept as decimal text.
\<close>

datatype any_schema = SchemaNil | SchemaEmptyMap | SchemaOf "schema_property option"

record tool_def =
  td_name :: string
  td_description :: string
  td_parameters :: any_schema

record call_options =
  opt_temperature :: "string option"
  opt_max_tokens :: "int option"
  opt_top_p :: "string option"
  opt_stop_words :: "string list"
  opt_tools :: "tool_def list"

type_synonym model_option = "call_options \<Rightarrow> call_options"

definition WithTemperature :: "string \<Rightarrow> model_option" where
  "WithTemperature t opts = opts\<lparr>opt_temperature := Some t\<rparr>"

definition WithMaxTokens :: "int \<Rightarrow> model_option" where
  "WithMaxTokens n opts = opts\<lparr>opt_max_tokens := Some n\<rparr>"

definition WithTopP :: "string \<Rightarrow> model_option" where
  "WithTopP p opts = opts\<lparr>opt_top_p := Some p\<rparr>"

definition WithStopWords :: "string list \<Rightarrow> model_option" where
  "WithStopWords ws opts = opts\<lparr>opt_stop_words := ws\<rparr>"

definition WithTools :: "tool_def list \<Rightarrow> model_option" where
  "WithTools ts opts = opts\<lparr>opt_tools := ts\<rparr>"

definition ApplyOptions :: "model_option list \<Rightarrow> call_options" where
  "ApplyOptions opts =
     fold (\<lambda>f acc. f acc) opts
       \<lparr>opt_temperature = None, opt_max_tokens = None, opt_top_p = None,
        opt_stop_words = [], opt_tools = []\<rparr>"

section \<open>The model interface and the stream iterator (\<open>model.go\<close>)\<close>

record stream_chunk =
  chunk_delta :: string
  chunk_tool_calls :: "tool_call list"
  chunk_done :: bool
  chunk_usage :: "usage option"

text \<open>
  A chat model is outside the framework. \<open>cm_generate\<close> answers with an error or with a
  response, which may be the nil pointer. \<open>cm_stream\<close> answers with an error or with what the
  iterator it returns will show to the one who reads it: the chunks that \<open>Next\<close> delivers and
  \<open>Err()\<close> after \<open>Next\<close> has answered false. What that can be, given what the provider sends, is
  the relation \<open>consume\<close> below.
\<close>

record 'w chat_model =
  cm_generate :: "'w rt \<Rightarrow> chat_message list \<Rightarrow> model_option list \<Rightarrow>
                  (goerr + chat_response option) \<times> 'w rt"
  cm_stream :: "'w rt \<Rightarrow> chat_message list \<Rightarrow> model_option list \<Rightarrow>
                (goerr + stream_chunk list \<times> goerr option) \<times> 'w rt"

text \<open>
  The two channels of a \<open>StreamIterator\<close>: what is buffered in each, and whether its sender has
  closed it. \<open>Next\<close> is a \<open>select\<close> over both: when both are ready, Go picks either.
\<close>

record stream_chans =
  ch_msgs :: "stream_chunk list"
  ch_msgs_closed :: bool
  ch_errs :: "goerr list"
  ch_errs_closed :: bool

record stream_iterator =
  it_cur :: "stream_chunk option"
  it_err :: "goerr option"

inductive iter_next ::
    "stream_chans \<Rightarrow> stream_iterator \<Rightarrow> bool \<Rightarrow> stream_chans \<Rightarrow> stream_iterator \<Rightarrow> bool" where
  next_chunk: "ch_msgs ch = c # cs \<Longrightarrow>
     iter_next ch it True (ch\<lparr>ch_msgs := cs\<rparr>) (it\<lparr>it_cur := Some c\<rparr>)"
| next_closed: "ch_msgs ch = [] \<Longrightarrow> ch_msgs_closed ch \<Longrightarrow> iter_next ch it False ch it"
| next_error: "ch_errs ch = e # es \<Longrightarrow>
     iter_next ch it False (ch\<lparr>ch_errs := es\<rparr>) (it\<lparr>it_err := Some e\<rparr>)"
| next_error_closed: "ch_errs ch = [] \<Longrightarrow> ch_errs_closed ch \<Longrightarrow> iter_next ch it False ch it"

inductive_cases iter_next_TrueE: "iter_next ch it True ch' it'"
inductive_cases iter_next_FalseE: "iter_next ch it False ch' it'"

text \<open>\<open>for iter.Next() { chunk := iter.Chunk() ... }\<close>: the chunks the body sees.\<close>

inductive consume ::
    "stream_chans \<Rightarrow> stream_iterator \<Rightarrow> stream_chunk list \<Rightarrow> stream_iterator \<Rightarrow> bool" where
  consume_stop: "iter_next ch it False ch' it' \<Longrightarrow> consume ch it [] it'"
| consume_more: "iter_next ch it True ch' it' \<Longrightarrow> it_cur it' = Some c \<Longrightarrow>
     consume ch' it' cs it'' \<Longrightarrow> consume ch it (c # cs) it''"

definition NewStreamIterator :: stream_iterator where
  "NewStreamIterator = \<lparr>it_cur = None, it_err = None\<rparr>"

text \<open>
  The channels when the sender has returned without an error: every chunk it sent and nobody
  has read is still buffered, and both channels are closed.
\<close>

definition sender_done :: "stream_chunk list \<Rightarrow> stream_chans" where
  "sender_done cs =
     \<lparr>ch_msgs = cs, ch_msgs_closed = True, ch_errs = [], ch_errs_closed = True\<rparr>"

lemma consume_prefix:
  "consume ch it cs it' \<Longrightarrow> \<exists>rest. ch_msgs ch = cs @ rest"
proof (induction rule: consume.induct)
  case (consume_more ch it ch' it' c cs it'')
  then show ?case by (auto elim!: iter_next_TrueE)
qed simp

lemma consume_sender_done_err:
  "consume ch it cs it' \<Longrightarrow> ch_errs ch = [] \<Longrightarrow> it_err it' = it_err it"
proof (induction rule: consume.induct)
  case (consume_stop ch it ch' it')
  then show ?case by (auto elim: iter_next_FalseE)
next
  case (consume_more ch it ch' it' c cs it'')
  then show ?case by (auto elim!: iter_next_TrueE)
qed

lemma sender_done_prefixes:
  "\<exists>it'. consume (sender_done (xs @ rest)) it xs it' \<and> it_err it' = it_err it"
proof (induction xs arbitrary: it)
  case Nil
  have "iter_next (sender_done rest) it False (sender_done rest) it"
    by (rule next_error_closed) (simp_all add: sender_done_def)
  then show ?case by (auto intro: consume_stop)
next
  case (Cons x xs)
  have step: "iter_next (sender_done ((x # xs) @ rest)) it True
      (sender_done ((x # xs) @ rest)\<lparr>ch_msgs := xs @ rest\<rparr>) (it\<lparr>it_cur := Some x\<rparr>)"
    by (rule next_chunk) (simp add: sender_done_def)
  then have step': "iter_next (sender_done ((x # xs) @ rest)) it True
      (sender_done (xs @ rest)) (it\<lparr>it_cur := Some x\<rparr>)"
    by (simp add: sender_done_def)
  obtain it' where "consume (sender_done (xs @ rest)) (it\<lparr>it_cur := Some x\<rparr>) xs it'"
    and "it_err it' = it_err it"
    using Cons [of "it\<lparr>it_cur := Some x\<rparr>"] by auto
  with step' show ?case by (auto intro!: consume_more)
qed

text \<open>
  C26. Reading a stream whose sender has finished successfully: \<open>Next\<close> can answer false after
  any number of the buffered chunks, and whatever it does, the reader sees a prefix of what was
  sent and no error. Both channels are closed when the sender returns, so the \<open>select\<close> may take
  the closed error channel while chunks are still waiting: the end of the answer (the chunk that
  carries the tool calls and the usage) can be lost silently.
\<close>

theorem stream_reads_any_prefix:
  "(\<exists>it. consume (sender_done sent) NewStreamIterator seen it \<and> it_err it = None) \<longleftrightarrow>
   (\<exists>lost. sent = seen @ lost)"
proof
  assume "\<exists>it. consume (sender_done sent) NewStreamIterator seen it \<and> it_err it = None"
  then show "\<exists>lost. sent = seen @ lost"
    by (auto dest: consume_prefix simp: sender_done_def)
next
  assume "\<exists>lost. sent = seen @ lost"
  then show "\<exists>it. consume (sender_done sent) NewStreamIterator seen it \<and> it_err it = None"
    using sender_done_prefixes [of seen _ NewStreamIterator]
    by (auto simp: NewStreamIterator_def)
qed

end
