(* ===== verification/Store.thy ===== *)
theory Store
  imports ChatModel
begin

text \<open>
  \<open>memory/store.go\<close> and \<open>memory/store_inmem.go\<close>: the data-engine interface under every
  memory, as a record of operations with its contract as a locale, and the in-process engine.
\<close>

section \<open>The interface \<open>MessageStore\<close>\<close>

record ('w, 's) message_store =
  ms_append :: "chat_message list \<Rightarrow> ('w, 's, unit) op"
  ms_list :: "('w, 's, chat_message list) op"
  ms_replace :: "chat_message list \<Rightarrow> ('w, 's, unit) op"
  ms_len :: "('w, 's, nat) op"
  ms_trim_head :: "int \<Rightarrow> ('w, 's, unit) op"
  ms_clear :: "('w, 's, unit) op"

text \<open>
  What an engine promises, in terms of the list of messages it holds: an operation that
  succeeds has the documented effect, an operation that fails has none, nothing panics, and
  without a cancelled context nothing fails.
\<close>

locale message_store_laws =
  fixes ops :: "('w, 's) message_store"
    and held :: "'s \<Rightarrow> chat_message list"
  assumes append_ok: "ms_append ops ms r s = (Ok u, r', s') \<Longrightarrow> held s' = held s @ ms"
    and append_err: "ms_append ops ms r s = (Err e, r', s') \<Longrightarrow> held s' = held s"
    and append_safe: "ms_append ops ms r s \<noteq> (Panic p, r', s')"
    and list_ok: "ms_list ops r s = (Ok xs, r', s') \<Longrightarrow> xs = held s \<and> held s' = held s"
    and list_err: "ms_list ops r s = (Err e, r', s') \<Longrightarrow> held s' = held s"
    and list_safe: "ms_list ops r s \<noteq> (Panic p, r', s')"
    and replace_ok: "ms_replace ops ms r s = (Ok u, r', s') \<Longrightarrow> held s' = ms"
    and replace_err: "ms_replace ops ms r s = (Err e, r', s') \<Longrightarrow> held s' = held s"
    and replace_safe: "ms_replace ops ms r s \<noteq> (Panic p, r', s')"
    and len_ok: "ms_len ops r s = (Ok n, r', s') \<Longrightarrow> n = length (held s) \<and> held s' = held s"
    and len_err: "ms_len ops r s = (Err e, r', s') \<Longrightarrow> held s' = held s"
    and len_safe: "ms_len ops r s \<noteq> (Panic p, r', s')"
    and trim_ok: "ms_trim_head ops k r s = (Ok u, r', s') \<Longrightarrow> held s' = drop (nat k) (held s)"
    and trim_err: "ms_trim_head ops k r s = (Err e, r', s') \<Longrightarrow> held s' = held s"
    and trim_safe: "ms_trim_head ops k r s \<noteq> (Panic p, r', s')"
    and clear_ok: "ms_clear ops r s = (Ok u, r', s') \<Longrightarrow> held s' = []"
    and clear_err: "ms_clear ops r s = (Err e, r', s') \<Longrightarrow> held s' = held s"
    and clear_safe: "ms_clear ops r s \<noteq> (Panic p, r', s')"
    and live:
      "rt_ctx r = Background \<Longrightarrow> \<exists>r' s'. ms_append ops ms r s = (Ok (), r', s') \<and> rt_ctx r' = Background"
      "rt_ctx r = Background \<Longrightarrow> \<exists>xs r' s'. ms_list ops r s = (Ok xs, r', s') \<and> rt_ctx r' = Background"
      "rt_ctx r = Background \<Longrightarrow> \<exists>r' s'. ms_replace ops ms r s = (Ok (), r', s') \<and> rt_ctx r' = Background"
      "rt_ctx r = Background \<Longrightarrow> \<exists>n r' s'. ms_len ops r s = (Ok n, r', s') \<and> rt_ctx r' = Background"
      "rt_ctx r = Background \<Longrightarrow> \<exists>r' s'. ms_trim_head ops k r s = (Ok (), r', s') \<and> rt_ctx r' = Background"
      "rt_ctx r = Background \<Longrightarrow> \<exists>r' s'. ms_clear ops r s = (Ok (), r', s') \<and> rt_ctx r' = Background"

section \<open>The in-memory engine\<close>

text \<open>
  \<open>InMemoryMessageStore\<close>. The mutex makes each operation atomic; one operation is one step here.
  Lists are values, so \<open>slices.Clone\<close> and the copies of \<open>TrimHead\<close> leave no trace.
\<close>

record inmem_store =
  im_messages :: "chat_message list"

definition NewInMemoryMessageStore :: inmem_store where
  "NewInMemoryMessageStore = \<lparr>im_messages = []\<rparr>"

definition inmem_append :: "chat_message list \<Rightarrow> ('w, inmem_store, unit) op" where
  "inmem_append msgs =
     go_bind go_check_ctx (\<lambda>_.
       if msgs = [] then go_return ()
       else go_bind go_get (\<lambda>s. go_put (s\<lparr>im_messages := im_messages s @ msgs\<rparr>)))"

definition inmem_list :: "('w, inmem_store, chat_message list) op" where
  "inmem_list = go_bind go_check_ctx (\<lambda>_. go_bind go_get (\<lambda>s. go_return (im_messages s)))"

definition inmem_replace :: "chat_message list \<Rightarrow> ('w, inmem_store, unit) op" where
  "inmem_replace msgs =
     go_bind go_check_ctx (\<lambda>_. go_bind go_get (\<lambda>s. go_put (s\<lparr>im_messages := msgs\<rparr>)))"

definition inmem_len :: "('w, inmem_store, nat) op" where
  "inmem_len = go_bind go_check_ctx (\<lambda>_. go_bind go_get (\<lambda>s. go_return (length (im_messages s))))"

definition inmem_trim_head :: "int \<Rightarrow> ('w, inmem_store, unit) op" where
  "inmem_trim_head n =
     go_bind go_check_ctx (\<lambda>_.
       if n \<le> 0 then go_return ()
       else go_bind go_get (\<lambda>s.
         if n \<ge> int (length (im_messages s)) then go_put (s\<lparr>im_messages := []\<rparr>)
         else go_put (s\<lparr>im_messages := drop (nat n) (im_messages s)\<rparr>)))"

definition inmem_clear :: "('w, inmem_store, unit) op" where
  "inmem_clear = go_bind go_check_ctx (\<lambda>_. go_bind go_get (\<lambda>s. go_put (s\<lparr>im_messages := []\<rparr>)))"

definition inmem_ops :: "('w, inmem_store) message_store" where
  "inmem_ops =
     \<lparr>ms_append = inmem_append, ms_list = inmem_list, ms_replace = inmem_replace,
      ms_len = inmem_len, ms_trim_head = inmem_trim_head, ms_clear = inmem_clear\<rparr>"

lemmas op_defs =
  go_bind_def go_check_ctx_def go_return_def go_get_def go_put_def poll_def

lemmas inmem_defs =
  inmem_append_def inmem_list_def inmem_replace_def inmem_len_def inmem_trim_head_def
  inmem_clear_def

lemma inmem_ops_sel [simp]:
  "ms_append inmem_ops = inmem_append"
  "ms_list inmem_ops = inmem_list"
  "ms_replace inmem_ops = inmem_replace"
  "ms_len inmem_ops = inmem_len"
  "ms_trim_head inmem_ops = inmem_trim_head"
  "ms_clear inmem_ops = inmem_clear"
  by (simp_all add: inmem_ops_def)

interpretation inmem: message_store_laws inmem_ops im_messages
  by unfold_locales
    (auto simp: inmem_defs op_defs split: prod.splits option.splits if_splits)

end
