(* ===== verification/Memory.thy ===== *)
theory Memory
  imports Store
begin

text \<open>
  \<open>memory/memory.go\<close>, \<open>memory/buffer.go\<close> and \<open>memory/summary.go\<close>: the interface the agent loop
  talks to, the sliding-window memory and the summarising memory, both over any message store.
\<close>

section \<open>The interface \<open>Memory\<close>\<close>

record ('w, 'm) memory_ops =
  mem_messages :: "('w, 'm, chat_message list) op"
  mem_add :: "chat_message list \<Rightarrow> ('w, 'm, unit) op"
  mem_clear :: "('w, 'm, unit) op"

section \<open>\<open>BufferMemory\<close>\<close>

record 's buffer_memory =
  buf_store :: 's
  buf_max_size :: int

text \<open>An operation of the store, run inside the memory that holds it.\<close>

definition on_store :: "('w, 's, 'a) op \<Rightarrow> ('w, 's buffer_memory, 'a) op" where
  "on_store = go_zoom buf_store (\<lambda>s m. m\<lparr>buf_store := s\<rparr>)"

definition is_system :: "chat_message \<Rightarrow> bool" where
  "is_system m \<longleftrightarrow> msg_role m = RoleSystem"

text \<open>\<open>sysHead\<close>: how many messages at the front are system messages.\<close>

definition leading_system :: "chat_message list \<Rightarrow> nat" where
  "leading_system msgs = length (takeWhile is_system msgs)"

definition trimPreservingSystem ::
    "('w, 's) message_store \<Rightarrow> int \<Rightarrow> ('w, 's buffer_memory, unit) op" where
  "trimPreservingSystem st drp =
     (if drp \<le> 0 then go_return ()
      else go_bind (on_store (ms_list st)) (\<lambda>msgs.
        let sysHead = leading_system msgs in
        if sysHead = 0 then on_store (ms_trim_head st drp)
        else
          let bodyStart = sysHead in
          if drp \<ge> int (length msgs) - int bodyStart
          then on_store (ms_replace st (take bodyStart msgs))
          else on_store (ms_replace st
                 (take bodyStart msgs @ drop (bodyStart + nat drp) msgs))))"

definition buffer_messages ::
    "('w, 's) message_store \<Rightarrow> ('w, 's buffer_memory, chat_message list) op" where
  "buffer_messages st = on_store (ms_list st)"

definition buffer_add ::
    "('w, 's) message_store \<Rightarrow> chat_message list \<Rightarrow> ('w, 's buffer_memory, unit) op" where
  "buffer_add st msgs =
     (if msgs = [] then go_return ()
      else go_bind (on_store (ms_append st msgs)) (\<lambda>_.
        go_bind go_get (\<lambda>m.
          if buf_max_size m \<le> 0 then go_return ()
          else go_bind (on_store (ms_len st)) (\<lambda>n.
            if int n \<le> buf_max_size m then go_return ()
            else trimPreservingSystem st (int n - buf_max_size m)))))"

definition buffer_clear :: "('w, 's) message_store \<Rightarrow> ('w, 's buffer_memory, unit) op" where
  "buffer_clear st = on_store (ms_clear st)"

definition NewBuffer :: "'s \<Rightarrow> int \<Rightarrow> 's buffer_memory" where
  "NewBuffer s maxSize = \<lparr>buf_store = s, buf_max_size = maxSize\<rparr>"

definition buffer_ops :: "('w, 's) message_store \<Rightarrow> ('w, 's buffer_memory) memory_ops" where
  "buffer_ops st =
     \<lparr>mem_messages = buffer_messages st, mem_add = buffer_add st, mem_clear = buffer_clear st\<rparr>"

lemma on_store_frame [frame]:
  "on_store f r m = (x, r', m') \<Longrightarrow> buf_max_size m' = buf_max_size m"
  by (auto simp: on_store_def go_zoom_def split: prod.splits)

text \<open>
  The specification of the window: of a list that is too long, the system messages at the
  front stay and the oldest others go, as many as the excess.
\<close>

definition window :: "int \<Rightarrow> chat_message list \<Rightarrow> chat_message list" where
  "window maxSize xs =
     (if maxSize \<le> 0 \<or> int (length xs) \<le> maxSize then xs
      else takeWhile is_system xs @
           drop (length xs - nat maxSize) (dropWhile is_system xs))"

lemma window_length_le: "0 < k \<Longrightarrow> int (length (window k xs)) \<le> max k (int (leading_system xs))"
  using length_takeWhile_dropWhile [of is_system xs]
  by (auto simp: window_def leading_system_def)

lemma window_keeps_system: "takeWhile is_system xs = take (leading_system xs) (window k xs)"
  by (simp add: window_def leading_system_def flip: takeWhile_eq_take)

lemma window_suffix:
  "\<exists>front. xs = takeWhile is_system xs @ front @
     drop (length (takeWhile is_system xs)) (window k xs)"
proof -
  have "\<exists>front. dropWhile is_system xs = front @
      drop (length (takeWhile is_system xs)) (window k xs)"
  proof (cases "k \<le> 0 \<or> int (length xs) \<le> k")
    case True
    then show ?thesis
      by (simp add: window_def dropWhile_eq_drop)
  next
    case False
    then show ?thesis
      by (auto simp: window_def)
        (metis append_take_drop_id)
  qed
  then show ?thesis by (metis takeWhile_dropWhile_id)
qed

context message_store_laws
begin

abbreviation buf_held :: "'s buffer_memory \<Rightarrow> chat_message list" where
  "buf_held m \<equiv> held (buf_store m)"

lemma buffer_trim:
  assumes "trimPreservingSystem ops d r m = (Ok u, r', m')" and "0 < d"
    and "d \<le> int (length (buf_held m))"
  shows "buf_held m' = takeWhile is_system (buf_held m) @ drop (nat d) (dropWhile is_system (buf_held m))
         \<and> buf_max_size m' = buf_max_size m"
proof -
  let ?h = "buf_held m"
  let ?k = "leading_system ?h"
  have split: "take ?k ?h = takeWhile is_system ?h" "drop ?k ?h = dropWhile is_system ?h"
    by (simp_all add: leading_system_def flip: dropWhile_eq_drop takeWhile_eq_take)
  have len: "length (dropWhile is_system ?h) = length ?h - ?k"
    by (metis length_drop split(2))
  have le: "?k \<le> length ?h"
    by (simp add: leading_system_def length_takeWhile_le)
  show ?thesis
  proof (cases "?k = 0")
    case True
    then have "takeWhile is_system ?h = []" "dropWhile is_system ?h = ?h"
      using split by simp_all
    with assms True show ?thesis
      by (auto simp: trimPreservingSystem_def on_store_def go_zoom_def go_bind_def Let_def
          split: prod.splits res.splits if_splits dest!: list_ok trim_ok)
  next
    case False
    have "drop (?k + nat d) ?h = drop (nat d) (dropWhile is_system ?h)"
      by (metis add.commute drop_drop split(2))
    moreover have "int (length ?h) - int ?k \<le> d \<Longrightarrow> drop (nat d) (dropWhile is_system ?h) = []"
      using le by (simp add: len)
    ultimately show ?thesis
      using assms False split
      by (auto simp: trimPreservingSystem_def on_store_def go_zoom_def go_bind_def Let_def
          split: prod.splits res.splits if_splits dest!: list_ok replace_ok)
  qed
qed

lemma buffer_add_window:
  assumes add: "buffer_add ops ms r m = (Ok u, r', m')" and ne: "ms \<noteq> []"
  shows "buf_held m' = window (buf_max_size m) (buf_held m @ ms) \<and>
         buf_max_size m' = buf_max_size m"
proof -
  from add ne obtain r1 m1 where app: "on_store (ms_append ops ms) r m = (Ok (), r1, m1)"
    and rest: "(if buf_max_size m1 \<le> 0 then go_return ()
          else go_bind (on_store (ms_len ops)) (\<lambda>n.
            if int n \<le> buf_max_size m1 then go_return ()
            else trimPreservingSystem ops (int n - buf_max_size m1))) r1 m1 = (Ok u, r', m')"
    by (auto simp: buffer_add_def go_bind_Ok go_get_def)
  from app have h1: "buf_held m1 = buf_held m @ ms" "buf_max_size m1 = buf_max_size m"
    by (auto simp: on_store_def go_zoom_def split: prod.splits dest: append_ok)
  show ?thesis
  proof (cases "buf_max_size m \<le> 0")
    case True
    with rest h1 show ?thesis by (simp add: go_return_def window_def)
  next
    case False
    with rest [unfolded h1(2)] obtain n r2 m2 where len: "on_store (ms_len ops) r1 m1 = (Ok n, r2, m2)"
      and tail: "(if int n \<le> buf_max_size m then go_return ()
            else trimPreservingSystem ops (int n - buf_max_size m)) r2 m2 = (Ok u, r', m')"
      by (simp add: go_bind_Ok) blast
    from len h1 have h2: "n = length (buf_held m @ ms)" "buf_held m2 = buf_held m @ ms"
        "buf_max_size m2 = buf_max_size m"
      by (auto simp: on_store_def go_zoom_def split: prod.splits dest: len_ok)
    show ?thesis
    proof (cases "int n \<le> buf_max_size m")
      case True
      with tail h2 show ?thesis by (auto simp: go_return_def window_def)
    next
      case long: False
      with tail have trim: "trimPreservingSystem ops (int n - buf_max_size m) r2 m2 = (Ok u, r', m')"
        by simp
      have excess: "nat (int n - buf_max_size m) = n - nat (buf_max_size m)"
        using long False by simp
      have "buf_held m' = takeWhile is_system (buf_held m2) @
          drop (nat (int n - buf_max_size m)) (dropWhile is_system (buf_held m2)) \<and>
          buf_max_size m' = buf_max_size m2"
        using trim by (rule buffer_trim) (use long False h2 in auto)
      with long False h2 excess show ?thesis by (simp add: window_def)
    qed
  qed
qed

text \<open>A failed \<open>Add\<close> has stored all the messages or none; only trimming can be missing.\<close>

lemma on_store_Err:
  "on_store (ms_list ops) r m = (Err e, r', m') \<Longrightarrow> buf_held m' = buf_held m"
  "on_store (ms_len ops) r m = (Err e, r', m') \<Longrightarrow> buf_held m' = buf_held m"
  "on_store (ms_append ops ms) r m = (Err e, r', m') \<Longrightarrow> buf_held m' = buf_held m"
  "on_store (ms_replace ops ms) r m = (Err e, r', m') \<Longrightarrow> buf_held m' = buf_held m"
  "on_store (ms_trim_head ops k) r m = (Err e, r', m') \<Longrightarrow> buf_held m' = buf_held m"
  by (auto simp: on_store_def go_zoom_def split: prod.splits
      dest: list_err len_err append_err replace_err trim_err)

lemma on_store_Ok:
  "on_store (ms_list ops) r m = (Ok xs, r', m') \<Longrightarrow> xs = buf_held m \<and> buf_held m' = buf_held m"
  "on_store (ms_len ops) r m = (Ok n, r', m') \<Longrightarrow> n = length (buf_held m) \<and> buf_held m' = buf_held m"
  "on_store (ms_append ops ms) r m = (Ok u, r', m') \<Longrightarrow> buf_held m' = buf_held m @ ms"
  by (auto simp: on_store_def go_zoom_def split: prod.splits dest: list_ok len_ok append_ok)

lemma on_store_safe:
  "on_store (ms_list ops) r m \<noteq> (Panic p, r', m')"
  "on_store (ms_len ops) r m \<noteq> (Panic p, r', m')"
  "on_store (ms_append ops ms) r m \<noteq> (Panic p, r', m')"
  "on_store (ms_replace ops ms) r m \<noteq> (Panic p, r', m')"
  "on_store (ms_trim_head ops k) r m \<noteq> (Panic p, r', m')"
  by (auto simp: on_store_def go_zoom_def list_safe len_safe append_safe replace_safe trim_safe
      split: prod.splits)

lemma trim_Err:
  "trimPreservingSystem ops d r m = (Err e, r', m') \<Longrightarrow> buf_held m' = buf_held m"
  by (auto simp: trimPreservingSystem_def go_bind_Err Let_def go_return_def
      split: if_splits dest!: on_store_Err on_store_Ok)

lemma buffer_add_Err:
  assumes "buffer_add ops ms r m = (Err e, r', m')"
  shows "buf_held m' = buf_held m \<or> buf_held m' = buf_held m @ ms"
  using assms
  by (auto simp: buffer_add_def go_bind_Err go_get_def go_return_def split: if_splits
      dest!: on_store_Err on_store_Ok trim_Err)

lemma buffer_add_safe: "buffer_add ops ms r m \<noteq> (Panic p, r', m')"
  by (auto simp: buffer_add_def trimPreservingSystem_def go_bind_Panic go_get_def go_return_def
      on_store_safe Let_def split: if_splits)

lemma on_store_live:
  assumes "rt_ctx r = Background"
  shows "\<exists>r' m'. on_store (ms_append ops ms) r m = (Ok (), r', m') \<and> rt_ctx r' = Background"
    and "\<exists>xs r' m'. on_store (ms_list ops) r m = (Ok xs, r', m') \<and> rt_ctx r' = Background"
    and "\<exists>r' m'. on_store (ms_replace ops ms) r m = (Ok (), r', m') \<and> rt_ctx r' = Background"
    and "\<exists>n r' m'. on_store (ms_len ops) r m = (Ok n, r', m') \<and> rt_ctx r' = Background"
    and "\<exists>r' m'. on_store (ms_trim_head ops k) r m = (Ok (), r', m') \<and> rt_ctx r' = Background"
  using live(1) [OF assms, of ms "buf_store m"] live(2) [OF assms, of "buf_store m"]
    live(3) [OF assms, of ms "buf_store m"] live(4) [OF assms, of "buf_store m"]
    live(5) [OF assms, of k "buf_store m"]
  by (auto simp: on_store_def go_zoom_def)

lemma trim_live:
  assumes "rt_ctx r = Background"
  shows "\<exists>r' m'. trimPreservingSystem ops d r m = (Ok (), r', m')"
proof -
  obtain xs r1 m1 where lst: "on_store (ms_list ops) r m = (Ok xs, r1, m1)"
    and bg: "rt_ctx r1 = Background"
    using on_store_live(2) [OF assms] by blast
  have "\<exists>r' m'. on_store (ms_trim_head ops d) r1 m1 = (Ok (), r', m')"
    "\<exists>r' m'. on_store (ms_replace ops ys) r1 m1 = (Ok (), r', m')" for ys
    using on_store_live [OF bg] by blast+
  with lst show ?thesis
    by (simp add: trimPreservingSystem_def go_bind_def go_return_def Let_def)
qed

lemma buffer_add_live:
  assumes "rt_ctx r = Background"
  shows "\<exists>r' m'. buffer_add ops ms r m = (Ok (), r', m')"
proof -
  obtain r1 m1 where app: "on_store (ms_append ops ms) r m = (Ok (), r1, m1)"
    and bg1: "rt_ctx r1 = Background"
    using on_store_live(1) [OF assms] by blast
  obtain n r2 m2 where "on_store (ms_len ops) r1 m1 = (Ok n, r2, m2)" and "rt_ctx r2 = Background"
    using on_store_live(4) [OF bg1] by blast
  with app trim_live show ?thesis
    by (simp add: buffer_add_def go_bind_def go_get_def go_return_def)
qed

end

section \<open>Over the in-memory engine\<close>

abbreviation held_messages :: "inmem_store buffer_memory \<Rightarrow> chat_message list" where
  "held_messages m \<equiv> im_messages (buf_store m)"

text \<open>
  C18. \<open>BufferMemory.Add\<close> over the in-memory engine, on every outcome. When it succeeds the
  memory holds the window of the old messages followed by the new ones; when it fails (the
  context is cancelled between two of its calls) it has stored all the new messages or none; it
  never panics; and it does not fail while the context lives.
\<close>

theorem buffer_add_correct:
  assumes "ms \<noteq> []"
  shows "(case buffer_add inmem_ops ms r m of
            (Ok _, _, m') \<Rightarrow> held_messages m' = window (buf_max_size m) (held_messages m @ ms)
          | (Err _, _, m') \<Rightarrow> held_messages m' \<in> {held_messages m, held_messages m @ ms}
          | (Panic _, _, _) \<Rightarrow> False)
         \<and> (rt_ctx r = Background \<longrightarrow> (\<exists>r' m'. buffer_add inmem_ops ms r m = (Ok (), r', m')))"
proof (cases "buffer_add inmem_ops ms r m")
  case (fields x r' m')
  have live: "rt_ctx r = Background \<longrightarrow> (\<exists>r' m'. buffer_add inmem_ops ms r m = (Ok (), r', m'))"
    by (simp add: inmem.buffer_add_live)
  have "case x of Ok _ \<Rightarrow> held_messages m' = window (buf_max_size m) (held_messages m @ ms)
        | Err _ \<Rightarrow> held_messages m' \<in> {held_messages m, held_messages m @ ms}
        | Panic _ \<Rightarrow> False"
  proof (cases x)
    case (Ok u)
    with inmem.buffer_add_window [OF _ assms, of r m u r' m'] fields show ?thesis by simp
  next
    case (Err e)
    with inmem.buffer_add_Err [of ms r m e r' m'] fields show ?thesis by simp
  next
    case (Panic p)
    with inmem.buffer_add_safe [of ms r m p r' m'] fields show ?thesis by simp
  qed
  with fields live show ?thesis by (simp only: prod.case)
qed

lemma buffer_add_correct_witness:
  "held_messages (snd (snd (buffer_add inmem_ops [text_message RoleUser ''b''] \<lparr>rt_ctx = Background, rt_world = ()\<rparr>
      (NewBuffer \<lparr>im_messages = [text_message RoleSystem ''s'', text_message RoleUser ''a'']\<rparr> 2))))
   = [text_message RoleSystem ''s'', text_message RoleUser ''b'']"
proof -
  let ?r = "\<lparr>rt_ctx = Background, rt_world = ()\<rparr>"
  let ?m = "NewBuffer \<lparr>im_messages = [text_message RoleSystem ''s'', text_message RoleUser ''a'']\<rparr> 2"
  have ne: "[text_message RoleUser ''b''] \<noteq> []" by simp
  obtain r' m' where "buffer_add inmem_ops [text_message RoleUser ''b''] ?r ?m = (Ok (), r', m')"
    using buffer_add_correct [OF ne, where r = ?r and m = ?m] by auto
  then show ?thesis
    using buffer_add_correct [OF ne, where r = ?r and m = ?m]
    by (simp add: window_def NewBuffer_def is_system_def)
qed

text \<open>
  The window of a bounded memory: after a successful \<open>Add\<close> with a positive size limit, a
  memory holds at most that many messages, or exactly the leading system messages when there are
  more of those; it still starts with every leading system message; and what follows them is the
  newest part of the other messages, so nothing is dropped while an older message stays.
\<close>

theorem buffer_add_bounded:
  assumes "buffer_add inmem_ops ms r m = (Ok u, r', m')" and "ms \<noteq> []" and "0 < buf_max_size m"
  shows "int (length (held_messages m')) \<le>
           max (buf_max_size m) (int (leading_system (held_messages m @ ms))) \<and>
         (\<exists>dropped. held_messages m @ ms =
            takeWhile is_system (held_messages m @ ms) @ dropped @
            drop (leading_system (held_messages m @ ms)) (held_messages m')) \<and>
         takeWhile is_system (held_messages m @ ms) =
           take (leading_system (held_messages m @ ms)) (held_messages m')"
proof -
  let ?xs = "held_messages m @ ms"
  have w: "held_messages m' = window (buf_max_size m) ?xs"
    using inmem.buffer_add_window [OF assms(1,2)] by simp
  from w window_keeps_system [of ?xs "buf_max_size m"] window_length_le [OF assms(3), of ?xs] window_suffix [of ?xs "buf_max_size m"]
  show ?thesis by (simp add: leading_system_def)
qed

lemma buffer_add_bounded_witness:
  "\<exists>m'. length (held_messages m') \<le> 2 \<and>
    buffer_add inmem_ops [text_message RoleUser ''b''] \<lparr>rt_ctx = Background, rt_world = ()\<rparr>
      (NewBuffer \<lparr>im_messages = [text_message RoleSystem ''s'', text_message RoleUser ''a'']\<rparr> 2)
    = (Ok (), \<lparr>rt_ctx = Background, rt_world = ()\<rparr>, m')"
proof -
  let ?r = "\<lparr>rt_ctx = Background, rt_world = ()\<rparr>"
  let ?m = "NewBuffer \<lparr>im_messages = [text_message RoleSystem ''s'', text_message RoleUser ''a'']\<rparr> 2"
  let ?m' = "NewBuffer \<lparr>im_messages = [text_message RoleSystem ''s'', text_message RoleUser ''b'']\<rparr> 2"
  have run: "buffer_add inmem_ops [text_message RoleUser ''b''] ?r ?m = (Ok (), ?r, ?m')"
    by (simp add: buffer_add_def trimPreservingSystem_def on_store_def go_zoom_def inmem_defs
        op_defs NewBuffer_def Let_def leading_system_def is_system_def)
  from buffer_add_bounded [OF run]
  have "int (length (held_messages ?m')) \<le> 2"
    by (simp add: NewBuffer_def leading_system_def is_system_def)
  with run show ?thesis by auto
qed

end
