(* ===== verification/Summary.thy ===== *)
theory Summary
  imports Memory
begin

text \<open>
  \<open>memory/summary.go\<close>: the memory that has a model summarise its oldest messages when there
  are more than a threshold.
\<close>

section \<open>State and options\<close>

text \<open>
  A summary callback only observes, but it is foreign code: it acts on the world.
\<close>

type_synonym 'w summary_callback = "nat \<Rightarrow> nat \<Rightarrow> string \<Rightarrow> 'w \<Rightarrow> 'w"

record ('w, 's) summary_memory =
  sum_store :: 's
  sum_summary :: string
  sum_model :: "'w chat_model"
  sum_threshold :: int
  sum_callback :: "'w summary_callback option"

definition NewSummary ::
    "'s \<Rightarrow> 'w chat_model \<Rightarrow> int \<Rightarrow> 'w summary_callback option \<Rightarrow> ('w, 's) summary_memory" where
  "NewSummary st m threshold cb =
     \<lparr>sum_store = st, sum_summary = [], sum_model = m, sum_threshold = threshold,
      sum_callback = cb\<rparr>"

definition in_summary :: "('w, 's, 'a) op \<Rightarrow> ('w, ('w, 's) summary_memory, 'a) op" where
  "in_summary = go_zoom sum_store (\<lambda>s m. m\<lparr>sum_store := s\<rparr>)"

section \<open>Operations\<close>

definition summary_messages ::
    "('w, 's) message_store \<Rightarrow> ('w, ('w, 's) summary_memory, chat_message list) op" where
  "summary_messages st =
     go_bind (in_summary (ms_list st)) (\<lambda>raw.
       go_bind go_get (\<lambda>sm.
         if sum_summary sm = [] then go_return raw
         else go_return (text_message RoleSystem (sum_summary sm) # raw)))"

definition summaryPrompt :: "string \<Rightarrow> string" where
  "summaryPrompt body =
     ''Please compress the following conversation into a concise context description, preserving user goals, key findings, completed steps, and outstanding questions:''
     @ newline @ newline @ body"

definition message_line :: "chat_message \<Rightarrow> string" where
  "message_line m = ''['' @ msg_role m @ '']: '' @ msg_content m @ newline"

definition summary_body :: "string \<Rightarrow> chat_message list \<Rightarrow> string" where
  "summary_body existing head =
     (if existing \<noteq> []
      then ''Existing summary:'' @ newline @ existing @ newline @ newline else []) @
     concat (map message_line head)"

text \<open>\<open>keepN\<close>: half the threshold, at least one.\<close>

definition keep_count :: "int \<Rightarrow> nat" where
  "keep_count threshold = (if go_div threshold 2 < 1 then 1 else nat (go_div threshold 2))"

text \<open>
  A call of the model. A response that is the nil pointer panics where the code reads its
  message.
\<close>

definition summary_generate :: "chat_message list \<Rightarrow> ('w, ('w, 's) summary_memory, string) op" where
  "summary_generate msgs r sm =
     (case cm_generate (sum_model sm) r msgs [] of
        (Inl e, r') \<Rightarrow> (Err e, r', sm)
      | (Inr None, r') \<Rightarrow> (Panic ''nil response'', r', sm)
      | (Inr (Some resp), r') \<Rightarrow> (Ok (msg_content (resp_message resp)), r', sm))"

text \<open>
  \<open>summarizeAndSnapshot\<close>: the answer is the callback with its arguments, or nothing when there
  was nothing to do. The new summary is stored before the store is rewritten.
\<close>

definition summarizeAndSnapshot ::
    "('w, 's) message_store \<Rightarrow>
     ('w, ('w, 's) summary_memory, ('w summary_callback option \<times> nat \<times> nat \<times> string)) op" where
  "summarizeAndSnapshot st =
     go_bind (in_summary (ms_list st)) (\<lambda>msgs.
     go_bind go_get (\<lambda>sm.
       if int (length msgs) \<le> sum_threshold sm then go_return (None, 0, 0, [])
       else
         let keepN = keep_count (sum_threshold sm) in
         if length msgs \<le> keepN then go_return (None, 0, 0, [])
         else
           let before = length msgs;
               head = take (before - keepN) msgs;
               tail = drop (before - keepN) msgs
           in go_bind (summary_generate
                [text_message RoleUser (summaryPrompt (summary_body (sum_summary sm) head))])
              (\<lambda>newSummary.
                go_bind (go_put (sm\<lparr>sum_summary := newSummary\<rparr>)) (\<lambda>_.
                go_bind (in_summary (ms_replace st tail)) (\<lambda>_.
                  go_return (sum_callback sm, before, length tail, newSummary))))))"

definition call_back :: "('w summary_callback option \<times> nat \<times> nat \<times> string) \<Rightarrow> ('w, 'm, unit) op" where
  "call_back res r m =
     (case res of
        (None, _, _, _) \<Rightarrow> (Ok (), r, m)
      | (Some cb, before, after, s) \<Rightarrow>
          (Ok (), r\<lparr>rt_world := cb before after s (rt_world r)\<rparr>, m))"

definition summarize ::
    "('w, 's) message_store \<Rightarrow> ('w, ('w, 's) summary_memory, unit) op" where
  "summarize st = go_bind (summarizeAndSnapshot st) call_back"

text \<open>
  The loop \<open>for sm.threshold > 0 { ... }\<close> of \<open>Add\<close> ends when the store is small enough. The
  number of turns is bounded by fuel; two are always enough (\<open>summary_loop_enough\<close>).
\<close>

fun summary_loop ::
    "nat \<Rightarrow> ('w, 's) message_store \<Rightarrow> ('w, ('w, 's) summary_memory, unit) op" where
  "summary_loop 0 st = (\<lambda>r sm. (Panic ''out of fuel'', r, sm))"
| "summary_loop (Suc fuel) st =
     go_bind go_get (\<lambda>sm.
       if sum_threshold sm \<le> 0 then go_return ()
       else go_bind (in_summary (ms_len st)) (\<lambda>n.
         if int n \<le> sum_threshold sm then go_return ()
         else go_bind (summarize st) (\<lambda>_. summary_loop fuel st)))"

definition summary_add ::
    "nat \<Rightarrow> ('w, 's) message_store \<Rightarrow> chat_message list \<Rightarrow> ('w, ('w, 's) summary_memory, unit) op" where
  "summary_add fuel st msgs =
     (if msgs = [] then go_return ()
      else go_bind (in_summary (ms_append st msgs)) (\<lambda>_. summary_loop fuel st))"

definition summary_clear ::
    "('w, 's) message_store \<Rightarrow> ('w, ('w, 's) summary_memory, unit) op" where
  "summary_clear st =
     go_bind go_get (\<lambda>sm. go_bind (go_put (sm\<lparr>sum_summary := []\<rparr>)) (\<lambda>_. in_summary (ms_clear st)))"

definition summary_ops ::
    "nat \<Rightarrow> ('w, 's) message_store \<Rightarrow> ('w, ('w, 's) summary_memory) memory_ops" where
  "summary_ops fuel st =
     \<lparr>mem_messages = summary_messages st, mem_add = summary_add fuel st,
      mem_clear = summary_clear st\<rparr>"

section \<open>Over any lawful store\<close>

lemma keep_count_bounds: "0 < t \<Longrightarrow> 1 \<le> keep_count t \<and> int (keep_count t) \<le> t"
  by (auto simp: keep_count_def go_div_nonneg)

lemma call_back_Ok: "call_back res r m = (x, r', m') \<Longrightarrow> x = Ok () \<and> m' = m"
  by (auto simp: call_back_def split: prod.splits option.splits)

context message_store_laws
begin

abbreviation sum_held :: "('w, 's) summary_memory \<Rightarrow> chat_message list" where
  "sum_held m \<equiv> held (sum_store m)"

lemma in_summary_Ok:
  "in_summary (ms_list ops) r m = (Ok xs, r', m') \<Longrightarrow>
     xs = sum_held m \<and> sum_held m' = sum_held m \<and> sum_threshold m' = sum_threshold m \<and>
     sum_summary m' = sum_summary m \<and> sum_model m' = sum_model m"
  "in_summary (ms_len ops) r m = (Ok n, r', m') \<Longrightarrow>
     n = length (sum_held m) \<and> sum_held m' = sum_held m \<and> sum_threshold m' = sum_threshold m \<and>
     sum_summary m' = sum_summary m \<and> sum_model m' = sum_model m"
  "in_summary (ms_append ops ms) r m = (Ok u, r', m') \<Longrightarrow>
     sum_held m' = sum_held m @ ms \<and> sum_threshold m' = sum_threshold m \<and>
     sum_summary m' = sum_summary m \<and> sum_model m' = sum_model m"
  "in_summary (ms_replace ops ms) r m = (Ok u, r', m') \<Longrightarrow>
     sum_held m' = ms \<and> sum_threshold m' = sum_threshold m \<and>
     sum_summary m' = sum_summary m \<and> sum_model m' = sum_model m"
  "in_summary (ms_clear ops) r m = (Ok u, r', m') \<Longrightarrow>
     sum_held m' = [] \<and> sum_threshold m' = sum_threshold m \<and>
     sum_summary m' = sum_summary m \<and> sum_model m' = sum_model m"
  by (auto simp: in_summary_def go_zoom_def split: prod.splits
      dest!: list_ok len_ok append_ok replace_ok clear_ok)

lemma summary_generate_Ok: "summary_generate ms r m = (Ok t, r', m') \<Longrightarrow> m' = m"
  by (auto simp: summary_generate_def split: prod.splits sum.splits option.splits)

text \<open>One summarisation of a list that is too long leaves its newest \<open>keep_count\<close> messages.\<close>

lemma summarizeAndSnapshot_Ok:
  assumes run: "summarizeAndSnapshot ops r m = (Ok res, r', m')" and "0 < sum_threshold m"
    and long: "sum_threshold m < int (length (sum_held m))"
  shows "sum_held m' = drop (length (sum_held m) - keep_count (sum_threshold m)) (sum_held m) \<and>
         sum_threshold m' = sum_threshold m \<and> length (sum_held m') = keep_count (sum_threshold m)"
proof -
  let ?k = "keep_count (sum_threshold m)"
  have k: "?k < length (sum_held m)"
    using keep_count_bounds [OF assms(2)] long by linarith
  from run obtain msgs r1 m1 where lst: "in_summary (ms_list ops) r m = (Ok msgs, r1, m1)"
    and rest: "(if int (length msgs) \<le> sum_threshold m1 then go_return (None, 0, 0, [])
       else
         let keepN = keep_count (sum_threshold m1) in
         if length msgs \<le> keepN then go_return (None, 0, 0, [])
         else
           let before = length msgs;
               head = take (before - keepN) msgs;
               tail = drop (before - keepN) msgs
           in go_bind (summary_generate
                [text_message RoleUser (summaryPrompt (summary_body (sum_summary m1) head))])
              (\<lambda>newSummary.
                go_bind (go_put (m1\<lparr>sum_summary := newSummary\<rparr>)) (\<lambda>_.
                go_bind (in_summary (ms_replace ops tail)) (\<lambda>_.
                  go_return (sum_callback m1, before, length tail, newSummary))))) r1 m1
       = (Ok res, r', m')"
    by (auto simp: summarizeAndSnapshot_def go_bind_Ok go_get_def)
  from lst have h1: "msgs = sum_held m" "sum_held m1 = sum_held m" "sum_threshold m1 = sum_threshold m"
    by (auto dest!: in_summary_Ok)
  from rest h1 k long obtain t r2 m2 r3 m3
    where "in_summary (ms_replace ops (drop (length msgs - ?k) msgs)) r2
        (m1\<lparr>sum_summary := t\<rparr>) = (Ok (), r3, m3)" and "m' = m3"
    by (auto simp: go_bind_Ok Let_def go_put_def go_return_def dest!: summary_generate_Ok)
  with h1 k show ?thesis by (auto dest!: in_summary_Ok)
qed

lemma summarize_Ok:
  assumes "summarize ops r m = (Ok u, r', m')" and "0 < sum_threshold m"
    and "sum_threshold m < int (length (sum_held m))"
  shows "sum_held m' = drop (length (sum_held m) - keep_count (sum_threshold m)) (sum_held m) \<and>
         sum_threshold m' = sum_threshold m \<and> length (sum_held m') = keep_count (sum_threshold m)"
proof -
  from assms(1) obtain res r1 where "summarizeAndSnapshot ops r m = (Ok res, r1, m')"
    by (auto simp: summarize_def go_bind_Ok dest!: call_back_Ok)
  then show ?thesis by (rule summarizeAndSnapshot_Ok) (use assms in auto)
qed

lemma summary_loop_Ok:
  "summary_loop fuel ops r m = (Ok u, r', m') \<Longrightarrow> 0 < sum_threshold m \<Longrightarrow>
     int (length (sum_held m')) \<le> sum_threshold m \<and> (\<exists>n. sum_held m' = drop n (sum_held m))"
proof (induction fuel arbitrary: r m)
  case 0
  then show ?case by simp
next
  case (Suc fuel)
  then obtain n r1 m1 where len: "in_summary (ms_len ops) r m = (Ok n, r1, m1)"
    and rest: "(if int n \<le> sum_threshold m then go_return ()
         else go_bind (summarize ops) (\<lambda>_. summary_loop fuel ops)) r1 m1 = (Ok u, r', m')"
    by (auto simp: go_bind_Ok go_get_def)
  from len have h1: "n = length (sum_held m)" "sum_held m1 = sum_held m"
      "sum_threshold m1 = sum_threshold m"
    by (auto dest!: in_summary_Ok)
  show ?case
  proof (cases "int n \<le> sum_threshold m")
    case True
    with rest h1 show ?thesis
      by (auto simp: go_return_def intro: exI [of _ 0])
  next
    case False
    with rest obtain r2 m2 where sum: "summarize ops r1 m1 = (Ok (), r2, m2)"
      and loop: "summary_loop fuel ops r2 m2 = (Ok u, r', m')"
      by (auto simp: go_bind_Ok)
    have "sum_held m2 = drop (length (sum_held m1) - keep_count (sum_threshold m1)) (sum_held m1) \<and>
        sum_threshold m2 = sum_threshold m1 \<and> length (sum_held m2) = keep_count (sum_threshold m1)"
      using sum by (rule summarize_Ok) (use h1 Suc.prems(2) False in auto)
    then show ?thesis
      using Suc.IH [OF loop] Suc.prems(2) h1 by (auto simp: drop_drop)
  qed
qed

text \<open>Two turns are enough: after one summarisation the store is below the threshold.\<close>

lemma summary_loop_small:
  assumes "int (length (sum_held m)) \<le> sum_threshold m"
  shows "summary_loop (Suc fuel) ops r m \<noteq> (Panic ''out of fuel'', r', m')"
  using assms
  by (auto simp: go_bind_Panic go_get_def go_return_def in_summary_def go_zoom_def len_safe
      split: prod.splits dest!: len_ok)

lemma summarize_not_fuel: "summarize ops r m \<noteq> (Panic ''out of fuel'', r', m')"
proof -
  have "summarizeAndSnapshot ops r m \<noteq> (Panic ''out of fuel'', r', m')"
    by (auto simp: summarizeAndSnapshot_def summary_generate_def go_bind_Panic go_get_def
        go_put_def go_return_def Let_def in_summary_def go_zoom_def list_safe replace_safe
        split: prod.splits sum.splits option.splits if_splits)
  then show ?thesis
    by (auto simp: summarize_def go_bind_Panic dest: call_back_Ok)
qed

lemma summary_loop_enough:
  "summary_loop (Suc (Suc fuel)) ops r m \<noteq> (Panic ''out of fuel'', r', m')"
proof
  assume "summary_loop (Suc (Suc fuel)) ops r m = (Panic ''out of fuel'', r', m')"
  then obtain n r1 m1 r2 m2 where len: "in_summary (ms_len ops) r m = (Ok n, r1, m1)"
    and long: "\<not> int n \<le> sum_threshold m" "0 < sum_threshold m"
    and sum: "summarize ops r1 m1 = (Ok (), r2, m2)"
    and loop: "summary_loop (Suc fuel) ops r2 m2 = (Panic ''out of fuel'', r', m')"
    by (auto simp: go_bind_Panic go_get_def go_return_def in_summary_def go_zoom_def len_safe
        summarize_not_fuel simp del: summary_loop.simps(2)
        simp: summary_loop.simps(2) [of "Suc fuel"] split: if_splits prod.splits)
  from len have h1: "n = length (sum_held m)" "sum_held m1 = sum_held m"
      "sum_threshold m1 = sum_threshold m"
    by (auto dest!: in_summary_Ok)
  have "sum_threshold m2 = sum_threshold m1 \<and> length (sum_held m2) = keep_count (sum_threshold m1)"
    using summarize_Ok [OF sum] h1 long by auto
  then have "int (length (sum_held m2)) \<le> sum_threshold m2"
    using keep_count_bounds [OF long(2)] h1 by simp
  with loop show False using summary_loop_small by blast
qed

lemma summary_add_bounded:
  assumes "summary_add fuel ops ms r m = (Ok u, r', m')" and "0 < sum_threshold m" and "ms \<noteq> []"
  shows "int (length (sum_held m')) \<le> sum_threshold m \<and>
         (\<exists>n. sum_held m' = drop n (sum_held m @ ms))"
proof -
  from assms obtain r1 m1 where app: "in_summary (ms_append ops ms) r m = (Ok (), r1, m1)"
    and loop: "summary_loop fuel ops r1 m1 = (Ok u, r', m')"
    by (auto simp: summary_add_def go_bind_Ok)
  from app have "sum_held m1 = sum_held m @ ms" "sum_threshold m1 = sum_threshold m"
    by (auto dest!: in_summary_Ok)
  with summary_loop_Ok [OF loop] assms(2) show ?thesis by simp
qed

lemma summary_add_returns:
  "summary_add (Suc (Suc fuel)) ops ms r m \<noteq> (Panic ''out of fuel'', r', m')"
  by (auto simp: summary_add_def go_bind_Panic go_return_def in_summary_def go_zoom_def
      append_safe summary_loop_enough simp del: summary_loop.simps split: prod.splits)

end

section \<open>Over the in-memory engine\<close>


text \<open>A model that answers every prompt with one fixed text, for concrete runs.\<close>

definition constant_model :: "string \<Rightarrow> 'w chat_model" where
  "constant_model t =
     \<lparr>cm_generate = (\<lambda>r ms os.
        (Inr (Some \<lparr>resp_message = text_message RoleAssistant t, resp_usage =
           \<lparr>prompt_tokens = 1, completion_tokens = 1, total_tokens = 2\<rparr>\<rparr>), r)),
      cm_stream = (\<lambda>r ms os. (Inl (ErrSentinel ErrStreamNotSupported), r))\<rparr>"


end
