(* ===== verification/Json.thy ===== *)
theory Json
  imports Schema
begin

text \<open>
  The part of \<open>encoding/json\<close> the framework uses: reading a text into a dynamically typed value or
  into a struct of named fields, and printing a value. Text is taken to be valid UTF-8 (the package
  would replace other bytes); a number keeps its text.
\<close>

section \<open>Characters\<close>

abbreviation quote_char :: char where "quote_char \<equiv> CHR 0x22"
abbreviation backslash :: char where "backslash \<equiv> CHR 0x5C"

definition json_space :: "char \<Rightarrow> bool" where
  "json_space c \<longleftrightarrow> c \<in> {CHR 0x20, CHR 0x09, CHR 0x0A, CHR 0x0D}"

definition skip_ws :: "string \<Rightarrow> string" where
  "skip_ws s = dropWhile json_space s"

definition char_code :: "char \<Rightarrow> nat" where
  "char_code c = of_char c"

definition is_digit :: "char \<Rightarrow> bool" where
  "is_digit c \<longleftrightarrow> 48 \<le> char_code c \<and> char_code c \<le> 57"

definition hex_value :: "char \<Rightarrow> nat option" where
  "hex_value c =
     (let n = char_code c in
      if 48 \<le> n \<and> n \<le> 57 then Some (n - 48)
      else if 97 \<le> n \<and> n \<le> 102 then Some (n - 87)
      else if 65 \<le> n \<and> n \<le> 70 then Some (n - 55)
      else None)"

fun hex_number :: "nat \<Rightarrow> string \<Rightarrow> nat option" where
  "hex_number acc [] = Some acc"
| "hex_number acc (c # s) =
     (case hex_value c of None \<Rightarrow> None | Some d \<Rightarrow> hex_number (16 * acc + d) s)"

definition utf8 :: "nat \<Rightarrow> string" where
  "utf8 n =
     (if n < 128 then [char_of n]
      else if n < 2048 then [char_of (192 + n div 64), char_of (128 + n mod 64)]
      else if n < 65536 then
        [char_of (224 + n div 4096), char_of (128 + n div 64 mod 64), char_of (128 + n mod 64)]
      else
        [char_of (240 + n div 262144), char_of (128 + n div 4096 mod 64),
         char_of (128 + n div 64 mod 64), char_of (128 + n mod 64)])"

section \<open>Reading\<close>

text \<open>The four hexadecimal digits after a backslash and \<open>u\<close>, with a pair of surrogates as one rune.\<close>

definition unicode_escape :: "string \<Rightarrow> (string \<times> string) option" where
  "unicode_escape s =
     (if length s < 4 then None
      else case hex_number 0 (take 4 s) of
        None \<Rightarrow> None
      | Some n \<Rightarrow>
          let rest = drop 4 s in
          if 55296 \<le> n \<and> n < 57344 then
            (case (if take 2 rest = [backslash, CHR ''u''] \<and> 6 \<le> length rest
                   then hex_number 0 (take 4 (drop 2 rest)) else None) of
               Some k \<Rightarrow>
                 if n < 56320 \<and> 56320 \<le> k \<and> k < 57344
                 then Some (utf8 ((n - 55296) * 1024 + (k - 56320) + 65536), drop 6 rest)
                 else Some (utf8 65533, rest)
             | None \<Rightarrow> Some (utf8 65533, rest))
          else Some (utf8 n, rest))"

definition simple_escape :: "char \<Rightarrow> char option" where
  "simple_escape c =
     (if c = quote_char \<or> c = backslash \<or> c = CHR ''/'' then Some c
      else if c = CHR ''b'' then Some (CHR 0x08) else if c = CHR ''f'' then Some (CHR 0x0C)
      else if c = CHR ''n'' then Some (CHR 0x0A) else if c = CHR ''r'' then Some (CHR 0x0D)
      else if c = CHR ''t'' then Some (CHR 0x09) else None)"

text \<open>The rest of a string literal, after its opening quote; the fuel is the length of the text.\<close>

fun parse_chars :: "nat \<Rightarrow> string \<Rightarrow> (string \<times> string) option" where
  "parse_chars (Suc n) (c # s) =
     (if c = quote_char then Some ([], s)
      else if c = backslash then
        (case s of
           [] \<Rightarrow> None
         | e # s' \<Rightarrow>
             if e = CHR ''u'' then
               (case unicode_escape s' of
                  None \<Rightarrow> None
                | Some (t, s'') \<Rightarrow> map_option (\<lambda>(xs, r). (t @ xs, r)) (parse_chars n s''))
             else (case simple_escape e of
                  None \<Rightarrow> None
                | Some d \<Rightarrow> map_option (\<lambda>(xs, r). (d # xs, r)) (parse_chars n s')))
      else if char_code c < 32 then None
      else map_option (\<lambda>(xs, r). (c # xs, r)) (parse_chars n s))"
| "parse_chars _ _ = None"

definition digits :: "string \<Rightarrow> string \<times> string" where
  "digits s = (takeWhile is_digit s, dropWhile is_digit s)"

definition parse_number :: "string \<Rightarrow> (string \<times> string) option" where
  "parse_number s =
     (let (sign, s1) = (case s of c # t \<Rightarrow> if c = CHR ''-'' then ([c], t) else ([], s) | [] \<Rightarrow> ([], s));
          (ip, s2) = (case s1 of c # t \<Rightarrow> if c = CHR ''0'' then ([c], t) else digits s1 | [] \<Rightarrow> ([], s1));
          (fp, s3) = (case s2 of c # t \<Rightarrow> if c = CHR ''.'' then (c # fst (digits t), snd (digits t)) else ([], s2)
                      | [] \<Rightarrow> ([], s2));
          (ep, s4) = (case s3 of c # t \<Rightarrow>
                        if c = CHR ''e'' \<or> c = CHR ''E'' then
                          (case t of d # u \<Rightarrow>
                             if d = CHR ''+'' \<or> d = CHR ''-'' then ([c, d] @ fst (digits u), snd (digits u))
                             else (c # fst (digits t), snd (digits t))
                           | [] \<Rightarrow> ([c], []))
                        else ([], s3)
                      | [] \<Rightarrow> ([], s3))
      in if ip = [] \<or> length fp = 1 \<or> (ep \<noteq> [] \<and> \<not> is_digit (last ep)) then None
         else Some (sign @ ip @ fp @ ep, s4))"

text \<open>
  Values, the elements of an array and the members of an object; a repeated key replaces the
  earlier one. Every second nested call consumes a character, so twice the length is fuel enough.
\<close>

fun parse_value :: "nat \<Rightarrow> string \<Rightarrow> (gval \<times> string) option"
and parse_elems :: "nat \<Rightarrow> string \<Rightarrow> (gval list \<times> string) option"
and parse_members :: "nat \<Rightarrow> (string \<times> gval) list \<Rightarrow> string \<Rightarrow> ((string \<times> gval) list \<times> string) option"
where
  "parse_value 0 s = None"
| "parse_value (Suc n) s =
     (if has_prefix ''null'' s then Some (VNil, drop 4 s)
      else if has_prefix ''true'' s then Some (VBool True, drop 4 s)
      else if has_prefix ''false'' s then Some (VBool False, drop 5 s)
      else case s of
        [] \<Rightarrow> None
      | c # t \<Rightarrow>
          if c = quote_char then map_option (\<lambda>(x, r). (VStr x, r)) (parse_chars (length s) t)
          else if c = CHR ''['' then
            (if has_prefix '']'' (skip_ws t) then Some (VList [], drop 1 (skip_ws t))
             else map_option (\<lambda>(xs, r). (VList xs, r)) (parse_elems n (skip_ws t)))
          else if c = CHR ''{'' then
            (if has_prefix ''}'' (skip_ws t) then Some (VMap [], drop 1 (skip_ws t))
             else map_option (\<lambda>(m, r). (VMap m, r)) (parse_members n [] (skip_ws t)))
          else map_option (\<lambda>(x, r). (VNum x, r)) (parse_number s))"
| "parse_elems 0 s = None"
| "parse_elems (Suc n) s =
     (case parse_value n s of
        None \<Rightarrow> None
      | Some (v, r) \<Rightarrow>
          (case skip_ws r of
             [] \<Rightarrow> None
           | c # t \<Rightarrow>
               if c = CHR '']'' then Some ([v], t)
               else if c = CHR '','' then map_option (\<lambda>(vs, r'). (v # vs, r')) (parse_elems n (skip_ws t))
               else None))"
| "parse_members 0 m s = None"
| "parse_members (Suc n) m s =
     (case s of
        [] \<Rightarrow> None
      | q # t \<Rightarrow>
          if q \<noteq> quote_char then None
          else case parse_chars (length s) t of
            None \<Rightarrow> None
          | Some (k, r) \<Rightarrow>
              if \<not> has_prefix '':'' (skip_ws r) then None
              else case parse_value n (skip_ws (drop 1 (skip_ws r))) of
                None \<Rightarrow> None
              | Some (v, r') \<Rightarrow>
                  (case skip_ws r' of
                     [] \<Rightarrow> None
                   | c # u \<Rightarrow>
                       if c = CHR ''}'' then Some (map_put k v m, u)
                       else if c = CHR '','' then parse_members n (map_put k v m) (skip_ws u)
                       else None))"

definition json_parse :: "string \<Rightarrow> gval option" where
  "json_parse s =
     (case parse_value (2 * length s + 2) (skip_ws s) of
        Some (v, r) \<Rightarrow> if skip_ws r = [] then Some v else None
      | None \<Rightarrow> None)"

text \<open>
  \<open>json.RawMessage\<close>: the members of an object and the elements of an array with their values left
  as text. Both are used on texts that \<open>json_parse\<close> accepts.
\<close>

definition raw_value :: "string \<Rightarrow> (string \<times> string) option" where
  "raw_value s =
     (case parse_value (2 * length s + 2) s of
        None \<Rightarrow> None
      | Some (_, r) \<Rightarrow> Some (take (length s - length r) s, skip_ws r))"

fun raw_members :: "nat \<Rightarrow> string \<Rightarrow> (string \<times> string) list option" where
  "raw_members 0 s = None"
| "raw_members (Suc n) s =
     (case parse_chars (length s) (drop 1 s) of
        None \<Rightarrow> None
      | Some (k, r) \<Rightarrow>
          (case raw_value (skip_ws (drop 1 (skip_ws r))) of
             None \<Rightarrow> None
           | Some (t, r') \<Rightarrow>
               if has_prefix ''}'' r' then Some [(k, t)]
               else map_option ((#) (k, t)) (raw_members n (skip_ws (drop 1 r')))))"

fun raw_elems :: "nat \<Rightarrow> string \<Rightarrow> string list option" where
  "raw_elems 0 s = None"
| "raw_elems (Suc n) s =
     (case raw_value s of
        None \<Rightarrow> None
      | Some (t, r) \<Rightarrow>
          if has_prefix '']'' r then Some [t]
          else map_option ((#) t) (raw_elems n (skip_ws (drop 1 r))))"

definition json_object :: "string \<Rightarrow> (string \<times> string) list option" where
  "json_object s =
     (case json_parse s of
        Some (VMap m) \<Rightarrow>
          if m = [] then Some [] else raw_members (length s) (skip_ws (drop 1 (skip_ws s)))
      | _ \<Rightarrow> None)"

definition json_array :: "string \<Rightarrow> string list option" where
  "json_array s =
     (case json_parse s of
        Some (VList vs) \<Rightarrow>
          if vs = [] then Some [] else raw_elems (length s) (skip_ws (drop 1 (skip_ws s)))
      | _ \<Rightarrow> None)"

text \<open>The text of a number as a value of type \<open>int\<close>, which has 64 bits.\<close>

fun digits_value :: "int \<Rightarrow> string \<Rightarrow> int option" where
  "digits_value acc [] = Some acc"
| "digits_value acc (c # s) =
     (if is_digit c then digits_value (10 * acc + int (char_code c) - 48) s else None)"

definition text_int :: "string \<Rightarrow> int option" where
  "text_int s =
     (let v = (if has_prefix ''-'' s
               then (if drop 1 s = [] then None else map_option uminus (digits_value 0 (drop 1 s)))
               else (if s = [] then None else digits_value 0 s))
      in case v of
           Some i \<Rightarrow> if - (2 ^ 63) \<le> i \<and> i < 2 ^ 63 then Some i else None
         | None \<Rightarrow> None)"

section \<open>Reading into a struct\<close>

text \<open>
  A member sets the field whose name it equals up to the case of ASCII letters; \<open>null\<close> leaves a
  field alone; a value of another type is an error; unknown members are skipped. \<open>null\<close> for the
  whole struct leaves it alone, anything but an object is an error.
\<close>

definition field_is :: "string \<Rightarrow> string \<Rightarrow> bool" where
  "field_is name key \<longleftrightarrow> to_lower key = name"

fun decode_members ::
    "(string \<Rightarrow> gval \<Rightarrow> 'a \<Rightarrow> 'a option) \<Rightarrow> (string \<times> gval) list \<Rightarrow> 'a \<Rightarrow> 'a option" where
  "decode_members f [] x = Some x"
| "decode_members f ((k, v) # m) x =
     (case f k v x of None \<Rightarrow> None | Some x' \<Rightarrow> decode_members f m x')"

fun decode_struct :: "(string \<Rightarrow> gval \<Rightarrow> 'a \<Rightarrow> 'a option) \<Rightarrow> 'a \<Rightarrow> gval \<Rightarrow> 'a option" where
  "decode_struct f x VNil = Some x"
| "decode_struct f x (VMap m) = decode_members f m x"
| "decode_struct f x _ = None"

fun decode_string :: "(string \<Rightarrow> 'a \<Rightarrow> 'a) \<Rightarrow> gval \<Rightarrow> 'a \<Rightarrow> 'a option" where
  "decode_string put (VStr s) x = Some (put s x)"
| "decode_string put VNil x = Some x"
| "decode_string put _ x = None"

fun decode_int :: "(int \<Rightarrow> 'a \<Rightarrow> 'a) \<Rightarrow> gval \<Rightarrow> 'a \<Rightarrow> 'a option" where
  "decode_int put (VNum t) x = (case text_int t of None \<Rightarrow> None | Some i \<Rightarrow> Some (put i x))"
| "decode_int put VNil x = Some x"
| "decode_int put _ x = None"

text \<open>A struct with raw fields, from the text of the object.\<close>

fun decode_raws ::
    "(string \<Rightarrow> string \<Rightarrow> 'a \<Rightarrow> 'a option) \<Rightarrow> (string \<times> string) list \<Rightarrow> 'a \<Rightarrow> 'a option" where
  "decode_raws f [] x = Some x"
| "decode_raws f ((k, t) # m) x =
     (case f k t x of None \<Rightarrow> None | Some x' \<Rightarrow> decode_raws f m x')"

definition unmarshal_raw :: "(string \<Rightarrow> string \<Rightarrow> 'a \<Rightarrow> 'a option) \<Rightarrow> 'a \<Rightarrow> string \<Rightarrow> 'a option" where
  "unmarshal_raw f x s =
     (case json_parse s of
        Some VNil \<Rightarrow> Some x
      | Some (VMap _) \<Rightarrow> (case json_object s of None \<Rightarrow> None | Some m \<Rightarrow> decode_raws f m x)
      | _ \<Rightarrow> None)"

definition raw_string :: "(string \<Rightarrow> 'a \<Rightarrow> 'a) \<Rightarrow> string \<Rightarrow> 'a \<Rightarrow> 'a option" where
  "raw_string put t x = (case json_parse t of None \<Rightarrow> None | Some v \<Rightarrow> decode_string put v x)"

definition raw_int :: "(int \<Rightarrow> 'a \<Rightarrow> 'a) \<Rightarrow> string \<Rightarrow> 'a \<Rightarrow> 'a option" where
  "raw_int put t x = (case json_parse t of None \<Rightarrow> None | Some v \<Rightarrow> decode_int put v x)"

definition unmarshal :: "(string \<Rightarrow> gval \<Rightarrow> 'a \<Rightarrow> 'a option) \<Rightarrow> 'a \<Rightarrow> string \<Rightarrow> 'a option" where
  "unmarshal f x s = (case json_parse s of None \<Rightarrow> None | Some v \<Rightarrow> decode_struct f x v)"

text \<open>The decoder's error values are not told apart: one error stands for all of them.\<close>

definition json_error :: goerr where
  "json_error = ErrNew ''invalid JSON''"

section \<open>Printing\<close>

definition hex_digit :: "nat \<Rightarrow> char" where
  "hex_digit n = (if n < 10 then char_of (48 + n) else char_of (87 + n))"

text \<open>\<open>json.Marshal\<close> escapes the control characters and the characters special in HTML.\<close>

definition json_char :: "char \<Rightarrow> string" where
  "json_char c =
     (let n = char_code c in
      if c = quote_char \<or> c = backslash then [backslash, c]
      else if n = 8 then [backslash, CHR ''b''] else if n = 12 then [backslash, CHR ''f'']
      else if n = 10 then [backslash, CHR ''n''] else if n = 13 then [backslash, CHR ''r'']
      else if n = 9 then [backslash, CHR ''t'']
      else if n < 32 \<or> c = CHR ''<'' \<or> c = CHR ''>'' \<or> c = CHR 0x26 then
        [backslash, CHR ''u'', CHR ''0'', CHR ''0'', hex_digit (n div 16), hex_digit (n mod 16)]
      else [c])"

definition json_string :: "string \<Rightarrow> string" where
  "json_string s = [quote_char] @ concat (map json_char s) @ [quote_char]"

fun string_less :: "string \<Rightarrow> string \<Rightarrow> bool" where
  "string_less _ [] = False"
| "string_less [] (_ # _) = True"
| "string_less (a # as) (b # bs) =
     (char_code a < char_code b \<or> (a = b \<and> string_less as bs))"

fun insert_key :: "string \<times> 'a \<Rightarrow> (string \<times> 'a) list \<Rightarrow> (string \<times> 'a) list" where
  "insert_key x [] = [x]"
| "insert_key x (y # ys) = (if string_less (fst y) (fst x) then y # insert_key x ys else x # y # ys)"

definition sort_keys :: "(string \<times> 'a) list \<Rightarrow> (string \<times> 'a) list" where
  "sort_keys xs = foldr insert_key xs []"

fun marshal :: "gval \<Rightarrow> string" where
  "marshal VNil = ''null''"
| "marshal (VBool b) = (if b then ''true'' else ''false'')"
| "marshal (VNum t) = t"
| "marshal (VStr s) = json_string s"
| "marshal (VStrs ss) = ''['' @ join '','' (map json_string ss) @ '']''"
| "marshal (VList vs) = ''['' @ join '','' (map marshal vs) @ '']''"
| "marshal (VMap m) =
     ''{'' @ join '',''
       (map (\<lambda>(k, t). json_string k @ '':'' @ t) (sort_keys (map (\<lambda>(k, v). (k, marshal v)) m))) @ ''}''"

fun schema_text :: "schema_property \<Rightarrow> string" where
  "schema_text (SchemaProperty t d e ps req it) =
     ''{'' @ join '',''
       ([json_string ''type'' @ '':'' @ json_string t] @
        (if d = [] then [] else [json_string ''description'' @ '':'' @ json_string d]) @
        (if e = [] then [] else [json_string ''enum'' @ '':['' @ join '','' (map json_string e) @ '']'']) @
        (case ps of
           None \<Rightarrow> []
         | Some m \<Rightarrow>
             if m = [] then []
             else [json_string ''properties'' @ '':{'' @ join '',''
               (map (\<lambda>(k, x). json_string k @ '':'' @ x)
                 (sort_keys (map (\<lambda>(k, p). (k, schema_text p)) m))) @ ''}'']) @
        (if req = [] then [] else [json_string ''required'' @ '':['' @ join '','' (map json_string req) @ '']'']) @
        (case it of None \<Rightarrow> [] | Some p \<Rightarrow> [json_string ''items'' @ '':'' @ schema_text p])) @ ''}''"

text \<open>A nil map prints as \<open>null\<close>.\<close>

definition marshal_params :: "params \<Rightarrow> string" where
  "marshal_params p = (case p of None \<Rightarrow> ''null'' | Some m \<Rightarrow> marshal (VMap m))"

lemma json_parse_example:
  "json_parse ''{a:1}'' = None"
  "json_parse (''['' @ [quote_char] @ ''a'' @ [quote_char] @ '', -1.5e+3, {}]'') =
     Some (VList [VStr ''a'', VNum ''-1.5e+3'', VMap []])"
  by code_simp+

section \<open>Quoting\<close>

text \<open>
  The verb \<open>%q\<close> of \<open>fmt\<close>, which is \<open>strconv.Quote\<close>. Characters outside ASCII are taken to be
  printable, so they stay.
\<close>

definition quote_escape :: "char \<Rightarrow> string" where
  "quote_escape c =
     (let n = char_code c in
      if c = quote_char \<or> c = backslash then [backslash, c]
      else if n = 7 then [backslash, CHR ''a''] else if n = 8 then [backslash, CHR ''b'']
      else if n = 12 then [backslash, CHR ''f''] else if n = 10 then [backslash, CHR ''n'']
      else if n = 13 then [backslash, CHR ''r''] else if n = 9 then [backslash, CHR ''t'']
      else if n = 11 then [backslash, CHR ''v'']
      else if n < 32 \<or> n = 127 then [backslash, CHR ''x'', hex_digit (n div 16), hex_digit (n mod 16)]
      else [c])"

definition go_quote :: "string \<Rightarrow> string" where
  "go_quote s = [quote_char] @ concat (map quote_escape s) @ [quote_char]"

section \<open>Indented printing\<close>

fun sorted_value :: "gval \<Rightarrow> gval" where
  "sorted_value (VMap m) = VMap (sort_keys (map (\<lambda>(k, v). (k, sorted_value v)) m))"
| "sorted_value (VList vs) = VList (map sorted_value vs)"
| "sorted_value v = v"

text \<open>
  \<open>json.MarshalIndent(v, "", "  ")\<close> of a document whose members are already in order: the fields
  of a struct as declared, the keys of a map sorted. \<open>ind\<close> is the indentation so far.
\<close>

definition json_block :: "string \<Rightarrow> string \<Rightarrow> string \<Rightarrow> string list \<Rightarrow> string" where
  "json_block ind opening closing items =
     (if items = [] then opening @ closing
      else opening @ newline @ join ('','' @ newline) (map (\<lambda>x. ind @ ''  '' @ x) items) @
           newline @ ind @ closing)"

fun pretty :: "string \<Rightarrow> gval \<Rightarrow> string" where
  "pretty ind (VStrs ss) = json_block ind ''['' '']'' (map json_string ss)"
| "pretty ind (VList vs) = json_block ind ''['' '']'' (map (pretty (ind @ ''  '')) vs)"
| "pretty ind (VMap m) =
     json_block ind ''{'' ''}''
       (map (\<lambda>(k, t). json_string k @ '': '' @ t) (map (\<lambda>(k, v). (k, pretty (ind @ ''  '') v)) m))"
| "pretty ind v = marshal v"

section \<open>A printed string reads back\<close>

lemma char_code_less [simp]: "char_code c < 256"
  by (simp add: char_code_def)

lemma char_of_code [simp]: "char_of (char_code c) = c"
  by (simp add: char_code_def)

lemma hex_value_digit: "n < 16 \<Longrightarrow> hex_value (hex_digit n) = Some n"
proof -
  assume n: "n < 16"
  have "char_code (hex_digit n) = (if n < 10 then 48 + n else 87 + n)"
    using n by (simp add: hex_digit_def char_code_def)
  with n show ?thesis by (simp add: hex_value_def)
qed

lemma unicode_escape_ascii:
  assumes "k < 32 \<or> k = 38 \<or> k = 60 \<or> k = 62"
  shows "unicode_escape ([CHR ''0'', CHR ''0'', hex_digit (k div 16), hex_digit (k mod 16)] @ s) =
    Some ([char_of k], s)"
proof -
  have k: "k div 16 < 16" "k mod 16 < 16" "k < 128" using assms by auto
  have z: "hex_value (CHR ''0'') = Some 0" by code_simp
  have "hex_number 0 [CHR ''0'', CHR ''0'', hex_digit (k div 16), hex_digit (k mod 16)] = Some k"
    using k by (simp add: hex_value_digit z)
  with k show ?thesis by (simp add: unicode_escape_def utf8_def)
qed

lemma char_code_eq: "char_code c = k \<Longrightarrow> c = char_of k"
  using char_of_code [of c] by simp

lemma control_chars:
  "char_of (8 :: nat) = CHR 0x08" "char_of (12 :: nat) = CHR 0x0C" "char_of (10 :: nat) = CHR 0x0A"
  "char_of (13 :: nat) = CHR 0x0D" "char_of (9 :: nat) = CHR 0x09"
  by code_simp+

lemma json_char_reads:
  "parse_chars (Suc n) (json_char c @ s) = map_option (\<lambda>(xs, r). (c # xs, r)) (parse_chars n s)"
proof -
  let ?k = "char_code c"
  have plain: ?thesis if "json_char c = [backslash, e]" "e \<noteq> CHR ''u''" "simple_escape e = Some c" for e
    using that by (simp add: simple_escape_def)
  consider (quoted) "c = quote_char \<or> c = backslash" | (bs) "?k = 8" | (ff) "?k = 12" | (nl) "?k = 10"
    | (cr) "?k = 13" | (tab) "?k = 9"
    | (hex) "c \<noteq> quote_char" "c \<noteq> backslash" "?k \<notin> {8, 9, 10, 12, 13}"
        "?k < 32 \<or> c = CHR ''<'' \<or> c = CHR ''>'' \<or> c = CHR 0x26"
    | (self) "c \<noteq> quote_char" "c \<noteq> backslash" "\<not> ?k < 32" "c \<notin> {CHR ''<'', CHR ''>'', CHR 0x26}"
    by auto
  then show ?thesis
  proof cases
    case quoted
    then show ?thesis by (intro plain [of c]) (auto simp: json_char_def simple_escape_def)
  next
    case bs
    with char_code_eq [OF bs, unfolded control_chars] show ?thesis
      by (intro plain [of "CHR ''b''"]) (auto simp: json_char_def simple_escape_def char_code_def)
  next
    case ff
    with char_code_eq [OF ff, unfolded control_chars] show ?thesis
      by (intro plain [of "CHR ''f''"]) (auto simp: json_char_def simple_escape_def char_code_def)
  next
    case nl
    with char_code_eq [OF nl, unfolded control_chars] show ?thesis
      by (intro plain [of "CHR ''n''"]) (auto simp: json_char_def simple_escape_def char_code_def)
  next
    case cr
    with char_code_eq [OF cr, unfolded control_chars] show ?thesis
      by (intro plain [of "CHR ''r''"]) (auto simp: json_char_def simple_escape_def char_code_def)
  next
    case tab
    with char_code_eq [OF tab, unfolded control_chars] show ?thesis
      by (intro plain [of "CHR ''t''"]) (auto simp: json_char_def simple_escape_def char_code_def)
  next
    case hex
    then have k: "?k < 32 \<or> ?k = 38 \<or> ?k = 60 \<or> ?k = 62" by (auto simp: char_code_def)
    from hex have "json_char c = [backslash, CHR ''u'', CHR ''0'', CHR ''0'', hex_digit (?k div 16), hex_digit (?k mod 16)]"
      by (simp add: json_char_def Let_def)
    then show ?thesis using unicode_escape_ascii [OF k, of s] by simp
  next
    case self
    then show ?thesis by (auto simp: json_char_def Let_def)
  qed
qed

lemma json_string_reads:
  "length s < n \<Longrightarrow> parse_chars n (concat (map json_char s) @ quote_char # r) = Some (s, r)"
proof (induction s arbitrary: n)
  case Nil
  then show ?case by (cases n) auto
next
  case (Cons c s)
  then obtain m where n: "n = Suc m" "length s < m" by (cases n) auto
  with Cons.IH [of m] show ?case by (simp add: json_char_reads)
qed

lemma json_char_length: "0 < length (json_char c)"
  by (simp add: json_char_def Let_def)

lemma json_string_length: "length s \<le> length (concat (map json_char s))"
proof (induction s)
  case (Cons c s)
  have "0 < length (json_char c)" by (rule json_char_length)
  then have "1 \<le> length (json_char c)" by linarith
  with Cons have "Suc (length s) \<le> length (json_char c) + length (concat (map json_char s))"
    by linarith
  then show ?case by simp
qed simp

lemma skip_ws_quote [simp]: "skip_ws (quote_char # s) = quote_char # s"
  by (simp add: skip_ws_def json_space_def)

lemma json_string_Cons: "json_string s @ r = quote_char # concat (map json_char s) @ quote_char # r"
  by (simp add: json_string_def)

lemma parse_string_value: "parse_value (Suc n) (json_string s @ r) = Some (VStr s, r)"
proof -
  have "length s < length (json_string s @ r)"
    using json_string_length [of s] by (simp add: json_string_def)
  then show ?thesis
    using json_string_reads [of s "length (json_string s @ r)" r]
    by (simp add: json_string_Cons has_prefix_def)
qed

lemma parse_string_member:
  assumes "c = CHR '','' \<or> c = CHR ''}''"
  shows "parse_members (Suc (Suc n)) m (json_string k @ CHR '':'' # json_string v @ c # r) =
    (if c = CHR ''}'' then Some (map_put k (VStr v) m, r)
     else parse_members (Suc n) (map_put k (VStr v) m) (skip_ws r))"
proof -
  let ?t = "CHR '':'' # json_string v @ c # r"
  have len: "length k < length (json_string k @ ?t)"
    using json_string_length [of k] by (simp add: json_string_def)
  have colon: "skip_ws ?t = ?t" "has_prefix '':'' ?t"
    by (simp_all add: skip_ws_def json_space_def has_prefix_def)
  have val: "skip_ws (json_string v @ c # r) = json_string v @ c # r"
    by (simp add: json_string_Cons)
  have c: "skip_ws (c # r) = c # r" using assms by (auto simp: skip_ws_def json_space_def)
  show ?thesis
    using assms json_string_reads [OF len, of ?t] parse_string_value [of n v "c # r"]
    by (auto simp: json_string_Cons [of k] colon val c)
qed

section \<open>A printed integer reads back\<close>

lemma char_code_digit: "d < 10 \<Longrightarrow> char_code (char_of (48 + d)) = 48 + d"
  by (simp add: char_code_def)

lemma digits_value_snoc:
  "digits_value acc (s @ [c]) =
     (case digits_value acc s of
        None \<Rightarrow> None
      | Some v \<Rightarrow> if is_digit c then Some (10 * v + int (char_code c) - 48) else None)"
  by (induction acc s rule: digits_value.induct) auto

lemma nat_text_digits: "digits_value 0 (nat_text n) = Some (int n) \<and> nat_text n \<noteq> [] \<and> list_all is_digit (nat_text n)"
proof (induction n rule: nat_text.induct)
  case (1 n)
  show ?case
  proof (cases "n < 10")
    case True
    then show ?thesis
      using char_code_digit [of n] by (simp add: nat_text.simps [of n] is_digit_def)
  next
    case False
    have d: "n mod 10 < 10" by simp
    have "int n = 10 * int (n div 10) + int (n mod 10)" by presburger
    with 1 [OF False] False char_code_digit [OF d] show ?thesis
      by (simp add: nat_text.simps [of n] digits_value_snoc is_digit_def)
  qed
qed

lemma text_int_int_text:
  assumes "- (2 ^ 63) \<le> i" "i < 2 ^ 63"
  shows "text_int (int_text i) = Some i"
proof (cases "i < 0")
  case True
  then show ?thesis
    using assms nat_text_digits [of "nat (- i)"]
    by (simp add: text_int_def int_text_def has_prefix_def)
next
  case False
  have "\<not> has_prefix ''-'' (nat_text (nat i))"
  proof
    assume "has_prefix ''-'' (nat_text (nat i))"
    then have "is_digit (CHR ''-'')"
      using nat_text_digits [of "nat i"] by (auto simp: has_prefix_iff)
    then show False by (simp add: is_digit_def char_code_def)
  qed
  with False show ?thesis
    using assms nat_text_digits [of "nat i"]
    by (simp add: text_int_def int_text_def)
qed

end
