(* ===== verification/Compressor.thy ===== *)
theory Compressor
  imports Complex_Main Memory Json
begin

text \<open>
  \<open>memory/compressor.go\<close> and \<open>memory/content_store.go\<close>: what keeps the conversation small. Long
  tool results are cut and persisted, repeated failures pruned, old tool results cleared, and the
  whole context can be replaced by a summary.
\<close>

section \<open>Content stores\<close>

text \<open>
  The interface \<open>ContentStore\<close>, its contract (what \<open>Load\<close> answers after \<open>Store\<close>), and the
  in-memory implementation, a map.
\<close>

record ('w, 'c) content_store_ops =
  cs_store :: "string \<Rightarrow> string \<Rightarrow> ('w, 'c, unit) op"
  cs_load :: "string \<Rightarrow> ('w, 'c, string) op"

type_synonym content_map = "string \<rightharpoonup> string"

definition NewInMemoryContentStore :: content_map where
  "NewInMemoryContentStore = Map.empty"

definition content_store :: "string \<Rightarrow> string \<Rightarrow> ('w, content_map, unit) op" where
  "content_store key content =
     go_bind go_check_ctx (\<lambda>_. go_bind go_get (\<lambda>m. go_put (m(key \<mapsto> content))))"

definition content_load :: "string \<Rightarrow> ('w, content_map, string) op" where
  "content_load key =
     go_bind go_check_ctx (\<lambda>_. go_bind go_get (\<lambda>m.
       case m key of None \<Rightarrow> go_fail (ErrSentinel ErrNotExist) | Some v \<Rightarrow> go_return v))"

definition content_map_ops :: "('w, content_map) content_store_ops" where
  "content_map_ops = \<lparr>cs_store = content_store, cs_load = content_load\<rparr>"

locale content_store_laws =
  fixes ops :: "('w, 'c) content_store_ops"
    and lookup :: "'c \<Rightarrow> string \<Rightarrow> string option"
  assumes store_safe: "cs_store ops k v r c \<noteq> (Panic p, r', c')"
    and store_ok: "cs_store ops k v r c = (Ok u, r', c') \<Longrightarrow> lookup c' = (lookup c)(k \<mapsto> v)"
    and store_err: "cs_store ops k v r c = (Err e, r', c') \<Longrightarrow> lookup c' = lookup c"
    and store_live: "rt_ctx r = Background \<Longrightarrow>
      \<exists>r' c'. cs_store ops k v r c = (Ok (), r', c') \<and> rt_ctx r' = Background"
    and load_live: "rt_ctx r = Background \<Longrightarrow> lookup c k = Some v \<Longrightarrow>
      \<exists>r' c'. cs_load ops k r c = (Ok v, r', c') \<and> lookup c' = lookup c"
begin

lemma load_after_store:
  assumes "rt_ctx r = Background"
  shows "\<exists>r' c' r'' c''. cs_store ops k v r c = (Ok (), r', c') \<and>
    cs_load ops k r' c' = (Ok v, r'', c'')"
proof -
  obtain r' c' where st: "cs_store ops k v r c = (Ok (), r', c')" and bg: "rt_ctx r' = Background"
    using store_live [OF assms] by blast
  have "lookup c' k = Some v" using store_ok [OF st] by simp
  with load_live [OF bg] st show ?thesis by blast
qed

end

interpretation content: content_store_laws content_map_ops "\<lambda>m. m"
  by unfold_locales
    (auto simp: content_map_ops_def content_store_def content_load_def go_bind_def
      go_check_ctx_def go_get_def go_put_def go_return_def go_fail_def poll_def
      split: prod.splits option.splits)

section \<open>Truncating a tool result\<close>

definition DefaultToolResultMaxLen :: int where
  "DefaultToolResultMaxLen = 30000"

definition DefaultRecentToolResultTokens :: int where
  "DefaultRecentToolResultTokens = 40000"

definition truncation_notice :: "int \<Rightarrow> int \<Rightarrow> string \<Rightarrow> string" where
  "truncation_notice X maxLen callID =
     newline @ newline @ ''... [content truncated] ...'' @ newline @
     ''[Original length: '' @ int_text X @ '' chars, truncated to '' @ int_text maxLen @
     '' chars. Full content persisted with ID: '' @ callID @
     ''. Use tool '' @ [CHR 0x27] @ ''fetch_full_result'' @ [CHR 0x27] @ '' with this ID to retrieve the complete content.]'' @
     newline @ newline"

text \<open>
  \<open>content[:headLen] + middle + content[len(content)-tailLen:]\<close>; \<^const>\<open>None\<close> is the panic of
  a slice out of range.
\<close>

definition head_tail :: "string \<Rightarrow> int \<Rightarrow> int \<Rightarrow> string \<Rightarrow> string option" where
  "head_tail content headLen tailLen middle =
     (case (slice content 0 headLen,
            slice content (int (length content) - tailLen) (int (length content))) of
        (Some h, Some t) \<Rightarrow> Some (h @ middle @ t)
      | _ \<Rightarrow> None)"

definition truncate_text :: "string \<Rightarrow> int \<Rightarrow> string \<Rightarrow> string option" where
  "truncate_text content maxLen callID =
     (let ins = truncation_notice (int (length content)) maxLen callID;
          budget = maxLen - int (length ins)
      in if budget < 2 then
           let headLen = go_div (maxLen * 80) 100; tailLen = maxLen - headLen
           in if headLen + tailLen > int (length content) then Some content
              else head_tail content headLen tailLen []
         else
           let headLen = go_div (budget * 80) 100; tailLen = budget - headLen
           in if headLen + tailLen > int (length content) then Some content
              else head_tail content headLen tailLen ins)"

text \<open>
  \<open>TruncateToolResult\<close>, with the store as an optional pair of operations and state; an error of
  \<open>Store\<close> is ignored.
\<close>

definition TruncateToolResult ::
    "('w, 'c) content_store_ops \<Rightarrow> string \<Rightarrow> int \<Rightarrow> string \<Rightarrow> ('w, 'c option, string) op" where
  "TruncateToolResult cs content maxLen callID r store =
     (if int (length content) \<le> maxLen then (Ok content, r, store)
      else
        let (stored, r', store') = (case store of
              None \<Rightarrow> (Ok (), r, None)
            | Some c \<Rightarrow> (case cs_store cs callID content r c of (x, r', c') \<Rightarrow> (x, r', Some c')))
        in case stored of
             Panic p \<Rightarrow> (Panic p, r', store')
           | _ \<Rightarrow>
               (case truncate_text content maxLen callID of
                  Some t \<Rightarrow> (Ok t, r', store')
                | None \<Rightarrow> (Panic ''slice bounds out of range'', r', store')))"

lemma head_tail_Some:
  assumes "0 \<le> h" "0 \<le> t" "h + t \<le> int (length c)"
  shows "head_tail c h t m = Some (take (nat h) c @ m @ drop (length c - nat t) c)"
proof -
  have "slice c 0 h = Some (take (nat h) c)" using assms by (simp add: slice_def)
  moreover have "slice c (int (length c) - t) (int (length c)) = Some (drop (length c - nat t) c)"
    using assms by (simp add: slice_def nat_diff_distrib')
  ultimately show ?thesis by (simp add: head_tail_def)
qed

lemma head_share: "0 \<le> n \<Longrightarrow> 0 \<le> go_div (n * 80) 100 \<and> go_div (n * 80) 100 \<le> n"
  by (simp add: go_div_nonneg) presburger

lemma truncate_text_parts:
  assumes "0 \<le> maxLen" and long: "maxLen < int (length content)"
  shows "\<exists>h t m. truncate_text content maxLen callID = Some (take h content @ m @ drop (length content - t) content)
    \<and> (m = [] \<or> m = truncation_notice (int (length content)) maxLen callID)
    \<and> int (h + t + length m) = maxLen \<and> h + t \<le> length content"
proof -
  let ?ins = "truncation_notice (int (length content)) maxLen callID"
  let ?b = "maxLen - int (length ?ins)"
  have cut: "\<exists>h t. (let hl = go_div (n * 80) 100; tl = n - hl in
        if hl + tl > int (length content) then Some content else head_tail content hl tl m)
      = Some (take h content @ m @ drop (length content - t) content) \<and> int (h + t) = n \<and>
        h + t \<le> length content"
    if "0 \<le> n" "n \<le> maxLen" for n m
  proof -
    from head_share [OF that(1)] obtain hl where hl: "go_div (n * 80) 100 = hl" "0 \<le> hl" "hl \<le> n"
      by auto
    with that long have "head_tail content hl (n - hl) m =
        Some (take (nat hl) content @ m @ drop (length content - nat (n - hl)) content)"
      by (intro head_tail_Some) auto
    with hl that long show ?thesis
      by (intro exI [of _ "nat hl"] exI [of _ "nat (n - hl)"] conjI) (auto simp: Let_def)
  qed
  show ?thesis
  proof (cases "?b < 2")
    case True
    have "truncate_text content maxLen callID =
      (let hl = go_div (maxLen * 80) 100; tl = maxLen - hl in
        if hl + tl > int (length content) then Some content else head_tail content hl tl [])"
      using True by (simp add: truncate_text_def Let_def)
    with cut [of maxLen "[]"] assms(1) obtain h t where
      "truncate_text content maxLen callID = Some (take h content @ [] @ drop (length content - t) content)"
      "int (h + t) = maxLen" "h + t \<le> length content"
      by fastforce
    then show ?thesis by (intro exI [of _ h] exI [of _ t] exI [of _ "[]"]) simp
  next
    case False
    have "truncate_text content maxLen callID =
      (let hl = go_div (?b * 80) 100; tl = ?b - hl in
        if hl + tl > int (length content) then Some content else head_tail content hl tl ?ins)"
      using False by (simp add: truncate_text_def Let_def)
    with cut [of ?b ?ins] False obtain h t where
      "truncate_text content maxLen callID = Some (take h content @ ?ins @ drop (length content - t) content)"
      "int (h + t) = ?b" "h + t \<le> length content"
      by fastforce
    then show ?thesis by (intro exI [of _ h] exI [of _ t] exI [of _ ?ins]) auto
  qed
qed

lemma truncate_text_length:
  assumes "0 \<le> maxLen" and "maxLen < int (length content)"
  shows "\<exists>t. truncate_text content maxLen callID = Some t \<and> int (length t) = maxLen"
  using truncate_text_parts [OF assms, of callID] by force



section \<open>Token estimates and the decision to compress\<close>

definition estimateTokens :: "string \<Rightarrow> int" where
  "estimateTokens s = go_div (int (length s)) 4"

fun estimateMessagesTokens :: "chat_message list \<Rightarrow> int" where
  "estimateMessagesTokens [] = 0"
| "estimateMessagesTokens (m # ms) = estimateTokens (msg_content m) + estimateMessagesTokens ms"

text \<open>
  A \<open>ContextCompressor\<close>. Its model may be nil, when both models it was built from are. The ratio
  and the quotient compared with it are \<open>float64\<close> in the code and exact rationals here.
\<close>

record 'w context_compressor =
  cc_model :: "'w chat_model option"
  cc_prompt :: string
  cc_max_ratio :: rat

definition DefaultCompressPrompt :: string where
  "DefaultCompressPrompt = join newline
    [''You are a conversation context compression assistant. Your task is to compress the conversation history below into a structured summary while preserving all critical information.'',
     [],
     ''Requirements:'',
     ''1. Preserve the user'' @ [CHR 0x27] @ ''s core goals and specific instructions exactly as stated'',
     ''2. Retain all important findings, conclusions, and error messages'',
     ''3. Record completed steps with their outcomes (success/failure/partial)'',
     ''4. Keep all key file paths, code references, URLs, and identifiers'',
     ''5. Do not omit any unfinished tasks, pending decisions, or open questions'',
     ''6. Use concise language '' @ [CHR 0xE2, CHR 0x80, CHR 0x94] @ '' eliminate redundancy but never lose meaning'',
     [],
     ''Output the summary as a JSON object with these fields: goals, instructions, findings, progress, reference_files'']"

definition NewContextCompressor ::
    "'w chat_model option \<Rightarrow> 'w chat_model option \<Rightarrow> string \<Rightarrow> rat \<Rightarrow> 'w context_compressor" where
  "NewContextCompressor mainModel compressModel prompt ratio =
     \<lparr>cc_model = (case compressModel of None \<Rightarrow> mainModel | Some m \<Rightarrow> Some m),
      cc_prompt = (if prompt = [] then DefaultCompressPrompt else prompt),
      cc_max_ratio = (if ratio \<le> 0 \<or> ratio > 1 then 9 / 10 else ratio)\<rparr>"

definition ShouldCompress :: "'w context_compressor \<Rightarrow> chat_message list \<Rightarrow> int \<Rightarrow> bool" where
  "ShouldCompress c messages modelMaxTokens =
     (if modelMaxTokens \<le> 0 then False
      else rat_of_int (estimateMessagesTokens messages) / rat_of_int modelMaxTokens > cc_max_ratio c)"

section \<open>Replacing the context by a summary\<close>

record conversation_summary =
  cvs_goals :: string
  cvs_instructions :: string
  cvs_findings :: string
  cvs_progress :: string
  cvs_reference_files :: string

definition empty_summary :: conversation_summary where
  "empty_summary =
     \<lparr>cvs_goals = [], cvs_instructions = [], cvs_findings = [], cvs_progress = [],
      cvs_reference_files = []\<rparr>"

definition summary_field :: "string \<Rightarrow> gval \<Rightarrow> conversation_summary \<Rightarrow> conversation_summary option" where
  "summary_field k v s =
     (if field_is ''goals'' k then decode_string (\<lambda>t s. s\<lparr>cvs_goals := t\<rparr>) v s
      else if field_is ''instructions'' k then decode_string (\<lambda>t s. s\<lparr>cvs_instructions := t\<rparr>) v s
      else if field_is ''findings'' k then decode_string (\<lambda>t s. s\<lparr>cvs_findings := t\<rparr>) v s
      else if field_is ''progress'' k then decode_string (\<lambda>t s. s\<lparr>cvs_progress := t\<rparr>) v s
      else if field_is ''reference_files'' k then decode_string (\<lambda>t s. s\<lparr>cvs_reference_files := t\<rparr>) v s
      else Some s)"

definition serializeMessages :: "chat_message list \<Rightarrow> string" where
  "serializeMessages messages =
     concat (map (\<lambda>m. ''['' @ msg_role m @ '']: '' @ msg_content m @ newline) messages)"

definition renderSummary :: "conversation_summary \<Rightarrow> string" where
  "renderSummary s =
     ''## Goals'' @ newline @ newline @ cvs_goals s @
     newline @ newline @ ''## Instructions'' @ newline @ newline @ cvs_instructions s @
     newline @ newline @ ''## Findings'' @ newline @ newline @ cvs_findings s @
     newline @ newline @ ''## Progress'' @ newline @ newline @ cvs_progress s @
     newline @ newline @ ''## Reference files'' @ newline @ newline @ cvs_reference_files s"

text \<open>\<open>messages[lastAsst:]\<close>, or nothing when there is no message of the assistant.\<close>

fun from_last_assistant :: "chat_message list \<Rightarrow> chat_message list" where
  "from_last_assistant [] = []"
| "from_last_assistant (m # ms) =
     (let recent = from_last_assistant ms in
      if recent \<noteq> [] then recent else if msg_role m = RoleAssistant then m # ms else [])"

definition summary_text :: "string \<Rightarrow> string" where
  "summary_text answer =
     (let raw = trim_space answer in
      renderSummary (case unmarshal summary_field empty_summary raw of
          Some s \<Rightarrow> s
        | None \<Rightarrow> empty_summary\<lparr>cvs_goals := raw\<rparr>))"

definition Compress ::
    "'w context_compressor \<Rightarrow> chat_message list \<Rightarrow> ('w, 's, chat_message list) op" where
  "Compress c messages r s =
     (case cc_model c of
        None \<Rightarrow> (Panic ''nil model'', r, s)
      | Some m \<Rightarrow>
          (case cm_generate m r
             [text_message RoleUser (cc_prompt c @ newline @ newline @ ''---'' @ newline @ newline @
                serializeMessages messages)] [] of
             (Inl e, r') \<Rightarrow> (Err e, r', s)
           | (Inr None, r') \<Rightarrow> (Panic ''nil response'', r', s)
           | (Inr (Some resp), r') \<Rightarrow>
               (Ok (take (leading_system messages) messages @
                    [text_message RoleUser (summary_text (msg_content (resp_message resp)))] @
                    from_last_assistant messages), r', s)))"

section \<open>Pruning repeated failures\<close>

definition isToolFailureContent :: "string \<Rightarrow> bool" where
  "isToolFailureContent content =
     (let t = trim_space content in
      if t = [] then False
      else let lower = to_lower t in
        if has_prefix ''error'' lower then True else contains lower ''error:'')"

definition isAssistantWithToolCalls :: "chat_message \<Rightarrow> bool" where
  "isAssistantWithToolCalls m \<longleftrightarrow> msg_role m = RoleAssistant \<and> length (msg_tool_calls m) > 0"

definition failed_pair :: "chat_message \<Rightarrow> chat_message \<Rightarrow> bool" where
  "failed_pair a t \<longleftrightarrow>
     isAssistantWithToolCalls a \<and> msg_role t = RoleTool \<and> isToolFailureContent (msg_content t)"

text \<open>The inner loop: the last pair of a run of failures of one tool, and what follows the run.\<close>

fun run_end ::
    "string \<Rightarrow> chat_message \<Rightarrow> chat_message \<Rightarrow> chat_message list \<Rightarrow>
     chat_message \<times> chat_message \<times> chat_message list" where
  "run_end toolName a t (b # u # ms) =
     (if failed_pair b u \<and> msg_name u = toolName then run_end toolName b u ms
      else (a, t, b # u # ms))"
| "run_end toolName a t ms = (a, t, ms)"

lemma run_end_length: "run_end n a t ms = (x, y, rest) \<Longrightarrow> length rest \<le> length ms"
  by (induction n a t ms rule: run_end.induct) (auto split: if_splits)

function prune :: "chat_message list \<Rightarrow> chat_message list" where
  "prune [] = []"
| "prune [m] = [m]"
| "prune (a # t # ms) =
     (if failed_pair a t
      then (case run_end (msg_name t) a t ms of (x, y, rest) \<Rightarrow> x # y # prune rest)
      else a # prune (t # ms))"
  by pat_completeness auto
termination
  by (relation "measure length") (auto dest!: run_end_length [OF sym])

definition PruneConsecutiveFailures :: "chat_message list \<Rightarrow> chat_message list" where
  "PruneConsecutiveFailures messages = (if length messages < 2 then messages else prune messages)"

text \<open>
  The specification is a rewrite rule: of two adjacent failures of one tool the first goes.
\<close>

inductive drop_failure :: "chat_message list \<Rightarrow> chat_message list \<Rightarrow> bool" where
  drop_failure: "failed_pair a t \<Longrightarrow> failed_pair b u \<Longrightarrow> msg_name t = msg_name u \<Longrightarrow>
     drop_failure (us @ [a, t, b, u] @ vs) (us @ [b, u] @ vs)"

lemma drop_failure_Cons: "drop_failure xs ys \<Longrightarrow> drop_failure (x # xs) (x # ys)"
proof (induction rule: drop_failure.induct)
  case (drop_failure a t b u us vs)
  then show ?case using drop_failure.drop_failure [of a t b u "x # us" vs] by simp
qed

lemma drop_failures_Cons: "drop_failure\<^sup>*\<^sup>* xs ys \<Longrightarrow> drop_failure\<^sup>*\<^sup>* (x # xs) (x # ys)"
  by (induction rule: rtranclp_induct) (auto intro: rtranclp.rtrancl_into_rtrancl drop_failure_Cons)

lemma run_end_drops:
  "run_end n a t ms = (x, y, rest) \<Longrightarrow> failed_pair a t \<Longrightarrow> msg_name t = n \<Longrightarrow>
   drop_failure\<^sup>*\<^sup>* (a # t # ms) (x # y # rest) \<and> failed_pair x y \<and> msg_name y = n \<and>
   (\<forall>b u vs. rest = b # u # vs \<longrightarrow> failed_pair b u \<longrightarrow> msg_name u \<noteq> n)"
proof (induction n a t ms rule: run_end.induct)
  case (1 n a t b u ms)
  show ?case
  proof (cases "failed_pair b u \<and> msg_name u = n")
    case True
    then have "drop_failure (a # t # b # u # ms) (b # u # ms)"
      using "1.prems" drop_failure.drop_failure [of a t b u "[]" ms] by simp
    with 1 True show ?thesis by (auto intro: converse_rtranclp_into_rtranclp)
  next
    case False
    with 1 show ?thesis by auto
  qed
qed auto

lemma prune_drops: "drop_failure\<^sup>*\<^sup>* xs (prune xs)"
proof (induction xs rule: prune.induct)
  case (3 a t ms)
  show ?case
  proof (cases "failed_pair a t")
    case True
    obtain x y rest where re: "run_end (msg_name t) a t ms = (x, y, rest)"
      using prod_cases3 by blast
    with True 3 have "drop_failure\<^sup>*\<^sup>* rest (prune rest)" by auto
    then have "drop_failure\<^sup>*\<^sup>* (x # y # rest) (x # y # prune rest)"
      by (intro drop_failures_Cons)
    with run_end_drops [OF re True] True re show ?thesis by (auto intro: rtranclp_trans)
  next
    case False
    with 3 show ?thesis by (auto intro: drop_failures_Cons)
  qed
qed auto

fun repeat_here :: "chat_message list \<Rightarrow> bool" where
  "repeat_here (a # t # b # u # ms) \<longleftrightarrow> failed_pair a t \<and> failed_pair b u \<and> msg_name t = msg_name u"
| "repeat_here _ \<longleftrightarrow> False"

fun repeats :: "chat_message list \<Rightarrow> bool" where
  "repeats [] \<longleftrightarrow> False"
| "repeats (x # xs) \<longleftrightarrow> repeat_here (x # xs) \<or> repeats xs"

lemma drop_failure_repeats: "drop_failure xs ys \<Longrightarrow> repeats xs"
proof (induction rule: drop_failure.induct)
  case (drop_failure a t b u us vs)
  then show ?case by (induction us) auto
qed

lemma failed_pair_roles: "failed_pair a t \<Longrightarrow> msg_role a = RoleAssistant \<and> msg_role t = RoleTool"
  by (simp add: failed_pair_def isAssistantWithToolCalls_def)

text \<open>What \<open>prune\<close> starts with: the message it was given, or the last pair of the first run.\<close>

lemma prune_head:
  "prune (m # ms) = z # zs \<Longrightarrow> msg_role z = RoleTool \<Longrightarrow> z = m"
  by (cases ms) (force dest: failed_pair_roles dest!: run_end_drops split: if_splits prod.splits)+

lemma prune_head_pair:
  assumes "prune xs = b # u # zs" and "failed_pair b u"
  shows "\<exists>b' u' zs'. xs = b' # u' # zs' \<and> failed_pair b' u' \<and> msg_name u' = msg_name u"
proof (cases xs rule: prune.cases)
  case (3 a t ms)
  show ?thesis
  proof (cases "failed_pair a t")
    case True
    obtain x y rest where "run_end (msg_name t) a t ms = (x, y, rest)"
      using prod_cases3 by blast
    with assms 3 True run_end_drops [OF this True] show ?thesis by auto
  next
    case False
    with assms 3 have "a = b" "prune (t # ms) = u # zs" by auto
    with assms(2) failed_pair_roles have "u = t" by (blast dest: prune_head)
    with False assms(2) \<open>a = b\<close> show ?thesis by simp
  qed
qed (use assms in auto)

lemma repeat_here_iff:
  "repeat_here xs \<longleftrightarrow> (\<exists>a t b u ms. xs = a # t # b # u # ms \<and>
     failed_pair a t \<and> failed_pair b u \<and> msg_name t = msg_name u)"
  by (cases xs rule: repeat_here.cases) auto

lemma prune_no_repeats: "\<not> repeats (prune xs)"
proof (induction xs rule: prune.induct)
  case (3 a t ms)
  show ?case
  proof (cases "failed_pair a t")
    case True
    obtain x y rest where re: "run_end (msg_name t) a t ms = (x, y, rest)"
      using prod_cases3 by blast
    note d = run_end_drops [OF re True refl]
    have "\<not> repeat_here (x # y # prune rest)"
      using d by (auto simp: repeat_here_iff dest!: prune_head_pair)
    moreover have "\<not> repeat_here (y # prune rest)"
      using d by (auto simp: repeat_here_iff dest!: failed_pair_roles)
    ultimately show ?thesis using 3 True re by auto
  next
    case False
    have "\<not> repeat_here (a # prune (t # ms))"
    proof
      assume "repeat_here (a # prune (t # ms))"
      then obtain t' b u zs where p: "prune (t # ms) = t' # b # u # zs" and f: "failed_pair a t'"
        by (auto simp: repeat_here_iff)
      from prune_head [OF p] failed_pair_roles [OF f] have "t' = t" by simp
      with f False show False by simp
    qed
    with 3 False show ?thesis by simp
  qed
qed auto

lemma prune_normal: "\<not> repeats xs \<Longrightarrow> drop_failure\<^sup>*\<^sup>* xs ys \<Longrightarrow> ys = xs"
  by (erule converse_rtranclpE) (auto dest: drop_failure_repeats)

lemma PruneConsecutiveFailures_prune: "PruneConsecutiveFailures xs = prune xs"
  by (cases xs rule: prune.cases) (auto simp: PruneConsecutiveFailures_def)

text \<open>
  \<open>PruneConsecutiveFailures\<close> computes the normal form of the rewrite rule that deletes the
  first of two adjacent failures of one tool: the result is reached by that rule alone, so nothing
  but such pairs is lost, the rule does not apply to the result any more, and pruning again
  changes nothing.
\<close>

theorem prune_normal_form:
  "drop_failure\<^sup>*\<^sup>* msgs (PruneConsecutiveFailures msgs) \<and>
   (\<nexists>fewer. drop_failure (PruneConsecutiveFailures msgs) fewer) \<and>
   PruneConsecutiveFailures (PruneConsecutiveFailures msgs) = PruneConsecutiveFailures msgs"
  unfolding PruneConsecutiveFailures_prune
  using prune_drops prune_no_repeats prune_normal drop_failure_repeats by blast

section \<open>Clearing old tool results\<close>

definition cleared :: string where
  "cleared = ''[Old tool result content cleared]''"

definition live_result :: "chat_message \<Rightarrow> bool" where
  "live_result m \<longleftrightarrow> msg_role m = RoleTool \<and> msg_content m \<noteq> cleared"

definition clear_result :: "chat_message \<Rightarrow> chat_message" where
  "clear_result m =
     (if live_result m
      then \<lparr>msg_role = RoleTool, msg_content = cleared, msg_tool_calls = [],
            msg_tool_call_id = msg_tool_call_id m, msg_name = msg_name m\<rparr>
      else m)"

text \<open>The loop runs from the last message to the first: here over the reversed list.\<close>

fun compact_rev :: "int \<Rightarrow> int \<Rightarrow> chat_message list \<Rightarrow> chat_message list" where
  "compact_rev tokenBudget running [] = []"
| "compact_rev tokenBudget running (m # ms) =
     (if msg_role m \<noteq> RoleTool then m # compact_rev tokenBudget running ms
      else if msg_content m = cleared then m # compact_rev tokenBudget running ms
      else let tok = estimateTokens (msg_content m) in
        if running + tok \<le> tokenBudget then m # compact_rev tokenBudget (running + tok) ms
        else map clear_result (m # ms))"

definition CompactStaleToolResults :: "chat_message list \<Rightarrow> int \<Rightarrow> chat_message list" where
  "CompactStaleToolResults messages tokenBudget = rev (compact_rev tokenBudget 0 (rev messages))"

definition live_tokens :: "chat_message list \<Rightarrow> int" where
  "live_tokens ms = estimateMessagesTokens (filter live_result ms)"

lemma live_tokens_simps [simp]:
  "live_tokens [] = 0"
  "live_tokens (m # ms) = (if live_result m then estimateTokens (msg_content m) else 0) + live_tokens ms"
  by (simp_all add: live_tokens_def)

lemma live_tokens_append: "live_tokens (xs @ ys) = live_tokens xs + live_tokens ys"
  by (induction xs) auto

lemma live_tokens_rev [simp]: "live_tokens (rev xs) = live_tokens xs"
  by (induction xs) (auto simp: live_tokens_append)

lemma estimateTokens_nonneg [simp]: "0 \<le> estimateTokens s"
  by (simp add: estimateTokens_def go_div_nonneg)

lemma clear_result_dead [simp]: "\<not> live_result (clear_result m)"
  by (simp add: clear_result_def live_result_def)

lemma live_tokens_clear [simp]: "live_tokens (map clear_result ms) = 0"
  by (induction ms) auto

lemma compact_rev_split:
  "\<exists>kept old. ms = kept @ old \<and> compact_rev b running ms = kept @ map clear_result old \<and>
     running + live_tokens kept \<le> max running b \<and>
     (old = [] \<or> live_result (hd old) \<and> b < running + live_tokens (kept @ [hd old]))"
proof (induction b running ms rule: compact_rev.induct)
  case (2 b running m ms)
  let ?tok = "estimateTokens (msg_content m)"
  consider (dead) "\<not> live_result m" | (fits) "live_result m" "running + ?tok \<le> b"
    | (over) "live_result m" "b < running + ?tok"
    by force
  then show ?case
  proof cases
    case dead
    with 2 obtain kept old where "ms = kept @ old"
        "compact_rev b running ms = kept @ map clear_result old"
        "running + live_tokens kept \<le> max running b"
        "old = [] \<or> live_result (hd old) \<and> b < running + live_tokens (kept @ [hd old])"
      unfolding live_result_def by blast
    with dead show ?thesis by (intro exI [of _ "m # kept"] exI [of _ old]) (auto simp: live_result_def)
  next
    case fits
    with 2 obtain kept old where "ms = kept @ old"
        "compact_rev b (running + ?tok) ms = kept @ map clear_result old"
        "running + ?tok + live_tokens kept \<le> max (running + ?tok) b"
        "old = [] \<or> live_result (hd old) \<and> b < running + ?tok + live_tokens (kept @ [hd old])"
      unfolding live_result_def by metis
    with fits show ?thesis
      by (intro exI [of _ "m # kept"] exI [of _ old]) (auto simp: live_result_def Let_def)
  next
    case over
    then show ?thesis
      by (intro exI [of _ "[]"] exI [of _ "m # ms"]) (auto simp: live_result_def Let_def)
  qed
qed simp

text \<open>
  \<open>CompactStaleToolResults\<close> keeps the longest end of the conversation whose tool results fit
  in the budget and clears every tool result before it: what is not a tool result, the roles, the
  call IDs and the number of messages stay; and the results left live never exceed the budget.
\<close>

theorem compact_keeps_recent:
  "\<exists>old kept. msgs = old @ kept \<and>
     CompactStaleToolResults msgs budget = map clear_result old @ kept \<and>
     live_tokens (CompactStaleToolResults msgs budget) \<le> max 0 budget \<and>
     (old = [] \<or> live_result (last old) \<and> budget < live_tokens (last old # kept))"
proof -
  obtain kept old where s: "rev msgs = kept @ old"
      "compact_rev budget 0 (rev msgs) = kept @ map clear_result old"
      "0 + live_tokens kept \<le> max 0 budget"
      "old = [] \<or> live_result (hd old) \<and> budget < 0 + live_tokens (kept @ [hd old])"
    using compact_rev_split [of "rev msgs" budget 0] by blast
  from s(1) have "msgs = rev old @ rev kept" by (metis rev_append rev_rev_ident)
  with s show ?thesis
    by (intro exI [of _ "rev old"] exI [of _ "rev kept"])
      (auto simp: CompactStaleToolResults_def rev_map last_rev live_tokens_append)
qed

section \<open>Tool results stay with their calls\<close>

text \<open>
  A provider rejects a tool message that does not answer a call of the assistant message before
  it. \<open>paired ids ms\<close>: every tool message of \<open>ms\<close> answers such a call, when \<open>ids\<close> are the calls
  that may be answered at the start.
\<close>

fun paired :: "string list \<Rightarrow> chat_message list \<Rightarrow> bool" where
  "paired ids [] \<longleftrightarrow> True"
| "paired ids (m # ms) \<longleftrightarrow>
     (if msg_role m = RoleTool then msg_tool_call_id m \<in> set ids \<and> paired ids ms
      else paired (if msg_role m = RoleAssistant then map tc_id (msg_tool_calls m) else []) ms)"

lemma paired_tail: "paired ids (us @ a # vs) \<Longrightarrow> msg_role a \<noteq> RoleTool \<Longrightarrow> paired ids' (a # vs)"
  by (induction us arbitrary: ids) (auto split: if_splits)

lemma paired_replace_tail:
  "paired ids (us @ vs) \<Longrightarrow> (\<And>ids'. paired ids' vs \<Longrightarrow> paired ids' ws) \<Longrightarrow> paired ids (us @ ws)"
  by (induction us arbitrary: ids) (auto split: if_splits)

lemma drop_failure_paired: "drop_failure xs ys \<Longrightarrow> paired ids xs \<Longrightarrow> paired ids ys"
proof (induction rule: drop_failure.induct)
  case (drop_failure a t b u us vs)
  show ?case
    by (rule paired_replace_tail [OF drop_failure.prems])
      (use drop_failure.hyps in \<open>auto dest!: failed_pair_roles\<close>)
qed

lemma drop_failures_paired: "drop_failure\<^sup>*\<^sup>* xs ys \<Longrightarrow> paired ids xs \<Longrightarrow> paired ids ys"
  by (induction rule: rtranclp_induct) (auto dest: drop_failure_paired)

lemma clear_result_sel [simp]:
  "msg_role (clear_result m) = msg_role m"
  "msg_tool_call_id (clear_result m) = msg_tool_call_id m"
  "msg_role m \<noteq> RoleTool \<Longrightarrow> clear_result m = m"
  by (auto simp: clear_result_def live_result_def)

lemma paired_clear: "paired ids (map clear_result xs @ ys) = paired ids (xs @ ys)"
  by (induction xs arbitrary: ids) auto

lemma from_last_assistant_split:
  "(\<exists>us a vs. ms = us @ a # vs \<and> msg_role a = RoleAssistant \<and> from_last_assistant ms = a # vs \<and>
     (\<forall>v \<in> set vs. msg_role v \<noteq> RoleAssistant)) \<or>
   (from_last_assistant ms = [] \<and> (\<forall>m \<in> set ms. msg_role m \<noteq> RoleAssistant))"
proof (induction ms)
  case (Cons m ms)
  then show ?case
  proof (elim disjE exE conjE)
    fix us a vs
    assume "ms = us @ a # vs" "msg_role a = RoleAssistant" "from_last_assistant ms = a # vs"
      "\<forall>v \<in> set vs. msg_role v \<noteq> RoleAssistant"
    then show ?thesis by (intro disjI1 exI [of _ "m # us"] exI [of _ a] exI [of _ vs]) simp
  next
    assume "from_last_assistant ms = []" "\<forall>m \<in> set ms. msg_role m \<noteq> RoleAssistant"
    then show ?thesis by (cases "msg_role m = RoleAssistant") fastforce+
  qed
qed simp

lemma paired_system_prefix:
  "\<forall>m \<in> set us. is_system m \<Longrightarrow> paired [] (us @ vs) = paired [] vs"
  by (induction us) (auto simp: is_system_def)

text \<open>
  C15. None of the three ways of shrinking a conversation separates a tool result from its call:
  if every tool message answers a call of the assistant message before it, this is still so after
  \<open>PruneConsecutiveFailures\<close>, after \<open>CompactStaleToolResults\<close> and after a successful
  \<open>Compress\<close>, whatever the model answers.
\<close>

theorem compression_keeps_pairs:
  assumes "paired [] msgs"
  shows "paired [] (PruneConsecutiveFailures msgs) \<and>
    paired [] (CompactStaleToolResults msgs budget) \<and>
    (\<forall>out r' s'. Compress c msgs r s = (Ok out, r', s') \<longrightarrow> paired [] out)"
proof (intro conjI allI impI)
  show "paired [] (PruneConsecutiveFailures msgs)"
    unfolding PruneConsecutiveFailures_prune
    using prune_drops assms by (rule drop_failures_paired)
next
  obtain old kept where "msgs = old @ kept"
      "rev (compact_rev budget 0 (rev msgs)) = map clear_result old @ kept"
    using compact_rev_split [of "rev msgs" budget 0]
    by (metis rev_append rev_map rev_rev_ident)
  with assms show "paired [] (CompactStaleToolResults msgs budget)"
    by (simp add: CompactStaleToolResults_def paired_clear)
next
  fix out r' s' assume "Compress c msgs r s = (Ok out, r', s')"
  then obtain t where out: "out = take (leading_system msgs) msgs @
      [text_message RoleUser t] @ from_last_assistant msgs"
    by (auto simp: Compress_def split: option.splits prod.splits sum.splits)
  have sys: "\<forall>m \<in> set (take (leading_system msgs) msgs). is_system m"
    by (auto simp: leading_system_def simp flip: takeWhile_eq_take dest: set_takeWhileD)
  have "paired [] (from_last_assistant msgs)"
    using from_last_assistant_split [of msgs] assms by (auto dest: paired_tail)
  with sys show "paired [] out" by (simp add: out paired_system_prefix)
qed

definition failing_call :: "string \<Rightarrow> chat_message list" where
  "failing_call i =
     [(text_message RoleAssistant [])\<lparr>msg_tool_calls := [\<lparr>tc_id = i, tc_name = ''f'', tc_arguments = None\<rparr>]\<rparr>,
      (text_message RoleTool ''Error: x'')\<lparr>msg_tool_call_id := i, msg_name := ''f''\<rparr>]"

lemma compression_keeps_pairs_witness:
  "paired [] (failing_call ''1'' @ failing_call ''2'') \<and>
   paired [] (PruneConsecutiveFailures (failing_call ''1'' @ failing_call ''2''))"
proof -
  have p: "paired [] (failing_call ''1'' @ failing_call ''2'')"
    by (simp add: failing_call_def text_message_def)
  from p compression_keeps_pairs [OF p, THEN conjunct1] show ?thesis by (rule conjI)
qed

end
