(* ===== verification/Planner.thy ===== *)
theory Planner
  imports ChatModel Json
begin

text \<open>
  Package \<open>planner\<close>: what a planner is asked and what it answers, the ReAct planner, which asks the
  model at every turn, and the plan-and-solve planner, which asks once and then walks the plan.
\<close>

section \<open>Questions and answers (\<open>planner.go\<close>, \<open>mode.go\<close>)\<close>

datatype action_type = ActionToolCall | ActionFinalAnswer | ActionAskHuman

record action =
  act_type :: action_type
  act_tool_name :: string
  act_tool_input :: params
  act_answer :: string

record step_result =
  sr_action :: action
  sr_output :: string
  sr_error :: "goerr option"

record tool_info =
  ti_name :: string
  ti_description :: string
  ti_schema :: any_schema

record plan_state =
  ps_messages :: "chat_message list"
  ps_tools :: "tool_info list"
  ps_history :: "step_result list"

record plan_result =
  pr_action :: action
  pr_reasoning :: string

datatype execution_mode = ModeReAct | ModePlanAndSolve

fun execution_mode_String :: "execution_mode \<Rightarrow> string" where
  "execution_mode_String ModeReAct = ''ReAct''"
| "execution_mode_String ModePlanAndSolve = ''PlanAndSolve''"

definition tool_action :: "string \<Rightarrow> params \<Rightarrow> action" where
  "tool_action name input =
     \<lparr>act_type = ActionToolCall, act_tool_name = name, act_tool_input = input, act_answer = []\<rparr>"

definition answer_action :: "string \<Rightarrow> action" where
  "answer_action a =
     \<lparr>act_type = ActionFinalAnswer, act_tool_name = [], act_tool_input = None, act_answer = a\<rparr>"

definition ask_action :: "string \<Rightarrow> action" where
  "ask_action a =
     \<lparr>act_type = ActionAskHuman, act_tool_name = [], act_tool_input = None, act_answer = a\<rparr>"

text \<open>
  \<open>p.model.Generate(...)\<close> with the planner as the state of the operation, followed by the test for
  the nil response.
\<close>

definition planner_generate ::
    "'w chat_model \<Rightarrow> string \<Rightarrow> chat_message list \<Rightarrow> model_option list \<Rightarrow> ('w, 'p, chat_message) op" where
  "planner_generate m who msgs opts r p =
     (case cm_generate m r msgs opts of
        (Inl e, r') \<Rightarrow> (Err e, r', p)
      | (Inr None, r') \<Rightarrow> (Err (ErrNew (who @ '': empty response'')), r', p)
      | (Inr (Some resp), r') \<Rightarrow> (Ok (resp_message resp), r', p))"

section \<open>ReAct (\<open>react.go\<close>)\<close>

record 'w react_planner =
  re_model :: "'w chat_model option"
  re_system_prompt :: string

definition NewReAct :: "'w chat_model option \<Rightarrow> string option \<Rightarrow> 'w react_planner" where
  "NewReAct m prompt = \<lparr>re_model = m, re_system_prompt = zero_string prompt\<rparr>"

definition defaultReActSystem :: string where
  "defaultReActSystem = ''You are a ReAct agent. Reason step by step in your visible text, call tools when you need external actions or data, and give a concise final answer in plain text when the task is done.''"

definition buildReActMessages :: "plan_state \<Rightarrow> string \<Rightarrow> chat_message list" where
  "buildReActMessages st systemPrompt =
     (if ps_messages st \<noteq> [] then ps_messages st
      else let sp = trim_space systemPrompt
        in [text_message RoleSystem (if sp = [] then defaultReActSystem else sp)])"

definition toolInfosToToolDefs :: "tool_info list \<Rightarrow> tool_def list" where
  "toolInfosToToolDefs tools =
     map (\<lambda>t. \<lparr>td_name = ti_name t, td_description = ti_description t,
               td_parameters = (if ti_schema t = SchemaNil then SchemaEmptyMap else ti_schema t)\<rparr>) tools"

text \<open>One entry of the map: a text that is a JSON object becomes that object.\<close>

definition normalize_value :: "gval \<Rightarrow> gval" where
  "normalize_value v =
     (case v of
        VStr x \<Rightarrow>
          let s = trim_space x in
          (case json_parse s of
             Some (VMap m) \<Rightarrow> if s \<noteq> [] \<and> (hd s = CHR ''{'' \<or> hd s = CHR ''['') then VMap m else v
           | _ \<Rightarrow> v)
      | _ \<Rightarrow> v)"

definition normalizeToolInput :: "params \<Rightarrow> params" where
  "normalizeToolInput v =
     (case v of None \<Rightarrow> Some [] | Some m \<Rightarrow> Some (map (\<lambda>(k, x). (k, normalize_value x)) m))"

definition react_answer :: "chat_message \<Rightarrow> plan_result" where
  "react_answer msg =
     (let reasoning = trim_space (msg_content msg) in
      case msg_tool_calls msg of
        tc # _ \<Rightarrow>
          \<lparr>pr_action = tool_action (trim_space (tc_name tc)) (normalizeToolInput (tc_arguments tc)),
           pr_reasoning = reasoning\<rparr>
      | [] \<Rightarrow> \<lparr>pr_action = answer_action (trim_space (msg_content msg)), pr_reasoning = reasoning\<rparr>)"

definition react_Plan :: "plan_state \<Rightarrow> ('w, 'w react_planner, plan_result) op" where
  "react_Plan st r p =
     (case re_model p of
        None \<Rightarrow> (Err (ErrNew ''react: model is nil''), r, p)
      | Some m \<Rightarrow>
          let msgs = buildReActMessages st (re_system_prompt p);
              toolDefs = toolInfosToToolDefs (ps_tools st);
              opts = (if length toolDefs > 0 then [WithTools toolDefs] else [])
          in go_bind (planner_generate m ''react'' msgs opts) (\<lambda>msg. go_return (react_answer msg)) r p)"

section \<open>Plan and solve (\<open>plan_and_solve.go\<close>): the state\<close>

datatype step_status = StepPending | StepRunning | StepDone | StepFailed | StepSkipped

record plan_step =
  step_id :: int
  step_description :: string
  step_action :: action
  step_status :: step_status
  step_result_text :: string

record action_plan =
  ap_steps :: "plan_step list"
  ap_current :: nat

record 'w pas_planner =
  pas_model :: "'w chat_model option"
  pas_plan_prompt :: string
  pas_solve_prompt :: string
  pas_plan :: "action_plan option"

type_synonym 'w pas_option = "'w pas_planner \<Rightarrow> 'w pas_planner"

definition WithPlanPrompt :: "string \<Rightarrow> 'w pas_option" where
  "WithPlanPrompt s p = p\<lparr>pas_plan_prompt := s\<rparr>"

definition WithSolvePrompt :: "string \<Rightarrow> 'w pas_option" where
  "WithSolvePrompt s p = p\<lparr>pas_solve_prompt := s\<rparr>"

definition NewPlanAndSolve :: "'w chat_model option \<Rightarrow> 'w pas_option list \<Rightarrow> 'w pas_planner" where
  "NewPlanAndSolve m opts =
     fold (\<lambda>f p. f p) opts
       \<lparr>pas_model = m, pas_plan_prompt = [], pas_solve_prompt = [], pas_plan = None\<rparr>"

definition q :: string where
  "q = [quote_char]"

definition defaultPlanPrompt :: string where
  "defaultPlanPrompt =
     ''You break down the user task into an ordered list of steps. Each step either calls one tool by exact name from the provided list, asks the user a question, or states a final answer. Respond with ONE JSON object only, no markdown fences. Schema: {'' @
     q @ ''steps'' @ q @ '':[{'' @ q @ ''step_id'' @ q @ '':number,'' @ q @ ''description'' @ q @ '':string,'' @
     q @ ''type'' @ q @ '':'' @ q @ ''tool_call'' @ q @ ''|'' @ q @ ''final_answer'' @ q @ ''|'' @ q @ ''ask_human'' @ q @
     '','' @ q @ ''tool_name'' @ q @ '':string,'' @ q @ ''tool_input'' @ q @ '':object,'' @ q @ ''answer'' @ q @
     '':string}]}. Use type tool_call with tool_name and tool_input; type final_answer with answer; type ask_human with answer as the question. Omit unused fields.''"

definition defaultSolvePrompt :: string where
  "defaultSolvePrompt = ''Execute steps in order. tool_input must be a JSON object matching the tool schema.''"

section \<open>Reading a plan\<close>

definition code_fence :: string where
  "code_fence = [CHR 0x60, CHR 0x60, CHR 0x60]"

text \<open>The text between the first code fence, past its line, and the next one.\<close>

definition unfence :: "string \<Rightarrow> string" where
  "unfence s =
     (case index_of code_fence s of
        None \<Rightarrow> s
      | Some i \<Rightarrow>
          let rest = drop (i + 3) s;
              rest = (case index_of newline rest of Some nl \<Rightarrow> drop (nl + 1) rest | None \<Rightarrow> rest)
          in case index_of code_fence rest of Some j \<Rightarrow> trim_space (take j rest) | None \<Rightarrow> s)"

definition extractJSONObject :: "string \<Rightarrow> string" where
  "extractJSONObject s0 =
     (let s = unfence (trim_space s0) in
      case (index_of ''{'' s, last_index_of ''}'' s) of
        (Some start, Some stop) \<Rightarrow> if stop \<le> start then [] else take (stop + 1 - start) (drop start s)
      | _ \<Rightarrow> [])"

text \<open>The two \<open>json.RawMessage\<close> fields hold text; a missing one is empty.\<close>

record raw_plan_step =
  raw_step_id :: int
  raw_description :: string
  raw_type :: string
  raw_tool_name :: string
  raw_tool_input :: string
  raw_answer :: string
  raw_nested_action :: string

definition zero_raw_step :: raw_plan_step where
  "zero_raw_step =
     \<lparr>raw_step_id = 0, raw_description = [], raw_type = [], raw_tool_name = [],
      raw_tool_input = [], raw_answer = [], raw_nested_action = []\<rparr>"

definition raw_step_field :: "string \<Rightarrow> string \<Rightarrow> raw_plan_step \<Rightarrow> raw_plan_step option" where
  "raw_step_field k t s =
     (if field_is ''step_id'' k then raw_int (\<lambda>i s. s\<lparr>raw_step_id := i\<rparr>) t s
      else if field_is ''description'' k then raw_string (\<lambda>x s. s\<lparr>raw_description := x\<rparr>) t s
      else if field_is ''type'' k then raw_string (\<lambda>x s. s\<lparr>raw_type := x\<rparr>) t s
      else if field_is ''tool_name'' k then raw_string (\<lambda>x s. s\<lparr>raw_tool_name := x\<rparr>) t s
      else if field_is ''tool_input'' k then Some (s\<lparr>raw_tool_input := t\<rparr>)
      else if field_is ''answer'' k then raw_string (\<lambda>x s. s\<lparr>raw_answer := x\<rparr>) t s
      else if field_is ''action'' k then Some (s\<lparr>raw_nested_action := t\<rparr>)
      else Some s)"

text \<open>The anonymous struct of a nested action: the four fields it has.\<close>

definition inner_field :: "string \<Rightarrow> string \<Rightarrow> raw_plan_step \<Rightarrow> raw_plan_step option" where
  "inner_field k t s =
     (if field_is ''type'' k then raw_string (\<lambda>x s. s\<lparr>raw_type := x\<rparr>) t s
      else if field_is ''tool_name'' k then raw_string (\<lambda>x s. s\<lparr>raw_tool_name := x\<rparr>) t s
      else if field_is ''tool_input'' k then Some (s\<lparr>raw_tool_input := t\<rparr>)
      else if field_is ''answer'' k then raw_string (\<lambda>x s. s\<lparr>raw_answer := x\<rparr>) t s
      else Some s)"

definition parseToolInputRaw :: "string \<Rightarrow> params" where
  "parseToolInputRaw raw =
     (let s = trim_space raw in
      if s = [] \<or> s = ''null'' then Some []
      else case json_parse raw of
        Some (VMap m) \<Rightarrow> Some m
      | Some VNil \<Rightarrow> None
      | Some (VStr str0) \<Rightarrow>
          let str = trim_space str0 in
          if str = [] then Some []
          else (case json_parse str of
            Some (VMap m) \<Rightarrow> Some m
          | Some VNil \<Rightarrow> None
          | _ \<Rightarrow> Some [(''input'', VStr str)])
      | _ \<Rightarrow> Some [(''_raw'', VStr raw)])"

definition use_nested :: "raw_plan_step \<Rightarrow> raw_plan_step" where
  "use_nested rs =
     (if length (raw_nested_action rs) > 0
      then case unmarshal_raw inner_field zero_raw_step (raw_nested_action rs) of
             Some inner \<Rightarrow>
               if raw_type inner \<noteq> [] \<or> raw_tool_name inner \<noteq> [] \<or> raw_answer inner \<noteq> []
               then rs\<lparr>raw_type := raw_type inner, raw_tool_name := raw_tool_name inner,
                       raw_tool_input := raw_tool_input inner, raw_answer := raw_answer inner\<rparr>
               else rs
           | None \<Rightarrow> rs
      else rs)"

text \<open>What follows the \<open>switch\<close> when no case returned.\<close>

definition guess_action :: "raw_plan_step \<Rightarrow> goerr + action" where
  "guess_action rs =
     (if trim_space (raw_answer rs) \<noteq> [] \<and> raw_tool_name rs = [] \<and> raw_tool_input rs = []
      then Inr (answer_action (trim_space (raw_answer rs)))
      else if trim_space (raw_tool_name rs) \<noteq> []
      then Inr (tool_action (trim_space (raw_tool_name rs)) (parseToolInputRaw (raw_tool_input rs)))
      else Inl (ErrNew (''plan-and-solve: cannot map step to action (type='' @ go_quote (raw_type rs) @ '')'')))"

definition rawStepToAction :: "raw_plan_step \<Rightarrow> goerr + action" where
  "rawStepToAction rs0 =
     (let rs = use_nested rs0; typ = to_lower (trim_space (raw_type rs)) in
      if typ = ''tool_call'' \<or> typ = ''tool'' \<or> typ = ''call'' \<or> typ = [] then
        (if trim_space (raw_tool_name rs) \<noteq> [] \<or> length (raw_tool_input rs) > 0
         then Inr (tool_action (trim_space (raw_tool_name rs)) (parseToolInputRaw (raw_tool_input rs)))
         else guess_action rs)
      else if typ = ''final_answer'' \<or> typ = ''answer'' \<or> typ = ''final''
      then Inr (answer_action (trim_space (raw_answer rs)))
      else if typ = ''ask_human'' \<or> typ = ''human'' \<or> typ = ''clarify''
      then Inr (ask_action (trim_space (raw_answer rs)))
      else guess_action rs)"

text \<open>The array of steps: an element may be \<open>null\<close>, and so may the array.\<close>

fun raw_steps :: "string list \<Rightarrow> raw_plan_step list option" where
  "raw_steps [] = Some []"
| "raw_steps (t # ts) =
     (case unmarshal_raw raw_step_field zero_raw_step t of
        None \<Rightarrow> None
      | Some s \<Rightarrow> map_option ((#) s) (raw_steps ts))"

definition plan_file_field :: "string \<Rightarrow> string \<Rightarrow> raw_plan_step list \<Rightarrow> raw_plan_step list option" where
  "plan_file_field k t ss =
     (if field_is ''steps'' k then
        (if json_parse t = Some VNil then Some []
         else case json_array t of None \<Rightarrow> None | Some ts \<Rightarrow> raw_steps ts)
      else Some ss)"

fun plan_steps :: "nat \<Rightarrow> raw_plan_step list \<Rightarrow> goerr + plan_step list" where
  "plan_steps i [] = Inr []"
| "plan_steps i (rs # rss) =
     (case rawStepToAction rs of
        Inl e \<Rightarrow> Inl e
      | Inr act \<Rightarrow>
          (case plan_steps (Suc i) rss of
             Inl e \<Rightarrow> Inl e
           | Inr steps \<Rightarrow>
               Inr (\<lparr>step_id = (if raw_step_id rs = 0 then int i + 1 else raw_step_id rs),
                     step_description = trim_space (raw_description rs), step_action = act,
                     step_status = StepPending, step_result_text = []\<rparr> # steps)))"

definition parseActionPlan :: "string \<Rightarrow> goerr + action_plan" where
  "parseActionPlan content =
     (let raw = extractJSONObject (trim_space content) in
      if raw = [] then Inl (ErrNew ''plan-and-solve: no JSON object in model output'')
      else case unmarshal_raw plan_file_field [] raw of
        None \<Rightarrow> Inl (ErrWrapf ''plan-and-solve: parse plan json: '' json_error [])
      | Some [] \<Rightarrow> Inl (ErrNew ''plan-and-solve: plan has no steps'')
      | Some ss \<Rightarrow>
          (case plan_steps 0 ss of
             Inl e \<Rightarrow> Inl e
           | Inr steps \<Rightarrow> Inr \<lparr>ap_steps = steps, ap_current = 0\<rparr>))"

section \<open>Asking for a plan\<close>

fun schema_json :: "any_schema \<Rightarrow> string" where
  "schema_json SchemaNil = ''null''"
| "schema_json SchemaEmptyMap = ''{}''"
| "schema_json (SchemaOf None) = ''null''"
| "schema_json (SchemaOf (Some p)) = schema_text p"

definition tool_line :: "tool_info \<Rightarrow> string" where
  "tool_line t =
     ''{'' @ json_string ''description'' @ '':'' @ json_string (ti_description t) @ '','' @
     json_string ''name'' @ '':'' @ json_string (ti_name t) @ '','' @
     json_string ''parameters'' @ '':'' @ schema_json (ti_schema t) @ ''}'' @ newline"

definition formatToolsForPlan :: "tool_info list \<Rightarrow> string" where
  "formatToolsForPlan tools =
     (if tools = [] then ''Available tools: none.''
      else ''Available tools (JSON lines):'' @ newline @ concat (map tool_line tools))"

definition plan_request :: "'w pas_planner \<Rightarrow> plan_state \<Rightarrow> string \<Rightarrow> chat_message list" where
  "plan_request p st completedNotes =
     (let pp = trim_space (pas_plan_prompt p);
          pp = (if pp = [] then defaultPlanPrompt else pp);
          sp = trim_space (pas_solve_prompt p);
          sp = (if sp = [] then defaultSolvePrompt else sp);
          sys = pp @ newline @ newline @ sp @
            (if completedNotes \<noteq> []
             then newline @ newline @ ''Completed work and results (respect and build on this):'' @ newline @ completedNotes
             else []);
          toolBlock = formatToolsForPlan (ps_tools st);
          user = (if ps_messages st \<noteq> []
                  then concat (map (\<lambda>m. msg_role m @ '': '' @ msg_content m @ newline) (ps_messages st)) @
                       newline @ toolBlock
                  else toolBlock)
      in [text_message RoleSystem sys, text_message RoleUser user])"

text \<open>A nil model makes the call panic; \<open>Plan\<close> tests for it before, \<open>Replan\<close> does not.\<close>

definition generatePlanWithNotes :: "plan_state \<Rightarrow> string \<Rightarrow> ('w, 'w pas_planner, unit) op" where
  "generatePlanWithNotes st notes r p =
     (case pas_model p of
        None \<Rightarrow> (Panic ''nil model'', r, p)
      | Some m \<Rightarrow>
          go_bind (planner_generate m ''plan-and-solve'' (plan_request p st notes) []) (\<lambda>msg.
            case parseActionPlan (msg_content msg) of
              Inl e \<Rightarrow> go_fail e
            | Inr ap \<Rightarrow> go_bind go_get (\<lambda>p. go_put (p\<lparr>pas_plan := Some ap\<rparr>))) r p)"

definition generatePlan :: "plan_state \<Rightarrow> ('w, 'w pas_planner, unit) op" where
  "generatePlan st = generatePlanWithNotes st []"

section \<open>Walking the plan\<close>

fun nextStep :: "nat \<Rightarrow> plan_step list \<Rightarrow> nat option" where
  "nextStep i [] = None"
| "nextStep i (s # ss) =
     (case step_status s of
        StepDone \<Rightarrow> nextStep (Suc i) ss
      | StepSkipped \<Rightarrow> nextStep (Suc i) ss
      | StepFailed \<Rightarrow> None
      | StepRunning \<Rightarrow> None
      | StepPending \<Rightarrow> Some i)"

definition runningStep :: "plan_step list \<Rightarrow> plan_step option" where
  "runningStep ss = find (\<lambda>s. step_status s = StepRunning) ss"

definition step_line :: "plan_step \<Rightarrow> string" where
  "step_line s =
     (if step_status s = StepDone \<and> trim_space (step_result_text s) \<noteq> []
      then ''Step '' @ int_text (step_id s) @ '' ('' @ step_description s @ ''): '' @
           trim_space (step_result_text s) @ newline
      else [])"

definition summarizeResults :: "action_plan option \<Rightarrow> string" where
  "summarizeResults plan =
     (case plan of
        None \<Rightarrow> []
      | Some ap \<Rightarrow>
          let out = trim_space (concat (map step_line (ap_steps ap)))
          in if out = [] then ''All planned steps finished.'' else out)"

definition plan_steps_of :: "action_plan option \<Rightarrow> plan_step list" where
  "plan_steps_of plan = (case plan of None \<Rightarrow> [] | Some ap \<Rightarrow> ap_steps ap)"

definition pas_next :: "('w, 'w pas_planner, plan_result) op" where
  "pas_next r p =
     (let steps = plan_steps_of (pas_plan p) in
      case runningStep steps of
        Some rs \<Rightarrow>
          (Err (ErrNew (''plan-and-solve: step '' @ int_text (step_id rs) @
             '' still running; call MarkStepDone or MarkStepFailed first'')), r, p)
      | None \<Rightarrow>
          (case nextStep 0 steps of
             None \<Rightarrow>
               (Ok \<lparr>pr_action = answer_action (summarizeResults (pas_plan p)), pr_reasoning = []\<rparr>, r, p)
           | Some i \<Rightarrow>
               let step = steps ! i in
               (Ok \<lparr>pr_action = step_action step, pr_reasoning = step_description step\<rparr>, r,
                p\<lparr>pas_plan := Some \<lparr>ap_steps = steps[i := step\<lparr>step_status := StepRunning\<rparr>],
                                    ap_current = i\<rparr>\<rparr>)))"

definition pas_Plan :: "plan_state \<Rightarrow> ('w, 'w pas_planner, plan_result) op" where
  "pas_Plan st r p =
     (if pas_model p = None then (Err (ErrNew ''plan-and-solve: model is nil''), r, p)
      else go_bind (if pas_plan p = None then generatePlan st else go_return ()) (\<lambda>_. pas_next) r p)"

text \<open>The first step with the ID gets the status and the text.\<close>

fun mark_step :: "int \<Rightarrow> step_status \<Rightarrow> string \<Rightarrow> plan_step list \<Rightarrow> plan_step list" where
  "mark_step sid status txt [] = []"
| "mark_step sid status txt (s # ss) =
     (if step_id s = sid then s\<lparr>step_status := status, step_result_text := txt\<rparr> # ss
      else s # mark_step sid status txt ss)"

definition MarkStepDone :: "int \<Rightarrow> string \<Rightarrow> 'w pas_planner \<Rightarrow> 'w pas_planner" where
  "MarkStepDone stepID result p =
     (case pas_plan p of
        None \<Rightarrow> p
      | Some ap \<Rightarrow> p\<lparr>pas_plan := Some (ap\<lparr>ap_steps := mark_step stepID StepDone result (ap_steps ap)\<rparr>)\<rparr>)"

definition MarkStepFailed :: "int \<Rightarrow> goerr option \<Rightarrow> 'w pas_planner \<Rightarrow> 'w pas_planner" where
  "MarkStepFailed stepID err p =
     (case pas_plan p of
        None \<Rightarrow> p
      | Some ap \<Rightarrow>
          let msg = (case err of None \<Rightarrow> [] | Some e \<Rightarrow> err_text e)
          in p\<lparr>pas_plan := Some (ap\<lparr>ap_steps := mark_step stepID StepFailed msg (ap_steps ap)\<rparr>)\<rparr>)"

definition note_line :: "plan_step \<Rightarrow> string" where
  "note_line s =
     (case step_status s of
        StepDone \<Rightarrow> ''step '' @ int_text (step_id s) @ '' ('' @ step_description s @ '') done: '' @ step_result_text s @ newline
      | StepFailed \<Rightarrow> ''step '' @ int_text (step_id s) @ '' ('' @ step_description s @ '') failed: '' @ step_result_text s @ newline
      | _ \<Rightarrow> [])"

definition action_type_int :: "action_type \<Rightarrow> int" where
  "action_type_int t = (case t of ActionToolCall \<Rightarrow> 0 | ActionFinalAnswer \<Rightarrow> 1 | ActionAskHuman \<Rightarrow> 2)"

definition history_line :: "step_result \<Rightarrow> string" where
  "history_line h =
     ''history action='' @ int_text (action_type_int (act_type (sr_action h))) @
     '' output='' @ sr_output h @ '' err='' @
     (case sr_error h of None \<Rightarrow> ''<nil>'' | Some e \<Rightarrow> err_text e) @ newline"

definition replan_notes :: "action_plan option \<Rightarrow> step_result list \<Rightarrow> string" where
  "replan_notes plan history =
     trim_space (concat (map note_line (plan_steps_of plan)) @ concat (map history_line history))"

definition Replan :: "plan_state \<Rightarrow> ('w, 'w pas_planner, unit) op" where
  "Replan st =
     go_bind go_get (\<lambda>p.
       let notes = replan_notes (pas_plan p) (ps_history st)
       in go_bind (go_put (p\<lparr>pas_plan := None\<rparr>)) (\<lambda>_. generatePlanWithNotes st notes))"

definition CurrentPlan :: "'w pas_planner \<Rightarrow> action_plan option" where
  "CurrentPlan p = pas_plan p"

section \<open>What a parsed plan looks like\<close>

lemma plan_steps_pending:
  "plan_steps i rss = Inr steps \<Longrightarrow>
     length steps = length rss \<and> (\<forall>s \<in> set steps. step_status s = StepPending \<and> step_id s \<noteq> 0)"
proof (induction i rss arbitrary: steps rule: plan_steps.induct)
  case (2 i rs rss)
  then show ?case by (auto split: sum.splits if_splits)
qed simp

definition fresh_plan :: "action_plan \<Rightarrow> bool" where
  "fresh_plan ap \<longleftrightarrow> ap_steps ap \<noteq> [] \<and> ap_current ap = 0 \<and>
     (\<forall>s \<in> set (ap_steps ap). step_status s = StepPending \<and> step_id s \<noteq> 0)"

lemma parseActionPlan_fresh: "parseActionPlan content = Inr ap \<Longrightarrow> fresh_plan ap"
  by (auto simp: parseActionPlan_def fresh_plan_def Let_def simp del: plan_steps.simps
      dest!: plan_steps_pending split: if_splits option.splits list.splits sum.splits)

lemma generatePlanWithNotes_fresh:
  "generatePlanWithNotes st notes r p = (Ok u, r', p') \<Longrightarrow>
     \<exists>ap. pas_plan p' = Some ap \<and> fresh_plan ap"
  by (auto simp: generatePlanWithNotes_def planner_generate_def go_bind_def go_fail_def go_get_def
      go_put_def dest: parseActionPlan_fresh split: option.splits sum.splits prod.splits res.splits)

lemma generatePlanWithNotes_fails:
  "generatePlanWithNotes st notes r p = (Err e, r', p') \<Longrightarrow> p' = p"
  by (auto simp: generatePlanWithNotes_def planner_generate_def go_bind_def go_fail_def go_get_def
      go_put_def split: option.splits sum.splits prod.splits res.splits)

text \<open>
  A plan that \<open>generatePlan\<close> or \<open>Replan\<close> installs has at least one step, every step is
  pending and has a non-zero ID. If \<open>Replan\<close> fails the planner is left without any plan, and the
  next \<open>Plan\<close> asks the model again.
\<close>

theorem Replan_installs_fresh_plan:
  "case Replan st r p of
     (Ok _, _, p') \<Rightarrow> (\<exists>ap. pas_plan p' = Some ap \<and> fresh_plan ap)
   | (Err _, _, p') \<Rightarrow> p' = p\<lparr>pas_plan := None\<rparr>
   | (Panic _, _, _) \<Rightarrow> pas_model p = None"
proof (cases "Replan st r p")
  case (fields x r' p')
  then have g: "generatePlanWithNotes st (replan_notes (pas_plan p) (ps_history st)) r
      (p\<lparr>pas_plan := None\<rparr>) = (x, r', p')"
    by (simp add: Replan_def go_bind_def go_get_def go_put_def)
  show ?thesis
  proof (cases x)
    case (Ok u)
    with g fields show ?thesis by (auto dest: generatePlanWithNotes_fresh)
  next
    case (Err e)
    with g fields show ?thesis by (auto dest: generatePlanWithNotes_fails)
  next
    case (Panic s)
    with g have "pas_model p = None"
      by (auto simp: generatePlanWithNotes_def planner_generate_def go_bind_def go_fail_def go_get_def
          go_put_def split: option.splits sum.splits prod.splits res.splits)
    with fields Panic show ?thesis by simp
  qed
qed

section \<open>The walk through a plan\<close>

text \<open>What the agent does when a tool has succeeded: the running step is marked done by its ID.\<close>

definition pas_finish :: "string \<Rightarrow> 'w pas_planner \<Rightarrow> 'w pas_planner" where
  "pas_finish out p =
     (case runningStep (plan_steps_of (pas_plan p)) of
        None \<Rightarrow> p
      | Some rs \<Rightarrow> MarkStepDone (step_id rs) out p)"

text \<open>The actions \<open>Plan\<close> answers when every step's action is carried out with the given output.\<close>

fun pas_walk :: "plan_state \<Rightarrow> 'w rt \<Rightarrow> string list \<Rightarrow> 'w pas_planner \<Rightarrow> action list" where
  "pas_walk st r [] p = (case pas_Plan st r p of (Ok res, _, _) \<Rightarrow> [pr_action res] | _ \<Rightarrow> [])"
| "pas_walk st r (out # outs) p =
     (case pas_Plan st r p of
        (Ok res, r', p') \<Rightarrow> pr_action res # pas_walk st r' outs (pas_finish out p')
      | _ \<Rightarrow> [])"

definition step_done :: "plan_step \<Rightarrow> string \<Rightarrow> plan_step" where
  "step_done s out = s\<lparr>step_status := StepDone, step_result_text := out\<rparr>"

lemma step_done_sel [simp]:
  "step_status (step_done s out) = StepDone" "step_id (step_done s out) = step_id s"
  by (simp_all add: step_done_def)

lemma nextStep_done:
  "\<forall>s \<in> set ds. step_status s = StepDone \<Longrightarrow> nextStep i (ds @ ss) = nextStep (i + length ds) ss"
  by (induction ds arbitrary: i) auto

lemma runningStep_append:
  "runningStep (xs @ ys) = (case runningStep xs of None \<Rightarrow> runningStep ys | Some s \<Rightarrow> Some s)"
  by (induction xs) (auto simp: runningStep_def)

lemma runningStep_None: "\<forall>s \<in> set ss. step_status s \<noteq> StepRunning \<Longrightarrow> runningStep ss = None"
  by (auto simp: runningStep_def find_None_iff)

lemma mark_step_split:
  "\<forall>s \<in> set xs. step_id s \<noteq> i \<Longrightarrow> step_id s = i \<Longrightarrow>
   mark_step i status txt (xs @ s # ys) = xs @ s\<lparr>step_status := status, step_result_text := txt\<rparr> # ys"
  by (induction xs) auto

lemma pas_Plan_pending:
  assumes "pas_model p \<noteq> None" and "pas_plan p = Some ap"
    and "ap_steps ap = ds @ s # ss" and "\<forall>d \<in> set ds. step_status d = StepDone"
    and "\<forall>x \<in> set (s # ss). step_status x = StepPending"
  shows "pas_Plan st r p =
    (Ok \<lparr>pr_action = step_action s, pr_reasoning = step_description s\<rparr>, r,
     p\<lparr>pas_plan := Some \<lparr>ap_steps = ds @ s\<lparr>step_status := StepRunning\<rparr> # ss, ap_current = length ds\<rparr>\<rparr>)"
proof -
  have "runningStep (ds @ s # ss) = None"
    using assms(4,5) by (intro runningStep_None) auto
  with assms show ?thesis
    by (auto simp: pas_Plan_def pas_next_def plan_steps_of_def go_bind_def go_return_def
        nextStep_done)
qed

lemma pas_Plan_finished:
  assumes "pas_model p \<noteq> None" and "pas_plan p = Some ap"
    and "\<forall>d \<in> set (ap_steps ap). step_status d = StepDone"
  shows "pas_Plan st r p =
    (Ok \<lparr>pr_action = answer_action (summarizeResults (Some ap)), pr_reasoning = []\<rparr>, r, p)"
proof -
  have "runningStep (ap_steps ap) = None" using assms(3) by (intro runningStep_None) auto
  moreover have "nextStep 0 (ap_steps ap) = None"
    using nextStep_done [OF assms(3), of 0 "[]"] by simp
  ultimately show ?thesis
    using assms by (auto simp: pas_Plan_def pas_next_def plan_steps_of_def go_bind_def go_return_def)
qed

lemma pas_finish_running:
  assumes "pas_plan p = Some ap" and "ap_steps ap = ds @ s # ss"
    and "\<forall>d \<in> set ds. step_status d = StepDone" and "step_status s = StepRunning"
    and "step_id s \<notin> step_id ` set ds"
  shows "pas_finish out p = p\<lparr>pas_plan := Some (ap\<lparr>ap_steps := ds @ step_done s out # ss\<rparr>)\<rparr>"
proof -
  have "runningStep ds = None" using assms(3) by (intro runningStep_None) auto
  then have "runningStep (ds @ s # ss) = Some s"
    using assms(4) by (simp add: runningStep_append) (simp add: runningStep_def)
  moreover have "mark_step (step_id s) StepDone out (ds @ s # ss) = ds @ step_done s out # ss"
    using assms(5) by (subst mark_step_split) (auto simp: step_done_def image_iff)
  ultimately show ?thesis
    using assms(1,2) by (simp add: pas_finish_def plan_steps_of_def MarkStepDone_def)
qed

lemma pas_walk_from:
  assumes "pas_model p \<noteq> None" and "pas_plan p = Some ap"
    and "ap_steps ap = ds @ ss" and "\<forall>d \<in> set ds. step_status d = StepDone"
    and "\<forall>s \<in> set ss. step_status s = StepPending" and "distinct (map step_id (ds @ ss))"
    and "length outs = length ss"
  shows "pas_walk st r outs p = map step_action ss @
    [answer_action (summarizeResults (Some \<lparr>ap_steps = ds @ map2 step_done ss outs,
       ap_current = 0\<rparr>))]"
  using assms
proof (induction ss arbitrary: outs p ap ds)
  case Nil
  then show ?case
    by (auto simp: pas_Plan_finished summarizeResults_def)
next
  case (Cons s ss)
  obtain out outs' where outs: "outs = out # outs'" "length outs' = length ss"
    using Cons.prems(7) by (cases outs) auto
  let ?s = "s\<lparr>step_status := StepRunning\<rparr>"
  let ?p = "p\<lparr>pas_plan := Some \<lparr>ap_steps = ds @ ?s # ss, ap_current = length ds\<rparr>\<rparr>"
  have plan: "pas_Plan st r p =
      (Ok \<lparr>pr_action = step_action s, pr_reasoning = step_description s\<rparr>, r, ?p)"
    using Cons.prems by (intro pas_Plan_pending) auto
  have sd: "step_done ?s out = step_done s out" by (simp add: step_done_def)
  have fin: "pas_finish out ?p =
      ?p\<lparr>pas_plan := Some \<lparr>ap_steps = ds @ step_done s out # ss, ap_current = length ds\<rparr>\<rparr>"
    using Cons.prems(4,6)
    by (subst pas_finish_running [where ds = ds and s = ?s and ss = ss]) (auto simp: sd)
  have "pas_walk st r outs' (pas_finish out ?p) = map step_action ss @
      [answer_action (summarizeResults (Some \<lparr>ap_steps = (ds @ [step_done s out]) @ map2 step_done ss outs',
         ap_current = 0\<rparr>))]"
    unfolding fin
    by (rule Cons.IH) (use Cons.prems outs in auto)
  with plan outs show ?case by simp
qed

text \<open>
  C16. Plan and solve carries out a plan in order, every step exactly once: if the IDs differ and
  every action succeeds, \<open>Plan\<close> answers the actions of the steps one after the other and then a
  final answer made of the results.
\<close>

theorem pas_runs_plan_in_order:
  assumes "pas_model p \<noteq> None" and "pas_plan p = Some ap" and "fresh_plan ap"
    and "distinct (map step_id (ap_steps ap))" and "length outs = length (ap_steps ap)"
  shows "pas_walk st r outs p = map step_action (ap_steps ap) @
    [answer_action (summarizeResults (Some \<lparr>ap_steps = map2 step_done (ap_steps ap) outs,
       ap_current = 0\<rparr>))]"
  using assms pas_walk_from [of p ap "[]" "ap_steps ap" outs st r]
  by (simp add: fresh_plan_def)

definition demo_step :: "int \<Rightarrow> string \<Rightarrow> plan_step" where
  "demo_step i d =
     \<lparr>step_id = i, step_description = d, step_action = tool_action d (Some []),
      step_status = StepPending, step_result_text = []\<rparr>"

definition demo_model :: "unit chat_model" where
  "demo_model = \<lparr>cm_generate = (\<lambda>r _ _. (Inr None, r)), cm_stream = (\<lambda>r _ _. (Inr ([], None), r))\<rparr>"

definition demo_pas :: "plan_step list \<Rightarrow> unit pas_planner" where
  "demo_pas steps =
     \<lparr>pas_model = Some demo_model, pas_plan_prompt = [], pas_solve_prompt = [],
      pas_plan = Some \<lparr>ap_steps = steps, ap_current = 0\<rparr>\<rparr>"

definition demo_state :: plan_state where
  "demo_state = \<lparr>ps_messages = [], ps_tools = [], ps_history = []\<rparr>"

definition demo_rt :: "unit rt" where
  "demo_rt = \<lparr>rt_ctx = Background, rt_world = ()\<rparr>"

lemma pas_runs_plan_in_order_witness:
  "pas_walk demo_state demo_rt [''x'', ''y''] (demo_pas [demo_step 1 ''a'', demo_step 2 ''b'']) =
     [tool_action ''a'' (Some []), tool_action ''b'' (Some []),
      answer_action (''Step 1 (a): x'' @ newline @ ''Step 2 (b): y'')]"
proof -
  let ?ss = "[demo_step 1 ''a'', demo_step 2 ''b'']"
  let ?p = "demo_pas ?ss"
  let ?ap = "\<lparr>ap_steps = ?ss, ap_current = 0\<rparr>"
  have "pas_walk demo_state demo_rt [''x'', ''y''] ?p = map step_action (ap_steps ?ap) @
    [answer_action (summarizeResults (Some \<lparr>ap_steps = map2 step_done (ap_steps ?ap) [''x'', ''y''],
       ap_current = 0\<rparr>))]"
    by (rule pas_runs_plan_in_order)
      (simp_all add: demo_pas_def demo_step_def fresh_plan_def)
  also have "summarizeResults (Some \<lparr>ap_steps = map2 step_done (ap_steps ?ap) [''x'', ''y''],
       ap_current = 0\<rparr>) = ''Step 1 (a): x'' @ newline @ ''Step 2 (b): y''"
    by code_simp
  finally show ?thesis by (simp add: demo_step_def)
qed

section \<open>Where the walk goes wrong\<close>

lemma int_text_one: "int_text 1 = ''1''"
  by code_simp

lemma pas_next_blocked:
  "step_status s = StepRunning \<Longrightarrow> s \<in> set (plan_steps_of (pas_plan p)) \<Longrightarrow>
   \<exists>e. pas_next r p = (Err e, r, p)"
  by (cases "runningStep (plan_steps_of (pas_plan p))")
    (auto simp: pas_next_def runningStep_def find_None_iff)

text \<open>
  A step that runs and is never marked blocks the planner for good: every later \<open>Plan\<close> is an
  error and changes nothing, whatever it is asked. In particular two steps with one ID block it:
  marking the second one done marks the first one again and leaves the second running.
\<close>

theorem unmarked_step_blocks_plan:
  assumes "pas_plan p = Some ap" and "s \<in> set (ap_steps ap)" and "step_status s = StepRunning"
  shows "(\<exists>e. pas_Plan st r p = (Err e, r, p)) \<and>
    pas_Plan st r (pas_finish out (demo_pas [(demo_step 1 ''a'')\<lparr>step_status := StepDone\<rparr>,
      (demo_step 1 ''b'')\<lparr>step_status := StepRunning\<rparr>])) =
      (Err (ErrNew ''plan-and-solve: step 1 still running; call MarkStepDone or MarkStepFailed first''), r,
       demo_pas [(demo_step 1 ''a'')\<lparr>step_status := StepDone, step_result_text := out\<rparr>,
         (demo_step 1 ''b'')\<lparr>step_status := StepRunning\<rparr>])"
proof
  obtain e where "pas_next r p = (Err e, r, p)"
    using pas_next_blocked [OF assms(3), of p r] assms(1,2) by (auto simp: plan_steps_of_def)
  with assms(1) show "\<exists>e. pas_Plan st r p = (Err e, r, p)"
    by (auto simp: pas_Plan_def go_bind_def go_return_def)
qed (simp add: demo_pas_def demo_step_def pas_finish_def runningStep_def plan_steps_of_def
    MarkStepDone_def pas_Plan_def pas_next_def go_bind_def go_return_def int_text_one)

lemma unmarked_step_blocks_plan_witness:
  "\<exists>e. pas_Plan demo_state demo_rt (demo_pas [(demo_step 3 ''a'')\<lparr>step_status := StepRunning\<rparr>]) =
     (Err e, demo_rt, demo_pas [(demo_step 3 ''a'')\<lparr>step_status := StepRunning\<rparr>])"
  using unmarked_step_blocks_plan
    [of "demo_pas [(demo_step 3 ''a'')\<lparr>step_status := StepRunning\<rparr>]"
        "\<lparr>ap_steps = [(demo_step 3 ''a'')\<lparr>step_status := StepRunning\<rparr>], ap_current = 0\<rparr>"
        "(demo_step 3 ''a'')\<lparr>step_status := StepRunning\<rparr>" demo_state demo_rt]
  by (simp add: demo_pas_def)

end
