(* ===== verification/LoopDetector.thy ===== *)
theory LoopDetector
  imports Json
begin

text \<open>
  \<open>agent/loop_detector.go\<close>: the guard against a model that repeats one call. A call's signature is
  the tool's name and a digest of its parameters; \<open>digest\<close> stands for the hexadecimal SHA-256 and is
  a parameter: nothing below depends on which function it is.
\<close>

datatype loop_status = LoopNormal | LoopWarning | LoopTerminate

type_synonym call_sig = "string \<times> string"

record loop_detector =
  ld_threshold :: int
  ld_history :: "call_sig list"
  ld_warned :: bool

definition DefaultLoopThreshold :: int where
  "DefaultLoopThreshold = 3"

definition NewLoopDetector :: "int \<Rightarrow> loop_detector" where
  "NewLoopDetector threshold =
     \<lparr>ld_threshold = (if threshold \<le> 0 then DefaultLoopThreshold else threshold),
      ld_history = [], ld_warned = False\<rparr>"

definition hashParams :: "(string \<Rightarrow> string) \<Rightarrow> params \<Rightarrow> string" where
  "hashParams digest p = digest (marshal_params p)"

definition record_sig :: "call_sig \<Rightarrow> loop_detector \<Rightarrow> loop_status \<times> loop_detector" where
  "record_sig sig d0 =
     (let d = d0\<lparr>ld_history := ld_history d0 @ [sig]\<rparr> in
      if int (length (ld_history d)) < ld_threshold d then (LoopNormal, d)
      else
        let window = drop (length (ld_history d) - nat (ld_threshold d)) (ld_history d);
            first = hd window
        in if \<exists>x \<in> set (tl window). x \<noteq> first then (LoopNormal, d\<lparr>ld_warned := False\<rparr>)
           else if \<not> ld_warned d then (LoopWarning, d\<lparr>ld_warned := True\<rparr>)
           else (LoopTerminate, d))"

definition Record ::
    "(string \<Rightarrow> string) \<Rightarrow> string \<Rightarrow> params \<Rightarrow> loop_detector \<Rightarrow> loop_status \<times> loop_detector" where
  "Record digest toolName p d = record_sig (toolName, hashParams digest p) d"

definition InjectLoopWarning :: "string \<Rightarrow> string \<Rightarrow> int \<Rightarrow> string" where
  "InjectLoopWarning toolResult toolName threshold =
     ''<loop_detection_warning>'' @ newline @
     ''You have called tool '' @ [quote_char] @ toolName @ [quote_char] @ '' '' @ int_text threshold @
     '' times consecutively with identical parameters. Please reconsider your approach:'' @ newline @
     ''1. Check if previous results already satisfy the requirement'' @ newline @
     ''2. Consider using a different tool or modifying the parameters'' @ newline @
     ''3. If the task is complete, output your final answer directly'' @ newline @
     ''WARNING: Calling the same tool with the same parameters again will terminate execution.'' @ newline @
     ''</loop_detection_warning>'' @ newline @ newline @ toolResult"

section \<open>What the detector counts\<close>

text \<open>How many calls at the end of the history are the same one.\<close>

definition run_length :: "call_sig list \<Rightarrow> nat" where
  "run_length xs = length (takeWhile (\<lambda>x. x = last xs) (rev xs))"

definition run_status :: "int \<Rightarrow> call_sig list \<Rightarrow> loop_status" where
  "run_status threshold xs =
     (if int (run_length xs) < threshold then LoopNormal
      else if int (run_length xs) = threshold then LoopWarning else LoopTerminate)"

text \<open>A detector after a sequence of calls.\<close>

definition detector_after :: "int \<Rightarrow> call_sig list \<Rightarrow> loop_detector" where
  "detector_after threshold sigs =
     fold (\<lambda>s d. snd (record_sig s d)) sigs (NewLoopDetector threshold)"

lemma run_length_snoc:
  "run_length (xs @ [x]) = (if xs \<noteq> [] \<and> last xs = x then Suc (run_length xs) else 1)"
proof (cases xs rule: rev_cases)
  case (snoc ys y)
  then show ?thesis by (auto simp: run_length_def)
qed (simp add: run_length_def)

lemma run_length_le: "run_length xs \<le> length xs"
  by (metis length_rev length_takeWhile_le run_length_def)

lemma takeWhile_length_ge:
  "k \<le> length xs \<Longrightarrow> k \<le> length (takeWhile P xs) \<longleftrightarrow> (\<forall>x \<in> set (take k xs). P x)"
proof (induction xs arbitrary: k)
  case (Cons x xs)
  then show ?case by (cases k) auto
qed simp

lemma all_hd_last: "xs \<noteq> [] \<Longrightarrow> (\<forall>x \<in> set (tl xs). x = hd xs) \<longleftrightarrow> (\<forall>x \<in> set xs. x = last xs)"
proof
  assume ne: "xs \<noteq> []" and "\<forall>x \<in> set (tl xs). x = hd xs"
  then have all: "\<forall>x \<in> set xs. x = hd xs" by (metis list.exhaust_sel set_ConsD)
  moreover from ne have "last xs = hd xs" using all last_in_set by blast
  ultimately show "\<forall>x \<in> set xs. x = last xs" by simp
next
  assume ne: "xs \<noteq> []" and all: "\<forall>x \<in> set xs. x = last xs"
  then have "hd xs = last xs" by simp
  with all ne show "\<forall>x \<in> set (tl xs). x = hd xs" by (metis list.set_sel(2))
qed

lemma window_same:
  assumes "1 \<le> k" "k \<le> length xs"
  shows "(\<forall>x \<in> set (tl (drop (length xs - k) xs)). x = hd (drop (length xs - k) xs)) \<longleftrightarrow>
    k \<le> run_length xs"
proof -
  let ?w = "drop (length xs - k) xs"
  have w: "?w = rev (take k (rev xs))" by (simp add: rev_take)
  have ne: "?w \<noteq> []" using assms by auto
  then have last: "last ?w = last xs" by simp
  have "(\<forall>x \<in> set (tl ?w). x = hd ?w) \<longleftrightarrow> (\<forall>x \<in> set ?w. x = last ?w)"
    using ne by (rule all_hd_last)
  also have "\<dots> \<longleftrightarrow> (\<forall>x \<in> set (take k (rev xs)). x = last xs)"
    unfolding last by (simp add: w)
  also have "\<dots> \<longleftrightarrow> k \<le> run_length xs"
    using assms by (simp add: run_length_def takeWhile_length_ge)
  finally show ?thesis .
qed

lemma record_sig_status:
  assumes "2 \<le> ld_threshold d" and "ld_warned d = (ld_history d \<noteq> [] \<and> ld_threshold d \<le> int (run_length (ld_history d)))"
  shows "fst (record_sig s d) = run_status (ld_threshold d) (ld_history d @ [s])"
    and "ld_history (snd (record_sig s d)) = ld_history d @ [s]"
    and "ld_threshold (snd (record_sig s d)) = ld_threshold d"
    and "ld_warned (snd (record_sig s d)) = (ld_threshold d \<le> int (run_length (ld_history d @ [s])))"
proof -
  let ?h = "ld_history d @ [s]"
  let ?t = "ld_threshold d"
  have grow: "run_length ?h = Suc (run_length (ld_history d)) \<and> ld_history d \<noteq> [] \<or> run_length ?h = 1"
    by (simp add: run_length_snoc)
  have win: "(\<exists>x \<in> set (tl (drop (length h - nat ?t) h)). x \<noteq> hd (drop (length h - nat ?t) h)) \<longleftrightarrow>
      \<not> ?t \<le> int (run_length h)" if t: "?t \<le> int (length h)" for h :: "call_sig list"
  proof -
    have k: "1 \<le> nat ?t" "nat ?t \<le> length h" using assms(1) t by linarith+
    have "nat ?t \<le> run_length h \<longleftrightarrow> ?t \<le> int (run_length h)" by linarith
    with window_same [OF k] show ?thesis by blast
  qed
  have le: "int (run_length ?h) \<le> int (length ?h)" using run_length_le [of ?h] by simp
  show "ld_history (snd (record_sig s d)) = ?h" "ld_threshold (snd (record_sig s d)) = ?t"
    by (auto simp: record_sig_def Let_def)
  consider (short) "int (length ?h) < ?t" | (differ) "?t \<le> int (length ?h)" "\<not> ?t \<le> int (run_length ?h)"
    | (same) "?t \<le> int (length ?h)" "?t \<le> int (run_length ?h)"
    by linarith
  then have "fst (record_sig s d) = run_status ?t ?h \<and>
      ld_warned (snd (record_sig s d)) = (?t \<le> int (run_length ?h))"
  proof cases
    case short
    moreover have "\<not> ld_warned d" using short assms(2) run_length_le [of "ld_history d"] by auto
    ultimately show ?thesis using le by (auto simp: record_sig_def run_status_def)
  next
    case differ
    then show ?thesis using win [OF differ(1)]
      by (simp add: record_sig_def run_status_def Let_def del: length_append drop_append)
  next
    case same
    have "ld_warned d = (?t < int (run_length ?h))"
      using assms grow same by auto
    with same show ?thesis using win [OF same(1)]
      by (auto simp add: record_sig_def run_status_def Let_def simp del: length_append drop_append)
  qed
  then show "fst (record_sig s d) = run_status ?t ?h"
    "ld_warned (snd (record_sig s d)) = (?t \<le> int (run_length ?h))" by blast+
qed

lemma detector_after_state:
  assumes "threshold \<noteq> 1"
  shows "ld_history (detector_after threshold sigs) = sigs \<and>
    ld_threshold (detector_after threshold sigs) = ld_threshold (NewLoopDetector threshold) \<and>
    ld_warned (detector_after threshold sigs) =
      (sigs \<noteq> [] \<and> ld_threshold (NewLoopDetector threshold) \<le> int (run_length sigs))"
proof (induction sigs rule: rev_induct)
  case Nil
  show ?case by (simp add: detector_after_def NewLoopDetector_def)
next
  case (snoc s sigs)
  have t: "2 \<le> ld_threshold (NewLoopDetector threshold)"
    using assms by (simp add: NewLoopDetector_def DefaultLoopThreshold_def)
  have step: "detector_after threshold (sigs @ [s]) = snd (record_sig s (detector_after threshold sigs))"
    by (simp add: detector_after_def)
  show ?case
    unfolding step
    using record_sig_status [of "detector_after threshold sigs" s] snoc t by auto
qed

text \<open>
  C14. The detector counts exactly: whatever was called before, a call is normal while it is
  repeated fewer times in a row than the threshold, warned of when it completes that many, and
  terminates the run from then on. A threshold that is not positive means three. (Not for a
  threshold of one, see the next property.)
\<close>

theorem loop_detector_counts:
  assumes "threshold \<noteq> 1"
  shows "fst (record_sig s (detector_after threshold sigs)) =
    run_status (if threshold \<le> 0 then 3 else threshold) (sigs @ [s])"
proof -
  note st = detector_after_state [OF assms, of sigs]
  have t: "2 \<le> ld_threshold (NewLoopDetector threshold)"
    using assms by (simp add: NewLoopDetector_def DefaultLoopThreshold_def)
  have "fst (record_sig s (detector_after threshold sigs)) =
      run_status (ld_threshold (NewLoopDetector threshold)) (sigs @ [s])"
    using record_sig_status(1) [of "detector_after threshold sigs" s] st t by simp
  then show ?thesis by (simp add: NewLoopDetector_def DefaultLoopThreshold_def)
qed

lemma loop_detector_counts_witness:
  "fst (record_sig (''f'', ''h'') (detector_after 2 [(''g'', ''x''), (''f'', ''h'')])) = LoopWarning"
  using loop_detector_counts [of 2 "(''f'', ''h'')" "[(''g'', ''x''), (''f'', ''h'')]"]
  by (simp add: run_status_def run_length_def)

text \<open>
  With a threshold of one the window holds a single call and never differs from itself: the
  second call of a session terminates it, even when it is a different call.
\<close>

theorem loop_threshold_one_terminates:
  "fst (Record digest n1 p1 (NewLoopDetector 1)) = LoopWarning \<and>
   fst (Record digest n2 p2 (snd (Record digest n1 p1 (NewLoopDetector 1)))) = LoopTerminate"
  by (simp add: Record_def record_sig_def NewLoopDetector_def Let_def)

end
