(* ===== verification/Registry.thy ===== *)
theory Registry
  imports ChatModel Json
begin

text \<open>
  \<open>tool/tool.go\<close>, \<open>tool/registry.go\<close>, \<open>rule/rule.go\<close>, \<open>rule/registry.go\<close>, \<open>skill/skill.go\<close> and
  \<open>skill/registry.go\<close>: tools, rules and skills, and the three registries that keep them by name and
  list them in the order of their first registration. The three are one contract, a locale.
\<close>

section \<open>Tools, rules, skills\<close>

text \<open>
  A tool is an interface: three constant methods and \<open>Execute\<close>, which acts on the world. Go
  returns the text and the error together, and both may be there (\<open>shell\<close> does that).
\<close>

type_synonym tool_result = "string \<times> goerr option"

record 'w tool =
  tool_name :: string
  tool_description :: string
  tool_schema :: "schema_property option"
  tool_execute :: "params \<Rightarrow> 'w rt \<Rightarrow> tool_result \<times> 'w rt"

record rule =
  rule_name :: string
  rule_description :: string
  rule_content :: string
  rule_always_apply :: bool

definition NewFileRule :: "string \<Rightarrow> string \<Rightarrow> string \<Rightarrow> bool \<Rightarrow> rule" where
  "NewFileRule name description content alwaysApply =
     \<lparr>rule_name = name, rule_description = description, rule_content = content,
      rule_always_apply = alwaysApply\<rparr>"

text \<open>
  The tools of a skill are of type \<open>any\<close>: a value is a tool when it has the methods of one.
\<close>

record 'w skill =
  skill_name :: string
  skill_description :: string
  skill_base_path :: string
  skill_instruction :: string
  skill_tools :: "'w tool option list"
  skill_max_iter :: int
  skill_always_apply :: bool

type_synonym 'w skill_option = "'w skill \<Rightarrow> 'w skill"

definition skill_WithTools :: "'w tool option list \<Rightarrow> 'w skill_option" where
  "skill_WithTools ts s = s\<lparr>skill_tools := ts\<rparr>"

definition skill_WithMaxIterations :: "int \<Rightarrow> 'w skill_option" where
  "skill_WithMaxIterations n s = s\<lparr>skill_max_iter := n\<rparr>"

definition skill_WithAlwaysApply :: "bool \<Rightarrow> 'w skill_option" where
  "skill_WithAlwaysApply v s = s\<lparr>skill_always_apply := v\<rparr>"

definition NewDirSkill ::
    "string \<Rightarrow> string \<Rightarrow> string \<Rightarrow> string \<Rightarrow> 'w skill_option list \<Rightarrow> 'w skill" where
  "NewDirSkill name description basePath instruction opts =
     fold (\<lambda>opt s. opt s) opts
       \<lparr>skill_name = name, skill_description = description, skill_base_path = basePath,
        skill_instruction = instruction, skill_tools = [], skill_max_iter = 10,
        skill_always_apply = False\<rparr>"

section \<open>The contract of a registry\<close>

text \<open>
  What every registry promises, in terms of the entries it holds: a list of names and items with
  distinct names, in the order of first registration. Adding replaces in place or appends,
  removing deletes, looking up finds, listing gives the items.
\<close>

locale registry_laws =
  fixes key :: "'a \<Rightarrow> string"
    and add :: "'a \<Rightarrow> 'r \<Rightarrow> 'r"
    and remove :: "string \<Rightarrow> 'r \<Rightarrow> 'r"
    and get :: "string \<Rightarrow> 'r \<Rightarrow> 'a option"
    and listing :: "'r \<Rightarrow> 'a list"
    and empty :: 'r
    and entries :: "'r \<Rightarrow> (string \<times> 'a) list"
    and wf :: "'r \<Rightarrow> bool"
  assumes wf_empty: "wf empty" and entries_empty: "entries empty = []"
    and wf_add: "wf r \<Longrightarrow> wf (add x r)"
    and wf_remove: "wf r \<Longrightarrow> wf (remove n r)"
    and entries_add: "wf r \<Longrightarrow> entries (add x r) = map_put (key x) x (entries r)"
    and entries_remove: "wf r \<Longrightarrow> entries (remove n r) = filter (\<lambda>e. fst e \<noteq> n) (entries r)"
    and get_entries: "wf r \<Longrightarrow> get n r = map_of (entries r) n"
    and listing_entries: "wf r \<Longrightarrow> listing r = map snd (entries r)"
begin

lemma wf_adds: "wf r \<Longrightarrow> wf (fold add xs r)"
  by (induction xs arbitrary: r) (simp_all add: wf_add)

lemma entries_adds:
  "wf r \<Longrightarrow> entries (fold add xs r) = fold (\<lambda>x. map_put (key x) x) xs (entries r)"
  by (induction xs arbitrary: r) (simp_all add: wf_add entries_add)

lemma get_add: "wf r \<Longrightarrow> get n (add x r) = (if n = key x then Some x else get n r)"
  by (simp add: wf_add get_entries entries_add)

lemma get_remove: "wf r \<Longrightarrow> get n (remove k r) = (if n = k then None else get n r)"
proof -
  have "map_of (filter (\<lambda>e. fst e \<noteq> k) es) n = (if n = k then None else map_of es n)"
    for es :: "(string \<times> 'a) list"
    by (induction es) auto
  then show "wf r \<Longrightarrow> ?thesis" by (simp add: wf_remove get_entries entries_remove)
qed

end

section \<open>The registry of tools\<close>

text \<open>
  The three registries have the same fields: a map and the order of its keys.
\<close>

record 'a registry =
  reg_items :: "string \<rightharpoonup> 'a"
  reg_order :: "string list"

type_synonym 'w tool_registry = "'w tool registry"

definition NewToolRegistry :: "'w tool_registry" where
  "NewToolRegistry = \<lparr>reg_items = Map.empty, reg_order = []\<rparr>"

definition AddTool :: "'w tool \<Rightarrow> 'w tool_registry \<Rightarrow> 'w tool_registry" where
  "AddTool t r =
     (let name = tool_name t;
          r' = (if reg_items r name = None then r\<lparr>reg_order := reg_order r @ [name]\<rparr> else r)
      in r'\<lparr>reg_items := (reg_items r')(name \<mapsto> t)\<rparr>)"

text \<open>A handler's error comes with a text, as in \<^typ>\<open>tool_result\<close>; \<open>Execute\<close> ignores the context.\<close>

definition funcTool ::
    "string \<Rightarrow> string \<Rightarrow> schema_property \<Rightarrow> (params \<Rightarrow> 'w \<Rightarrow> tool_result \<times> 'w) \<Rightarrow> 'w tool" where
  "funcTool name description schema handler =
     \<lparr>tool_name = name, tool_description = description, tool_schema = Some schema,
      tool_execute = (\<lambda>input r. case handler input (rt_world r) of (x, w) \<Rightarrow> (x, r\<lparr>rt_world := w\<rparr>))\<rparr>"

definition Register ::
    "string \<Rightarrow> string \<Rightarrow> go_type \<Rightarrow> (params \<Rightarrow> 'w \<Rightarrow> tool_result \<times> 'w) \<Rightarrow>
     'w tool_registry \<Rightarrow> 'w tool_registry" where
  "Register name description inputSchema handler =
     AddTool (funcTool name description (GenerateSchema inputSchema) handler)"

definition tools_Get :: "string \<Rightarrow> 'w tool_registry \<Rightarrow> 'w tool option" where
  "tools_Get name r = reg_items r name"

text \<open>A name of \<open>order\<close> that is not in the map would give a nil \<open>Tool\<close>.\<close>

definition Tools :: "'w tool_registry \<Rightarrow> 'w tool option list" where
  "Tools r = map (reg_items r) (reg_order r)"

definition Names :: "'w tool_registry \<Rightarrow> string list" where
  "Names r = reg_order r"

definition registry_Execute ::
    "'w tool_registry \<Rightarrow> string \<Rightarrow> params \<Rightarrow> 'w rt \<Rightarrow> tool_result \<times> 'w rt" where
  "registry_Execute r name input rt =
     (case reg_items r name of
        None \<Rightarrow> (([], Some (ErrNew (''tool '' @ go_quote name @ '' not registered''))), rt)
      | Some t \<Rightarrow> tool_execute t input rt)"

section \<open>The registries of rules and skills\<close>

text \<open>
  \<open>Add\<close> takes any number of values and skips nil ones. Their mutex makes each operation atomic.
\<close>

definition rule_NewRegistry :: "rule registry" where
  "rule_NewRegistry = \<lparr>reg_items = Map.empty, reg_order = []\<rparr>"

fun rule_Add :: "rule option list \<Rightarrow> rule registry \<Rightarrow> rule registry" where
  "rule_Add [] r = r"
| "rule_Add (None # xs) r = rule_Add xs r"
| "rule_Add (Some x # xs) r =
     (let name = rule_name x;
          r' = (if reg_items r name = None then r\<lparr>reg_order := reg_order r @ [name]\<rparr> else r)
      in rule_Add xs (r'\<lparr>reg_items := (reg_items r')(name \<mapsto> x)\<rparr>))"

text \<open>\<open>append(order[:idx], order[idx+1:]...)\<close> for the first index of the name.\<close>

fun delete_first :: "string \<Rightarrow> string list \<Rightarrow> string list" where
  "delete_first name [] = []"
| "delete_first name (n # ns) = (if n = name then ns else n # delete_first name ns)"

definition rule_Remove :: "string \<Rightarrow> rule registry \<Rightarrow> rule registry" where
  "rule_Remove name r =
     (if reg_items r name = None then r
      else r\<lparr>reg_items := (reg_items r)(name := None), reg_order := delete_first name (reg_order r)\<rparr>)"

definition rule_Get :: "string \<Rightarrow> rule registry \<Rightarrow> rule option" where
  "rule_Get name r = reg_items r name"

definition rule_List :: "rule registry \<Rightarrow> rule list" where
  "rule_List r = List.map_filter (reg_items r) (reg_order r)"

definition skill_NewRegistry :: "'w skill registry" where
  "skill_NewRegistry = \<lparr>reg_items = Map.empty, reg_order = []\<rparr>"

fun skill_Add :: "'w skill option list \<Rightarrow> 'w skill registry \<Rightarrow> 'w skill registry" where
  "skill_Add [] r = r"
| "skill_Add (None # xs) r = skill_Add xs r"
| "skill_Add (Some x # xs) r =
     (let name = skill_name x;
          r' = (if reg_items r name = None then r\<lparr>reg_order := reg_order r @ [name]\<rparr> else r)
      in skill_Add xs (r'\<lparr>reg_items := (reg_items r')(name \<mapsto> x)\<rparr>))"

definition skill_Remove :: "string \<Rightarrow> 'w skill registry \<Rightarrow> 'w skill registry" where
  "skill_Remove name r =
     (if reg_items r name = None then r
      else r\<lparr>reg_items := (reg_items r)(name := None), reg_order := delete_first name (reg_order r)\<rparr>)"

definition skill_Get :: "string \<Rightarrow> 'w skill registry \<Rightarrow> 'w skill option" where
  "skill_Get name r = reg_items r name"

definition skill_List :: "'w skill registry \<Rightarrow> 'w skill list" where
  "skill_List r = List.map_filter (reg_items r) (reg_order r)"

section \<open>All three keep the contract\<close>

definition reg_wf :: "'a registry \<Rightarrow> bool" where
  "reg_wf r \<longleftrightarrow> distinct (reg_order r) \<and> set (reg_order r) = dom (reg_items r)"

definition reg_entries :: "'a registry \<Rightarrow> (string \<times> 'a) list" where
  "reg_entries r = map (\<lambda>n. (n, the (reg_items r n))) (reg_order r)"

text \<open>Adding one item, the step the three \<open>Add\<close>s share.\<close>

definition reg_put :: "string \<Rightarrow> 'a \<Rightarrow> 'a registry \<Rightarrow> 'a registry" where
  "reg_put name x r =
     (let r' = (if reg_items r name = None then r\<lparr>reg_order := reg_order r @ [name]\<rparr> else r)
      in r'\<lparr>reg_items := (reg_items r')(name \<mapsto> x)\<rparr>)"

definition reg_delete :: "string \<Rightarrow> 'a registry \<Rightarrow> 'a registry" where
  "reg_delete name r =
     (if reg_items r name = None then r
      else r\<lparr>reg_items := (reg_items r)(name := None), reg_order := delete_first name (reg_order r)\<rparr>)"

lemma map_put_fresh: "k \<notin> fst ` set m \<Longrightarrow> map_put k v m = m @ [(k, v)]"
  by (induction k v m rule: map_put.induct) auto

lemma map_put_present:
  "distinct ns \<Longrightarrow> k \<in> set ns \<Longrightarrow>
   map_put k v (map (\<lambda>n. (n, f n)) ns) = map (\<lambda>n. (n, if n = k then v else f n)) ns"
  by (induction ns) auto

lemma delete_first_filter: "distinct ns \<Longrightarrow> delete_first k ns = filter (\<lambda>n. n \<noteq> k) ns"
  by (induction ns) (auto simp: filter_id_conv intro!: sym [OF filter_True])

lemma reg_put_wf: "reg_wf r \<Longrightarrow> reg_wf (reg_put k x r)"
  by (auto simp: reg_wf_def reg_put_def Let_def)

lemma reg_delete_wf: "reg_wf r \<Longrightarrow> reg_wf (reg_delete k r)"
  by (auto simp: reg_wf_def reg_delete_def delete_first_filter)

lemma reg_put_entries: "reg_wf r \<Longrightarrow> reg_entries (reg_put k x r) = map_put k x (reg_entries r)"
proof (cases "k \<in> set (reg_order r)")
  case True
  assume wf: "reg_wf r"
  with True have "reg_items r k \<noteq> None" by (auto simp: reg_wf_def)
  with True wf show ?thesis
    by (auto simp: reg_entries_def reg_put_def reg_wf_def map_put_present)
next
  case False
  assume wf: "reg_wf r"
  with False have "reg_items r k = None" by (auto simp: reg_wf_def)
  with False show ?thesis
    by (auto simp: reg_entries_def reg_put_def Let_def map_put_fresh image_iff)
qed

lemma reg_delete_entries:
  "reg_wf r \<Longrightarrow> reg_entries (reg_delete k r) = filter (\<lambda>e. fst e \<noteq> k) (reg_entries r)"
proof (cases "reg_items r k")
  case None
  assume wf: "reg_wf r"
  with None have "k \<notin> set (reg_order r)" by auto (metis domIff reg_wf_def)
  then have "filter (\<lambda>n. n \<noteq> k) (reg_order r) = reg_order r" by (auto intro: filter_True)
  with None show ?thesis
    by (simp add: reg_delete_def reg_entries_def filter_map o_def)
next
  case (Some x)
  assume "reg_wf r"
  with Some show ?thesis
    by (simp add: reg_delete_def reg_entries_def reg_wf_def delete_first_filter filter_map o_def)
qed

lemma reg_get_entries: "reg_wf r \<Longrightarrow> reg_items r n = map_of (reg_entries r) n"
  by (cases "n \<in> set (reg_order r)")
    (auto simp: reg_entries_def reg_wf_def map_of_map_restrict [of the] map_of_eq_None_iff o_def
      domIff map_of_map_keys dest: sym)

lemma reg_list_entries: "reg_wf r \<Longrightarrow> List.map_filter (reg_items r) (reg_order r) = map snd (reg_entries r)"
  by (auto simp: reg_wf_def reg_entries_def List.map_filter_def o_def intro!: map_cong filter_True)

lemma AddTool_put: "AddTool t = reg_put (tool_name t) t"
  by (rule ext) (simp add: AddTool_def reg_put_def Let_def)

lemma rule_Add_put: "rule_Add xs r = fold (\<lambda>x. reg_put (rule_name x) x) (List.map_filter id xs) r"
  by (induction xs r rule: rule_Add.induct)
    (simp_all add: List.map_filter_simps reg_put_def Let_def)

lemma skill_Add_put: "skill_Add xs r = fold (\<lambda>x. reg_put (skill_name x) x) (List.map_filter id xs) r"
  by (induction xs r rule: skill_Add.induct)
    (simp_all add: List.map_filter_simps reg_put_def Let_def)

lemma rule_Add_one: "rule_Add [Some x] = reg_put (rule_name x) x"
  by (rule ext) (simp add: reg_put_def Let_def)

lemma skill_Add_one: "skill_Add [Some x] = reg_put (skill_name x) x"
  by (rule ext) (simp add: reg_put_def Let_def)

lemma Remove_delete: "rule_Remove = reg_delete" "skill_Remove = reg_delete"
  by (auto intro!: ext simp: rule_Remove_def skill_Remove_def reg_delete_def)

lemma reg_empty [simp]:
  "reg_wf NewToolRegistry" "reg_wf rule_NewRegistry" "reg_wf skill_NewRegistry"
  "reg_entries NewToolRegistry = []" "reg_entries rule_NewRegistry = []"
  "reg_entries skill_NewRegistry = []"
  by (auto simp: NewToolRegistry_def rule_NewRegistry_def skill_NewRegistry_def reg_wf_def
      reg_entries_def)

lemmas reg_facts =
  reg_put_wf reg_delete_wf reg_put_entries reg_delete_entries reg_get_entries reg_list_entries

interpretation tools: registry_laws tool_name AddTool reg_delete tools_Get
    "\<lambda>r. List.map_filter (reg_items r) (reg_order r)" NewToolRegistry reg_entries reg_wf
  by unfold_locales (simp_all add: AddTool_put tools_Get_def reg_facts)

interpretation rules: registry_laws rule_name "\<lambda>x. rule_Add [Some x]" rule_Remove rule_Get
    rule_List rule_NewRegistry reg_entries reg_wf
  by unfold_locales
    (simp_all add: rule_Add_one Remove_delete rule_Get_def rule_List_def reg_facts
      del: rule_Add.simps)

interpretation skills: registry_laws skill_name "\<lambda>x. skill_Add [Some x]" skill_Remove skill_Get
    skill_List skill_NewRegistry reg_entries reg_wf
  by unfold_locales
    (simp_all add: skill_Add_one Remove_delete skill_Get_def skill_List_def reg_facts
      del: skill_Add.simps)

section \<open>Registries from their calls\<close>

lemma AddTool_sel:
  "reg_items (AddTool t r) = (reg_items r)(tool_name t \<mapsto> t)"
  "reg_order (AddTool t r) =
     (if reg_items r (tool_name t) = None then reg_order r @ [tool_name t] else reg_order r)"
  by (simp_all add: AddTool_def Let_def)

lemma fold_AddTool_get:
  "reg_items (fold AddTool ts NewToolRegistry) n = find (\<lambda>t. tool_name t = n) (rev ts)"
proof (induction ts rule: rev_induct)
  case (snoc t ts)
  then show ?case by (auto simp: AddTool_sel)
qed (simp add: NewToolRegistry_def)

lemma fold_AddTool_names:
  "reg_order (fold AddTool ts NewToolRegistry) = rev (remdups (rev (map tool_name ts)))"
proof (induction ts rule: rev_induct)
  case (snoc t ts)
  have "reg_items (fold AddTool ts NewToolRegistry) (tool_name t) = None \<longleftrightarrow>
      tool_name t \<notin> set (map tool_name ts)"
    unfolding fold_AddTool_get find_None_iff set_map set_rev image_iff by metis
  with snoc show ?case by (auto simp: AddTool_sel)
qed (simp add: NewToolRegistry_def)

text \<open>
  After any sequence of registrations the tool registry lists each name once, in the order of
  first registration; a name stands for the tool registered last under it; \<open>Tools\<close> holds no nil;
  and \<open>Execute\<close> runs that tool, or answers an error without touching anything when there is none.
\<close>

theorem tool_registry_correct:
  "Names (fold AddTool ts NewToolRegistry) = rev (remdups (rev (map tool_name ts))) \<and>
   tools_Get n (fold AddTool ts NewToolRegistry) = find (\<lambda>t. tool_name t = n) (rev ts) \<and>
   None \<notin> set (Tools (fold AddTool ts NewToolRegistry)) \<and>
   registry_Execute (fold AddTool ts NewToolRegistry) n input r =
     (case find (\<lambda>t. tool_name t = n) (rev ts) of
        None \<Rightarrow> (([], Some (ErrNew (''tool '' @ go_quote n @ '' not registered''))), r)
      | Some t \<Rightarrow> tool_execute t input r)"
proof (intro conjI)
  have "reg_wf (fold AddTool ts NewToolRegistry)" by (rule tools.wf_adds) simp
  then show "None \<notin> set (Tools (fold AddTool ts NewToolRegistry))"
    by (auto simp: Tools_def reg_wf_def dest: sym)
qed (simp_all add: Names_def fold_AddTool_names tools_Get_def registry_Execute_def fold_AddTool_get)

datatype 'a registry_call = CallAdd "'a option list" | CallRemove string

fun run_rule_call :: "rule registry_call \<Rightarrow> rule registry \<Rightarrow> rule registry" where
  "run_rule_call (CallAdd xs) r = rule_Add xs r"
| "run_rule_call (CallRemove n) r = rule_Remove n r"

fun run_skill_call :: "'w skill registry_call \<Rightarrow> 'w skill registry \<Rightarrow> 'w skill registry" where
  "run_skill_call (CallAdd xs) r = skill_Add xs r"
| "run_skill_call (CallRemove n) r = skill_Remove n r"

text \<open>What the calls mean on a list of entries.\<close>

fun spec_call :: "('a \<Rightarrow> string) \<Rightarrow> 'a registry_call \<Rightarrow> (string \<times> 'a) list \<Rightarrow> (string \<times> 'a) list" where
  "spec_call key (CallAdd xs) es = fold (\<lambda>x. map_put (key x) x) (List.map_filter id xs) es"
| "spec_call key (CallRemove n) es = filter (\<lambda>e. fst e \<noteq> n) es"

lemma rule_call_refines:
  "reg_wf r \<Longrightarrow> reg_wf (run_rule_call c r) \<and>
     reg_entries (run_rule_call c r) = spec_call rule_name c (reg_entries r)"
proof (cases c)
  case (CallAdd xs)
  assume "reg_wf r"
  moreover have "run_rule_call c r = fold (\<lambda>x. rule_Add [Some x]) (List.map_filter id xs) r"
    by (simp add: CallAdd rule_Add_put rule_Add_one del: rule_Add.simps)
  ultimately show ?thesis by (simp add: CallAdd rules.wf_adds rules.entries_adds)
qed (simp add: rules.wf_remove rules.entries_remove)

lemma skill_call_refines:
  "reg_wf r \<Longrightarrow> reg_wf (run_skill_call c r) \<and>
     reg_entries (run_skill_call c r) = spec_call skill_name c (reg_entries r)"
proof (cases c)
  case (CallAdd xs)
  assume "reg_wf r"
  moreover have "run_skill_call c r = fold (\<lambda>x. skill_Add [Some x]) (List.map_filter id xs) r"
    by (simp add: CallAdd skill_Add_put skill_Add_one del: skill_Add.simps)
  ultimately show ?thesis by (simp add: CallAdd skills.wf_adds skills.entries_adds)
qed (simp add: skills.wf_remove skills.entries_remove)

lemma calls_refine:
  assumes "\<And>c r. reg_wf r \<Longrightarrow> reg_wf (run c r) \<and> reg_entries (run c r) = spec_call key c (reg_entries r)"
  shows "reg_wf r \<Longrightarrow> reg_wf (fold run cs r) \<and>
    reg_entries (fold run cs r) = fold (spec_call key) cs (reg_entries r)"
  by (induction cs arbitrary: r) (simp_all add: assms)

text \<open>
  C23. The registries of rules and skills refine a list of entries: after any sequence of \<open>Add\<close>
  and \<open>Remove\<close>, nil arguments included, \<open>Get\<close> and \<open>List\<close> answer what the same calls make of the
  list of entries, where adding replaces in place or appends and removing deletes.
\<close>

theorem registries_refine_entries:
  "rule_Get n (fold run_rule_call cs rule_NewRegistry) = map_of (fold (spec_call rule_name) cs []) n \<and>
   rule_List (fold run_rule_call cs rule_NewRegistry) = map snd (fold (spec_call rule_name) cs []) \<and>
   skill_Get n (fold run_skill_call ds skill_NewRegistry) = map_of (fold (spec_call skill_name) ds []) n \<and>
   skill_List (fold run_skill_call ds skill_NewRegistry) = map snd (fold (spec_call skill_name) ds [])"
  using calls_refine [of run_rule_call rule_name, OF rule_call_refines, of rule_NewRegistry cs]
    calls_refine [of run_skill_call skill_name, OF skill_call_refines, of skill_NewRegistry ds]
  by (simp add: rules.get_entries rules.listing_entries skills.get_entries skills.listing_entries)

end
