(* ===== verification/Executor.thy ===== *)
theory Executor
  imports Planner Registry
begin

text \<open>
  Package \<open>executor\<close>: the interface that carries out one action and \<open>ParallelExecutor\<close>, which runs
  tools of a registry, one at a time or a batch of them in parallel behind a semaphore.
\<close>

record exec_result =
  er_tool_name :: string
  er_output :: string
  er_error :: "goerr option"

text \<open>\<open>Execute\<close> may answer the nil pointer: implementations of the interface are foreign code.\<close>

type_synonym 'w executor = "action \<Rightarrow> 'w rt \<Rightarrow> (goerr + exec_result option) \<times> 'w rt"

record 'w parallel_executor =
  px_registry :: "'w tool_registry"
  px_limit :: int

definition NewParallel :: "'w tool_registry \<Rightarrow> int \<Rightarrow> 'w parallel_executor" where
  "NewParallel registry limit = \<lparr>px_registry = registry, px_limit = limit\<rparr>"

definition exec_outcome :: "string \<Rightarrow> tool_result \<Rightarrow> exec_result" where
  "exec_outcome name res = \<lparr>er_tool_name = name, er_output = fst res, er_error = snd res\<rparr>"

definition parallel_Execute :: "'w parallel_executor \<Rightarrow> 'w executor" where
  "parallel_Execute e act r =
     (case registry_Execute (px_registry e) (act_tool_name act) (act_tool_input act) r of
        (res, r') \<Rightarrow> (Inr (Some (exec_outcome (act_tool_name act) res)), r'))"

section \<open>\<open>ExecuteBatch\<close> as a step relation\<close>

text \<open>
  One goroutine per action. A goroutine waits for the semaphore or for the context, then runs its
  tool (one step here: tools of different goroutines interleave in any order) and writes its cell
  of the result slice. \<open>bt_done\<close> is \<open>ctx.Err()\<close> once the context is done; it may be done at any
  moment.
\<close>

datatype goroutine = Waiting | Holding | Finished exec_result

record 'w batch =
  bt_cells :: "goroutine list"
  bt_done :: "goerr option"
  bt_rt :: "'w rt"

definition batch_limit :: "'w parallel_executor \<Rightarrow> action list \<Rightarrow> nat" where
  "batch_limit e actions =
     (if px_limit e \<le> 0 \<or> px_limit e > int (length actions) then length actions
      else nat (px_limit e))"

definition holding :: "goroutine list \<Rightarrow> nat" where
  "holding cells = length (filter (\<lambda>c. c = Holding) cells)"

definition batch_start :: "action list \<Rightarrow> 'w rt \<Rightarrow> 'w batch" where
  "batch_start actions r =
     \<lparr>bt_cells = replicate (length actions) Waiting, bt_done = None, bt_rt = r\<rparr>"

inductive batch_step ::
    "'w parallel_executor \<Rightarrow> action list \<Rightarrow> 'w batch \<Rightarrow> 'w batch \<Rightarrow> bool"
  for e :: "'w parallel_executor" and actions :: "action list" where
  acquire: "i < length (bt_cells b) \<Longrightarrow> bt_cells b ! i = Waiting \<Longrightarrow>
     holding (bt_cells b) < batch_limit e actions \<Longrightarrow>
     batch_step e actions b (b\<lparr>bt_cells := (bt_cells b)[i := Holding]\<rparr>)"
| give_up: "i < length (bt_cells b) \<Longrightarrow> bt_cells b ! i = Waiting \<Longrightarrow> bt_done b = Some err \<Longrightarrow>
     batch_step e actions b (b\<lparr>bt_cells := (bt_cells b)[i := Finished
       \<lparr>er_tool_name = act_tool_name (actions ! i), er_output = [], er_error = Some err\<rparr>]\<rparr>)"
| run_tool: "i < length (bt_cells b) \<Longrightarrow> bt_cells b ! i = Holding \<Longrightarrow>
     registry_Execute (px_registry e) (act_tool_name (actions ! i)) (act_tool_input (actions ! i)) (bt_rt b) = (res, r') \<Longrightarrow>
     batch_step e actions b
       (b\<lparr>bt_cells := (bt_cells b)[i := Finished (exec_outcome (act_tool_name (actions ! i)) res)], bt_rt := r'\<rparr>)"
| ctx_done: "bt_done b = None \<Longrightarrow> batch_step e actions b (b\<lparr>bt_done := Some err\<rparr>)"

inductive_cases batch_stepE: "batch_step e actions b b'"

text \<open>The result slice, when every goroutine is done.\<close>

definition batch_results :: "'w batch \<Rightarrow> exec_result list option" where
  "batch_results b =
     (if \<forall>c \<in> set (bt_cells b). c \<noteq> Waiting \<and> c \<noteq> Holding
      then Some (map (\<lambda>c. case c of Finished res \<Rightarrow> res) (bt_cells b)) else None)"

text \<open>A cell is right for its action: what the registry answered in some world, or the context's error.\<close>

definition cell_ok :: "'w parallel_executor \<Rightarrow> action \<Rightarrow> goerr option \<Rightarrow> exec_result \<Rightarrow> bool" where
  "cell_ok e act dn res \<longleftrightarrow>
     (\<exists>r. res = exec_outcome (act_tool_name act)
        (fst (registry_Execute (px_registry e) (act_tool_name act) (act_tool_input act) r))) \<or>
     (\<exists>err. dn = Some err \<and> res = \<lparr>er_tool_name = act_tool_name act, er_output = [], er_error = Some err\<rparr>)"

definition batch_inv :: "'w parallel_executor \<Rightarrow> action list \<Rightarrow> 'w batch \<Rightarrow> bool" where
  "batch_inv e actions b \<longleftrightarrow>
     length (bt_cells b) = length actions \<and> holding (bt_cells b) \<le> batch_limit e actions \<and>
     (\<forall>i res. i < length actions \<longrightarrow> bt_cells b ! i = Finished res \<longrightarrow>
        cell_ok e (actions ! i) (bt_done b) res)"

lemma holding_update:
  "i < length cells \<Longrightarrow>
   holding (cells[i := c]) + (if cells ! i = Holding then 1 else 0) =
     holding cells + (if c = Holding then 1 else 0)"
proof (induction cells arbitrary: i)
  case (Cons x cells)
  show ?case
  proof (cases i)
    case (Suc j)
    with Cons.IH [of j] Cons.prems show ?thesis by (auto simp: holding_def)
  qed (auto simp: holding_def)
qed simp

lemma batch_inv_start: "batch_inv e actions (batch_start actions r)"
  by (simp add: batch_inv_def batch_start_def holding_def)

lemma cell_ok_outcome:
  "registry_Execute (px_registry e) (act_tool_name act) (act_tool_input act) r = (res, r') \<Longrightarrow>
   cell_ok e act dn (exec_outcome (act_tool_name act) res)"
  unfolding cell_ok_def by (metis fst_conv)

lemma batch_inv_step: "batch_step e actions b b' \<Longrightarrow> batch_inv e actions b \<Longrightarrow> batch_inv e actions b'"
proof (induction rule: batch_step.induct)
  case (acquire i b)
  then show ?case
    using holding_update [of i "bt_cells b" Holding]
    by (auto simp: batch_inv_def nth_list_update split: if_splits)
next
  case (give_up i b err)
  then show ?case
    using holding_update [of i "bt_cells b" "Finished \<lparr>er_tool_name = act_tool_name (actions ! i),
      er_output = [], er_error = Some err\<rparr>"]
    by (auto simp: batch_inv_def nth_list_update cell_ok_def split: if_splits)
next
  case (run_tool i b res r')
  then show ?case
    using holding_update [of i "bt_cells b" "Finished (exec_outcome (act_tool_name (actions ! i)) res)"]
    by (auto simp: batch_inv_def nth_list_update cell_ok_outcome split: if_splits)
next
  case (ctx_done b err)
  then show ?case by (auto simp: batch_inv_def cell_ok_def)
qed

lemma batch_inv_reachable:
  "(batch_step e actions)\<^sup>*\<^sup>* (batch_start actions r) b \<Longrightarrow> batch_inv e actions b"
  by (induction rule: rtranclp_induct) (auto simp: batch_inv_start batch_inv_step)

lemma batch_progress:
  assumes "batch_inv e actions b" and "batch_results b = None"
  shows "\<exists>b'. batch_step e actions b b' \<and> bt_done b' = bt_done b"
proof (cases "\<exists>i < length (bt_cells b). bt_cells b ! i = Holding")
  case True
  then obtain i where "i < length (bt_cells b)" "bt_cells b ! i = Holding" by blast
  moreover obtain res r' where "registry_Execute (px_registry e) (act_tool_name (actions ! i))
      (act_tool_input (actions ! i)) (bt_rt b) = (res, r')"
    by fastforce
  ultimately show ?thesis
    by (intro exI conjI) (erule (2) run_tool, simp)
next
  case False
  then have none: "holding (bt_cells b) = 0"
    by (auto simp: holding_def filter_empty_conv in_set_conv_nth)
  from assms(2) False obtain i where i: "i < length (bt_cells b)" "bt_cells b ! i = Waiting"
    by (auto simp: batch_results_def in_set_conv_nth split: if_splits)
  then have "0 < batch_limit e actions"
    using assms(1) by (auto simp: batch_inv_def batch_limit_def)
  with i none have "batch_step e actions b (b\<lparr>bt_cells := (bt_cells b)[i := Holding]\<rparr>)"
    by (intro acquire) auto
  then show ?thesis by force
qed

text \<open>How many steps a batch can still make.\<close>

definition cell_steps :: "goroutine \<Rightarrow> nat" where
  "cell_steps c = (case c of Waiting \<Rightarrow> 2 | Holding \<Rightarrow> 1 | Finished _ \<Rightarrow> 0)"

definition batch_steps :: "'w batch \<Rightarrow> nat" where
  "batch_steps b = sum_list (map cell_steps (bt_cells b)) + (if bt_done b = None then 1 else 0)"

lemma sum_list_update_less:
  "i < length cells \<Longrightarrow> cell_steps c < cell_steps (cells ! i) \<Longrightarrow>
   sum_list (map cell_steps (cells[i := c])) < sum_list (map cell_steps cells)"
proof (induction cells arbitrary: i)
  case (Cons x cells)
  then show ?case by (cases i) auto
qed simp

lemma batch_steps_decrease: "batch_step e actions b b' \<Longrightarrow> batch_steps b' < batch_steps b"
  by (induction rule: batch_step.induct)
    (auto simp: batch_steps_def cell_steps_def intro!: sum_list_update_less)

lemma batch_steps_bound:
  "(batch_step e actions ^^ n) (batch_start actions r) b \<Longrightarrow>
     n + batch_steps b \<le> 2 * length actions + 1"
proof (induction n arbitrary: b)
  case 0
  have "sum_list (replicate k 2) = 2 * k" for k :: nat by (induction k) auto
  with 0 show ?case by (auto simp: batch_steps_def batch_start_def cell_steps_def)
next
  case (Suc n)
  then obtain c where c: "(batch_step e actions ^^ n) (batch_start actions r) c"
    "batch_step e actions c b"
    by auto
  from Suc.IH [OF c(1)] batch_steps_decrease [OF c(2)] show ?case by linarith
qed

text \<open>
  C20. However the goroutines of \<open>ExecuteBatch\<close> interleave: never more than the limit run a tool
  at once; as long as a cell is missing some goroutine can go on and there are at most two steps
  per action (and the end of the context), so the batch ends; and the result slice has one cell per action, in the order of the actions, each what the
  registry answered for that action or, if the context is done, the context's error.
\<close>

theorem batch_safe_and_live:
  assumes "(batch_step e actions ^^ n) (batch_start actions r) b"
  shows "holding (bt_cells b) \<le> batch_limit e actions \<and> n \<le> 2 * length actions + 1 \<and>
    (case batch_results b of
       None \<Rightarrow> \<exists>b'. batch_step e actions b b' \<and> bt_done b' = bt_done b
     | Some results \<Rightarrow> length results = length actions \<and>
         list_all2 (\<lambda>act res. cell_ok e act (bt_done b) res) actions results)"
proof (intro conjI)
  note inv = batch_inv_reachable [OF relpowp_imp_rtranclp [OF assms]]
  then show "holding (bt_cells b) \<le> batch_limit e actions" by (simp add: batch_inv_def)
  show "n \<le> 2 * length actions + 1" using batch_steps_bound [OF assms] by linarith
  show "case batch_results b of
       None \<Rightarrow> \<exists>b'. batch_step e actions b b' \<and> bt_done b' = bt_done b
     | Some results \<Rightarrow> length results = length actions \<and>
         list_all2 (\<lambda>act res. cell_ok e act (bt_done b) res) actions results"
  proof (cases "batch_results b")
    case None
    with batch_progress [OF inv] show ?thesis by simp
  next
    case (Some results)
    then have fin: "\<forall>c \<in> set (bt_cells b). \<exists>res. c = Finished res"
      and res: "results = map (\<lambda>c. case c of Finished res \<Rightarrow> res) (bt_cells b)"
      by (auto simp: batch_results_def split: if_splits) (metis goroutine.exhaust)
    from inv have len: "length (bt_cells b) = length actions" by (simp add: batch_inv_def)
    have "list_all2 (\<lambda>act res. cell_ok e act (bt_done b) res) actions results"
    proof (rule list_all2_all_nthI)
      fix i assume i: "i < length actions"
      then obtain x where "bt_cells b ! i = Finished x" using fin len by (metis nth_mem)
      with i inv len res show "cell_ok e (actions ! i) (bt_done b) (results ! i)"
        by (auto simp: batch_inv_def)
    qed (simp add: res len)
    with Some len res show ?thesis by simp
  qed
qed

lemma batch_safe_and_live_witness:
  "\<exists>b'. batch_step (NewParallel NewToolRegistry 1) [tool_action ''f'' None]
     (batch_start [tool_action ''f'' None] demo_rt) b'"
  using batch_safe_and_live [of 0 "NewParallel NewToolRegistry 1" "[tool_action ''f'' None]" demo_rt
      "batch_start [tool_action ''f'' None] demo_rt"]
  by (auto simp: batch_results_def batch_start_def)

end
