(* ===== verification/Evaluator.thy ===== *)
theory Evaluator
  imports ChatModel Json
begin

text \<open>
  Package \<open>evaluator\<close>: judging the progress of a run. An evaluator is an interface; the rule-based,
  the composite and the model-judged one are modelled with the text they exchange with the model.
\<close>

section \<open>The interface (\<open>evaluator.go\<close>)\<close>

text \<open>\<open>Decision\<close> is an \<open>int\<close>: a foreign evaluator may answer one that has no name.\<close>

datatype decision =
    DecisionContinue | DecisionComplete | DecisionRetry | DecisionEscalate | DecisionReplan
  | DecisionOther int

record eval_step =
  es_tool_name :: string
  es_input :: params
  es_output :: string
  es_error :: "goerr option"

record eval_state =
  ev_messages :: "chat_message list"
  ev_step_results :: "eval_step list"
  ev_iteration :: int

record eval_result =
  er_decision :: decision
  er_feedback :: string

text \<open>The answer may be the nil pointer.\<close>

type_synonym 'w evaluator = "eval_state \<Rightarrow> 'w rt \<Rightarrow> eval_result option res \<times> 'w rt"

definition noop_Evaluate :: "'w evaluator" where
  "noop_Evaluate st r = (Ok (Some \<lparr>er_decision = DecisionContinue, er_feedback = []\<rparr>), r)"

section \<open>Rules and composition\<close>

text \<open>Rules have no context. The first decision other than \<open>continue\<close> wins.\<close>

fun rule_based_Evaluate :: "'w evaluator list \<Rightarrow> 'w evaluator" where
  "rule_based_Evaluate [] st r = (Ok (Some \<lparr>er_decision = DecisionContinue, er_feedback = []\<rparr>), r)"
| "rule_based_Evaluate (rule # rules) st r =
     (case rule st r of
        (Ok None, r') \<Rightarrow> rule_based_Evaluate rules st r'
      | (Ok (Some res), r') \<Rightarrow>
          if er_decision res \<noteq> DecisionContinue then (Ok (Some res), r')
          else rule_based_Evaluate rules st r'
      | (Err e, r') \<Rightarrow> (Err e, r')
      | (Panic p, r') \<Rightarrow> (Panic p, r'))"

fun decisionPriority :: "decision \<Rightarrow> int" where
  "decisionPriority DecisionComplete = 5"
| "decisionPriority DecisionEscalate = 4"
| "decisionPriority DecisionRetry = 3"
| "decisionPriority DecisionReplan = 2"
| "decisionPriority DecisionContinue = 0"
| "decisionPriority (DecisionOther d) = 0"

text \<open>The loop of \<open>Evaluate\<close>, with its three variables.\<close>

fun composite_loop ::
    "'w evaluator list \<Rightarrow> string list \<Rightarrow> decision \<Rightarrow> int \<Rightarrow> 'w evaluator" where
  "composite_loop [] parts best bestP st r =
     (Ok (Some \<lparr>er_decision = best, er_feedback = join newline parts\<rparr>), r)"
| "composite_loop (ev # evs) parts best bestP st r =
     (case ev st r of
        (Err e, r') \<Rightarrow> (Err e, r')
      | (Panic p, r') \<Rightarrow> (Panic p, r')
      | (Ok None, r') \<Rightarrow> (Panic ''nil result'', r')
      | (Ok (Some res), r') \<Rightarrow>
          let parts' = (if er_feedback res \<noteq> [] then parts @ [er_feedback res] else parts);
              p = decisionPriority (er_decision res)
          in if p > bestP then composite_loop evs parts' (er_decision res) p st r'
             else composite_loop evs parts' best bestP st r')"

definition composite_Evaluate :: "'w evaluator list \<Rightarrow> 'w evaluator" where
  "composite_Evaluate evs = composite_loop evs [] DecisionContinue 0"

text \<open>What the evaluators answer one after the other, when each of them answers.\<close>

fun all_results :: "'w evaluator list \<Rightarrow> eval_state \<Rightarrow> 'w rt \<Rightarrow> eval_result list option" where
  "all_results [] st r = Some []"
| "all_results (ev # evs) st r =
     (case ev st r of
        (Ok (Some res), r') \<Rightarrow> map_option ((#) res) (all_results evs st r')
      | _ \<Rightarrow> None)"

text \<open>The first of the decisions with the highest priority, \<open>continue\<close> if none is positive.\<close>

fun dominant :: "decision \<Rightarrow> decision list \<Rightarrow> decision" where
  "dominant d [] = d"
| "dominant d (x # xs) = dominant (if decisionPriority x > decisionPriority d then x else d) xs"

lemma dominant_in: "dominant d xs \<in> insert d (set xs)"
  by (induction d xs rule: dominant.induct) auto

lemma dominant_max: "x \<in> insert d (set xs) \<Longrightarrow> decisionPriority x \<le> decisionPriority (dominant d xs)"
proof (induction d xs arbitrary: x rule: dominant.induct)
  case (2 d y ys)
  show ?case
  proof (cases "x \<in> set ys")
    case True
    with 2 show ?thesis by simp
  next
    case False
    with "2.prems" have "x = d \<or> x = y" by simp
    with "2.IH" [of "if decisionPriority y > decisionPriority d then y else d"] show ?thesis
      by (auto split: if_splits)
  qed
qed simp


lemma composite_loop_ok:
  "all_results evs st r = Some rs \<Longrightarrow>
   \<exists>r'. composite_loop evs parts best (decisionPriority best) st r =
     (Ok (Some \<lparr>er_decision = dominant best (map er_decision rs),
        er_feedback = join newline (parts @ filter (\<lambda>f. f \<noteq> []) (map er_feedback rs))\<rparr>), r')"
proof (induction evs arbitrary: parts best r rs)
  case (Cons ev evs)
  then obtain res r1 rs' where ev: "ev st r = (Ok (Some res), r1)"
    and rs: "all_results evs st r1 = Some rs'" "rs = res # rs'"
    by (auto split: prod.splits res.splits option.splits)
  let ?b = "if decisionPriority (er_decision res) > decisionPriority best then er_decision res else best"
  from Cons.IH [OF rs(1), of "if er_feedback res \<noteq> [] then parts @ [er_feedback res] else parts" ?b]
  show ?case by (auto simp: ev rs(2) Let_def split: if_splits)
qed simp

lemma composite_loop_not_ok:
  "all_results evs st r = None \<Longrightarrow> composite_loop evs parts best p st r \<noteq> (Ok x, r')"
proof (induction evs arbitrary: parts best p r)
  case (Cons ev evs)
  then show ?case
    by (auto simp: Let_def split: prod.splits res.splits option.splits if_splits)
qed simp


section \<open>The judge (\<open>llm_judge.go\<close>)\<close>

record 'w llm_judge =
  lj_model :: "'w chat_model option"
  lj_prompt :: string

definition defaultLLMJudgePrompt :: string where
  "defaultLLMJudgePrompt = join newline
    [''You evaluate agent execution progress. Judge whether the task is on track.'',
     [],
     ''Respond with a single JSON object only (no markdown, no extra text), with exactly these keys:'',
     ''{'' @ [quote_char] @ ''decision'' @ [quote_char, CHR '':'', quote_char] @ ''continue|complete|retry|escalate|replan'' @
       [quote_char, CHR '','', quote_char] @ ''feedback'' @ [quote_char, CHR '':'', quote_char] @ ''brief rationale'' @ [quote_char] @ ''}'',
     [],
     ''Meanings:'',
     ''- continue: keep iterating with the current plan'',
     ''- complete: goal satisfied, stop successfully'',
     ''- retry: last step should be retried or corrected'',
     ''- escalate: human or operator help needed'',
     ''- replan: change strategy or plan before continuing'',
     [],
     []]"

definition NewLLMJudge :: "'w chat_model option \<Rightarrow> 'w llm_judge" where
  "NewLLMJudge m = \<lparr>lj_model = m, lj_prompt = defaultLLMJudgePrompt\<rparr>"

definition NewLLMJudgeWithPrompt :: "'w chat_model option \<Rightarrow> string \<Rightarrow> 'w llm_judge" where
  "NewLLMJudgeWithPrompt m prompt = \<lparr>lj_model = m, lj_prompt = prompt\<rparr>"

text \<open>The members of a struct, without those left out by \<open>omitempty\<close>.\<close>

definition doc :: "(string \<times> gval option) list \<Rightarrow> gval" where
  "doc members = VMap (List.map_filter (\<lambda>(k, v). map_option (Pair k) v) members)"

definition nonempty_str :: "string \<Rightarrow> gval option" where
  "nonempty_str s = (if s = [] then None else Some (VStr s))"

definition nonempty_list :: "gval list \<Rightarrow> gval option" where
  "nonempty_list vs = (if vs = [] then None else Some (VList vs))"

definition params_doc :: "params \<Rightarrow> gval" where
  "params_doc p = (case p of None \<Rightarrow> VNil | Some m \<Rightarrow> sorted_value (VMap m))"

definition tool_call_doc :: "tool_call \<Rightarrow> gval" where
  "tool_call_doc tc =
     doc [(''id'', Some (VStr (tc_id tc))), (''name'', Some (VStr (tc_name tc))),
          (''arguments'', Some (params_doc (tc_arguments tc)))]"

definition message_doc :: "chat_message \<Rightarrow> gval" where
  "message_doc m =
     doc [(''role'', Some (VStr (msg_role m))), (''content'', Some (VStr (msg_content m))),
          (''tool_calls'', nonempty_list (map tool_call_doc (msg_tool_calls m))),
          (''tool_call_id'', nonempty_str (msg_tool_call_id m)), (''name'', nonempty_str (msg_name m))]"

definition eval_step_doc :: "eval_step \<Rightarrow> gval" where
  "eval_step_doc s =
     doc [(''tool_name'', Some (VStr (es_tool_name s))),
          (''input'', if es_input s = None \<or> es_input s = Some [] then None else Some (params_doc (es_input s))),
          (''output'', nonempty_str (es_output s)),
          (''error'', case es_error s of None \<Rightarrow> None | Some e \<Rightarrow> nonempty_str (err_text e))]"

definition buildEvalStatePayload :: "eval_state \<Rightarrow> string" where
  "buildEvalStatePayload st =
     ''Evaluation context (JSON):'' @ newline @
     pretty []
       (doc [(''iteration'', Some (VNum (int_text (ev_iteration st)))),
             (''messages'', nonempty_list (map message_doc (ev_messages st))),
             (''step_results'', nonempty_list (map eval_step_doc (ev_step_results st)))])"

definition fence :: string where
  "fence = [CHR 0x60, CHR 0x60, CHR 0x60]"

text \<open>
  \<open>reJSONFence.FindStringSubmatch\<close>: the text between the first fence (and \<open>json\<close> after it) and the
  next one. White space at its ends does not matter, the caller trims it.
\<close>

definition fenced :: "string \<Rightarrow> string option" where
  "fenced raw =
     (case index_of fence raw of
        None \<Rightarrow> None
      | Some i \<Rightarrow>
          let rest = drop (i + 3) raw;
              rest = (if to_lower (take 4 rest) = ''json'' then drop 4 rest else rest)
          in map_option (\<lambda>j. take j rest) (index_of fence rest))"

definition braced :: "string \<Rightarrow> string option" where
  "braced raw =
     (case (index_of ''{'' raw, last_index_of ''}'' raw) of
        (Some i, Some j) \<Rightarrow> if j > i then Some (take (j + 1 - i) (drop i raw)) else None
      | _ \<Rightarrow> None)"

definition judge_field :: "string \<Rightarrow> gval \<Rightarrow> string \<times> string \<Rightarrow> (string \<times> string) option" where
  "judge_field k v j =
     (if field_is ''decision'' k then decode_string (\<lambda>s (_, f). (s, f)) v j
      else if field_is ''feedback'' k then decode_string (\<lambda>s (d, _). (d, s)) v j
      else Some j)"

definition mapDecisionString :: "string \<Rightarrow> decision" where
  "mapDecisionString s =
     (let t = to_lower (trim_space s) in
      if t \<in> {''complete'', ''done'', ''success'', ''finished''} then DecisionComplete
      else if t \<in> {''retry'', ''again''} then DecisionRetry
      else if t \<in> {''escalate'', ''human'', ''help''} then DecisionEscalate
      else if t \<in> {''replan'', ''re-plan''} then DecisionReplan
      else DecisionContinue)"

fun try_candidates :: "string \<Rightarrow> string list \<Rightarrow> decision \<times> string" where
  "try_candidates raw [] = (DecisionContinue, trim_space raw)"
| "try_candidates raw (c # cs) =
     (case unmarshal judge_field ([], []) c of
        Some (d, f) \<Rightarrow> (mapDecisionString d, trim_space f)
      | None \<Rightarrow> try_candidates raw cs)"

definition parseJudgeResponse :: "string \<Rightarrow> decision \<times> string" where
  "parseJudgeResponse raw =
     try_candidates raw
       ((case fenced raw of Some m \<Rightarrow> [trim_space m] | None \<Rightarrow> []) @ [trim_space raw] @
        (case braced raw of Some b \<Rightarrow> [trim_space b] | None \<Rightarrow> []))"

definition judge_Evaluate :: "'w llm_judge \<Rightarrow> 'w evaluator" where
  "judge_Evaluate e st r =
     (case lj_model e of
        None \<Rightarrow> (Err (ErrNew ''llm judge: model is nil''), r)
      | Some m \<Rightarrow>
          (case cm_generate m r
             [text_message RoleSystem (lj_prompt e), text_message RoleUser (buildEvalStatePayload st)] [] of
             (Inl e', r') \<Rightarrow> (Err e', r')
           | (Inr None, r') \<Rightarrow> (Panic ''nil response'', r')
           | (Inr (Some resp), r') \<Rightarrow>
               (case parseJudgeResponse (trim_space (msg_content (resp_message resp))) of
                  (d, f) \<Rightarrow> (Ok (Some \<lparr>er_decision = d, er_feedback = f\<rparr>), r'))))"

section \<open>Reading an answer in the requested format\<close>

text \<open>The answer the prompt asks for.\<close>

definition judge_answer :: "string \<Rightarrow> string \<Rightarrow> string" where
  "judge_answer d f =
     ''{'' @ json_string ''decision'' @ '':'' @ json_string d @ '','' @
     json_string ''feedback'' @ '':'' @ json_string f @ ''}''"

fun decision_word :: "decision \<Rightarrow> string" where
  "decision_word DecisionComplete = ''complete''"
| "decision_word DecisionRetry = ''retry''"
| "decision_word DecisionEscalate = ''escalate''"
| "decision_word DecisionReplan = ''replan''"
| "decision_word _ = ''continue''"

lemma space_chars: "p \<in> set space_runes \<Longrightarrow> hd p \<noteq> CHR ''{'' \<and> last p \<noteq> CHR ''}'' \<and> p \<noteq> []"
  by (auto simp: space_runes_def)

lemma trim_braces: "trim_space (CHR ''{'' # s @ ''}'') = CHR ''{'' # s @ ''}''"
proof -
  have l: "trim_left (CHR ''{'' # t) = CHR ''{'' # t" for t
    unfolding trim_left_def
    by (rule strip_done) (auto simp: has_prefix_iff Cons_eq_append_conv dest!: space_chars)
  have "strip (map rev space_runes) (CHR ''}'' # t) = CHR ''}'' # t" for t
  proof (rule strip_done, intro ballI impI notI)
    fix p assume "p \<in> set (map rev space_runes)" "p \<noteq> []" "has_prefix p (CHR ''}'' # t)"
    then obtain q where "q \<in> set space_runes" "has_prefix (rev q) (CHR ''}'' # t)" by auto
    then show False
      using space_chars [of q] by (auto simp: has_prefix_iff Cons_eq_append_conv)
        (metis last_snoc rev.simps(2) rev_rev_ident)
  qed
  then have "trim_right (CHR ''{'' # s @ ''}'') = CHR ''{'' # s @ ''}''"
    by (simp add: trim_right_def)
  then show ?thesis by (simp add: trim_space_def l)
qed

lemma judge_answer_reads:
  "unmarshal judge_field ([], []) (judge_answer d f) = Some (d, f)"
proof -
  let ?m = "map_put ''feedback'' (VStr f) (map_put ''decision'' (VStr d) [])"
  let ?t = "json_string ''decision'' @ CHR '':'' # json_string d @ CHR '','' #
     json_string ''feedback'' @ CHR '':'' # json_string f @ ''}''"
  have ans: "judge_answer d f = CHR ''{'' # ?t" by (simp add: judge_answer_def)
  have ws: "skip_ws (CHR ''{'' # ?t) = CHR ''{'' # ?t" "skip_ws ?t = ?t"
    by (simp_all add: skip_ws_def json_space_def json_string_def)
  have first: "\<not> has_prefix ''}'' ?t" by (simp add: json_string_def has_prefix_def)
  have fb: "skip_ws (json_string ''feedback'' @ s) = json_string ''feedback'' @ s" for s
    by (simp add: json_string_Cons)
  have "parse_members (Suc (Suc (Suc n))) [] ?t = Some (?m, [])" for n
    using parse_string_member [of "CHR '',''" "Suc n" "[]" "''decision''" d
        "json_string ''feedback'' @ CHR '':'' # json_string f @ ''}''"]
      parse_string_member [of "CHR ''}''" n "map_put ''decision'' (VStr d) []" "''feedback''" f "[]"]
    by (simp add: fb del: map_put.simps parse_members.simps)
  then have "parse_value (Suc (Suc (Suc (Suc n)))) (CHR ''{'' # ?t) = Some (VMap ?m, [])" for n
    using ws first by (simp add: has_prefix_def del: map_put.simps parse_members.simps)
  moreover have "2 * length (CHR ''{'' # ?t) + 2 = Suc (Suc (Suc (Suc (2 * length ?t))))"
    by (simp only: list.size) arith
  ultimately have "parse_value (2 * length (CHR ''{'' # ?t) + 2) (CHR ''{'' # ?t) = Some (VMap ?m, [])"
    by (simp only:)
  then have "json_parse (CHR ''{'' # ?t) = Some (VMap ?m)"
    unfolding json_parse_def ws(1) by (simp only: option.case prod.case) (simp add: skip_ws_def)
  moreover have "to_lower ''decision'' = ''decision''" "to_lower ''feedback'' = ''feedback''"
    by code_simp+
  ultimately show ?thesis
    unfolding ans by (simp add: unmarshal_def judge_field_def field_is_def)
qed

lemma index_of_absent: "c \<notin> set s \<Longrightarrow> c \<in> set p \<Longrightarrow> index_of p s = None"
proof (induction s)
  case (Cons x s)
  have "\<not> has_prefix p (x # s)"
    using Cons.prems by (auto simp: has_prefix_def dest: in_set_takeD) (metis in_set_takeD set_ConsD)
  with Cons show ?case by auto
qed auto

lemma hex_digit_backtick: "n < 16 \<Longrightarrow> hex_digit n \<noteq> CHR 0x60"
proof
  assume "n < 16" "hex_digit n = CHR 0x60"
  then have "hex_value (CHR 0x60) = Some n" using hex_value_digit [of n] by simp
  moreover have "hex_value (CHR 0x60) = None" by code_simp
  ultimately show False by simp
qed

lemma json_char_backtick: "c \<noteq> CHR 0x60 \<Longrightarrow> CHR 0x60 \<notin> set (json_char c)"
proof -
  assume c: "c \<noteq> CHR 0x60"
  have "char_code c div 16 < 16"
    using char_code_less [of c] by (simp add: div_less_iff_less_mult del: char_code_less)
  then have h: "hex_digit (char_code c div 16) \<noteq> CHR 0x60" "hex_digit (char_code c mod 16) \<noteq> CHR 0x60"
    by (simp_all add: hex_digit_backtick)
  define h1 h2 where "h1 = hex_digit (char_code c div 16)" "h2 = hex_digit (char_code c mod 16)"
  from h have "CHR 0x60 \<notin> set [backslash, CHR ''u'', CHR ''0'', CHR ''0'', h1, h2]"
    by (simp add: h1_h2_def eq_commute)
  moreover have "CHR 0x60 \<notin> set [backslash, x]" if "x \<noteq> CHR 0x60" for x using that by auto
  moreover have "CHR 0x60 \<notin> set [c]" using c by auto
  ultimately show ?thesis
    unfolding json_char_def Let_def h1_h2_def [symmetric] using c by (simp only: split: if_split) auto
qed

lemma json_string_backtick: "CHR 0x60 \<notin> set s \<Longrightarrow> CHR 0x60 \<notin> set (json_string s)"
  by (auto simp: json_string_def) (metis json_char_backtick)

lemma word_backtick: "CHR 0x60 \<notin> set (decision_word d)"
  by (cases d) auto

definition misread_answer :: string where
  "misread_answer = judge_answer ''complete'' (fence @ ''{}'' @ fence)"

text \<open>
  C22. The judge reads the format its prompt asks for: a decision word and any feedback without a
  back quote come back as that decision and the trimmed feedback. With a code block in the feedback
  the answer is lost: the text in the fence is tried before the answer, so that \<open>complete\<close> with
  the feedback ```{}``` is read as \<open>continue\<close> without feedback.
\<close>

theorem judge_reads_requested_format:
  assumes "CHR 0x60 \<notin> set f" and "\<forall>n. d \<noteq> DecisionOther n"
  shows "parseJudgeResponse (judge_answer (decision_word d) f) = (d, trim_space f) \<and>
    parseJudgeResponse misread_answer = (DecisionContinue, [])"
proof
  have "CHR 0x60 \<notin> set (judge_answer (decision_word d) f)"
    using assms(1) json_string_backtick [of f] json_string_backtick [OF word_backtick, of d]
      json_string_backtick [of "''decision''"] json_string_backtick [of "''feedback''"]
    by (auto simp: judge_answer_def)
  then have "index_of fence (judge_answer (decision_word d) f) = None"
    by (rule index_of_absent) (simp add: fence_def)
  then have "fenced (judge_answer (decision_word d) f) = None" by (simp add: fenced_def)
  moreover have "trim_space (judge_answer (decision_word d) f) = judge_answer (decision_word d) f"
    using trim_braces [of "json_string ''decision'' @ '':'' @ json_string (decision_word d) @ '','' @
      json_string ''feedback'' @ '':'' @ json_string f"]
    by (simp add: judge_answer_def)
  moreover have "mapDecisionString (decision_word d) = d"
  proof -
    have "mapDecisionString ''complete'' = DecisionComplete" "mapDecisionString ''retry'' = DecisionRetry"
      "mapDecisionString ''escalate'' = DecisionEscalate" "mapDecisionString ''replan'' = DecisionReplan"
      "mapDecisionString ''continue'' = DecisionContinue"
      by code_simp+
    with assms(2) show ?thesis by (cases d) auto
  qed
  ultimately show "parseJudgeResponse (judge_answer (decision_word d) f) = (d, trim_space f)"
    by (simp add: parseJudgeResponse_def judge_answer_reads)
  show "parseJudgeResponse misread_answer = (DecisionContinue, [])" by code_simp
qed

lemma judge_reads_requested_format_witness:
  "parseJudgeResponse (judge_answer ''retry'' ''once more'') = (DecisionRetry, ''once more'')"
proof -
  have "trim_space ''once more'' = ''once more''" by code_simp
  then show ?thesis using judge_reads_requested_format [of "''once more''" DecisionRetry] by simp
qed

end
