(* ===== verification/Interrupter.thy ===== *)
theory Interrupter
  imports Planner
begin

text \<open>
  Package \<open>interrupter\<close>: when a human is asked, what the human may answer, and the checkpoints of a
  run with their in-memory store.
\<close>

section \<open>The interface (\<open>interrupter.go\<close>)\<close>

datatype interrupt_type = InterruptBeforeToolCall | InterruptAfterPlan | InterruptOnEscalate

record interrupt_event =
  ie_type :: interrupt_type
  ie_action :: action

record human_response =
  hr_approved :: bool
  hr_message :: string
  hr_modified_input :: params

record 'w interrupter =
  in_should :: "interrupt_event \<Rightarrow> 'w rt \<Rightarrow> (goerr + bool) \<times> 'w rt"
  in_wait :: "interrupt_event \<Rightarrow> 'w rt \<Rightarrow> (goerr + human_response option) \<times> 'w rt"

section \<open>The human in the loop (\<open>hitl.go\<close>)\<close>

text \<open>
  The approval callback is foreign code. \<open>hitl_wait_timeout\<close> is a duration in nanoseconds; zero
  means to wait as long as the context allows.
\<close>

record 'w hitl =
  hitl_require_approval :: "string list"
  hitl_auto_approve_read :: bool
  hitl_wait_timeout :: int
  hitl_approval_fn :: "(interrupt_event \<Rightarrow> 'w \<Rightarrow> (goerr + human_response option) \<times> 'w) option"

type_synonym 'w hitl_option = "'w hitl \<Rightarrow> 'w hitl"

definition WithRequireApproval :: "string list \<Rightarrow> 'w hitl_option" where
  "WithRequireApproval tools h = h\<lparr>hitl_require_approval := tools\<rparr>"

definition WithAutoApproveRead :: "bool \<Rightarrow> 'w hitl_option" where
  "WithAutoApproveRead auto h = h\<lparr>hitl_auto_approve_read := auto\<rparr>"

definition WithWaitTimeout :: "int \<Rightarrow> 'w hitl_option" where
  "WithWaitTimeout d h = h\<lparr>hitl_wait_timeout := d\<rparr>"

definition NewHITL ::
    "(interrupt_event \<Rightarrow> 'w \<Rightarrow> (goerr + human_response option) \<times> 'w) option \<Rightarrow>
     'w hitl_option list \<Rightarrow> 'w hitl" where
  "NewHITL fn opts =
     fold (\<lambda>f h. f h) opts
       \<lparr>hitl_require_approval = [], hitl_auto_approve_read = False, hitl_wait_timeout = 0,
        hitl_approval_fn = fn\<rparr>"

definition read_keywords :: "string list" where
  "read_keywords =
     [''read'', ''get'', ''list'', ''fetch'', ''query'', ''search'', ''retrieve'', ''lookup'', ''view'', ''download'']"

definition isReadClassTool :: "string \<Rightarrow> bool" where
  "isReadClassTool toolName =
     (let name = to_lower (trim_space toolName) in
      if name = [] then False else \<exists>kw \<in> set read_keywords. contains name kw)"

definition toolInList :: "string \<Rightarrow> string list \<Rightarrow> bool" where
  "toolInList toolName xs \<longleftrightarrow> toolName \<in> set xs"

definition shouldInterruptForTool :: "'w hitl \<Rightarrow> action \<Rightarrow> bool" where
  "shouldInterruptForTool h act =
     (if act_type act \<noteq> ActionToolCall then False
      else if hitl_auto_approve_read h \<and> isReadClassTool (act_tool_name act) then False
      else if length (hitl_require_approval h) > 0
        then toolInList (act_tool_name act) (hitl_require_approval h)
      else True)"

text \<open>\<open>ShouldInterrupt\<close> never fails.\<close>

definition ShouldInterrupt :: "'w hitl \<Rightarrow> interrupt_event \<Rightarrow> bool" where
  "ShouldInterrupt h ev =
     (case ie_type ev of
        InterruptAfterPlan \<Rightarrow> True
      | InterruptOnEscalate \<Rightarrow> True
      | InterruptBeforeToolCall \<Rightarrow> shouldInterruptForTool h (ie_action ev))"

text \<open>
  \<open>WaitForHuman\<close> is a \<open>select\<close> over the end of the context, its own timeout and the answer of the
  callback, which runs in a goroutine of its own and whose effect on the world happens whether or
  not its answer is awaited. \<open>late\<close> says that the timeout fires first.
\<close>

inductive WaitForHuman ::
    "'w hitl \<Rightarrow> interrupt_event \<Rightarrow> 'w rt \<Rightarrow> (goerr + human_response option) \<Rightarrow> 'w rt \<Rightarrow> bool"
  for h :: "'w hitl" and ev :: interrupt_event and r :: "'w rt" where
  no_fn: "hitl_approval_fn h = None \<Longrightarrow>
     WaitForHuman h ev r (Inl (ErrNew ''interrupter: approval function is nil'')) r"
| answered: "hitl_approval_fn h = Some fn \<Longrightarrow> fn ev (rt_world r) = (x, w) \<Longrightarrow>
     WaitForHuman h ev r x (r\<lparr>rt_world := w\<rparr>)"
| timed_out: "hitl_approval_fn h = Some fn \<Longrightarrow> hitl_wait_timeout h > 0 \<Longrightarrow> fn ev (rt_world r) = (x, w) \<Longrightarrow>
     WaitForHuman h ev r (Inl (ErrSentinel ErrDeadlineExceeded)) (r\<lparr>rt_world := w\<rparr>)"
| cancelled: "hitl_approval_fn h = Some fn \<Longrightarrow> rt_ctx r = CancelAfter n e \<Longrightarrow> fn ev (rt_world r) = (x, w) \<Longrightarrow>
     WaitForHuman h ev r (Inl e) (r\<lparr>rt_world := w, rt_ctx := CancelAfter 0 e\<rparr>)"

inductive_cases WaitForHumanE: "WaitForHuman h ev r x r'"

text \<open>
  A tool call goes ahead without a human exactly when reading is approved automatically and the
  name looks like reading, or there is a list of names that need approval and this one is not on it;
  plans and escalations always ask. The name looks like reading when a keyword occurs anywhere in
  it: with automatic approval a tool \<open>delete_targets\<close> runs unasked even if it is on the list.
\<close>

theorem hitl_asks_unless_exempt:
  "(ShouldInterrupt h \<lparr>ie_type = InterruptBeforeToolCall, ie_action = tool_action name input\<rparr> \<longleftrightarrow>
      \<not> (hitl_auto_approve_read h \<and> isReadClassTool name) \<and>
      (hitl_require_approval h = [] \<or> name \<in> set (hitl_require_approval h))) \<and>
   ShouldInterrupt h \<lparr>ie_type = InterruptAfterPlan, ie_action = act\<rparr> \<and>
   ShouldInterrupt h \<lparr>ie_type = InterruptOnEscalate, ie_action = act\<rparr> \<and>
   \<not> ShouldInterrupt (NewHITL fn [WithAutoApproveRead True, WithRequireApproval [''delete_targets'']])
       \<lparr>ie_type = InterruptBeforeToolCall, ie_action = tool_action ''delete_targets'' input\<rparr>"
proof -
  have "isReadClassTool ''delete_targets''" by code_simp
  then show ?thesis
    by (auto simp: ShouldInterrupt_def shouldInterruptForTool_def tool_action_def toolInList_def
        NewHITL_def WithAutoApproveRead_def WithRequireApproval_def)
qed

section \<open>Checkpoints (\<open>checkpoint.go\<close>)\<close>

record agent_snapshot =
  as_run_id :: string
  as_plan :: "plan_result option"
  as_step_results :: "step_result list"
  as_iteration :: int
  as_state :: int

text \<open>
  \<open>Serialize\<close> and \<open>Deserialize\<close> up to the JSON document: printing a document and parsing the text
  is the business of \<open>encoding/json\<close>. The structs of package \<open>planner\<close> have no tags, so their fields
  keep their names. An \<open>error\<close> prints as an object: its fields are not exported, or those of a
  \<open>StructuredValidationError\<close>.
\<close>

fun json_value :: "gval \<Rightarrow> gval" where
  "json_value (VStrs ss) = VList (map VStr ss)"
| "json_value (VList vs) = VList (map json_value vs)"
| "json_value (VMap m) = VMap (map (\<lambda>(k, v). (k, json_value v)) m)"
| "json_value v = v"

definition params_json :: "params \<Rightarrow> gval" where
  "params_json p = (case p of None \<Rightarrow> VNil | Some m \<Rightarrow> json_value (VMap m))"

definition int_json :: "int \<Rightarrow> gval" where
  "int_json i = VNum (int_text i)"

definition action_json :: "action \<Rightarrow> gval" where
  "action_json a =
     VMap [(''Type'', int_json (action_type_int (act_type a))), (''ToolName'', VStr (act_tool_name a)),
           (''ToolInput'', params_json (act_tool_input a)), (''Answer'', VStr (act_answer a))]"

definition violation_json :: "field_violation \<Rightarrow> gval" where
  "violation_json v =
     VMap [(''field'', VStr (fv_field v)), (''rule'', VStr (fv_rule v)), (''expected'', VStr (fv_expected v)),
           (''actual'', VStr (fv_actual v)), (''message'', VStr (fv_message v))]"

definition error_json :: "goerr option \<Rightarrow> gval" where
  "error_json e =
     (case e of
        None \<Rightarrow> VNil
      | Some (ErrStructured s) \<Rightarrow>
          VMap [(''message'', VStr (sve_message s)), (''expected_schema'', VStr (sve_expected_schema s)),
                (''violations'', VList (map violation_json (sve_violations s))), (''hint'', VStr (sve_hint s))]
      | Some _ \<Rightarrow> VMap [])"

definition step_json :: "step_result \<Rightarrow> gval" where
  "step_json s =
     VMap [(''Action'', action_json (sr_action s)), (''Output'', VStr (sr_output s)),
           (''Error'', error_json (sr_error s))]"

definition plan_json :: "plan_result \<Rightarrow> gval" where
  "plan_json p = VMap [(''Action'', action_json (pr_action p)), (''Reasoning'', VStr (pr_reasoning p))]"

definition Serialize :: "agent_snapshot \<Rightarrow> gval" where
  "Serialize s =
     VMap ([(''run_id'', VStr (as_run_id s))] @
       (case as_plan s of
          None \<Rightarrow> []
        | Some p \<Rightarrow> [(''plan'', plan_json p)]) @
       [(''step_results'', if as_step_results s = [] then VNil else VList (map step_json (as_step_results s))),
        (''iteration'', int_json (as_iteration s)), (''state'', int_json (as_state s))])"

section \<open>Reading a checkpoint back\<close>

definition zero_action :: action where
  "zero_action =
     \<lparr>act_type = ActionToolCall, act_tool_name = [], act_tool_input = None, act_answer = []\<rparr>"

text \<open>An action's type is an \<open>int\<close>; only the three that have a name can be read here.\<close>

definition int_action_type :: "int \<Rightarrow> action_type" where
  "int_action_type i = (if i = 1 then ActionFinalAnswer else if i = 2 then ActionAskHuman else ActionToolCall)"

fun decode_params :: "gval \<Rightarrow> action \<Rightarrow> action option" where
  "decode_params (VMap m) a = Some (a\<lparr>act_tool_input := Some m\<rparr>)"
| "decode_params VNil a = Some (a\<lparr>act_tool_input := None\<rparr>)"
| "decode_params _ a = None"

definition action_field :: "string \<Rightarrow> gval \<Rightarrow> action \<Rightarrow> action option" where
  "action_field k v a =
     (if field_is ''type'' k then decode_int (\<lambda>i a. a\<lparr>act_type := int_action_type i\<rparr>) v a
      else if field_is ''toolname'' k then decode_string (\<lambda>s a. a\<lparr>act_tool_name := s\<rparr>) v a
      else if field_is ''toolinput'' k then decode_params v a
      else if field_is ''answer'' k then decode_string (\<lambda>s a. a\<lparr>act_answer := s\<rparr>) v a
      else Some a)"

text \<open>A field of type \<open>error\<close> can be read from \<open>null\<close> only.\<close>

definition step_field :: "string \<Rightarrow> gval \<Rightarrow> step_result \<Rightarrow> step_result option" where
  "step_field k v s =
     (if field_is ''action'' k
        then map_option (\<lambda>a. s\<lparr>sr_action := a\<rparr>) (decode_struct action_field (sr_action s) v)
      else if field_is ''output'' k then decode_string (\<lambda>t s. s\<lparr>sr_output := t\<rparr>) v s
      else if field_is ''error'' k then (if v = VNil then Some (s\<lparr>sr_error := None\<rparr>) else None)
      else Some s)"

definition zero_step :: step_result where
  "zero_step = \<lparr>sr_action = zero_action, sr_output = [], sr_error = None\<rparr>"

fun decode_steps :: "gval list \<Rightarrow> step_result list option" where
  "decode_steps [] = Some []"
| "decode_steps (v # vs) =
     (case decode_struct step_field zero_step v of
        None \<Rightarrow> None
      | Some s \<Rightarrow> map_option ((#) s) (decode_steps vs))"

definition plan_field :: "string \<Rightarrow> gval \<Rightarrow> plan_result \<Rightarrow> plan_result option" where
  "plan_field k v p =
     (if field_is ''action'' k
        then map_option (\<lambda>a. p\<lparr>pr_action := a\<rparr>) (decode_struct action_field (pr_action p) v)
      else if field_is ''reasoning'' k then decode_string (\<lambda>t p. p\<lparr>pr_reasoning := t\<rparr>) v p
      else Some p)"

definition snapshot_field :: "string \<Rightarrow> gval \<Rightarrow> agent_snapshot \<Rightarrow> agent_snapshot option" where
  "snapshot_field k v s =
     (if field_is ''run_id'' k then decode_string (\<lambda>t s. s\<lparr>as_run_id := t\<rparr>) v s
      else if field_is ''plan'' k then
        (if v = VNil then Some (s\<lparr>as_plan := None\<rparr>)
         else map_option (\<lambda>p. s\<lparr>as_plan := Some p\<rparr>)
           (decode_struct plan_field \<lparr>pr_action = zero_action, pr_reasoning = []\<rparr> v))
      else if field_is ''step_results'' k then
        (case v of
           VNil \<Rightarrow> Some (s\<lparr>as_step_results := []\<rparr>)
         | VList vs \<Rightarrow> map_option (\<lambda>ss. s\<lparr>as_step_results := ss\<rparr>) (decode_steps vs)
         | _ \<Rightarrow> None)
      else if field_is ''iteration'' k then decode_int (\<lambda>i s. s\<lparr>as_iteration := i\<rparr>) v s
      else if field_is ''state'' k then decode_int (\<lambda>i s. s\<lparr>as_state := i\<rparr>) v s
      else Some s)"

definition Deserialize :: "gval \<Rightarrow> agent_snapshot option" where
  "Deserialize data =
     decode_struct snapshot_field
       \<lparr>as_run_id = [], as_plan = None, as_step_results = [], as_iteration = 0, as_state = 0\<rparr> data"

section \<open>The store\<close>

record ('w, 'c) checkpoint_store =
  cp_save :: "string \<Rightarrow> agent_snapshot option \<Rightarrow> ('w, 'c, unit) op"
  cp_load :: "string \<Rightarrow> ('w, 'c, agent_snapshot option) op"
  cp_delete :: "string \<Rightarrow> ('w, 'c, unit) op"

type_synonym checkpoint_map = "string \<rightharpoonup> gval"

definition NewMemoryStore :: checkpoint_map where
  "NewMemoryStore = Map.empty"

definition memstore_Save :: "string \<Rightarrow> agent_snapshot option \<Rightarrow> ('w, checkpoint_map, unit) op" where
  "memstore_Save runID snapshot =
     go_bind go_check_ctx (\<lambda>_.
       case snapshot of
         None \<Rightarrow> go_return ()
       | Some s \<Rightarrow> go_bind go_get (\<lambda>m. go_put (m(runID \<mapsto> Serialize s))))"

definition memstore_Load :: "string \<Rightarrow> ('w, checkpoint_map, agent_snapshot option) op" where
  "memstore_Load runID =
     go_bind go_check_ctx (\<lambda>_. go_bind go_get (\<lambda>m.
       case m runID of
         None \<Rightarrow> go_fail (ErrNew (''checkpoint: not found for run_id '' @ go_quote runID))
       | Some b \<Rightarrow> (case Deserialize b of Some s \<Rightarrow> go_return (Some s) | None \<Rightarrow> go_fail json_error)))"

definition memstore_Delete :: "string \<Rightarrow> ('w, checkpoint_map, unit) op" where
  "memstore_Delete runID =
     go_bind go_check_ctx (\<lambda>_. go_bind go_get (\<lambda>m. go_put (m(runID := None))))"

definition memstore_ops :: "('w, checkpoint_map) checkpoint_store" where
  "memstore_ops = \<lparr>cp_save = memstore_Save, cp_load = memstore_Load, cp_delete = memstore_Delete\<rparr>"

text \<open>
  What an interface for checkpoints can be relied on for: a snapshot that the store can hold is
  read back, up to the changes JSON makes to dynamically typed values. Which snapshots a store can
  hold is a parameter, and for the in-memory one not all are.
\<close>

fun plain_params :: "params \<Rightarrow> params" where
  "plain_params None = None"
| "plain_params (Some m) = Some (map (\<lambda>(k, v). (k, json_value v)) m)"

definition plain_action :: "action \<Rightarrow> action" where
  "plain_action a = a\<lparr>act_tool_input := plain_params (act_tool_input a)\<rparr>"

definition plain_step :: "step_result \<Rightarrow> step_result" where
  "plain_step s = s\<lparr>sr_action := plain_action (sr_action s)\<rparr>"

definition plain_snapshot :: "agent_snapshot \<Rightarrow> agent_snapshot" where
  "plain_snapshot s =
     s\<lparr>as_plan := map_option (\<lambda>p. p\<lparr>pr_action := plain_action (pr_action p)\<rparr>) (as_plan s),
       as_step_results := map plain_step (as_step_results s)\<rparr>"

definition small_int :: "int \<Rightarrow> bool" where
  "small_int i \<longleftrightarrow> - (2 ^ 63) \<le> i \<and> i < 2 ^ 63"

definition without_errors :: "agent_snapshot \<Rightarrow> bool" where
  "without_errors s \<longleftrightarrow> list_all (\<lambda>x. sr_error x = None) (as_step_results s)"

locale checkpoint_laws =
  fixes ops :: "('w, 'c) checkpoint_store"
    and lookup :: "'c \<Rightarrow> string \<Rightarrow> agent_snapshot option"
    and storable :: "agent_snapshot \<Rightarrow> bool"
  assumes save_ok: "storable s \<Longrightarrow> cp_save ops k (Some s) r c = (Ok u, r', c') \<Longrightarrow>
      lookup c' = (lookup c)(k \<mapsto> plain_snapshot s)"
    and save_live: "rt_ctx r = Background \<Longrightarrow>
      \<exists>r' c'. cp_save ops k (Some s) r c = (Ok (), r', c') \<and> rt_ctx r' = Background"
    and load_live: "rt_ctx r = Background \<Longrightarrow> lookup c k = Some s \<Longrightarrow>
      \<exists>r' c'. cp_load ops k r c = (Ok (Some s), r', c')"
    and delete_ok: "cp_delete ops k r c = (Ok u, r', c') \<Longrightarrow> lookup c' = (lookup c)(k := None)"
begin

lemma load_after_save:
  assumes "rt_ctx r = Background" and "storable s"
  shows "\<exists>r' c' r'' c''. cp_save ops k (Some s) r c = (Ok (), r', c') \<and>
    cp_load ops k r' c' = (Ok (Some (plain_snapshot s)), r'', c'')"
proof -
  obtain r' c' where sv: "cp_save ops k (Some s) r c = (Ok (), r', c')" and bg: "rt_ctx r' = Background"
    using save_live [OF assms(1)] by blast
  have "lookup c' k = Some (plain_snapshot s)" using save_ok [OF assms(2) sv] by simp
  with load_live [OF bg] sv show ?thesis by blast
qed

end

section \<open>What survives the store\<close>

lemma lower_keys:
  "to_lower ''Type'' = ''type''" "to_lower ''ToolName'' = ''toolname''"
  "to_lower ''ToolInput'' = ''toolinput''" "to_lower ''Answer'' = ''answer''"
  "to_lower ''Action'' = ''action''" "to_lower ''Output'' = ''output''" "to_lower ''Error'' = ''error''"
  "to_lower ''Reasoning'' = ''reasoning''" "to_lower ''run_id'' = ''run_id''"
  "to_lower ''plan'' = ''plan''" "to_lower ''step_results'' = ''step_results''"
  "to_lower ''iteration'' = ''iteration''" "to_lower ''state'' = ''state''"
  by code_simp+

lemma int_json_reads: "small_int i \<Longrightarrow> decode_int put (int_json i) x = Some (put i x)"
  by (simp add: int_json_def small_int_def text_int_int_text)

lemma action_type_reads: "small_int (action_type_int t) \<and> int_action_type (action_type_int t) = t"
  by (cases t) (auto simp: small_int_def action_type_int_def int_action_type_def)

lemma params_json_reads: "decode_params (params_json p) a = Some (a\<lparr>act_tool_input := plain_params p\<rparr>)"
  by (cases p) (simp_all add: params_json_def)

lemma action_json_reads: "decode_struct action_field a0 (action_json a) = Some (plain_action a)"
  using action_type_reads [of "act_type a"]
  by (cases a; cases a0)
    (simp add: action_json_def action_field_def field_is_def lower_keys int_json_reads
      params_json_reads plain_action_def)

lemma error_json_nil: "error_json e = VNil \<longleftrightarrow> e = None"
  by (auto simp: error_json_def split: option.splits goerr.splits)

lemma step_json_reads:
  "decode_struct step_field zero_step (step_json s) =
     (if sr_error s = None then Some (plain_step s) else None)"
  by (cases s)
    (simp add: step_json_def step_field_def field_is_def lower_keys action_json_reads error_json_nil
      plain_step_def zero_step_def)

lemma steps_json_read:
  "decode_steps (map step_json ss) =
     (if list_all (\<lambda>x. sr_error x = None) ss then Some (map plain_step ss) else None)"
  by (induction ss) (auto simp: step_json_reads)

lemma plan_json_reads:
  "decode_struct plan_field p0 (plan_json p) = Some (p\<lparr>pr_action := plain_action (pr_action p)\<rparr>)"
  "plan_json p \<noteq> VNil"
  by (cases p; cases p0) (simp_all add: plan_json_def plan_field_def field_is_def lower_keys action_json_reads)

lemma snapshot_reads:
  assumes "small_int (as_iteration s)" "small_int (as_state s)"
  shows "Deserialize (Serialize s) = (if without_errors s then Some (plain_snapshot s) else None)"
  using assms
  by (cases s; cases "as_plan s"; cases "as_step_results s")
    (auto simp: Deserialize_def Serialize_def snapshot_field_def field_is_def lower_keys
      int_json_reads plan_json_reads steps_json_read [of "_ # _", simplified] without_errors_def
      plain_snapshot_def step_json_reads steps_json_read)

interpretation memstore: checkpoint_laws memstore_ops "\<lambda>m k. Option.bind (m k) Deserialize"
    "\<lambda>s. small_int (as_iteration s) \<and> small_int (as_state s) \<and> without_errors s"
  by unfold_locales
    (auto simp: memstore_ops_def memstore_Save_def memstore_Load_def memstore_Delete_def go_bind_def
      go_check_ctx_def go_get_def go_put_def go_return_def go_fail_def poll_def snapshot_reads
      bind_eq_Some_conv intro!: ext split: prod.splits option.splits if_splits)


definition demo_snapshot :: "goerr option \<Rightarrow> agent_snapshot" where
  "demo_snapshot e =
     \<lparr>as_run_id = ''run'', as_plan = None,
      as_step_results = [\<lparr>sr_action = zero_action, sr_output = ''x'', sr_error = e\<rparr>],
      as_iteration = 1, as_state = 5\<rparr>"


end
