(* ===== verification/Hook.thy ===== *)
theory Hook
  imports ChatModel
begin

text \<open>
  \<open>hook/hook.go\<close> and \<open>hook/payload.go\<close>: the events a run reports and the manager that hands them to
  the hooks. Time stamps and durations are not modelled.
\<close>

datatype event =
    EventPlanStart int
  | EventPlanDone int string string
  | EventToolCallStart string params
  | EventToolCallDone string string "goerr option"
  | EventEvalStart int nat
  | EventEvalDone int nat string string
  | EventLoopComplete
  | EventError goerr string
  | EventStreamChunk string
  | EventSkillContextLog string string "chat_message list" string int nat
  | EventRuleView string
  | EventSkillCallStart string string
  | EventSkillCallDone string string

type_synonym 'w hook = "event \<Rightarrow> 'w rt \<Rightarrow> goerr option \<times> 'w rt"

text \<open>The manager is its list of hooks; nil hooks are not added.\<close>

definition hook_Add :: "'w hook option \<Rightarrow> 'w hook list \<Rightarrow> 'w hook list" where
  "hook_Add h hooks = (case h of None \<Rightarrow> hooks | Some f \<Rightarrow> hooks @ [f])"

fun Emit :: "'w hook list \<Rightarrow> event \<Rightarrow> 'w rt \<Rightarrow> goerr option \<times> 'w rt" where
  "Emit [] ev r = (None, r)"
| "Emit (h # hs) ev r =
     (case h ev r of
        (Some e, r') \<Rightarrow> (Some e, r')
      | (None, r') \<Rightarrow> Emit hs ev r')"

end
