(* ===== verification/Loop.thy ===== *)
theory Loop
  imports Summary Compressor Planner LoopDetector Executor Evaluator Interrupter Hook
begin

text \<open>
  \<open>agent/loop.go\<close>: the state machine that runs a session. One turn of the loop is one operation on
  the loop's variables; \<open>runLoop\<close> repeats it until it returns.
\<close>

section \<open>States, results, variables\<close>

datatype loop_state =
    StateInit | StatePlanGen | StatePlanReview | StatePlanning | StateInterrupt | StateExecuting
  | StateEvaluating | StateCompleting | StateComplete | StateError

fun loop_state_int :: "loop_state \<Rightarrow> int" where
  "loop_state_int StateInit = 0"
| "loop_state_int StatePlanGen = 1"
| "loop_state_int StatePlanReview = 2"
| "loop_state_int StatePlanning = 3"
| "loop_state_int StateInterrupt = 4"
| "loop_state_int StateExecuting = 5"
| "loop_state_int StateEvaluating = 6"
| "loop_state_int StateCompleting = 7"
| "loop_state_int StateComplete = 8"
| "loop_state_int StateError = 9"

record agent_result =
  ar_session_id :: string
  ar_answer :: string
  ar_messages :: "chat_message list"
  ar_error :: "goerr option"

definition error_result :: "goerr \<Rightarrow> agent_result" where
  "error_result e = \<lparr>ar_session_id = [], ar_answer = [], ar_messages = [], ar_error = Some e\<rparr>"

record tool_exec =
  te_res :: exec_result
  te_call_id :: string
  te_action :: action

text \<open>
  What the loop reads and never writes: the agent's configuration and components and the session's.
  A planner, an executor, an evaluator, an interrupter and the hooks are interfaces. In ReAct mode
  the planner is whatever was configured; in plan-and-solve mode it is the agent's
  \<open>PlanAndSolvePlanner\<close>, kept among the variables. \<open>le_validate\<close> is \<open>validateFinalOutput\<close> when there
  is an output schema; \<open>le_checkpoint\<close> the run ID when checkpoints are enabled; \<open>le_clock\<close> is
  \<open>time.Now().UnixNano()\<close>.
\<close>

record ('w, 'm, 'c) loop_env =
  le_mode :: execution_mode
  le_planner :: "(plan_state \<Rightarrow> 'w rt \<Rightarrow> plan_result option res \<times> 'w rt) option"
  le_model :: "'w chat_model option"
  le_max_iterations :: int
  le_validate :: "(string \<Rightarrow> string \<times> goerr option) option"
  le_auto_retry :: int
  le_eval_on :: bool
  le_evaluator :: "'w evaluator option"
  le_stream_on :: bool
  le_model_max_tokens :: int
  le_interrupter :: "'w interrupter option"
  le_executor :: "action \<Rightarrow> ('w, 'c option, exec_result option) op"
  le_hooks :: "'w hook list"
  le_tool_result_max_len :: int
  le_recent_tokens :: int
  le_loop_threshold :: int
  le_system_prompt :: string
  le_tools :: "tool_info list"
  le_memory :: "('w, 'm) memory_ops"
  le_contents :: "('w, 'c) content_store_ops"
  le_compressor :: "'w context_compressor option"
  le_checkpoint :: "string option"
  le_digest :: "string \<Rightarrow> string"
  le_clock :: "'w \<Rightarrow> int \<times> 'w"

text \<open>
  The variables: the locals of \<open>runLoop\<close>, then the session's mutable parts and the agent's
  plan-and-solve planner, which outlive a run. The last two fields record what the loop sends away:
  the events it emitted and the snapshots it handed to the goroutines that save them.
\<close>

record ('w, 'm, 'c) loop_vars =
  lv_state :: loop_state
  lv_iteration :: int
  lv_history :: "step_result list"
  lv_pending_action :: "action option"
  lv_pending_reasoning :: string
  lv_pending_call_id :: string
  lv_plan_gen_first :: "plan_result option"
  lv_complete_answer :: string
  lv_last_exec :: "tool_exec option"
  lv_eval_escalate :: bool
  lv_validate_left :: int
  lv_memory :: 'm
  lv_detector :: loop_detector
  lv_contents :: "'c option"
  lv_pas :: "'w pas_planner option"
  lv_events :: "event list"
  lv_saves :: "agent_snapshot list"

text \<open>A turn ends with nothing (the loop goes on) or with the result \<open>runLoop\<close> returns.\<close>

type_synonym ('w, 'm, 'c) turn = "('w, ('w, 'm, 'c) loop_vars, agent_result option) op"

section \<open>Small operations\<close>

definition go_modify :: "('s \<Rightarrow> 's) \<Rightarrow> ('w, 's, unit) op" where
  "go_modify f r s = (Ok (), r, f s)"

text \<open>\<open>x, err := m\<close> with the error in hand.\<close>

definition go_attempt :: "('w, 's, 'a) op \<Rightarrow> ('w, 's, goerr + 'a) op" where
  "go_attempt m r s =
     (case m r s of
        (Ok x, r', s') \<Rightarrow> (Ok (Inr x), r', s')
      | (Err e, r', s') \<Rightarrow> (Ok (Inl e), r', s')
      | (Panic p, r', s') \<Rightarrow> (Panic p, r', s'))"

definition go_try :: "('w, 's, 'a) op \<Rightarrow> (goerr \<Rightarrow> ('w, 's, 'b) op) \<Rightarrow> ('a \<Rightarrow> ('w, 's, 'b) op) \<Rightarrow> ('w, 's, 'b) op" where
  "go_try m h k = go_bind (go_attempt m) (\<lambda>x. case x of Inl e \<Rightarrow> h e | Inr a \<Rightarrow> k a)"

text \<open>\<open>_ = m\<close>\<close>

definition go_ignore :: "('w, 's, 'a) op \<Rightarrow> ('w, 's, unit) op" where
  "go_ignore m = go_bind (go_attempt m) (\<lambda>_. go_return ())"

definition go_poll :: "('w, 's, goerr option) op" where
  "go_poll r s = (case poll r of (e, r') \<Rightarrow> (Ok e, r', s))"

definition go_call :: "('w rt \<Rightarrow> 'a res \<times> 'w rt) \<Rightarrow> ('w, 's, 'a) op" where
  "go_call f r s = (case f r of (x, r') \<Rightarrow> (x, r', s))"

definition go_outside :: "('w rt \<Rightarrow> (goerr + 'a) \<times> 'w rt) \<Rightarrow> ('w, 's, 'a) op" where
  "go_outside f r s =
     (case f r of (Inl e, r') \<Rightarrow> (Err e, r', s) | (Inr x, r') \<Rightarrow> (Ok x, r', s))"

text \<open>Reading through a pointer panics when it is nil.\<close>

definition go_deref :: "string \<Rightarrow> 'a option \<Rightarrow> ('w, 's, 'a) op" where
  "go_deref what p = (case p of None \<Rightarrow> (\<lambda>r s. (Panic (''nil '' @ what), r, s)) | Some x \<Rightarrow> go_return x)"

definition on_memory :: "('w, 'm, 'a) op \<Rightarrow> ('w, ('w, 'm, 'c) loop_vars, 'a) op" where
  "on_memory = go_zoom lv_memory (\<lambda>m v. v\<lparr>lv_memory := m\<rparr>)"

definition on_contents :: "('w, 'c option, 'a) op \<Rightarrow> ('w, ('w, 'm, 'c) loop_vars, 'a) op" where
  "on_contents = go_zoom lv_contents (\<lambda>c v. v\<lparr>lv_contents := c\<rparr>)"

definition on_pas :: "('w, 'w pas_planner, 'a) op \<Rightarrow> ('w, ('w, 'm, 'c) loop_vars, 'a) op" where
  "on_pas f r v =
     (case lv_pas v of
        None \<Rightarrow> (Panic ''nil planner'', r, v)
      | Some p \<Rightarrow> (case f r p of (x, r', p') \<Rightarrow> (x, r', v\<lparr>lv_pas := Some p'\<rparr>)))"

definition emit :: "('w, 'm, 'c) loop_env \<Rightarrow> event \<Rightarrow> ('w, ('w, 'm, 'c) loop_vars, unit) op" where
  "emit env ev r v =
     (case Emit (le_hooks env) ev r of (_, r') \<Rightarrow> (Ok (), r', v\<lparr>lv_events := lv_events v @ [ev]\<rparr>))"

definition goto :: "loop_state \<Rightarrow> ('w, 'm, 'c) turn" where
  "goto st = go_bind (go_modify (\<lambda>v. v\<lparr>lv_state := st\<rparr>)) (\<lambda>_. go_return None)"

definition give_error :: "goerr \<Rightarrow> ('w, 'm, 'c) turn" where
  "give_error e = go_return (Some (error_result e))"

definition report_error :: "('w, 'm, 'c) loop_env \<Rightarrow> string \<Rightarrow> goerr \<Rightarrow> ('w, 'm, 'c) turn" where
  "report_error env phase e = go_bind (emit env (EventError e phase)) (\<lambda>_. give_error e)"

definition add_messages ::
    "('w, 'm, 'c) loop_env \<Rightarrow> chat_message list \<Rightarrow> ('w, ('w, 'm, 'c) loop_vars, unit) op" where
  "add_messages env msgs = go_ignore (on_memory (mem_add (le_memory env) msgs))"

text \<open>\<open>_ = s.memory.Clear(ctx)\<close> and \<open>_ = s.memory.Add(ctx, msgs...)\<close>, one after the other.\<close>

definition replace_memory ::
    "('w, 'm, 'c) loop_env \<Rightarrow> chat_message list \<Rightarrow> ('w, ('w, 'm, 'c) loop_vars, unit) op" where
  "replace_memory env msgs =
     go_bind (go_ignore (on_memory (mem_clear (le_memory env)))) (\<lambda>_. add_messages env msgs)"

text \<open>
  \<open>maybeSaveCheckpoint\<close>: the snapshot is given to a goroutine; when it is saved is not determined.
\<close>

definition maybeSaveCheckpoint ::
    "('w, 'm, 'c) loop_env \<Rightarrow> plan_result option \<Rightarrow> ('w, ('w, 'm, 'c) loop_vars, unit) op" where
  "maybeSaveCheckpoint env plan =
     (case le_checkpoint env of
        None \<Rightarrow> go_return ()
      | Some runID \<Rightarrow> go_modify (\<lambda>v. v\<lparr>lv_saves := lv_saves v @
          [\<lparr>as_run_id = runID, as_plan = plan, as_step_results = lv_history v,
            as_iteration = lv_iteration v, as_state = loop_state_int (lv_state v)\<rparr>]\<rparr>))"

definition buildPlanState ::
    "('w, 'm, 'c) loop_env \<Rightarrow> ('w, ('w, 'm, 'c) loop_vars, plan_state) op" where
  "buildPlanState env =
     go_bind (on_memory (mem_messages (le_memory env))) (\<lambda>mem.
     go_bind go_get (\<lambda>v.
       go_return \<lparr>ps_messages = text_message RoleSystem (le_system_prompt env) # mem,
                  ps_tools = le_tools env, ps_history = lv_history v\<rparr>))"

section \<open>Texts and helpers\<close>

definition planDigest :: "'w pas_planner option \<Rightarrow> string" where
  "planDigest pas =
     (case pas of
        None \<Rightarrow> []
      | Some p \<Rightarrow>
          (case CurrentPlan p of
             None \<Rightarrow> []
           | Some ap \<Rightarrow> trim_space (concat (map
               (\<lambda>s. ''- step '' @ int_text (step_id s) @ '': '' @ step_description s @ '' ('' @
                    int_text (action_type_int (act_type (step_action s))) @ '')'' @ newline)
               (ap_steps ap)))))"

definition runningPlanStep :: "'w pas_planner \<Rightarrow> plan_step option" where
  "runningPlanStep pas =
     (case CurrentPlan pas of None \<Rightarrow> None | Some ap \<Rightarrow> runningStep (ap_steps ap))"

definition summarizePlanAction :: "action \<Rightarrow> string" where
  "summarizePlanAction act =
     (case act_type act of
        ActionToolCall \<Rightarrow> ''tool_call:'' @ trim_space (act_tool_name act)
      | ActionAskHuman \<Rightarrow>
          (if trim_space (act_answer act) \<noteq> [] then ''ask_human:'' @ trim_space (act_answer act) else ''ask_human'')
      | ActionFinalAnswer \<Rightarrow> ''final_answer'')"

fun last_output :: "step_result list \<Rightarrow> string" where
  "last_output [] = []"
| "last_output (h # hs) = (if trim_space (sr_output h) \<noteq> [] then sr_output h else last_output hs)"

definition lastOutputFromHistory :: "step_result list \<Rightarrow> string" where
  "lastOutputFromHistory h = last_output (rev h)"

definition historyToEvalSteps :: "step_result list \<Rightarrow> eval_step list" where
  "historyToEvalSteps h =
     map (\<lambda>s. \<lparr>es_tool_name = act_tool_name (sr_action s), es_input = act_tool_input (sr_action s),
               es_output = sr_output s, es_error = sr_error s\<rparr>) h"

fun decisionName :: "decision \<Rightarrow> string" where
  "decisionName DecisionContinue = ''continue''"
| "decisionName DecisionComplete = ''complete''"
| "decisionName DecisionRetry = ''retry''"
| "decisionName DecisionEscalate = ''escalate''"
| "decisionName DecisionReplan = ''replan''"
| "decisionName (DecisionOther d) = ''decision_'' @ int_text d"

section \<open>Streaming a ReAct plan\<close>

definition chunk_events :: "stream_chunk list \<Rightarrow> event list" where
  "chunk_events cs = map (\<lambda>c. EventStreamChunk (chunk_delta c)) (filter (\<lambda>c. chunk_delta c \<noteq> []) cs)"

fun emit_all :: "('w, 'm, 'c) loop_env \<Rightarrow> event list \<Rightarrow> ('w, ('w, 'm, 'c) loop_vars, unit) op" where
  "emit_all env [] = go_return ()"
| "emit_all env (ev # evs) = go_bind (emit env ev) (\<lambda>_. emit_all env evs)"

text \<open>\<open>toolInfosToModelToolDefs\<close> and \<open>normalizeToolInput\<close>, which package \<open>planner\<close> has a second time.\<close>

definition toolInfosToModelToolDefs :: "tool_info list \<Rightarrow> tool_def list" where
  "toolInfosToModelToolDefs tools =
     map (\<lambda>t. \<lparr>td_name = ti_name t, td_description = ti_description t,
               td_parameters = (case ti_schema t of SchemaNil \<Rightarrow> SchemaEmptyMap | s \<Rightarrow> s)\<rparr>) tools"

definition nested_value :: "gval \<Rightarrow> gval" where
  "nested_value val =
     (case val of
        VStr x \<Rightarrow>
          let s = trim_space x in
          if s = [] \<or> json_parse s = None \<or> (hd s \<noteq> CHR ''{'' \<and> hd s \<noteq> CHR ''['') then val
          else (case json_parse s of Some (VMap m) \<Rightarrow> VMap m | _ \<Rightarrow> val)
      | _ \<Rightarrow> val)"

definition stream_normalizeToolInput :: "params \<Rightarrow> params" where
  "stream_normalizeToolInput v =
     (case v of None \<Rightarrow> Some [] | Some m \<Rightarrow> Some (map (\<lambda>(k, val). (k, nested_value val)) m))"

text \<open>Each chunk with tool calls replaces those of the chunks before.\<close>

fun last_calls :: "tool_call list \<Rightarrow> stream_chunk list \<Rightarrow> tool_call list" where
  "last_calls tcs [] = tcs"
| "last_calls tcs (c # cs) =
     last_calls (if length (chunk_tool_calls c) > 0 then chunk_tool_calls c else tcs) cs"

definition stream_answer :: "stream_chunk list \<Rightarrow> plan_result" where
  "stream_answer chunks =
     (let reasoningText = trim_space (concat (map chunk_delta chunks)) in
      case last_calls [] chunks of
        tc # _ \<Rightarrow> \<lparr>pr_action = tool_action (trim_space (tc_name tc)) (stream_normalizeToolInput (tc_arguments tc)),
                   pr_reasoning = reasoningText\<rparr>
      | [] \<Rightarrow> \<lparr>pr_action = answer_action reasoningText, pr_reasoning = reasoningText\<rparr>)"

definition streamReActPlan ::
    "('w, 'm, 'c) loop_env \<Rightarrow> 'w chat_model \<Rightarrow> plan_state \<Rightarrow> ('w, ('w, 'm, 'c) loop_vars, plan_result) op" where
  "streamReActPlan env m st =
     (let toolDefs = toolInfosToModelToolDefs (ps_tools st);
          opts = (if length toolDefs > 0 then [WithTools toolDefs] else [])
      in go_bind (go_outside (\<lambda>r. cm_stream m r (ps_messages st) opts)) (\<lambda>(chunks, err).
           go_bind (emit_all env (chunk_events chunks)) (\<lambda>_.
             case err of Some e \<Rightarrow> go_fail e | None \<Rightarrow> go_return (stream_answer chunks))))"

section \<open>The turns, state by state\<close>

definition turn_init :: "('w, 'm, 'c) loop_env \<Rightarrow> ('w, 'm, 'c) turn" where
  "turn_init env = goto (if le_mode env = ModePlanAndSolve then StatePlanGen else StatePlanning)"

definition turn_plan_gen :: "('w, 'm, 'c) loop_env \<Rightarrow> ('w, 'm, 'c) turn" where
  "turn_plan_gen env =
     go_bind go_get (\<lambda>v.
       case lv_pas v of
         None \<Rightarrow> report_error env ''plan_gen'' (ErrNew ''agent: plan-and-solve planner unavailable'')
       | Some pas \<Rightarrow>
           go_try (buildPlanState env) (report_error env ''plan_gen'') (\<lambda>ps.
             if CurrentPlan pas = None then
               go_try (on_pas (pas_Plan ps)) (report_error env ''plan_gen'') (\<lambda>res.
                 go_bind (go_modify (\<lambda>v. v\<lparr>lv_plan_gen_first := Some res\<rparr>)) (\<lambda>_.
                   goto StatePlanReview))
             else goto StatePlanReview))"

text \<open>\<open>hr == nil || !hr.Approved\<close>\<close>

definition rejected :: "human_response option \<Rightarrow> bool" where
  "rejected hr \<longleftrightarrow> (case hr of None \<Rightarrow> True | Some h \<Rightarrow> \<not> hr_approved h)"

definition human_message :: "human_response option \<Rightarrow> string" where
  "human_message hr = (case hr of None \<Rightarrow> [] | Some h \<Rightarrow> hr_message h)"

text \<open>\<open>if ctx.Err() != nil { return nil, ctx.Err() }\<close>, then what the error itself leads to.\<close>

definition unless_cancelled :: "('w, 'm, 'c) turn \<Rightarrow> ('w, 'm, 'c) turn" where
  "unless_cancelled k = go_bind go_poll (\<lambda>e. case e of Some err \<Rightarrow> go_fail err | None \<Rightarrow> k)"

definition turn_plan_review :: "('w, 'm, 'c) loop_env \<Rightarrow> ('w, 'm, 'c) turn" where
  "turn_plan_review env =
     (case le_interrupter env of
        None \<Rightarrow> goto StatePlanning
      | Some ir \<Rightarrow>
          go_bind go_get (\<lambda>v.
            let evt = \<lparr>ie_type = InterruptAfterPlan, ie_action = answer_action (planDigest (lv_pas v))\<rparr> in
            go_try (go_outside (in_should ir evt)) (report_error env ''plan_review'') (\<lambda>should.
              if \<not> should then goto StatePlanning
              else go_try (go_outside (in_wait ir evt))
                (\<lambda>e. unless_cancelled (report_error env ''plan_review'' e))
                (\<lambda>hr.
                  if rejected hr then
                    go_bind (add_messages env
                      [text_message RoleUser (''Plan review rejected: '' @ human_message hr)]) (\<lambda>_.
                      go_try (buildPlanState env) give_error (\<lambda>ps2.
                        go_try (on_pas (Replan ps2)) give_error (\<lambda>_. goto StatePlanReview)))
                  else goto StatePlanning))))"

text \<open>Compressing the context when it is too long; the plan state is then built again.\<close>

definition compress_context ::
    "('w, 'm, 'c) loop_env \<Rightarrow> plan_state \<Rightarrow> ('w, ('w, 'm, 'c) loop_vars, plan_state) op" where
  "compress_context env ps =
     (case (le_compressor env, le_model env) of
        (Some c, Some _) \<Rightarrow>
          if ShouldCompress c (ps_messages ps) (le_model_max_tokens env) then
            go_bind (go_attempt (Compress c (ps_messages ps))) (\<lambda>x.
              case x of
                Inl _ \<Rightarrow> go_return ps
              | Inr compressed \<Rightarrow>
                  go_bind (go_ignore (on_memory (mem_clear (le_memory env)))) (\<lambda>_.
                  go_bind (if length compressed > 1 then add_messages env (drop 1 compressed) else go_return ()) (\<lambda>_.
                    buildPlanState env)))
          else go_return ps
      | _ \<Rightarrow> go_return ps)"

text \<open>The call of the planner, with its nil result.\<close>

definition call_planner ::
    "('w, 'm, 'c) loop_env \<Rightarrow> plan_state \<Rightarrow> ('w, ('w, 'm, 'c) loop_vars, plan_result option) op" where
  "call_planner env ps =
     (case le_mode env of
        ModePlanAndSolve \<Rightarrow> go_bind (on_pas (pas_Plan ps)) (\<lambda>res. go_return (Some res))
      | ModeReAct \<Rightarrow>
          (case le_planner env of
             None \<Rightarrow> go_deref ''planner'' None
           | Some plan \<Rightarrow> go_call (plan ps)))"

definition ask_planner ::
    "('w, 'm, 'c) loop_env \<Rightarrow> plan_state \<Rightarrow> ('w, ('w, 'm, 'c) loop_vars, plan_result option) op" where
  "ask_planner env ps =
     (case le_model env of
        Some m \<Rightarrow>
          if le_stream_on env \<and> le_mode env = ModeReAct then
            go_try (streamReActPlan env m ps)
              (\<lambda>e. if e = ErrSentinel ErrStreamNotSupported then call_planner env ps else go_fail e)
              (\<lambda>res. go_return (Some res))
          else call_planner env ps
      | None \<Rightarrow> call_planner env ps)"

text \<open>What the loop does with an action, at the end of a planning turn.\<close>

definition take_action :: "plan_result \<Rightarrow> ('w, 'm, 'c) turn" where
  "take_action res =
     go_bind (go_modify (\<lambda>v. v\<lparr>lv_pending_reasoning := pr_reasoning res,
                              lv_pending_action := Some (pr_action res)\<rparr>)) (\<lambda>_.
       case act_type (pr_action res) of
         ActionToolCall \<Rightarrow> goto StateInterrupt
       | ActionAskHuman \<Rightarrow> goto StateInterrupt
       | ActionFinalAnswer \<Rightarrow>
           go_bind (go_modify (\<lambda>v. v\<lparr>lv_complete_answer := trim_space (act_answer (pr_action res))\<rparr>)) (\<lambda>_.
             goto StateCompleting))"

definition plan_turn :: "('w, 'm, 'c) loop_env \<Rightarrow> plan_state \<Rightarrow> ('w, 'm, 'c) turn" where
  "plan_turn env ps =
     go_bind go_get (\<lambda>v.
       case lv_plan_gen_first v of
         Some res \<Rightarrow>
           go_bind (go_modify (\<lambda>v. v\<lparr>lv_plan_gen_first := None\<rparr>)) (\<lambda>_. take_action res)
       | None \<Rightarrow>
           go_bind (emit env (EventPlanStart (lv_iteration v))) (\<lambda>_.
             go_try (ask_planner env ps) (report_error env ''planning'') (\<lambda>res.
               go_bind (go_deref ''plan result'' res) (\<lambda>res.
               go_bind (emit env (EventPlanDone (lv_iteration v) (pr_reasoning res)
                 (summarizePlanAction (pr_action res)))) (\<lambda>_. take_action res)))))"

definition turn_planning :: "('w, 'm, 'c) loop_env \<Rightarrow> ('w, 'm, 'c) turn" where
  "turn_planning env =
     go_bind (go_modify (\<lambda>v. v\<lparr>lv_iteration := lv_iteration v + 1\<rparr>)) (\<lambda>_.
     go_bind go_get (\<lambda>v.
       if lv_iteration v > le_max_iterations env then give_error (ErrSentinel ErrMaxIterationsExceeded)
       else go_try (buildPlanState env) (report_error env ''planning'') (\<lambda>ps.
         go_try (compress_context env ps) (report_error env ''planning'') (plan_turn env))))"

text \<open>The escalation an evaluator asked for: the human is told, whatever the answer planning goes on.\<close>

definition escalate :: "('w, 'm, 'c) loop_env \<Rightarrow> action \<Rightarrow> ('w, 'm, 'c) turn" where
  "escalate env act =
     (let done = go_bind (go_modify (\<lambda>v. v\<lparr>lv_eval_escalate := False, lv_pending_action := None\<rparr>))
            (\<lambda>_. goto StatePlanning);
          evt = \<lparr>ie_type = InterruptOnEscalate, ie_action = act\<rparr>
      in case le_interrupter env of
           None \<Rightarrow> done
         | Some ir \<Rightarrow>
             go_try (go_outside (in_should ir evt)) give_error (\<lambda>should.
               if \<not> should then done
               else go_try (go_outside (in_wait ir evt))
                 (\<lambda>_. unless_cancelled (give_error (ErrSentinel ErrHITLTimeout)))
                 (\<lambda>hr.
                   if rejected hr then
                     go_bind (add_messages env [text_message RoleUser (''Escalation review: '' @ human_message hr)])
                       (\<lambda>_. done)
                   else done)))"

text \<open>A question of the planner and its answer become two messages; then planning goes on.\<close>

definition answer_question ::
    "('w, 'm, 'c) loop_env \<Rightarrow> action \<Rightarrow> string \<Rightarrow> ('w, 'm, 'c) turn" where
  "answer_question env act ans =
     go_bind (add_messages env
       [text_message RoleAssistant (trim_space (act_answer act)), text_message RoleUser ans])
       (\<lambda>_. goto StatePlanning)"

text \<open>The call enters the conversation, with a new ID, and is executed in the next turn.\<close>

definition announce_call :: "('w, 'm, 'c) loop_env \<Rightarrow> action \<Rightarrow> ('w, 'm, 'c) turn" where
  "announce_call env act =
     go_bind (go_call (\<lambda>r. case le_clock env (rt_world r) of (t, w) \<Rightarrow> (Ok t, r\<lparr>rt_world := w\<rparr>))) (\<lambda>now.
     go_bind (go_modify (\<lambda>v. v\<lparr>lv_pending_call_id :=
       ''tc_'' @ int_text (lv_iteration v) @ ''_'' @ int_text now\<rparr>)) (\<lambda>_.
     go_bind go_get (\<lambda>v.
     go_bind (add_messages env
       [(text_message RoleAssistant (lv_pending_reasoning v))\<lparr>msg_tool_calls :=
          [\<lparr>tc_id = lv_pending_call_id v, tc_name = act_tool_name act,
            tc_arguments = (case act_tool_input act of None \<Rightarrow> Some [] | Some m \<Rightarrow> Some m)\<rparr>]\<rparr>]) (\<lambda>_.
       goto StateExecuting))))"

definition without_human :: "('w, 'm, 'c) loop_env \<Rightarrow> action \<Rightarrow> string \<Rightarrow> ('w, 'm, 'c) turn" where
  "without_human env act note =
     (if act_type act = ActionAskHuman then answer_question env act note else announce_call env act)"

definition apply_input :: "params \<Rightarrow> action \<Rightarrow> action" where
  "apply_input modified act =
     (if modified \<noteq> None \<and> act_type act = ActionToolCall then act\<lparr>act_tool_input := modified\<rparr> else act)"

definition interrupt_for :: "('w, 'm, 'c) loop_env \<Rightarrow> action \<Rightarrow> ('w, 'm, 'c) turn" where
  "interrupt_for env act =
     (let evt = \<lparr>ie_type = (if act_type act = ActionAskHuman then InterruptOnEscalate else InterruptBeforeToolCall),
                 ie_action = act\<rparr>
      in case le_interrupter env of
           None \<Rightarrow> without_human env act ''(no human interrupter; provide answer in next turn if needed)''
         | Some ir \<Rightarrow>
             go_try (go_outside (in_should ir evt)) (report_error env ''interrupt'') (\<lambda>should.
               if \<not> should then without_human env act ''(interrupt skipped by interrupter)''
               else go_try (go_outside (in_wait ir evt))
                 (\<lambda>e. unless_cancelled
                    (go_bind (emit env (EventError e ''interrupt'')) (\<lambda>_. give_error (ErrSentinel ErrHITLTimeout))))
                 (\<lambda>hr.
                   if rejected hr then
                     go_bind (add_messages env
                       [text_message RoleUser (''Action denied or revised: '' @ human_message hr)])
                       (\<lambda>_. goto StatePlanning)
                   else
                     let act' = apply_input (case hr of None \<Rightarrow> None | Some h \<Rightarrow> hr_modified_input h) act in
                     go_bind (go_modify (\<lambda>v. v\<lparr>lv_pending_action := Some act'\<rparr>)) (\<lambda>_.
                       if act_type act' = ActionAskHuman then answer_question env act' (human_message hr)
                       else announce_call env act'))))"

definition pending_result :: "('w, 'm, 'c) loop_vars \<Rightarrow> action \<Rightarrow> plan_result" where
  "pending_result v act = \<lparr>pr_action = act, pr_reasoning = lv_pending_reasoning v\<rparr>"

text \<open>The pending action is read through its pointer before the test for nil.\<close>

definition turn_interrupt :: "('w, 'm, 'c) loop_env \<Rightarrow> ('w, 'm, 'c) turn" where
  "turn_interrupt env =
     go_bind go_get (\<lambda>v.
     go_bind (go_deref ''pending action'' (lv_pending_action v)) (\<lambda>act.
     go_bind (maybeSaveCheckpoint env (Some (pending_result v act))) (\<lambda>_.
       if lv_eval_escalate v then escalate env act else interrupt_for env act)))"

definition mark_plan_step :: "exec_result \<Rightarrow> 'w pas_planner \<Rightarrow> 'w pas_planner" where
  "mark_plan_step res pas =
     (case runningPlanStep pas of
        None \<Rightarrow> pas
      | Some rs \<Rightarrow>
          if er_error res \<noteq> None then MarkStepFailed (step_id rs) (er_error res) pas
          else MarkStepDone (step_id rs) (er_output res) pas)"

text \<open>The tool message: the output or the error's text, cut to size and with the loop warning.\<close>

definition tool_output ::
    "('w, 'm, 'c) loop_env \<Rightarrow> loop_status \<Rightarrow> action \<Rightarrow> exec_result \<Rightarrow> string \<Rightarrow>
     ('w, ('w, 'm, 'c) loop_vars, string) op" where
  "tool_output env status act res callID =
     (let out = (case er_error res of None \<Rightarrow> er_output res | Some e \<Rightarrow> err_text e) in
      go_bind (on_contents (TruncateToolResult (le_contents env) out (le_tool_result_max_len env) callID)) (\<lambda>out.
        go_return (if status = LoopWarning
          then InjectLoopWarning out (act_tool_name act) (le_loop_threshold env) else out)))"

definition shrink_memory :: "('w, 'm, 'c) loop_env \<Rightarrow> ('w, ('w, 'm, 'c) loop_vars, unit) op" where
  "shrink_memory env =
     go_bind (go_attempt (on_memory (mem_messages (le_memory env)))) (\<lambda>x.
       case x of
         Inl _ \<Rightarrow> go_return ()
       | Inr msgs \<Rightarrow> replace_memory env
           (CompactStaleToolResults (PruneConsecutiveFailures msgs) (le_recent_tokens env)))"

definition record_step :: "('w, 'm, 'c) loop_env \<Rightarrow> action \<Rightarrow> exec_result \<Rightarrow> ('w, 'm, 'c) loop_vars \<Rightarrow> ('w, 'm, 'c) loop_vars" where
  "record_step env act res v =
     v\<lparr>lv_history := lv_history v @ [\<lparr>sr_action = act, sr_output = er_output res, sr_error = er_error res\<rparr>],
       lv_pas := (if le_mode env = ModePlanAndSolve then map_option (mark_plan_step res) (lv_pas v) else lv_pas v),
       lv_pending_action := None, lv_pending_call_id := []\<rparr>"

definition after_tool ::
    "('w, 'm, 'c) loop_env \<Rightarrow> loop_status \<Rightarrow> action \<Rightarrow> exec_result \<Rightarrow> ('w, 'm, 'c) turn" where
  "after_tool env status act res =
     go_bind go_get (\<lambda>v.
     go_bind (go_modify (\<lambda>w. w\<lparr>lv_last_exec :=
       Some \<lparr>te_res = res, te_call_id = lv_pending_call_id v, te_action = act\<rparr>\<rparr>)) (\<lambda>_.
     go_bind (emit env (EventToolCallDone (act_tool_name act) (er_output res) (er_error res))) (\<lambda>_.
     go_bind (tool_output env status act res (lv_pending_call_id v)) (\<lambda>out.
     go_bind (add_messages env
       [(text_message RoleTool out)\<lparr>msg_tool_call_id := lv_pending_call_id v, msg_name := act_tool_name act\<rparr>]) (\<lambda>_.
     go_bind (shrink_memory env) (\<lambda>_.
     go_bind (go_modify (record_step env act res)) (\<lambda>_.
       goto (if le_eval_on env then StateEvaluating else StatePlanning))))))))"

definition turn_executing :: "('w, 'm, 'c) loop_env \<Rightarrow> ('w, 'm, 'c) turn" where
  "turn_executing env =
     go_bind go_get (\<lambda>v.
     go_bind (go_deref ''pending action'' (lv_pending_action v)) (\<lambda>act.
     go_bind (maybeSaveCheckpoint env (Some (pending_result v act))) (\<lambda>_.
       let (status, d) = Record (le_digest env) (act_tool_name act) (act_tool_input act) (lv_detector v) in
       go_bind (go_modify (\<lambda>v. v\<lparr>lv_detector := d\<rparr>)) (\<lambda>_.
         if status = LoopTerminate then report_error env ''executing'' (ErrSentinel ErrLoopDetected)
         else
           go_bind (emit env (EventToolCallStart (act_tool_name act) (act_tool_input act))) (\<lambda>_.
           go_try (on_contents (le_executor env act)) (report_error env ''executing'') (\<lambda>res.
           go_bind (go_deref ''exec result'' res) (after_tool env status act)))))))"

definition retry_last :: "('w, 'm, 'c) turn" where
  "retry_last =
     go_bind go_get (\<lambda>v.
       case lv_last_exec v of
         Some te \<Rightarrow>
           go_bind (go_modify (\<lambda>v. v\<lparr>lv_pending_action := Some (te_action te),
             lv_pending_call_id := te_call_id te, lv_pending_reasoning := []\<rparr>)) (\<lambda>_. goto StateExecuting)
       | None \<Rightarrow> goto StatePlanning)"

definition begin_escalation :: "('w, 'm, 'c) turn" where
  "begin_escalation =
     go_bind (go_modify (\<lambda>v. v\<lparr>lv_eval_escalate := True,
       lv_pending_action := (case (lv_pending_action v, lv_last_exec v) of
         (None, Some te) \<Rightarrow> Some (te_action te) | (p, _) \<Rightarrow> p)\<rparr>)) (\<lambda>_. goto StateInterrupt)"

definition replan :: "('w, 'm, 'c) loop_env \<Rightarrow> ('w, 'm, 'c) turn" where
  "replan env =
     go_bind go_get (\<lambda>v.
       if le_mode env = ModePlanAndSolve \<and> lv_pas v \<noteq> None then
         go_try (buildPlanState env) give_error (\<lambda>ps.
           go_try (on_pas (Replan ps)) give_error (\<lambda>_.
             go_bind (go_modify (\<lambda>v. v\<lparr>lv_plan_gen_first := None\<rparr>)) (\<lambda>_. goto StatePlanGen)))
       else goto StatePlanning)"

definition complete_with :: "string \<Rightarrow> ('w, 'm, 'c) turn" where
  "complete_with feedback =
     go_bind (go_modify (\<lambda>v. v\<lparr>lv_complete_answer :=
       (if trim_space feedback \<noteq> [] then trim_space feedback else lastOutputFromHistory (lv_history v))\<rparr>))
       (\<lambda>_. goto StateCompleting)"

definition follow_decision :: "('w, 'm, 'c) loop_env \<Rightarrow> eval_result \<Rightarrow> ('w, 'm, 'c) turn" where
  "follow_decision env ev =
     (case er_decision ev of
        DecisionContinue \<Rightarrow> goto StatePlanning
      | DecisionComplete \<Rightarrow> complete_with (er_feedback ev)
      | DecisionRetry \<Rightarrow> retry_last
      | DecisionEscalate \<Rightarrow> begin_escalation
      | DecisionReplan \<Rightarrow> replan env
      | DecisionOther _ \<Rightarrow> goto StatePlanning)"

definition turn_evaluating :: "('w, 'm, 'c) loop_env \<Rightarrow> ('w, 'm, 'c) turn" where
  "turn_evaluating env =
     (case le_evaluator env of
        None \<Rightarrow> goto StatePlanning
      | Some evaluate \<Rightarrow>
          if \<not> le_eval_on env then goto StatePlanning
          else go_try (on_memory (mem_messages (le_memory env))) give_error (\<lambda>msgs.
            go_bind go_get (\<lambda>v.
            let evSt = \<lparr>ev_messages = msgs, ev_step_results = historyToEvalSteps (lv_history v),
                        ev_iteration = lv_iteration v\<rparr> in
            go_bind (emit env (EventEvalStart (lv_iteration v) (length (lv_history v)))) (\<lambda>_.
            go_try (go_call (evaluate evSt)) (report_error env ''evaluating'') (\<lambda>res.
            go_bind (go_deref ''eval result'' res) (\<lambda>ev.
            go_bind (emit env (EventEvalDone (lv_iteration v) (length (lv_history v))
              (decisionName (er_decision ev)) (er_feedback ev))) (\<lambda>_. follow_decision env ev)))))))"

text \<open>The last part of completing: the run is over.\<close>

definition finish :: "('w, 'm, 'c) loop_env \<Rightarrow> ('w, 'm, 'c) turn" where
  "finish env =
     go_bind (emit env EventLoopComplete) (\<lambda>_.
       go_try (on_memory (mem_messages (le_memory env))) give_error (\<lambda>msgs.
         go_bind go_get (\<lambda>v.
           go_return (Some \<lparr>ar_session_id = [], ar_answer = lv_complete_answer v,
                            ar_messages = msgs, ar_error = None\<rparr>))))"

definition output_invalid :: "('w, 'm, 'c) loop_env \<Rightarrow> string \<Rightarrow> goerr \<Rightarrow> ('w, 'm, 'c) turn" where
  "output_invalid env formatted err =
     go_bind go_get (\<lambda>v.
       if lv_validate_left v > 0 then
         go_bind (go_modify (\<lambda>v. v\<lparr>lv_validate_left := lv_validate_left v - 1\<rparr>)) (\<lambda>_.
         go_bind (add_messages env [text_message RoleUser
           (if formatted = [] then ''Output validation failed ('' @ err_text err @ ''). Produce a valid answer.''
            else formatted)]) (\<lambda>_. goto StatePlanning))
       else go_bind (emit env (EventError (ErrSentinel ErrOutputValidation) ''completing''))
         (\<lambda>_. give_error (ErrSentinel ErrOutputValidation)))"

definition turn_completing :: "('w, 'm, 'c) loop_env \<Rightarrow> ('w, 'm, 'c) turn" where
  "turn_completing env =
     go_bind go_get (\<lambda>v.
     go_bind (if trim_space (lv_complete_answer v) \<noteq> []
              then add_messages env [text_message RoleAssistant (lv_complete_answer v)] else go_return ()) (\<lambda>_.
       case le_validate env of
         None \<Rightarrow> finish env
       | Some validate \<Rightarrow>
           (case validate (lv_complete_answer v) of
              (formatted, Some err) \<Rightarrow> output_invalid env formatted err
            | (_, None) \<Rightarrow> finish env)))"

section \<open>The loop\<close>

definition turn_of :: "('w, 'm, 'c) loop_env \<Rightarrow> loop_state \<Rightarrow> ('w, 'm, 'c) turn" where
  "turn_of env st =
     (case st of
        StateInit \<Rightarrow> turn_init env
      | StatePlanGen \<Rightarrow> turn_plan_gen env
      | StatePlanReview \<Rightarrow> turn_plan_review env
      | StatePlanning \<Rightarrow> turn_planning env
      | StateInterrupt \<Rightarrow> turn_interrupt env
      | StateExecuting \<Rightarrow> turn_executing env
      | StateEvaluating \<Rightarrow> turn_evaluating env
      | StateCompleting \<Rightarrow> turn_completing env
      | _ \<Rightarrow> go_return (Some \<lparr>ar_session_id = [], ar_answer = [], ar_messages = [], ar_error = None\<rparr>))"

text \<open>Each turn begins with a look at the context.\<close>

definition loop_turn :: "('w, 'm, 'c) loop_env \<Rightarrow> ('w, 'm, 'c) turn" where
  "loop_turn env =
     go_bind go_poll (\<lambda>e.
     go_bind go_get (\<lambda>v.
       case e of
         Some err \<Rightarrow>
           go_bind (maybeSaveCheckpoint env (map_option (pending_result v) (lv_pending_action v)))
             (\<lambda>_. go_fail err)
       | None \<Rightarrow> turn_of env (lv_state v)))"

text \<open>The loop with fuel: \<^const>\<open>None\<close> means that it has not returned after that many turns.\<close>

fun run_turns ::
    "nat \<Rightarrow> ('w, 'm, 'c) loop_env \<Rightarrow> 'w rt \<Rightarrow> ('w, 'm, 'c) loop_vars \<Rightarrow>
     (agent_result res \<times> 'w rt \<times> ('w, 'm, 'c) loop_vars) option" where
  "run_turns 0 env r v = None"
| "run_turns (Suc n) env r v =
     (case loop_turn env r v of
        (Ok None, r', v') \<Rightarrow> run_turns n env r' v'
      | (Ok (Some x), r', v') \<Rightarrow> Some (Ok x, r', v')
      | (Err e, r', v') \<Rightarrow> Some (Err e, r', v')
      | (Panic p, r', v') \<Rightarrow> Some (Panic p, r', v'))"

text \<open>The locals at the start of a run; what outlives a run is kept.\<close>

definition fresh_vars :: "('w, 'm, 'c) loop_env \<Rightarrow> ('w, 'm, 'c) loop_vars \<Rightarrow> ('w, 'm, 'c) loop_vars" where
  "fresh_vars env v =
     v\<lparr>lv_state := StateInit, lv_iteration := 0, lv_history := [], lv_pending_action := None,
       lv_pending_reasoning := [], lv_pending_call_id := [], lv_plan_gen_first := None,
       lv_complete_answer := [], lv_last_exec := None, lv_eval_escalate := False,
       lv_validate_left := le_auto_retry env\<rparr>"

definition runLoop ::
    "nat \<Rightarrow> ('w, 'm, 'c) loop_env \<Rightarrow> 'w rt \<Rightarrow> ('w, 'm, 'c) loop_vars \<Rightarrow>
     (agent_result res \<times> 'w rt \<times> ('w, 'm, 'c) loop_vars) option" where
  "runLoop fuel env r v =
     (if le_mode env = ModeReAct \<and> le_planner env = None then
        let err = ErrNew ''agent: planner is nil (set model or WithPlanner)'' in
        (case emit env (EventError err ''init'') r (fresh_vars env v) of
           (_, r', v') \<Rightarrow> Some (Ok (error_result err), r', v'))
      else run_turns fuel env r (fresh_vars env v))"

end
