(* ===== verification/LoopControl.thy ===== *)
theory LoopControl
  imports Loop
begin

text \<open>
  The control of the loop: an abstract state machine over the variables that decide what happens
  next, and the simulation: every turn of \<open>runLoop\<close> is a step of it. Memory, models, tools, humans
  and hooks are gone from the abstract machine; what they may answer is left open.
\<close>

section \<open>The abstract machine\<close>

record control =
  ct_state :: loop_state
  ct_iteration :: int
  ct_history :: "step_result list"
  ct_pending :: "action option"
  ct_first :: "plan_result option"
  ct_last :: "tool_exec option"
  ct_escalate :: bool
  ct_validate_left :: int
  ct_answer :: string
  ct_detector :: loop_detector

definition ctrl :: "('w, 'm, 'c) loop_vars \<Rightarrow> control" where
  "ctrl v =
     \<lparr>ct_state = lv_state v, ct_iteration = lv_iteration v, ct_history = lv_history v,
      ct_pending = lv_pending_action v, ct_first = lv_plan_gen_first v, ct_last = lv_last_exec v,
      ct_escalate = lv_eval_escalate v, ct_validate_left = lv_validate_left v,
      ct_answer = lv_complete_answer v, ct_detector = lv_detector v\<rparr>"

text \<open>A human may turn down a plan.\<close>

definition plan_rejecting :: "('w, 'm, 'c) loop_env \<Rightarrow> bool" where
  "plan_rejecting env \<longleftrightarrow>
     (\<exists>ir act r hr r'. le_interrupter env = Some ir \<and>
        in_wait ir \<lparr>ie_type = InterruptAfterPlan, ie_action = act\<rparr> r = (Inr hr, r') \<and> rejected hr)"

text \<open>
  A call is let through: nobody is to be asked, the interrupter says that it need not be asked, or
  it is asked and approves, perhaps with another input.
\<close>

definition approved :: "('w, 'm, 'c) loop_env \<Rightarrow> action \<Rightarrow> action \<Rightarrow> bool" where
  "approved env act act' \<longleftrightarrow> act_type act \<noteq> ActionAskHuman \<and>
     (case le_interrupter env of
        None \<Rightarrow> act' = act
      | Some ir \<Rightarrow>
          let ev = \<lparr>ie_type = InterruptBeforeToolCall, ie_action = act\<rparr> in
          (\<exists>r r'. in_should ir ev r = (Inr False, r')) \<and> act' = act \<or>
          (\<exists>r hr r'. in_wait ir ev r = (Inr (Some hr), r') \<and> hr_approved hr \<and>
             act' = apply_input (hr_modified_input hr) act))"

definition taken :: "plan_result \<Rightarrow> control \<Rightarrow> control" where
  "taken res c =
     (case act_type (pr_action res) of
        ActionFinalAnswer \<Rightarrow>
          c\<lparr>ct_pending := Some (pr_action res), ct_answer := trim_space (act_answer (pr_action res)),
            ct_state := StateCompleting\<rparr>
      | _ \<Rightarrow> c\<lparr>ct_pending := Some (pr_action res), ct_state := StateInterrupt\<rparr>)"

inductive ctl_step :: "('w, 'm, 'c) loop_env \<Rightarrow> control \<Rightarrow> control \<Rightarrow> bool"
  for env :: "('w, 'm, 'c) loop_env" where
  c_init: "ct_state c = StateInit \<Longrightarrow>
     ctl_step env c (c\<lparr>ct_state := if le_mode env = ModePlanAndSolve then StatePlanGen else StatePlanning\<rparr>)"
| c_plan_kept: "ct_state c = StatePlanGen \<Longrightarrow> ctl_step env c (c\<lparr>ct_state := StatePlanReview\<rparr>)"
| c_plan_made: "ct_state c = StatePlanGen \<Longrightarrow>
     ctl_step env c (c\<lparr>ct_first := Some res, ct_state := StatePlanReview\<rparr>)"
| c_reviewed: "ct_state c = StatePlanReview \<Longrightarrow> ctl_step env c (c\<lparr>ct_state := StatePlanning\<rparr>)"
| c_rejected: "ct_state c = StatePlanReview \<Longrightarrow> plan_rejecting env \<Longrightarrow> ctl_step env c c"
| c_planned: "ct_state c = StatePlanning \<Longrightarrow> ct_iteration c + 1 \<le> le_max_iterations env \<Longrightarrow>
     (case ct_first c of Some f \<Rightarrow> res = f | None \<Rightarrow> True) \<Longrightarrow>
     ctl_step env c (taken res (c\<lparr>ct_iteration := ct_iteration c + 1, ct_first := None\<rparr>))"
| c_escalated: "ct_state c = StateInterrupt \<Longrightarrow> ct_escalate c \<Longrightarrow>
     ctl_step env c (c\<lparr>ct_escalate := False, ct_pending := None, ct_state := StatePlanning\<rparr>)"
| c_not_called: "ct_state c = StateInterrupt \<Longrightarrow> \<not> ct_escalate c \<Longrightarrow> ct_pending c = Some act \<Longrightarrow>
     ctl_step env c (c\<lparr>ct_pending := Some (apply_input m act), ct_state := StatePlanning\<rparr>)"
| c_called: "ct_state c = StateInterrupt \<Longrightarrow> \<not> ct_escalate c \<Longrightarrow> ct_pending c = Some act \<Longrightarrow>
     approved env act act' \<Longrightarrow>
     ctl_step env c (c\<lparr>ct_pending := Some act', ct_state := StateExecuting\<rparr>)"
| c_executed: "ct_state c = StateExecuting \<Longrightarrow> ct_pending c = Some act \<Longrightarrow>
     Record (le_digest env) (act_tool_name act) (act_tool_input act) (ct_detector c) = (status, d) \<Longrightarrow>
     status \<noteq> LoopTerminate \<Longrightarrow>
     le_executor env act r s = (Ok (Some res), r', s') \<Longrightarrow> te_action te = act \<Longrightarrow>
     ctl_step env c (c\<lparr>ct_detector := d, ct_last := Some te,
       ct_history := ct_history c @ [\<lparr>sr_action = act, sr_output = er_output res, sr_error = er_error res\<rparr>],
       ct_pending := None, ct_state := if le_eval_on env then StateEvaluating else StatePlanning\<rparr>)"
| c_continue: "ct_state c = StateEvaluating \<Longrightarrow> ctl_step env c (c\<lparr>ct_state := StatePlanning\<rparr>)"
| c_complete: "ct_state c = StateEvaluating \<Longrightarrow>
     ctl_step env c (c\<lparr>ct_answer := ans, ct_state := StateCompleting\<rparr>)"
| c_retry: "ct_state c = StateEvaluating \<Longrightarrow> ct_last c = Some te \<Longrightarrow>
     ctl_step env c (c\<lparr>ct_pending := Some (te_action te), ct_state := StateExecuting\<rparr>)"
| c_escalate: "ct_state c = StateEvaluating \<Longrightarrow>
     ctl_step env c (c\<lparr>ct_escalate := True,
       ct_pending := (case (ct_pending c, ct_last c) of (None, Some te) \<Rightarrow> Some (te_action te) | (p, _) \<Rightarrow> p),
       ct_state := StateInterrupt\<rparr>)"
| c_replan: "ct_state c = StateEvaluating \<Longrightarrow> le_mode env = ModePlanAndSolve \<Longrightarrow>
     ctl_step env c (c\<lparr>ct_first := None, ct_state := StatePlanGen\<rparr>)"
| c_invalid: "ct_state c = StateCompleting \<Longrightarrow> ct_validate_left c > 0 \<Longrightarrow>
     ctl_step env c (c\<lparr>ct_validate_left := ct_validate_left c - 1, ct_state := StatePlanning\<rparr>)"

text \<open>What the loop may return: an error and nothing else, or a valid answer.\<close>

definition answer_valid :: "('w, 'm, 'c) loop_env \<Rightarrow> string \<Rightarrow> bool" where
  "answer_valid env ans \<longleftrightarrow>
     (case le_validate env of None \<Rightarrow> True | Some validate \<Rightarrow> snd (validate ans) = None)"

definition ctl_result :: "('w, 'm, 'c) loop_env \<Rightarrow> control \<Rightarrow> agent_result \<Rightarrow> bool" where
  "ctl_result env c x \<longleftrightarrow>
     (\<exists>e. x = error_result e) \<or>
     (ct_state c = StateCompleting \<and> ar_error x = None \<and> ar_answer x = ct_answer c \<and>
        answer_valid env (ct_answer c)) \<or>
     ct_state c \<in> {StateComplete, StateError}"

section \<open>Behaving components\<close>

text \<open>
  What the loop relies on of the components it is given: no nil result without an error, and no
  panic. The length limit of tool results is positive (\<open>WithToolResultMaxLen\<close> ignores others).
\<close>

definition well_behaved :: "('w, 'm, 'c) loop_env \<Rightarrow> bool" where
  "well_behaved env \<longleftrightarrow>
     (\<forall>plan ps r r'. le_planner env = Some plan \<longrightarrow> plan ps r \<noteq> (Ok None, r') \<and> (\<forall>p. plan ps r \<noteq> (Panic p, r'))) \<and>
     (le_mode env = ModeReAct \<longrightarrow> le_planner env \<noteq> None) \<and>
     (\<forall>act r s r' s'. le_executor env act r s \<noteq> (Ok None, r', s') \<and> (\<forall>p. le_executor env act r s \<noteq> (Panic p, r', s'))) \<and>
     (\<forall>ev st r r'. le_evaluator env = Some ev \<longrightarrow> ev st r \<noteq> (Ok None, r') \<and> (\<forall>p. ev st r \<noteq> (Panic p, r'))) \<and>
     (\<forall>r m p r' m'. mem_messages (le_memory env) r m \<noteq> (Panic p, r', m')) \<and>
     (\<forall>xs r m p r' m'. mem_add (le_memory env) xs r m \<noteq> (Panic p, r', m')) \<and>
     (\<forall>r m p r' m'. mem_clear (le_memory env) r m \<noteq> (Panic p, r', m')) \<and>
     (\<forall>k x r c p r' c'. cs_store (le_contents env) k x r c \<noteq> (Panic p, r', c')) \<and>
     0 \<le> le_tool_result_max_len env \<and>
     (\<forall>c. le_compressor env = Some c \<longrightarrow>
        (\<exists>m. cc_model c = Some m \<and> (\<forall>r ms os r'. cm_generate m r ms os \<noteq> (Inr None, r'))))"

text \<open>In plan-and-solve mode the agent has its planner, with a model.\<close>

definition ready :: "('w, 'm, 'c) loop_env \<Rightarrow> ('w, 'm, 'c) loop_vars \<Rightarrow> bool" where
  "ready env v \<longleftrightarrow>
     (le_mode env = ModePlanAndSolve \<longrightarrow> (\<exists>p. lv_pas v = Some p \<and> pas_model p \<noteq> None))"

definition ctl_inv :: "control \<Rightarrow> bool" where
  "ctl_inv c \<longleftrightarrow>
     (ct_state c \<in> {StateInterrupt, StateExecuting} \<longrightarrow> ct_pending c \<noteq> None) \<and>
     (ct_state c = StateEvaluating \<longrightarrow> ct_last c \<noteq> None)"

section \<open>A small calculus for turns\<close>

definition stands :: "('w, 'm, 'c) loop_env \<Rightarrow> control \<Rightarrow> ('w, 'm, 'c) loop_vars \<Rightarrow> bool" where
  "stands env c v \<longleftrightarrow> ctrl v = c \<and> ready env v"

text \<open>\<open>keeps env m\<close>: the operation touches no control variable and does not panic.\<close>

definition keeps :: "('w, 'm, 'c) loop_env \<Rightarrow> ('w, ('w, 'm, 'c) loop_vars, 'a) op \<Rightarrow> bool" where
  "keeps env m \<longleftrightarrow>
     (\<forall>c r v. stands env c v \<longrightarrow>
        (case m r v of
           (Panic p, _, _) \<Rightarrow> \<not> well_behaved env
         | (_, _, v') \<Rightarrow> stands env c v'))"

text \<open>\<open>turns env c m Q\<close>: started at \<open>c\<close> the operation ends with \<open>Q\<close>, with an error, or not at all.\<close>

definition turns ::
    "('w, 'm, 'c) loop_env \<Rightarrow> control \<Rightarrow> ('w, ('w, 'm, 'c) loop_vars, 'a) op \<Rightarrow>
     ('a \<Rightarrow> ('w, 'm, 'c) loop_vars \<Rightarrow> bool) \<Rightarrow> bool" where
  "turns env c m Q \<longleftrightarrow>
     (\<forall>r v. stands env c v \<longrightarrow>
        (case m r v of
           (Ok x, _, v') \<Rightarrow> Q x v'
         | (Err _, _, _) \<Rightarrow> True
         | (Panic _, _, _) \<Rightarrow> \<not> well_behaved env))"

lemma stands_sel:
  assumes "stands env c v"
  shows "lv_state v = ct_state c" "lv_iteration v = ct_iteration c" "lv_history v = ct_history c"
    "lv_pending_action v = ct_pending c" "lv_plan_gen_first v = ct_first c"
    "lv_last_exec v = ct_last c" "lv_eval_escalate v = ct_escalate c"
    "lv_validate_left v = ct_validate_left c" "lv_complete_answer v = ct_answer c"
    "lv_detector v = ct_detector c"
  using assms by (auto simp: stands_def ctrl_def)

lemma same_state: "ct_state c = s \<Longrightarrow> c\<lparr>ct_state := s\<rparr> = c"
  by (cases c) simp

named_theorems keep

lemma keeps_bind [keep]:
  assumes "keeps env m" and "\<And>x. keeps env (f x)"
  shows "keeps env (go_bind m f)"
  unfolding keeps_def
proof (intro allI impI)
  fix c r v assume "stands env c v"
  with assms(1) have m: "case m r v of (Panic p, _, _) \<Rightarrow> \<not> well_behaved env | (_, _, v') \<Rightarrow> stands env c v'"
    by (auto simp: keeps_def)
  show "case go_bind m f r v of (Panic p, _, _) \<Rightarrow> \<not> well_behaved env | (_, _, v') \<Rightarrow> stands env c v'"
  proof (cases "m r v")
    case (fields x r' v')
    with m assms(2) show ?thesis by (cases x) (auto simp: go_bind_def keeps_def)
  qed
qed

lemma keeps_return [keep]: "keeps env (go_return x)"
  by (simp add: keeps_def go_return_def)

lemma keeps_fail [keep]: "keeps env (go_fail e)"
  by (simp add: keeps_def go_fail_def)

lemma keeps_get [keep]: "keeps env go_get"
  by (simp add: keeps_def go_get_def)

lemma keeps_poll [keep]: "keeps env go_poll"
  by (auto simp: keeps_def go_poll_def split: prod.splits)

lemma keeps_attempt [keep]: "keeps env m \<Longrightarrow> keeps env (go_attempt m)"
  by (fastforce simp: keeps_def go_attempt_def split: prod.splits res.splits)

lemma keeps_ignore [keep]: "keeps env m \<Longrightarrow> keeps env (go_ignore m)"
  unfolding go_ignore_def by (intro keep)

lemma keeps_try [keep]:
  "keeps env m \<Longrightarrow> (\<And>e. keeps env (h e)) \<Longrightarrow> (\<And>x. keeps env (k x)) \<Longrightarrow> keeps env (go_try m h k)"
  unfolding go_try_def by (intro keep) (auto split: sum.split)

lemma keeps_outside [keep]: "keeps env (go_outside f)"
  by (auto simp: keeps_def go_outside_def split: prod.splits sum.splits)

lemma keeps_if [keep]: "(b \<Longrightarrow> keeps env m) \<Longrightarrow> (\<not> b \<Longrightarrow> keeps env m') \<Longrightarrow> keeps env (if b then m else m')"
  by simp

lemma ctrl_frame [simp]:
  "ctrl (v\<lparr>lv_memory := m\<rparr>) = ctrl v" "ctrl (v\<lparr>lv_contents := cs\<rparr>) = ctrl v"
  "ctrl (v\<lparr>lv_pas := p\<rparr>) = ctrl v" "ctrl (v\<lparr>lv_events := es\<rparr>) = ctrl v"
  "ctrl (v\<lparr>lv_saves := ss\<rparr>) = ctrl v" "ctrl (v\<lparr>lv_pending_call_id := i\<rparr>) = ctrl v"
  "ctrl (v\<lparr>lv_pending_reasoning := t\<rparr>) = ctrl v"
  by (simp_all add: ctrl_def)

lemma ctrl_updates [simp]:
  "ctrl (v\<lparr>lv_state := s\<rparr>) = (ctrl v)\<lparr>ct_state := s\<rparr>"
  "ctrl (v\<lparr>lv_iteration := i\<rparr>) = (ctrl v)\<lparr>ct_iteration := i\<rparr>"
  "ctrl (v\<lparr>lv_history := h\<rparr>) = (ctrl v)\<lparr>ct_history := h\<rparr>"
  "ctrl (v\<lparr>lv_pending_action := a\<rparr>) = (ctrl v)\<lparr>ct_pending := a\<rparr>"
  "ctrl (v\<lparr>lv_plan_gen_first := f\<rparr>) = (ctrl v)\<lparr>ct_first := f\<rparr>"
  "ctrl (v\<lparr>lv_last_exec := l\<rparr>) = (ctrl v)\<lparr>ct_last := l\<rparr>"
  "ctrl (v\<lparr>lv_eval_escalate := b\<rparr>) = (ctrl v)\<lparr>ct_escalate := b\<rparr>"
  "ctrl (v\<lparr>lv_validate_left := n\<rparr>) = (ctrl v)\<lparr>ct_validate_left := n\<rparr>"
  "ctrl (v\<lparr>lv_complete_answer := t\<rparr>) = (ctrl v)\<lparr>ct_answer := t\<rparr>"
  "ctrl (v\<lparr>lv_detector := d\<rparr>) = (ctrl v)\<lparr>ct_detector := d\<rparr>"
  by (simp_all add: ctrl_def)

lemma ctrl_sel [simp]:
  "ct_state (ctrl v) = lv_state v" "ct_iteration (ctrl v) = lv_iteration v"
  "ct_history (ctrl v) = lv_history v" "ct_pending (ctrl v) = lv_pending_action v"
  "ct_first (ctrl v) = lv_plan_gen_first v" "ct_last (ctrl v) = lv_last_exec v"
  "ct_escalate (ctrl v) = lv_eval_escalate v" "ct_validate_left (ctrl v) = lv_validate_left v"
  "ct_answer (ctrl v) = lv_complete_answer v" "ct_detector (ctrl v) = lv_detector v"
  by (simp_all add: ctrl_def)

lemma ready_frame [simp]:
  "ready env (v\<lparr>lv_memory := m\<rparr>) = ready env v" "ready env (v\<lparr>lv_contents := cs\<rparr>) = ready env v"
  "ready env (v\<lparr>lv_events := es\<rparr>) = ready env v" "ready env (v\<lparr>lv_saves := ss\<rparr>) = ready env v"
  "ready env (v\<lparr>lv_pending_call_id := i\<rparr>) = ready env v"
  "ready env (v\<lparr>lv_pending_reasoning := t\<rparr>) = ready env v"
  "ready env (v\<lparr>lv_state := s\<rparr>) = ready env v" "ready env (v\<lparr>lv_iteration := n\<rparr>) = ready env v"
  "ready env (v\<lparr>lv_history := h\<rparr>) = ready env v"
  "ready env (v\<lparr>lv_pending_action := a\<rparr>) = ready env v"
  "ready env (v\<lparr>lv_plan_gen_first := f\<rparr>) = ready env v"
  "ready env (v\<lparr>lv_last_exec := l\<rparr>) = ready env v"
  "ready env (v\<lparr>lv_eval_escalate := b\<rparr>) = ready env v"
  "ready env (v\<lparr>lv_validate_left := k\<rparr>) = ready env v"
  "ready env (v\<lparr>lv_complete_answer := u\<rparr>) = ready env v"
  "ready env (v\<lparr>lv_detector := d\<rparr>) = ready env v"
  by (simp_all add: ready_def)

lemma keeps_modify: "(\<And>v. ctrl (f v) = ctrl v \<and> ready env (f v) = ready env v) \<Longrightarrow> keeps env (go_modify f)"
  by (simp add: keeps_def go_modify_def stands_def)

lemma keeps_memory:
  assumes "well_behaved env \<Longrightarrow> \<forall>r m p r' m'. f r m \<noteq> (Panic p, r', m')"
  shows "keeps env (on_memory f)"
  using assms
  by (fastforce simp: keeps_def on_memory_def go_zoom_def stands_def split: prod.splits res.splits)

lemma keeps_messages [keep]: "keeps env (on_memory (mem_messages (le_memory env)))"
  by (rule keeps_memory) (simp add: well_behaved_def)

lemma keeps_clear [keep]: "keeps env (on_memory (mem_clear (le_memory env)))"
  by (rule keeps_memory) (simp add: well_behaved_def)

lemma keeps_add [keep]: "keeps env (add_messages env msgs)"
  unfolding add_messages_def by (intro keep keeps_memory) (simp add: well_behaved_def)

lemma keeps_replace [keep]: "keeps env (replace_memory env msgs)"
  unfolding replace_memory_def by (intro keep)

lemma keeps_emit [keep]: "keeps env (emit env ev)"
  by (auto simp: keeps_def emit_def stands_def split: prod.splits)

lemma keeps_emit_all [keep]: "keeps env (emit_all env evs)"
  by (induction evs) (auto intro: keep)

lemma keeps_save [keep]: "keeps env (maybeSaveCheckpoint env plan)"
  unfolding maybeSaveCheckpoint_def by (auto intro!: keep keeps_modify split: option.split)

lemma keeps_build [keep]: "keeps env (buildPlanState env)"
  unfolding buildPlanState_def by (intro keep)

lemma keeps_deref: "(p = None \<Longrightarrow> \<not> well_behaved env) \<Longrightarrow> keeps env (go_deref s p)"
  by (auto simp: keeps_def go_deref_def go_return_def split: option.split)

lemma keeps_on_pas:
  assumes "le_mode env = ModePlanAndSolve"
    and "\<And>r p x r' p'. pas_model p \<noteq> None \<Longrightarrow> f r p = (x, r', p') \<Longrightarrow>
      pas_model p' \<noteq> None \<and> (\<forall>s. x \<noteq> Panic s)"
  shows "keeps env (on_pas f)"
  using assms
  by (fastforce simp: keeps_def on_pas_def stands_def ready_def split: prod.splits res.splits option.splits)

lemma generate_model:
  "generatePlanWithNotes st notes r p = (x, r', p') \<Longrightarrow> pas_model p \<noteq> None \<Longrightarrow>
     pas_model p' = pas_model p \<and> (\<forall>s. x \<noteq> Panic s)"
  by (auto simp: generatePlanWithNotes_def planner_generate_def go_bind_def go_fail_def go_get_def
      go_put_def split: option.splits sum.splits prod.splits res.splits)

lemma pas_next_model:
  "pas_next r p = (x, r', p') \<Longrightarrow> pas_model p' = pas_model p \<and> (\<forall>s. x \<noteq> Panic s)"
  by (auto simp: pas_next_def Let_def split: option.splits)

lemma pas_Plan_model:
  "pas_Plan st r p = (x, r', p') \<Longrightarrow> pas_model p' = pas_model p \<and> (\<forall>s. x \<noteq> Panic s)"
  by (auto simp: pas_Plan_def go_bind_def generatePlan_def go_return_def dest: generate_model pas_next_model
      split: if_splits prod.splits res.splits)
    (metis generate_model pas_next_model option.distinct(1))+

lemma Replan_model:
  "Replan st r p = (x, r', p') \<Longrightarrow> pas_model p \<noteq> None \<Longrightarrow>
     pas_model p' = pas_model p \<and> (\<forall>s. x \<noteq> Panic s)"
  by (auto simp: Replan_def go_bind_def go_get_def go_put_def dest!: generate_model
      split: prod.splits res.splits)

lemma keeps_pas_Plan [keep]: "le_mode env = ModePlanAndSolve \<Longrightarrow> keeps env (on_pas (pas_Plan ps))"
  by (rule keeps_on_pas) (auto dest: pas_Plan_model)

lemma keeps_Replan [keep]: "le_mode env = ModePlanAndSolve \<Longrightarrow> keeps env (on_pas (Replan ps))"
  by (rule keeps_on_pas) (auto dest: Replan_model)

lemma keeps_call:
  assumes "well_behaved env \<Longrightarrow> \<forall>r p r'. f r \<noteq> (Panic p, r')"
  shows "keeps env (go_call f)"
  using assms by (fastforce simp: keeps_def go_call_def split: prod.splits res.splits)

lemma keeps_stream [keep]: "keeps env (streamReActPlan env m ps)"
  unfolding streamReActPlan_def Let_def
  by (intro keep) (auto intro!: keep split: prod.split option.split)

lemma keeps_call_planner [keep]: "keeps env (call_planner env ps)"
  unfolding call_planner_def
  by (auto intro!: keep keeps_call keeps_deref simp: well_behaved_def split: execution_mode.split option.split)

lemma keeps_ask_planner [keep]: "keeps env (ask_planner env ps)"
  unfolding ask_planner_def by (auto intro!: keep split: option.split)

lemma Compress_stands:
  "le_compressor env = Some c \<Longrightarrow> keeps env (Compress c msgs)"
  by (auto simp: keeps_def Compress_def well_behaved_def split: option.split prod.split sum.split)

lemma keeps_compress [keep]: "keeps env (compress_context env ps)"
  unfolding compress_context_def
  by (auto intro!: keep Compress_stands split: option.split sum.split)

lemma TruncateToolResult_safe:
  assumes "0 \<le> maxLen" and "\<forall>k x r c p r' c'. cs_store ops k x r c \<noteq> (Panic p, r', c')"
  shows "TruncateToolResult ops out maxLen callID r store \<noteq> (Panic p, r', c')"
proof -
  have "truncate_text out maxLen callID \<noteq> None" if "maxLen < int (length out)"
    using truncate_text_length [OF assms(1) that, of callID] by auto
  with assms(2) show ?thesis
    by (auto simp: TruncateToolResult_def split: option.splits prod.splits res.splits)
qed

lemma keeps_tool_output [keep]: "keeps env (tool_output env status act res callID)"
proof -
  have "keeps env (on_contents (TruncateToolResult (le_contents env) out (le_tool_result_max_len env) callID))"
    for out
    using TruncateToolResult_safe [of "le_tool_result_max_len env" "le_contents env"]
    by (fastforce simp: keeps_def on_contents_def go_zoom_def stands_def well_behaved_def
        split: prod.splits res.splits)
  then show ?thesis unfolding tool_output_def Let_def by (intro keep)
qed

lemma keeps_shrink [keep]: "keeps env (shrink_memory env)"
  unfolding shrink_memory_def by (auto intro!: keep split: sum.split)

section \<open>Rules for turns\<close>

lemma turns_keeps_bind:
  "keeps env m \<Longrightarrow> (\<And>x. turns env c (f x) Q) \<Longrightarrow> turns env c (go_bind m f) Q"
proof -
  assume m: "keeps env m" and f: "\<And>x. turns env c (f x) Q"
  show "turns env c (go_bind m f) Q"
    unfolding turns_def
  proof (intro allI impI)
    fix r v assume "stands env c v"
    with m have "case m r v of (Panic p, _, _) \<Rightarrow> \<not> well_behaved env | (_, _, v') \<Rightarrow> stands env c v'"
      by (auto simp: keeps_def)
    then show "case go_bind m f r v of (Ok x, _, v') \<Rightarrow> Q x v' | (Err _, _, _) \<Rightarrow> True
        | (Panic _, _, _) \<Rightarrow> \<not> well_behaved env"
      using f by (cases "m r v"; cases "fst (m r v)") (auto simp: go_bind_def turns_def)
  qed
qed

lemma turns_try:
  "keeps env m \<Longrightarrow> (\<And>e. turns env c (h e) Q) \<Longrightarrow> (\<And>x. turns env c (k x) Q) \<Longrightarrow>
   turns env c (go_try m h k) Q"
  unfolding go_try_def
  by (rule turns_keeps_bind) (auto intro: keep split: sum.split)

text \<open>A call that works on the content store of the session.\<close>

lemma turns_try_contents:
  assumes "\<And>e. turns env c (h e) Q"
    and "\<And>x r s r' s'. f r s = (Ok x, r', s') \<Longrightarrow> turns env c (k x) Q"
    and "\<And>p r s r' s'. f r s = (Panic p, r', s') \<Longrightarrow> \<not> well_behaved env"
  shows "turns env c (go_try (on_contents f) h k) Q"
  unfolding turns_def
proof (intro allI impI)
  fix r v assume st: "stands env c v"
  show "case go_try (on_contents f) h k r v of (Ok x, _, v') \<Rightarrow> Q x v' | (Err _, _, _) \<Rightarrow> True
      | (Panic _, _, _) \<Rightarrow> \<not> well_behaved env"
  proof (cases "f r (lv_contents v)")
    case (fields y r' s')
    have st': "stands env c (v\<lparr>lv_contents := s'\<rparr>)"
      using st by (simp add: stands_def)
    show ?thesis
    proof (cases y)
      case (Ok x)
      with assms(2) fields have "turns env c (k x) Q" by blast
      with Ok fields st' show ?thesis
        by (simp add: go_try_def go_attempt_def on_contents_def go_zoom_def go_bind_def turns_def)
    next
      case (Err e)
      with fields st' assms(1) [of e] show ?thesis
        by (simp add: go_try_def go_attempt_def on_contents_def go_zoom_def go_bind_def turns_def)
    next
      case (Panic p)
      with fields assms(3) show ?thesis
        by (auto simp add: go_try_def go_attempt_def on_contents_def go_zoom_def go_bind_def)
    qed
  qed
qed

lemma turns_try_outside:
  assumes "\<And>e. turns env c (h e) Q"
    and "\<And>x r r'. f r = (Inr x, r') \<Longrightarrow> turns env c (k x) Q"
  shows "turns env c (go_try (go_outside f) h k) Q"
  unfolding turns_def
proof (intro allI impI)
  fix r v assume st: "stands env c v"
  show "case go_try (go_outside f) h k r v of (Ok x, _, v') \<Rightarrow> Q x v' | (Err _, _, _) \<Rightarrow> True
      | (Panic _, _, _) \<Rightarrow> \<not> well_behaved env"
  proof (cases "f r")
    case (Pair y r')
    show ?thesis
    proof (cases y)
      case (Inl e)
      with Pair st assms(1) [of e] show ?thesis
        by (simp add: go_try_def go_attempt_def go_outside_def go_bind_def turns_def)
    next
      case (Inr x)
      with Pair have "turns env c (k x) Q" by (intro assms(2)) simp
      with Inr Pair st show ?thesis
        by (simp add: go_try_def go_attempt_def go_outside_def go_bind_def turns_def)
    qed
  qed
qed

lemma turns_get:
  "(\<And>v. stands env c v \<Longrightarrow> turns env c (f v) Q) \<Longrightarrow> turns env c (go_bind go_get f) Q"
  by (fastforce simp: turns_def go_bind_def go_get_def)

lemma turns_modify:
  "(\<And>v. stands env c v \<Longrightarrow> stands env c' (f v)) \<Longrightarrow> turns env c' (k ()) Q \<Longrightarrow>
   turns env c (go_bind (go_modify f) k) Q"
  by (auto simp: turns_def go_bind_def go_modify_def)

lemma turns_goto:
  "(\<And>v. stands env (c\<lparr>ct_state := st\<rparr>) v \<Longrightarrow> Q None v) \<Longrightarrow> turns env c (goto st) Q"
  by (auto simp: turns_def goto_def go_bind_def go_modify_def go_return_def stands_def)

lemma turns_give_error:
  "(\<And>v. stands env c v \<Longrightarrow> Q (Some (error_result e)) v) \<Longrightarrow> turns env c (give_error e) Q"
  by (auto simp: turns_def give_error_def go_return_def)

lemma turns_report_error:
  "(\<And>v. stands env c v \<Longrightarrow> Q (Some (error_result e)) v) \<Longrightarrow> turns env c (report_error env s e) Q"
  unfolding report_error_def by (intro turns_keeps_bind keep turns_give_error)

lemma turns_fail: "turns env c (go_fail e) Q"
  by (simp add: turns_def go_fail_def)

lemma turns_deref:
  "(p = None \<Longrightarrow> \<not> well_behaved env) \<Longrightarrow> (\<And>x. p = Some x \<Longrightarrow> turns env c (k x) Q) \<Longrightarrow>
   turns env c (go_bind (go_deref s p) k) Q"
  by (cases p) (auto simp: turns_def go_bind_def go_deref_def go_return_def)

lemma turns_if: "(b \<Longrightarrow> turns env c m Q) \<Longrightarrow> (\<not> b \<Longrightarrow> turns env c m' Q) \<Longrightarrow> turns env c (if b then m else m') Q"
  by simp

lemma turns_unless_cancelled: "turns env c k Q \<Longrightarrow> turns env c (unless_cancelled k) Q"
  unfolding unless_cancelled_def
  by (rule turns_keeps_bind) (auto intro: keep turns_fail split: option.split)

lemma turns_try_fact:
  assumes "keeps env m"
    and "\<And>r v x r' v'. stands env c v \<Longrightarrow> m r v = (Ok x, r', v') \<Longrightarrow> F x"
    and "\<And>e. turns env c (h e) Q" and "\<And>x. F x \<Longrightarrow> turns env c (k x) Q"
  shows "turns env c (go_try m h k) Q"
  unfolding turns_def
proof (intro allI impI)
  fix r v assume st: "stands env c v"
  with assms(1) have m: "case m r v of (Panic p, _, _) \<Rightarrow> \<not> well_behaved env | (_, _, v') \<Rightarrow> stands env c v'"
    by (auto simp: keeps_def)
  obtain y r' v' where y: "m r v = (y, r', v')" by (cases "m r v")
  show "case go_try m h k r v of (Ok x, _, v') \<Rightarrow> Q x v' | (Err _, _, _) \<Rightarrow> True
      | (Panic _, _, _) \<Rightarrow> \<not> well_behaved env"
  proof (cases y)
    case (Ok x)
    with st y assms(2) have "F x" by blast
    with Ok y m assms(4) show ?thesis
      by (auto simp: go_try_def go_attempt_def go_bind_def turns_def)
  next
    case (Err e)
    with y m assms(3) show ?thesis
      by (auto simp: go_try_def go_attempt_def go_bind_def turns_def)
  next
    case (Panic p)
    with y m show ?thesis by (simp add: go_try_def go_attempt_def go_bind_def)
  qed
qed

section \<open>The simulation, turn by turn\<close>

definition turn_post ::
    "('w, 'm, 'c) loop_env \<Rightarrow> control \<Rightarrow> agent_result option \<Rightarrow> ('w, 'm, 'c) loop_vars \<Rightarrow> bool" where
  "turn_post env c x v \<longleftrightarrow> ready env v \<and>
     (case x of None \<Rightarrow> ctl_step env c (ctrl v) | Some res \<Rightarrow> ctl_result env c res)"

lemma post_step: "stands env c' v \<Longrightarrow> ctl_step env c c' \<Longrightarrow> turn_post env c None v"
  by (auto simp: turn_post_def stands_def)

lemma post_error [simp]: "stands env c' v \<Longrightarrow> turn_post env c (Some (error_result e)) v"
  by (auto simp: turn_post_def stands_def ctl_result_def)

lemma sim_goto: "ctl_step env c (c'\<lparr>ct_state := st\<rparr>) \<Longrightarrow> turns env c' (goto st) (turn_post env c)"
  by (rule turns_goto) (rule post_step)

lemma sim_error [keep]: "turns env c' (give_error e) (turn_post env c)"
  by (rule turns_give_error) simp

lemma sim_report [keep]: "turns env c' (report_error env s e) (turn_post env c)"
  by (rule turns_report_error) simp

lemma sim_init: "ct_state c = StateInit \<Longrightarrow> turns env c (turn_init env) (turn_post env c)"
  unfolding turn_init_def by (rule sim_goto) (rule c_init)

lemma sim_plan_gen:
  assumes "ct_state c = StatePlanGen" and "le_mode env = ModePlanAndSolve"
  shows "turns env c (turn_plan_gen env) (turn_post env c)"
  unfolding turn_plan_gen_def
proof (rule turns_get)
  fix v assume "stands env c v"
  with assms(2) obtain p where p: "lv_pas v = Some p" by (auto simp: stands_def ready_def)
  have kept: "turns env c (goto StatePlanReview) (turn_post env c)"
    using assms(1) by (intro sim_goto c_plan_kept)
  have made: "turns env c (go_bind (go_modify (\<lambda>v. v\<lparr>lv_plan_gen_first := Some res\<rparr>)) (\<lambda>_. goto StatePlanReview))
      (turn_post env c)" for res
    using assms(1)
    by (intro turns_modify [where c' = "c\<lparr>ct_first := Some res\<rparr>"] sim_goto)
      (auto simp: stands_def intro: c_plan_made)
  show "turns env c (case lv_pas v of
      None \<Rightarrow> report_error env ''plan_gen'' (ErrNew ''agent: plan-and-solve planner unavailable'')
    | Some pas \<Rightarrow> go_try (buildPlanState env) (report_error env ''plan_gen'') (\<lambda>ps.
        if CurrentPlan pas = None then go_try (on_pas (pas_Plan ps)) (report_error env ''plan_gen'') (\<lambda>res.
          go_bind (go_modify (\<lambda>v. v\<lparr>lv_plan_gen_first := Some res\<rparr>)) (\<lambda>_. goto StatePlanReview))
        else goto StatePlanReview)) (turn_post env c)"
    unfolding p option.case
    by (intro turns_try turns_if keep kept made assms(2))
qed

lemma sim_plan_review:
  assumes "ct_state c = StatePlanReview" and "le_mode env = ModePlanAndSolve"
  shows "turns env c (turn_plan_review env) (turn_post env c)"
proof -
  have ok: "turns env c (goto StatePlanning) (turn_post env c)"
    using assms(1) by (intro sim_goto c_reviewed)
  have again: "turns env c (goto StatePlanReview) (turn_post env c)" if "plan_rejecting env"
    using assms(1) that by (intro sim_goto) (simp add: same_state c_rejected)
  show ?thesis
  proof (cases "le_interrupter env")
    case None
    with ok show ?thesis by (simp add: turn_plan_review_def)
  next
    case (Some ir)
    have rej: "plan_rejecting env" if "in_wait ir \<lparr>ie_type = InterruptAfterPlan, ie_action = act\<rparr> r = (Inr hr, r')"
        "rejected hr" for act r hr r'
      using that Some unfolding plan_rejecting_def by blast
    show ?thesis
      unfolding turn_plan_review_def Some option.case Let_def
      by (intro turns_get turns_try_outside turns_if turns_keeps_bind turns_try turns_unless_cancelled
          keep ok again assms(2)) (erule (1) rej)
  qed
qed

lemma sim_take:
  assumes "ct_state c = StatePlanning" and "ct_iteration c + 1 \<le> le_max_iterations env"
    and "case ct_first c of Some f \<Rightarrow> res = f | None \<Rightarrow> True"
  shows "turns env (c\<lparr>ct_iteration := ct_iteration c + 1, ct_first := None\<rparr>) (take_action res) (turn_post env c)"
proof -
  let ?c = "c\<lparr>ct_iteration := ct_iteration c + 1, ct_first := None\<rparr>"
  note step = c_planned [OF assms]
  show ?thesis
    unfolding take_action_def
  proof (rule turns_modify [where c' = "?c\<lparr>ct_pending := Some (pr_action res)\<rparr>"])
    show "turns env (?c\<lparr>ct_pending := Some (pr_action res)\<rparr>)
      (case act_type (pr_action res) of ActionToolCall \<Rightarrow> goto StateInterrupt
       | ActionFinalAnswer \<Rightarrow> go_bind (go_modify (\<lambda>v. v\<lparr>lv_complete_answer := trim_space (act_answer (pr_action res))\<rparr>))
           (\<lambda>_. goto StateCompleting)
       | ActionAskHuman \<Rightarrow> goto StateInterrupt) (turn_post env c)"
      using step
      by (cases "act_type (pr_action res)")
        (auto simp: taken_def stands_def intro!: sim_goto
          turns_modify [where c' = "?c\<lparr>ct_pending := Some (pr_action res), ct_answer := trim_space (act_answer (pr_action res))\<rparr>"])
  qed (auto simp: stands_def)
qed

lemma ask_planner_some:
  assumes "ask_planner env ps r v = (Ok None, r', v')"
  shows "\<not> well_behaved env"
proof
  assume wb: "well_behaved env"
  have call: "call_planner env ps r v \<noteq> (Ok None, r', v')" for r v r' v'
    using wb by (fastforce simp: call_planner_def go_bind_def go_return_def go_deref_def go_call_def
        well_behaved_def split: execution_mode.splits option.splits prod.splits res.splits)
  from assms show False
    by (auto simp: ask_planner_def call go_try_def go_attempt_def go_bind_def go_return_def go_fail_def
        split: option.splits if_splits prod.splits res.splits sum.splits)
qed

lemma sim_plan_turn:
  assumes "ct_state c = StatePlanning" and "ct_iteration c + 1 \<le> le_max_iterations env"
  shows "turns env (c\<lparr>ct_iteration := ct_iteration c + 1\<rparr>) (plan_turn env ps) (turn_post env c)"
  unfolding plan_turn_def
proof (rule turns_get)
  fix v assume v: "stands env (c\<lparr>ct_iteration := ct_iteration c + 1\<rparr>) v"
  then have first: "lv_plan_gen_first v = ct_first c"
    by (simp add: stands_sel)
  show "turns env (c\<lparr>ct_iteration := ct_iteration c + 1\<rparr>)
    (case lv_plan_gen_first v of
       None \<Rightarrow> go_bind (emit env (EventPlanStart (lv_iteration v))) (\<lambda>_.
         go_try (ask_planner env ps) (report_error env ''planning'') (\<lambda>res.
           go_bind (go_deref ''plan result'' res) (\<lambda>res.
           go_bind (emit env (EventPlanDone (lv_iteration v) (pr_reasoning res)
             (summarizePlanAction (pr_action res)))) (\<lambda>_. take_action res))))
     | Some res \<Rightarrow> go_bind (go_modify (\<lambda>v. v\<lparr>lv_plan_gen_first := None\<rparr>)) (\<lambda>_. take_action res))
    (turn_post env c)"
  proof (cases "ct_first c")
    case None
    then have c: "c\<lparr>ct_iteration := ct_iteration c + 1\<rparr> = c\<lparr>ct_iteration := ct_iteration c + 1, ct_first := None\<rparr>"
      by (cases c) simp
    have take: "turns env (c\<lparr>ct_iteration := ct_iteration c + 1\<rparr>) (take_action res) (turn_post env c)" for res
      using sim_take [OF assms, of res] by (simp add: None flip: c)
    show ?thesis
      unfolding first None option.case
      by (intro turns_keeps_bind keep turns_try_fact [where F = "\<lambda>x. x = None \<longrightarrow> \<not> well_behaved env"]
          turns_deref take) (auto dest: ask_planner_some)
  next
    case (Some f)
    show ?thesis
      unfolding first Some option.case
      by (rule turns_modify [where c' = "c\<lparr>ct_iteration := ct_iteration c + 1, ct_first := None\<rparr>"])
        (auto simp: stands_def Some intro!: sim_take assms)
  qed
qed

lemma sim_planning:
  assumes "ct_state c = StatePlanning"
  shows "turns env c (turn_planning env) (turn_post env c)"
  unfolding turn_planning_def
proof (rule turns_modify [where c' = "c\<lparr>ct_iteration := ct_iteration c + 1\<rparr>"])
  let ?c = "c\<lparr>ct_iteration := ct_iteration c + 1\<rparr>"
  show "turns env ?c (go_bind go_get (\<lambda>v.
      if lv_iteration v > le_max_iterations env then give_error (ErrSentinel ErrMaxIterationsExceeded)
      else go_try (buildPlanState env) (report_error env ''planning'') (\<lambda>ps.
        go_try (compress_context env ps) (report_error env ''planning'') (plan_turn env)))) (turn_post env c)"
  proof (rule turns_get)
    fix v assume "stands env ?c v"
    then have it: "lv_iteration v = ct_iteration c + 1" by (simp add: stands_sel)
    show "turns env ?c (if lv_iteration v > le_max_iterations env
        then give_error (ErrSentinel ErrMaxIterationsExceeded)
        else go_try (buildPlanState env) (report_error env ''planning'') (\<lambda>ps.
          go_try (compress_context env ps) (report_error env ''planning'') (plan_turn env))) (turn_post env c)"
      unfolding it
      by (intro turns_if turns_try keep sim_plan_turn assms) simp
  qed
qed (auto simp: stands_def)

lemma sim_escalate:
  assumes "ct_state c = StateInterrupt" and "ct_escalate c"
  shows "turns env c (escalate env act) (turn_post env c)"
proof -
  have over: "turns env c (go_bind (go_modify (\<lambda>v. v\<lparr>lv_eval_escalate := False, lv_pending_action := None\<rparr>))
      (\<lambda>_. goto StatePlanning)) (turn_post env c)"
    using assms
    by (intro turns_modify [where c' = "c\<lparr>ct_escalate := False, ct_pending := None\<rparr>"] sim_goto)
      (auto simp: stands_def intro: c_escalated)
  show ?thesis
  proof (cases "le_interrupter env")
    case None
    with over show ?thesis by (simp add: escalate_def)
  next
    case (Some ir)
    show ?thesis
      unfolding escalate_def Let_def Some option.case
      by (intro turns_try_outside turns_if turns_keeps_bind turns_unless_cancelled keep over)
  qed
qed

lemma sim_question:
  assumes "ctl_step env c (c'\<lparr>ct_state := StatePlanning\<rparr>)"
  shows "turns env c' (answer_question env act ans) (turn_post env c)"
  unfolding answer_question_def by (intro turns_keeps_bind keep sim_goto assms)

lemma sim_announce:
  assumes "ctl_step env c (c'\<lparr>ct_state := StateExecuting\<rparr>)"
  shows "turns env c' (announce_call env act) (turn_post env c)"
proof -
  have clock: "keeps env (go_call (\<lambda>r. case le_clock env (rt_world r) of (t, w) \<Rightarrow> (Ok t, r\<lparr>rt_world := w\<rparr>)))"
    by (rule keeps_call) (auto split: prod.split)
  show ?thesis
    unfolding announce_call_def
    by (intro turns_keeps_bind clock keep keeps_modify sim_goto assms) simp
qed

lemma sim_without_human:
  assumes "ct_state c = StateInterrupt" and "\<not> ct_escalate c" and "ct_pending c = Some act"
    and "act_type act \<noteq> ActionAskHuman \<Longrightarrow> approved env act act"
  shows "turns env c (without_human env act note) (turn_post env c)"
proof -
  have same: "c\<lparr>ct_pending := Some act, ct_state := s\<rparr> = c\<lparr>ct_state := s\<rparr>" for s
    using assms(3) by (cases c) simp
  have quiet: "ctl_step env c (c\<lparr>ct_state := StatePlanning\<rparr>)"
    using c_not_called [OF assms(1-3), of env None] by (simp add: apply_input_def same)
  have called: "ctl_step env c (c\<lparr>ct_state := StateExecuting\<rparr>)" if "act_type act \<noteq> ActionAskHuman"
    using c_called [OF assms(1-3) assms(4) [OF that]] by (simp add: same)
  show ?thesis
    unfolding without_human_def
    by (intro turns_if sim_question sim_announce quiet called)
qed

lemma apply_input_type [simp]: "act_type (apply_input m act) = act_type act"
  by (simp add: apply_input_def)

lemma sim_interrupt_for:
  assumes "ct_state c = StateInterrupt" and "\<not> ct_escalate c" and "ct_pending c = Some act"
  shows "turns env c (interrupt_for env act) (turn_post env c)"
proof -
  have quiet: "ctl_step env c (c\<lparr>ct_pending := Some (apply_input m act), ct_state := StatePlanning\<rparr>)" for m
    by (rule c_not_called [OF assms])
  have same: "c\<lparr>ct_pending := Some act, ct_state := s\<rparr> = c\<lparr>ct_state := s\<rparr>" for s
    using assms(3) by (cases c) simp
  have denied: "ctl_step env c (c\<lparr>ct_state := StatePlanning\<rparr>)"
    using quiet [of None] by (simp add: apply_input_def same)
  show ?thesis
  proof (cases "le_interrupter env")
    case None
    have "turns env c (without_human env act ''(no human interrupter; provide answer in next turn if needed)'')
        (turn_post env c)"
      by (rule sim_without_human [OF assms]) (simp add: approved_def None)
    then show ?thesis by (simp add: interrupt_for_def None)
  next
    case (Some ir)
    let ?ev = "\<lparr>ie_type = (if act_type act = ActionAskHuman then InterruptOnEscalate else InterruptBeforeToolCall),
        ie_action = act\<rparr>"
    have skip: "turns env c (without_human env act ''(interrupt skipped by interrupter)'') (turn_post env c)"
      if "in_should ir ?ev r = (Inr x, r')" "\<not> x" for r x r'
      using that by (intro sim_without_human [OF assms]) (auto simp: approved_def Some Let_def)
    have go: "turns env c
        (let act' = apply_input (case hr of None \<Rightarrow> None | Some h \<Rightarrow> hr_modified_input h) act in
         go_bind (go_modify (\<lambda>v. v\<lparr>lv_pending_action := Some act'\<rparr>)) (\<lambda>_.
           if act_type act' = ActionAskHuman then answer_question env act' (human_message hr)
           else announce_call env act')) (turn_post env c)"
      if w: "in_wait ir ?ev r = (Inr hr, r')" "\<not> rejected hr" for r hr r'
    proof -
      obtain h where h: "hr = Some h" "hr_approved h" using w(2) by (auto simp: rejected_def split: option.splits)
      let ?act = "apply_input (hr_modified_input h) act"
      have ok: "approved env act ?act" if "act_type act \<noteq> ActionAskHuman"
      proof -
        from w(1) h that have "in_wait ir \<lparr>ie_type = InterruptBeforeToolCall, ie_action = act\<rparr> r = (Inr (Some h), r')"
          by simp
        with h(2) that show ?thesis unfolding approved_def Some option.case Let_def by blast
      qed
      show ?thesis
        unfolding Let_def h option.case
        by (intro turns_modify [where c' = "c\<lparr>ct_pending := Some ?act\<rparr>"] turns_if sim_question
            sim_announce quiet c_called [OF assms] ok) (auto simp: stands_def)
    qed
    show ?thesis
      unfolding interrupt_for_def Some option.case Let_def [of ?ev]
      by (intro turns_try_outside turns_if turns_keeps_bind turns_unless_cancelled keep go sim_goto denied)
        (erule (1) skip | assumption)+
  qed
qed

lemma sim_interrupt:
  assumes "ct_state c = StateInterrupt" and "ctl_inv c"
  shows "turns env c (turn_interrupt env) (turn_post env c)"
  unfolding turn_interrupt_def
proof (rule turns_get)
  fix v assume v: "stands env c v"
  from assms have some: "ct_pending c \<noteq> None" by (simp add: ctl_inv_def)
  show "turns env c (go_bind (go_deref ''pending action'' (lv_pending_action v)) (\<lambda>act.
      go_bind (maybeSaveCheckpoint env (Some (pending_result v act))) (\<lambda>_.
        if lv_eval_escalate v then escalate env act else interrupt_for env act))) (turn_post env c)"
    unfolding stands_sel [OF v]
    by (intro turns_deref turns_keeps_bind keep turns_if sim_escalate sim_interrupt_for assms(1))
      (use some in auto)
qed

lemma mark_plan_step_model [simp]: "pas_model (mark_plan_step res p) = pas_model p"
  by (simp add: mark_plan_step_def MarkStepDone_def MarkStepFailed_def Let_def split: option.split)

lemma go_deref_Some: "go_bind (go_deref s (Some x)) f = f x"
  by (rule ext)+ (simp add: go_bind_def go_deref_def go_return_def)

lemma record_step_stands:
  assumes "stands env c v"
  shows "stands env (c\<lparr>ct_history := ct_history c @ [\<lparr>sr_action = act, sr_output = er_output res,
    sr_error = er_error res\<rparr>], ct_pending := None\<rparr>) (record_step env act res v)"
proof -
  have "ready env (record_step env act res v)" if "ready env v"
    using that by (auto simp: record_step_def ready_def)
  moreover have "ctrl (record_step env act res v) = (ctrl v)\<lparr>ct_history := ct_history (ctrl v) @
      [\<lparr>sr_action = act, sr_output = er_output res, sr_error = er_error res\<rparr>], ct_pending := None\<rparr>"
    by (simp add: record_step_def ctrl_def)
  ultimately show ?thesis using assms by (auto simp: stands_def)
qed

lemma sim_after_tool:
  assumes "ct_state c = StateExecuting" and "ct_pending c = Some act"
    and "Record (le_digest env) (act_tool_name act) (act_tool_input act) (ct_detector c) = (status, d)"
    and "status \<noteq> LoopTerminate" and "le_executor env act r s = (Ok (Some res), r', s')"
  shows "turns env (c\<lparr>ct_detector := d\<rparr>) (after_tool env status act res) (turn_post env c)"
  unfolding after_tool_def
proof (rule turns_get, goal_cases)
  case (1 v)
  let ?te = "\<lparr>te_res = res, te_call_id = lv_pending_call_id v, te_action = act\<rparr>"
  let ?c = "c\<lparr>ct_detector := d, ct_last := Some ?te\<rparr>"
  let ?c' = "?c\<lparr>ct_history := ct_history c @ [\<lparr>sr_action = act, sr_output = er_output res, sr_error = er_error res\<rparr>],
       ct_pending := None\<rparr>"
  have rec: "stands env ?c' (record_step env act res v')" if "stands env ?c v'" for v'
    using record_step_stands [OF that, of act res] by simp
  have step: "ctl_step env c (?c'\<lparr>ct_state := if le_eval_on env then StateEvaluating else StatePlanning\<rparr>)"
    using c_executed [OF assms, of ?te] by simp
  show ?case
  proof (rule turns_modify [where c' = ?c])
    show "stands env ?c (w\<lparr>lv_last_exec := Some ?te\<rparr>)" if "stands env (c\<lparr>ct_detector := d\<rparr>) w" for w
      using that by (auto simp: stands_def)
  qed (intro turns_keeps_bind keep turns_modify [where c' = ?c'] sim_goto rec step; assumption)
qed

lemma sim_executing:
  assumes "ct_state c = StateExecuting" and "ctl_inv c"
  shows "turns env c (turn_executing env) (turn_post env c)"
  unfolding turn_executing_def
proof (rule turns_get, goal_cases)
  case (1 v)
  from assms obtain act where act: "ct_pending c = Some act" by (auto simp: ctl_inv_def)
  obtain status d where rec: "Record (le_digest env) (act_tool_name act) (act_tool_input act) (ct_detector c) = (status, d)"
    by fastforce
  have exec: "\<not> well_behaved env"
    if "le_executor env act r s = (Ok None, r', s') \<or> le_executor env act r s = (Panic p, r', s')" for p r s r' s'
    using that by (auto simp: well_behaved_def)
  have det: "stands env (c\<lparr>ct_detector := d\<rparr>) (v'\<lparr>lv_detector := d\<rparr>)" if "stands env c v'" for v'
    using that by (auto simp: stands_def)
  show ?case
    unfolding stands_sel [OF 1] act go_deref_Some rec Let_def prod.case
  proof (rule turns_keeps_bind [OF keeps_save], rule turns_modify [where c' = "c\<lparr>ct_detector := d\<rparr>"], erule det,
      rule turns_if, rule sim_report, rule turns_keeps_bind [OF keeps_emit], rule turns_try_contents,
      rule sim_report, rule turns_deref)
    show "\<not> well_behaved env" if "le_executor env act r s = (Panic p, r', s')" for p r s r' s'
      using that exec by blast
    fix res r s r' s' assume e: "le_executor env act r s = (Ok res, r', s')"
    show "\<not> well_behaved env" if "res = None" using e that exec by blast
    show "turns env (c\<lparr>ct_detector := d\<rparr>) (after_tool env status act x) (turn_post env c)"
      if "status \<noteq> LoopTerminate" "res = Some x" for x
      using sim_after_tool [OF assms(1) act rec that(1)] e that(2) by blast
  qed
qed

lemma sim_retry:
  assumes "ct_state c = StateEvaluating"
  shows "turns env c retry_last (turn_post env c)"
  unfolding retry_last_def
proof (rule turns_get, goal_cases)
  case (1 v)
  show ?case
  proof (cases "ct_last c")
    case None
    with assms show ?thesis by (auto simp: stands_sel [OF 1] intro!: sim_goto c_continue)
  next
    case (Some te)
    show ?thesis
      unfolding stands_sel [OF 1] Some option.case
      by (rule turns_modify [where c' = "c\<lparr>ct_pending := Some (te_action te)\<rparr>"])
        (auto simp: stands_def intro!: sim_goto c_retry assms Some)
  qed
qed

lemma sim_begin_escalation:
  assumes "ct_state c = StateEvaluating"
  shows "turns env c begin_escalation (turn_post env c)"
  unfolding begin_escalation_def
proof (rule turns_modify [where c' = "c\<lparr>ct_escalate := True, ct_pending :=
        (case (ct_pending c, ct_last c) of (None, Some te) \<Rightarrow> Some (te_action te) | (p, _) \<Rightarrow> p)\<rparr>"])
  show "stands env (c\<lparr>ct_escalate := True, ct_pending :=
        (case (ct_pending c, ct_last c) of (None, Some te) \<Rightarrow> Some (te_action te) | (p, _) \<Rightarrow> p)\<rparr>)
      (v\<lparr>lv_eval_escalate := True, lv_pending_action :=
        (case (lv_pending_action v, lv_last_exec v) of (None, Some te) \<Rightarrow> Some (te_action te) | (p, _) \<Rightarrow> p)\<rparr>)"
    if "stands env c v" for v
    using that by (simp add: stands_sel [OF that]) (simp add: stands_def)
qed (use c_escalate [OF assms, of env] in \<open>auto intro!: sim_goto\<close>)

lemma sim_replan:
  assumes "ct_state c = StateEvaluating"
  shows "turns env c (replan env) (turn_post env c)"
  unfolding replan_def
proof (rule turns_get, goal_cases)
  case (1 v)
  have resume: "turns env c (goto StatePlanning) (turn_post env c)"
    using assms by (intro sim_goto c_continue)
  have again: "turns env c (go_bind (go_modify (\<lambda>v. v\<lparr>lv_plan_gen_first := None\<rparr>)) (\<lambda>_. goto StatePlanGen))
      (turn_post env c)" if "le_mode env = ModePlanAndSolve"
    using that by (intro turns_modify [where c' = "c\<lparr>ct_first := None\<rparr>"])
      (auto simp: stands_def intro!: sim_goto c_replan assms)
  show ?case
    by (intro turns_if turns_try keep resume again) auto
qed

lemma sim_complete_with:
  assumes "ct_state c = StateEvaluating"
  shows "turns env c (complete_with feedback) (turn_post env c)"
  unfolding complete_with_def
  by (rule turns_modify [where c' = "c\<lparr>ct_answer :=
        (if trim_space feedback \<noteq> [] then trim_space feedback else lastOutputFromHistory (ct_history c))\<rparr>"])
    (auto simp: stands_def intro!: sim_goto c_complete assms)

lemma sim_follow:
  assumes "ct_state c = StateEvaluating"
  shows "turns env c (follow_decision env ev) (turn_post env c)"
  using assms
  by (auto simp: follow_decision_def intro!: sim_goto sim_retry sim_begin_escalation sim_replan
      sim_complete_with c_continue split: decision.split)

lemma sim_evaluating:
  assumes "ct_state c = StateEvaluating"
  shows "turns env c (turn_evaluating env) (turn_post env c)"
proof -
  have resume: "turns env c (goto StatePlanning) (turn_post env c)"
    using assms by (intro sim_goto c_continue)
  show ?thesis
  proof (cases "le_evaluator env")
    case None
    with resume show ?thesis by (simp add: turn_evaluating_def)
  next
    case (Some evaluate)
    have call: "keeps env (go_call (evaluate st))" for st
      using Some by (intro keeps_call) (auto simp: well_behaved_def)
    have res: "x = None \<longrightarrow> \<not> well_behaved env" if "go_call (evaluate st) r v = (Ok x, r', v')"
      for st r and v :: "('a, 'b, 'c) loop_vars" and x r' v'
      using that Some by (auto simp: go_call_def well_behaved_def split: prod.splits)
    show ?thesis
      unfolding turn_evaluating_def Some option.case Let_def
      by (intro turns_if resume turns_try keep turns_get turns_keeps_bind turns_deref sim_follow assms
          turns_try_fact [OF call, where F = "\<lambda>x. x = None \<longrightarrow> \<not> well_behaved env"])
        (erule res, simp)
  qed
qed

lemma turns_answer:
  assumes "ct_state c = StateCompleting" and "answer_valid env (ct_answer c)"
  shows "turns env c (go_bind go_get (\<lambda>v. go_return (Some \<lparr>ar_session_id = [],
    ar_answer = lv_complete_answer v, ar_messages = msgs, ar_error = None\<rparr>))) (turn_post env c)"
proof (rule turns_get, goal_cases)
  case (1 v)
  with assms stands_sel(9) [OF 1] show ?case
    by (auto simp: turns_def go_return_def turn_post_def stands_def ctl_result_def)
qed

lemma sim_finish:
  assumes "ct_state c = StateCompleting" and "answer_valid env (ct_answer c)"
  shows "turns env c (finish env) (turn_post env c)"
  unfolding finish_def by (intro turns_answer [OF assms] turns_try keep turns_keeps_bind)

lemma sim_invalid:
  assumes "ct_state c = StateCompleting"
  shows "turns env c (output_invalid env formatted err) (turn_post env c)"
  unfolding output_invalid_def
proof (rule turns_get, goal_cases)
  case (1 v)
  show ?case
    unfolding stands_sel [OF 1]
  proof (rule turns_if)
    assume "ct_validate_left c > 0"
    then have step: "ctl_step env c (c\<lparr>ct_validate_left := ct_validate_left c - 1, ct_state := StatePlanning\<rparr>)"
      by (rule c_invalid [OF assms])
    show "turns env c (go_bind (go_modify (\<lambda>v. v\<lparr>lv_validate_left := lv_validate_left v - 1\<rparr>)) (\<lambda>_.
      go_bind (add_messages env [text_message RoleUser
        (if formatted = [] then ''Output validation failed ('' @ err_text err @ ''). Produce a valid answer.''
         else formatted)]) (\<lambda>_. goto StatePlanning))) (turn_post env c)"
      by (rule turns_modify [where c' = "c\<lparr>ct_validate_left := ct_validate_left c - 1\<rparr>"])
        (auto simp: stands_def intro!: turns_keeps_bind keep sim_goto step)
  qed (intro turns_keeps_bind keep)
qed

lemma sim_completing:
  assumes "ct_state c = StateCompleting"
  shows "turns env c (turn_completing env) (turn_post env c)"
  unfolding turn_completing_def
proof (rule turns_get, goal_cases)
  case (1 v)
  show ?case
    unfolding stands_sel(9) [OF 1]
    by (intro turns_keeps_bind keep)
      (auto intro!: sim_finish sim_invalid assms simp: answer_valid_def split: option.split prod.split)
qed

section \<open>The simulation\<close>

text \<open>
  What is known of a control that a run can reach: besides \<^const>\<open>ctl_inv\<close>, plans are made and
  reviewed in plan-and-solve mode only.
\<close>

definition ctl_ok :: "('w, 'm, 'c) loop_env \<Rightarrow> control \<Rightarrow> bool" where
  "ctl_ok env c \<longleftrightarrow> ctl_inv c \<and>
     (ct_state c \<in> {StatePlanGen, StatePlanReview} \<longrightarrow> le_mode env = ModePlanAndSolve)"

lemma sim_turn:
  assumes "ctl_ok env c"
  shows "turns env c (turn_of env (ct_state c)) (turn_post env c)"
proof (cases "ct_state c")
  case StateComplete
  then show ?thesis by (auto simp: turn_of_def turns_def go_return_def turn_post_def stands_def ctl_result_def)
next
  case StateError
  then show ?thesis by (auto simp: turn_of_def turns_def go_return_def turn_post_def stands_def ctl_result_def)
qed (use assms in \<open>auto simp: turn_of_def ctl_ok_def intro: sim_init sim_plan_gen sim_plan_review sim_planning
    sim_interrupt sim_executing sim_evaluating sim_completing\<close>)

lemma sim_loop_turn:
  assumes "ctl_ok env c"
  shows "turns env c (loop_turn env) (turn_post env c)"
  unfolding loop_turn_def
proof (intro turns_keeps_bind [OF keeps_poll] turns_get, goal_cases)
  case (1 e v)
  show ?case
  proof (cases e)
    case None
    with sim_turn [OF assms] show ?thesis by (simp add: stands_sel [OF 1])
  next
    case (Some err)
    then show ?thesis by (auto intro: turns_keeps_bind keep turns_fail)
  qed
qed

end
