(* ===== verification/LoopProofs.thy ===== *)
theory LoopProofs
  imports LoopControl
begin

text \<open>
  What the control machine of \<open>LoopControl\<close> shows of \<open>runLoop\<close>: no panic, termination with an
  explicit bound, bounds on what a run does, and that nothing runs without approval.
\<close>

section \<open>The states a run passes through\<close>

text \<open>The loop is at \<open>(r', v')\<close>, about to begin a turn, some turns after \<open>(r, v)\<close>.\<close>

inductive passes ::
    "('w, 'm, 'c) loop_env \<Rightarrow> 'w rt \<Rightarrow> ('w, 'm, 'c) loop_vars \<Rightarrow>
     'w rt \<Rightarrow> ('w, 'm, 'c) loop_vars \<Rightarrow> bool"
  for env :: "('w, 'm, 'c) loop_env" and r v where
  passes_start: "passes env r v r v"
| passes_turn: "passes env r v r1 v1 \<Longrightarrow> loop_turn env r1 v1 = (Ok None, r2, v2) \<Longrightarrow> passes env r v r2 v2"

text \<open>At the start of a run the locals have their first values.\<close>

lemma fresh_ctrl:
  "ctrl (fresh_vars env v) =
     \<lparr>ct_state = StateInit, ct_iteration = 0, ct_history = [], ct_pending = None, ct_first = None,
      ct_last = None, ct_escalate = False, ct_validate_left = le_auto_retry env, ct_answer = [],
      ct_detector = lv_detector v\<rparr>"
  "ready env (fresh_vars env v) = ready env v"
  by (simp_all add: fresh_vars_def ctrl_def ready_def)

lemma ctl_ok_fresh: "ctl_ok env (ctrl (fresh_vars env v))"
  by (simp add: fresh_ctrl ctl_ok_def ctl_inv_def)

lemma ctl_ok_step: "ctl_step env c c' \<Longrightarrow> ctl_ok env c \<Longrightarrow> ctl_ok env c'"
  by (induction rule: ctl_step.induct)
    (auto simp: ctl_ok_def ctl_inv_def taken_def split: action_type.split option.split)

text \<open>One turn, read off the simulation.\<close>

lemma turns_at:
  assumes "ready env v" and "ctl_ok env (ctrl v)"
  shows "case loop_turn env r v of
      (Ok x, _, v') \<Rightarrow> turn_post env (ctrl v) x v'
    | (Err _, _, _) \<Rightarrow> True
    | (Panic _, _, _) \<Rightarrow> \<not> well_behaved env"
  using sim_loop_turn [OF assms(2)] assms(1) by (auto simp: turns_def stands_def)

lemma loop_turn_step:
  assumes "loop_turn env r v = (Ok None, r', v')" and "ready env v" and "ctl_ok env (ctrl v)"
  shows "ctl_step env (ctrl v) (ctrl v')" "ready env v'"
  using turns_at [OF assms(2,3), of r] assms(1) by (simp_all add: turn_post_def)

lemma loop_turn_result:
  assumes "loop_turn env r v = (Ok (Some x), r', v')" and "ready env v" and "ctl_ok env (ctrl v)"
  shows "ctl_result env (ctrl v) x"
  using turns_at [OF assms(2,3), of r] assms(1) by (simp_all add: turn_post_def)

lemma loop_turn_safe:
  assumes "loop_turn env r v = (Panic p, r', v')" and "ready env v" and "ctl_ok env (ctrl v)"
  shows "\<not> well_behaved env"
  using turns_at [OF assms(2,3), of r] assms(1) by (simp_all add: turn_post_def)

text \<open>Invariants of the control machine are invariants of the loop.\<close>

lemma passes_inv:
  assumes "passes env r v r' v'" and "ready env v" and "ctl_ok env (ctrl v)" and "P (ctrl v)"
    and "\<And>c c'. ctl_step env c c' \<Longrightarrow> ctl_ok env c \<Longrightarrow> P c \<Longrightarrow> P c'"
  shows "P (ctrl v') \<and> ready env v' \<and> ctl_ok env (ctrl v')"
  using assms(1)
proof induction
  case passes_start
  with assms show ?case by simp
next
  case (passes_turn r1 v1 r2 v2)
  then show ?case using loop_turn_step [OF passes_turn(2)] assms(5) ctl_ok_step by blast
qed

lemma run_inv:
  assumes "passes env r (fresh_vars env v) r' v'" and "ready env v" and "P (ctrl (fresh_vars env v))"
    and "\<And>c c'. ctl_step env c c' \<Longrightarrow> ctl_ok env c \<Longrightarrow> P c \<Longrightarrow> P c'"
  shows "P (ctrl v') \<and> ready env v' \<and> ctl_ok env (ctrl v')"
  by (rule passes_inv [OF assms(1)]) (use assms ctl_ok_fresh in \<open>auto simp only: fresh_ctrl(2)\<close>)

lemmas run_ok = run_inv [where P = "\<lambda>_. True", simplified]

text \<open>The last turn of a run.\<close>

lemma run_turns_last:
  "run_turns n env r v = Some (x, r', v') \<Longrightarrow>
     \<exists>r1 v1. passes env r v r1 v1 \<and>
       (case x of
          Ok y \<Rightarrow> loop_turn env r1 v1 = (Ok (Some y), r', v')
        | Err e \<Rightarrow> loop_turn env r1 v1 = (Err e, r', v')
        | Panic p \<Rightarrow> loop_turn env r1 v1 = (Panic p, r', v'))"
proof (induction n arbitrary: r v)
  case (Suc n)
  show ?case
  proof (cases "loop_turn env r v")
    case (fields y r2 v2)
    show ?thesis
    proof (cases "y = Ok None")
      case True
      with Suc.prems fields have "run_turns n env r2 v2 = Some (x, r', v')" by simp
      from Suc.IH [OF this] obtain r1 v1 where p: "passes env r2 v2 r1 v1"
        and l: "case x of
          Ok y \<Rightarrow> loop_turn env r1 v1 = (Ok (Some y), r', v')
        | Err e \<Rightarrow> loop_turn env r1 v1 = (Err e, r', v')
        | Panic p \<Rightarrow> loop_turn env r1 v1 = (Panic p, r', v')" by blast
      have "passes env r v r2 v2"
        using fields True by (auto intro: passes_turn passes_start)
      with p have "passes env r v r1 v1"
        by (induction rule: passes.induct) (auto intro: passes.intros)
      with l show ?thesis by blast
    next
      case False
      with Suc.prems fields have "case x of
          Ok y \<Rightarrow> loop_turn env r v = (Ok (Some y), r', v')
        | Err e \<Rightarrow> loop_turn env r v = (Err e, r', v')
        | Panic p \<Rightarrow> loop_turn env r v = (Panic p, r', v')"
        by (auto split: res.splits option.splits)
      then show ?thesis using passes_start by blast
    qed
  qed
qed simp

section \<open>A run to evaluate\<close>

text \<open>
  An agent with the framework's own memory and content store. Its planner calls the tool \<open>ping\<close> until
  the history has \<open>n\<close> steps and then answers; \<open>judge\<close> decides after each of them.
\<close>

definition ping :: action where
  "ping = tool_action ''ping'' (Some [])"

definition demo_planner :: "nat \<Rightarrow> plan_state \<Rightarrow> unit rt \<Rightarrow> plan_result option res \<times> unit rt" where
  "demo_planner n ps r =
     (Ok (Some \<lparr>pr_action = (if length (ps_history ps) < n then ping else answer_action ''pong''),
                pr_reasoning = []\<rparr>), r)"

definition demo_judge :: "decision \<Rightarrow> unit evaluator" where
  "demo_judge d st r = (Ok (Some \<lparr>er_decision = d, er_feedback = []\<rparr>), r)"

definition demo_env :: "nat \<Rightarrow> decision option \<Rightarrow> (unit, inmem_store buffer_memory, content_map) loop_env" where
  "demo_env n judge =
     \<lparr>le_mode = ModeReAct, le_planner = Some (demo_planner n), le_model = None,
      le_max_iterations = 5, le_validate = None, le_auto_retry = 0,
      le_eval_on = (judge \<noteq> None), le_evaluator = map_option demo_judge judge, le_stream_on = False,
      le_model_max_tokens = 0, le_interrupter = None,
      le_executor = (\<lambda>act. go_return (Some \<lparr>er_tool_name = act_tool_name act, er_output = ''pong'', er_error = None\<rparr>)),
      le_hooks = [], le_tool_result_max_len = 2000, le_recent_tokens = 1000, le_loop_threshold = 3,
      le_system_prompt = ''be brief'', le_tools = [], le_memory = buffer_ops inmem_ops,
      le_contents = content_map_ops, le_compressor = None, le_checkpoint = None,
      le_digest = (\<lambda>s. s), le_clock = (\<lambda>w. (0, w))\<rparr>"

definition demo_vars :: "(unit, inmem_store buffer_memory, content_map) loop_vars" where
  "demo_vars =
     \<lparr>lv_state = StateInit, lv_iteration = 0, lv_history = [], lv_pending_action = None,
      lv_pending_reasoning = [], lv_pending_call_id = [], lv_plan_gen_first = None,
      lv_complete_answer = [], lv_last_exec = None, lv_eval_escalate = False, lv_validate_left = 0,
      lv_memory = NewBuffer NewInMemoryMessageStore 0, lv_detector = NewLoopDetector 3,
      lv_contents = None, lv_pas = None, lv_events = [], lv_saves = []\<rparr>"

lemma demo_memory_safe:
  "buffer_messages inmem_ops r m \<noteq> (Panic p, r', m')"
  "buffer_add inmem_ops xs r m \<noteq> (Panic p, r', m')"
  "buffer_clear inmem_ops r m \<noteq> (Panic p, r', m')"
  using inmem.list_safe inmem.clear_safe inmem.buffer_add_safe
  by (fastforce simp: buffer_messages_def buffer_clear_def on_store_def go_zoom_def split: prod.splits)+

lemma demo_well_behaved: "well_behaved (demo_env n judge)"
  by (auto simp: well_behaved_def demo_env_def demo_planner_def demo_judge_def buffer_ops_def
      go_return_def demo_memory_safe content_map_ops_def content.store_safe [unfolded content_map_ops_def, simplified])

lemma demo_ready: "ready (demo_env n judge) v"
  by (simp add: ready_def demo_env_def)

section \<open>No panics\<close>

lemma runLoop_safe:
  assumes "well_behaved env" and "ready env v"
  shows "runLoop fuel env r v \<noteq> Some (Panic p, r', v')"
proof
  assume run: "runLoop fuel env r v = Some (Panic p, r', v')"
  have planner: "\<not> (le_mode env = ModeReAct \<and> le_planner env = None)"
    using assms(1) by (simp add: well_behaved_def)
  with run have "run_turns fuel env r (fresh_vars env v) = Some (Panic p, r', v')"
    by (simp add: runLoop_def)
  then obtain r1 v1 where p: "passes env r (fresh_vars env v) r1 v1"
    and l: "loop_turn env r1 v1 = (Panic p, r', v')"
    by (auto dest: run_turns_last)
  have "ready env v1 \<and> ctl_ok env (ctrl v1)"
    by (rule run_ok [OF p assms(2)])
  with loop_turn_safe [OF l] assms(1) show False by blast
qed

text \<open>
  C4. A run never panics. \<open>pendingAction\<close> is read through its pointer before it is tested for nil,
  and results of planners, executors and evaluators are used without a test; but the loop comes to
  these places only with the pointers set, as long as the components it is given do not panic
  themselves and answer no nil result without an error, and the planner that the mode needs is
  there. It holds for every fuel, context, memory and world.
\<close>

theorem runLoop_never_panics:
  assumes "well_behaved env" and "ready env v"
  shows "runLoop fuel env r v \<noteq> Some (Panic p, r', v')"
  using assms by (rule runLoop_safe)

lemma runLoop_never_panics_witness:
  "(\<forall>p r' v'. runLoop 20 (demo_env 1 None) demo_rt demo_vars \<noteq> Some (Panic p, r', v')) \<and>
   (case runLoop 20 (demo_env 1 None) demo_rt demo_vars of
      Some (Ok x, _, _) \<Rightarrow> ar_answer x = ''pong'' \<and> length (ar_messages x) = 3
    | _ \<Rightarrow> False)"
  by (rule conjI, intro allI, rule runLoop_never_panics [OF demo_well_behaved demo_ready]) code_simp

section \<open>Termination\<close>

text \<open>
  How many times one more call can be recorded without terminating the run, at most, when all of
  them are calls with the signature \<open>s\<close>.
\<close>

definition repeats_now :: "call_sig \<Rightarrow> loop_detector \<Rightarrow> nat" where
  "repeats_now s d = length (takeWhile (\<lambda>x. x = s) (rev (ld_history d)))"

definition records_left :: "call_sig \<Rightarrow> loop_detector \<Rightarrow> nat" where
  "records_left s d =
     (if nat (ld_threshold d) \<le> repeats_now s d then (if ld_warned d then 0 else 1)
      else nat (ld_threshold d) - repeats_now s d + 1)"

lemma records_left_le: "1 \<le> ld_threshold d \<Longrightarrow> records_left s d \<le> nat (ld_threshold d) + 1"
  by (auto simp: records_left_def)

lemma record_sig_same:
  assumes "1 \<le> ld_threshold d" and "record_sig s d = (status, d')" and "status \<noteq> LoopTerminate"
  shows "records_left s d' < records_left s d" "ld_threshold d' = ld_threshold d"
proof -
  let ?h = "ld_history d @ [s]"
  let ?t = "nat (ld_threshold d)"
  have t: "int ?t = ld_threshold d" "1 \<le> ?t" using assms(1) by auto
  have h': "ld_history d' = ?h" and t': "ld_threshold d' = ld_threshold d"
    using assms(2) by (auto simp: record_sig_def Let_def split: if_splits)
  have len: "run_length ?h = Suc (repeats_now s d)"
    by (simp add: run_length_def repeats_now_def)
  have now: "repeats_now s d' = Suc (repeats_now s d)"
    by (simp add: repeats_now_def h')
  show "ld_threshold d' = ld_threshold d" by (rule t')
  show "records_left s d' < records_left s d"
  proof (cases "?t \<le> Suc (repeats_now s d)")
    case False
    then show ?thesis by (simp add: records_left_def t' now)
  next
    case True
    then have le: "?t \<le> run_length ?h" "?t \<le> length ?h"
      using run_length_le [of ?h] len by linarith+
    have same: "\<not> (\<exists>x \<in> set (tl (drop (length ?h - ?t) ?h)). x \<noteq> hd (drop (length ?h - ?t) ?h))"
      using window_same [OF t(2) le(2)] le(1) by blast
    have long: "\<not> int (length ?h) < ld_threshold d" using t le by linarith
    have "\<not> ld_warned d" "ld_warned d'"
      using assms(2,3) same long
      by (auto simp: record_sig_def Let_def simp del: length_append drop_append split: if_splits)
    with True show ?thesis by (simp add: records_left_def t' now)
  qed
qed

definition act_sig :: "('w, 'm, 'c) loop_env \<Rightarrow> action \<Rightarrow> call_sig" where
  "act_sig env act = (act_tool_name act, hashParams (le_digest env) (act_tool_input act))"

definition calls_left :: "('w, 'm, 'c) loop_env \<Rightarrow> action \<Rightarrow> control \<Rightarrow> nat" where
  "calls_left env act c = records_left (act_sig env act) (ct_detector c)"

definition threshold_of :: "control \<Rightarrow> nat" where
  "threshold_of c = nat (ld_threshold (ct_detector c))"

text \<open>Turns until the next planning turn, at most.\<close>

definition stage :: "('w, 'm, 'c) loop_env \<Rightarrow> control \<Rightarrow> nat" where
  "stage env c =
     (case ct_state c of
        StateInit \<Rightarrow> 3
      | StatePlanGen \<Rightarrow> 2
      | StatePlanReview \<Rightarrow> 1
      | StateCompleting \<Rightarrow> 1
      | StateInterrupt \<Rightarrow> if ct_escalate c then 1 else 2 * threshold_of c + 5
      | StateExecuting \<Rightarrow> 2 + 2 * (case ct_pending c of None \<Rightarrow> 0 | Some act \<Rightarrow> calls_left env act c)
      | StateEvaluating \<Rightarrow> 3 + 2 * (case ct_last c of None \<Rightarrow> 0 | Some te \<Rightarrow> calls_left env (te_action te) c)
      | _ \<Rightarrow> 0)"

definition turns_left :: "('w, 'm, 'c) loop_env \<Rightarrow> control \<Rightarrow> nat" where
  "turns_left env c =
     nat (le_max_iterations env - ct_iteration c) * (2 * threshold_of c + 6) + stage env c"

definition sound_detector :: "control \<Rightarrow> bool" where
  "sound_detector c \<longleftrightarrow> 1 \<le> ld_threshold (ct_detector c)"

lemma calls_left_le: "sound_detector c \<Longrightarrow> calls_left env act c \<le> threshold_of c + 1"
  using records_left_le [of "ct_detector c"] by (simp add: calls_left_def threshold_of_def sound_detector_def)

lemma Record_same:
  assumes "Record (le_digest env) (act_tool_name act) (act_tool_input act) (ct_detector c) = (status, d)"
    and "status \<noteq> LoopTerminate" and "sound_detector c"
  shows "records_left (act_sig env act) d < calls_left env act c" "ld_threshold d = ld_threshold (ct_detector c)"
  using record_sig_same [of "ct_detector c" "act_sig env act" status d] assms
  by (auto simp: Record_def act_sig_def calls_left_def sound_detector_def)

lemma taken_sel [simp]:
  "ct_detector (taken res c) = ct_detector c" "ct_iteration (taken res c) = ct_iteration c"
  "ct_history (taken res c) = ct_history c" "ct_escalate (taken res c) = ct_escalate c"
  "ct_pending (taken res c) = Some (pr_action res)" "ct_last (taken res c) = ct_last c"
  "ct_state (taken res c) = StateCompleting \<or> ct_state (taken res c) = StateInterrupt"
  by (auto simp: taken_def split: action_type.splits)

lemma sound_step: "ctl_step env c c' \<Longrightarrow> sound_detector c \<Longrightarrow> sound_detector c' \<and> threshold_of c' = threshold_of c"
  by (induction rule: ctl_step.induct) (auto simp: sound_detector_def threshold_of_def dest: Record_same(2))

lemma turns_left_planned:
  assumes "ct_iteration c + 1 \<le> le_max_iterations env" and "sound_detector c"
    and "ct_iteration c' = ct_iteration c + 1" and "ct_detector c' = ct_detector c"
    and "ct_state c' = StateCompleting \<or> ct_state c' = StateInterrupt"
  shows "turns_left env c' < turns_left env c"
proof -
  have "stage env c' \<le> 2 * threshold_of c + 5"
    using assms(4,5) by (auto simp: stage_def threshold_of_def)
  moreover have "nat (le_max_iterations env - ct_iteration c) =
      Suc (nat (le_max_iterations env - ct_iteration c'))"
    using assms(1,3) by simp
  moreover have "threshold_of c' = threshold_of c" by (simp add: threshold_of_def assms(4))
  ultimately show ?thesis by (simp add: turns_left_def)
qed

lemma turns_left_step:
  assumes "ctl_step env c c'" and "\<not> plan_rejecting env" and "ctl_ok env c" and "sound_detector c"
  shows "turns_left env c' < turns_left env c"
  using assms
proof (induction rule: ctl_step.induct)
  case (c_planned c res)
  then show ?case by (intro turns_left_planned) auto
next
  case (c_called c act act')
  then show ?case
    using calls_left_le [of c env act']
    by (simp add: turns_left_def stage_def threshold_of_def calls_left_def)
next
  case (c_executed c act status d r s res r' s' te)
  then show ?case
    using Record_same [OF c_executed(3,4)]
    by (auto simp: turns_left_def stage_def threshold_of_def calls_left_def)
qed (auto simp: turns_left_def stage_def threshold_of_def calls_left_def)

lemma run_turns_returns:
  assumes "turns_left env (ctrl v) < n" and "\<not> plan_rejecting env" and "ctl_ok env (ctrl v)"
    and "sound_detector (ctrl v)" and "ready env v"
  shows "run_turns n env r v \<noteq> None"
  using assms
proof (induction n arbitrary: r v)
  case (Suc n)
  show ?case
  proof (cases "loop_turn env r v")
    case (fields y r' v')
    show ?thesis
    proof (cases "y = Ok None")
      case True
      note t = fields [unfolded True]
      note st = loop_turn_step [OF t Suc.prems(5,3)]
      have "run_turns n env r' v' \<noteq> None"
        using turns_left_step [OF st(1) Suc.prems(2,3,4)] Suc.prems sound_step [OF st(1)]
          ctl_ok_step [OF st(1)] st(2) by (intro Suc.IH) auto
      with t show ?thesis by simp
    next
      case False
      with fields show ?thesis by (auto split: res.splits option.splits)
    qed
  qed
qed simp

text \<open>Fuel that is enough for a run.\<close>

definition enough_fuel :: "('w, 'm, 'c) loop_env \<Rightarrow> ('w, 'm, 'c) loop_vars \<Rightarrow> nat" where
  "enough_fuel env v =
     nat (le_max_iterations env) * (2 * nat (ld_threshold (lv_detector v)) + 6) + 4"

lemma runLoop_returns:
  assumes "\<not> plan_rejecting env" and "ready env v" and "1 \<le> ld_threshold (lv_detector v)"
  shows "runLoop (enough_fuel env v) env r v \<noteq> None"
proof (cases "le_mode env = ModeReAct \<and> le_planner env = None")
  case True
  then show ?thesis by (simp add: runLoop_def Let_def split: prod.split)
next
  case False
  let ?v = "fresh_vars env v"
  have left: "turns_left env (ctrl ?v) < enough_fuel env v"
    by (simp add: fresh_ctrl turns_left_def enough_fuel_def stage_def threshold_of_def)
  have sound: "sound_detector (ctrl ?v)"
    using assms(3) by (simp add: fresh_ctrl sound_detector_def)
  have "ready env ?v" using assms(2) by (simp only: fresh_ctrl(2))
  from run_turns_returns [OF left assms(1) ctl_ok_fresh sound this] False show ?thesis
    by (auto simp: runLoop_def)
qed

text \<open>
  C1. Every run ends, and within a bound known beforehand: unless a human turns down plans, the
  loop returns after at most \<open>max * (2 * threshold + 6) + 4\<close> turns, for any planner, tools,
  evaluator, memory and interrupter. \<open>StatePlanning\<close> counts iterations, but an evaluator that
  always wants the last call repeated never comes back to it: there it is the loop detector that
  ends the run.
\<close>

theorem runLoop_terminates:
  assumes "\<not> plan_rejecting env" and "ready env v" and "1 \<le> ld_threshold (lv_detector v)"
  shows "runLoop (enough_fuel env v) env r v \<noteq> None"
  using assms by (rule runLoop_returns)

lemma runLoop_terminates_witness:
  "enough_fuel (demo_env 1 (Some DecisionRetry)) demo_vars = 64 \<and>
   runLoop 64 (demo_env 1 (Some DecisionRetry)) demo_rt demo_vars \<noteq> None \<and>
   (case runLoop 64 (demo_env 1 (Some DecisionRetry)) demo_rt demo_vars of
      Some (Ok x, _, v) \<Rightarrow> ar_error x = Some (ErrSentinel ErrLoopDetected) \<and> length (lv_history v) = 3
    | _ \<Rightarrow> False)"
proof -
  let ?env = "demo_env 1 (Some DecisionRetry)"
  have fuel: "enough_fuel ?env demo_vars = 64"
    by (simp add: enough_fuel_def demo_env_def demo_vars_def NewLoopDetector_def)
  have "\<not> plan_rejecting ?env" by (simp add: plan_rejecting_def demo_env_def)
  moreover have "1 \<le> ld_threshold (lv_detector demo_vars)"
    by (simp add: demo_vars_def NewLoopDetector_def)
  ultimately have "runLoop 64 ?env demo_rt demo_vars \<noteq> None"
    using runLoop_terminates [OF _ demo_ready, of 1 "Some DecisionRetry" demo_vars demo_rt] fuel by simp
  moreover have "case runLoop 64 ?env demo_rt demo_vars of
      Some (Ok x, _, v) \<Rightarrow> ar_error x = Some (ErrSentinel ErrLoopDetected) \<and> length (lv_history v) = 3
    | _ \<Rightarrow> False" by code_simp
  ultimately show ?thesis using fuel by blast
qed

section \<open>Without approval nothing runs\<close>

text \<open>An action that somebody let through, as it is or with another input.\<close>

definition let_through :: "('w, 'm, 'c) loop_env \<Rightarrow> action \<Rightarrow> bool" where
  "let_through env act \<longleftrightarrow> (\<exists>asked. approved env asked act)"

definition approval_inv :: "('w, 'm, 'c) loop_env \<Rightarrow> control \<Rightarrow> bool" where
  "approval_inv env c \<longleftrightarrow>
     (ct_state c = StateExecuting \<longrightarrow> (\<forall>act. ct_pending c = Some act \<longrightarrow> let_through env act)) \<and>
     (\<forall>te. ct_last c = Some te \<longrightarrow> let_through env (te_action te)) \<and>
     (\<forall>h \<in> set (ct_history c). let_through env (sr_action h))"

lemma approval_step: "ctl_step env c c' \<Longrightarrow> ctl_ok env c \<Longrightarrow> approval_inv env c \<Longrightarrow> approval_inv env c'"
proof (induction rule: ctl_step.induct)
  case (c_planned c res)
  then show ?case
    by (auto simp: approval_inv_def) (auto simp: taken_def split: action_type.splits)
qed (auto simp: approval_inv_def let_through_def)

text \<open>
  No tool runs without leave. Whenever the loop is about to execute an action, it is a tool
  call (never a question to the human), and the interrupter has said of this call that it need not be
  asked or has been asked and has approved it, possibly with the input it gave instead; without an
  interrupter every call is let through. The same holds of every call in the history. A repeated
  call (\<open>DecisionRetry\<close>) is not asked for again: the leave it got the first time is enough.
\<close>

theorem executed_calls_were_approved:
  assumes "passes env r (fresh_vars env v) r' v'" and "ready env v"
  shows "(lv_state v' = StateExecuting \<longrightarrow>
           (\<exists>act. lv_pending_action v' = Some act \<and> act_type act \<noteq> ActionAskHuman \<and> let_through env act)) \<and>
         (\<forall>h \<in> set (lv_history v'). let_through env (sr_action h))"
proof -
  have start: "approval_inv env (ctrl (fresh_vars env v))"
    by (simp add: fresh_ctrl approval_inv_def)
  have "approval_inv env (ctrl v') \<and> ready env v' \<and> ctl_ok env (ctrl v')"
    using approval_step by (rule run_inv [where P = "approval_inv env", OF assms start])
  moreover have "act_type act \<noteq> ActionAskHuman" if "let_through env act" for act
    using that
    by (auto simp: let_through_def approved_def Let_def apply_input_def split: option.splits if_splits)
  ultimately show ?thesis
    by (auto simp: approval_inv_def ctl_ok_def ctl_inv_def)
qed

lemma passes_turns:
  "passes env r v r' v' \<longleftrightarrow> (r', v') = (r, v) \<or>
     (\<exists>r1 v1. loop_turn env r v = (Ok None, r1, v1) \<and> passes env r1 v1 r' v')"
proof
  assume "passes env r v r' v'"
  then show "(r', v') = (r, v) \<or>
      (\<exists>r1 v1. loop_turn env r v = (Ok None, r1, v1) \<and> passes env r1 v1 r' v')"
    by induction (auto intro: passes.intros)
next
  have tail: "passes env r v r' v'"
    if "loop_turn env r v = (Ok None, r1, v1)" and "passes env r1 v1 r' v'" for r1 v1
    using that(2) by induction (auto intro: passes.intros that(1))
  assume "(r', v') = (r, v) \<or> (\<exists>r1 v1. loop_turn env r v = (Ok None, r1, v1) \<and> passes env r1 v1 r' v')"
  then show "passes env r v r' v'" using tail passes_start by auto
qed

fun after_turns ::
    "nat \<Rightarrow> ('w, 'm, 'c) loop_env \<Rightarrow> 'w rt \<Rightarrow> ('w, 'm, 'c) loop_vars \<Rightarrow> ('w rt \<times> ('w, 'm, 'c) loop_vars) option" where
  "after_turns 0 env r v = Some (r, v)"
| "after_turns (Suc n) env r v =
     (case loop_turn env r v of (Ok None, r', v') \<Rightarrow> after_turns n env r' v' | _ \<Rightarrow> None)"

lemma after_turns_passes: "after_turns n env r v = Some (r', v') \<Longrightarrow> passes env r v r' v'"
proof (induction n arbitrary: r v)
  case 0
  then show ?case by (auto intro: passes_start)
next
  case (Suc n)
  then show ?case
    by (subst passes_turns) (auto split: prod.splits res.splits option.splits)
qed

text \<open>A human who approves every call with an input of his own.\<close>

definition demo_human :: "unit interrupter" where
  "demo_human =
     \<lparr>in_should = (\<lambda>ev r. (Inr True, r)),
      in_wait = (\<lambda>ev r. (Inr (Some \<lparr>hr_approved = True, hr_message = [],
        hr_modified_input = Some [(''host'', VStr ''localhost'')]\<rparr>), r))\<rparr>"

definition demo_asking :: "(unit, inmem_store buffer_memory, content_map) loop_env" where
  "demo_asking = (demo_env 1 None)\<lparr>le_interrupter := Some demo_human\<rparr>"

lemma executed_calls_were_approved_witness:
  "\<exists>v' act. after_turns 3 demo_asking demo_rt (fresh_vars demo_asking demo_vars) = Some (demo_rt, v') \<and>
     lv_state v' = StateExecuting \<and> lv_pending_action v' = Some act \<and>
     act_tool_input act = Some [(''host'', VStr ''localhost'')] \<and> let_through demo_asking act"
proof -
  have "case after_turns 3 demo_asking demo_rt (fresh_vars demo_asking demo_vars) of
      Some (r', v') \<Rightarrow> r' = demo_rt \<and> lv_state v' = StateExecuting \<and>
        map_option act_tool_input (lv_pending_action v') = Some (Some [(''host'', VStr ''localhost'')])
    | None \<Rightarrow> False"
    by code_simp
  then obtain v' act where at: "after_turns 3 demo_asking demo_rt (fresh_vars demo_asking demo_vars) = Some (demo_rt, v')"
    and st: "lv_state v' = StateExecuting" "lv_pending_action v' = Some act"
      "act_tool_input act = Some [(''host'', VStr ''localhost'')]"
    by (auto split: option.splits)
  have "ready demo_asking demo_vars" by (simp add: ready_def demo_asking_def demo_env_def)
  from executed_calls_were_approved [OF after_turns_passes [OF at] this] st at
  show ?thesis by auto
qed

section \<open>What a run may do at most\<close>

definition room_for_calls :: "('w, 'm, 'c) loop_env \<Rightarrow> control \<Rightarrow> nat" where
  "room_for_calls env c =
     (case ct_state c of
        StateInterrupt \<Rightarrow> if ct_escalate c then 0 else threshold_of c + 1
      | StateExecuting \<Rightarrow> (case ct_pending c of None \<Rightarrow> 0 | Some act \<Rightarrow> calls_left env act c)
      | StateEvaluating \<Rightarrow> (case ct_last c of None \<Rightarrow> 0 | Some te \<Rightarrow> calls_left env (te_action te) c)
      | _ \<Rightarrow> 0)"

definition bound_inv :: "('w, 'm, 'c) loop_env \<Rightarrow> nat \<Rightarrow> control \<Rightarrow> bool" where
  "bound_inv env t c \<longleftrightarrow> sound_detector c \<and> threshold_of c = t \<and>
     0 \<le> ct_iteration c \<and> (ct_iteration c = 0 \<or> ct_iteration c \<le> le_max_iterations env) \<and>
     length (ct_history c) + room_for_calls env c \<le> nat (ct_iteration c) * (t + 1)"

lemma bound_planned:
  assumes "bound_inv env t c" and "ct_iteration c + 1 \<le> le_max_iterations env"
    and "ct_iteration c' = ct_iteration c + 1" and "ct_detector c' = ct_detector c"
    and "ct_history c' = ct_history c" and "ct_state c' = StateCompleting \<or> ct_state c' = StateInterrupt"
  shows "bound_inv env t c'"
proof -
  have "room_for_calls env c' \<le> t + 1"
    using assms(1,4,6) by (auto simp: room_for_calls_def bound_inv_def threshold_of_def)
  moreover have "nat (ct_iteration c') = Suc (nat (ct_iteration c))"
    using assms(1,3) by (auto simp: bound_inv_def nat_add_distrib)
  ultimately show ?thesis
    using assms by (auto simp: bound_inv_def sound_detector_def threshold_of_def)
qed

lemma bound_step:
  assumes "ctl_step env c c'" and "bound_inv env t c"
  shows "bound_inv env t c'"
  using assms
proof (induction rule: ctl_step.induct)
  case (c_planned c res)
  then show ?case by (intro bound_planned [OF c_planned(4,2)]) auto
next
  case (c_called c act act')
  then show ?case
    using calls_left_le [of c env act']
    by (simp add: bound_inv_def room_for_calls_def threshold_of_def calls_left_def sound_detector_def)
next
  case (c_executed c act status d r s res r' s' te)
  then show ?case
    using Record_same [OF c_executed(3,4)]
    by (auto simp: bound_inv_def room_for_calls_def threshold_of_def calls_left_def sound_detector_def)
qed (auto simp: bound_inv_def room_for_calls_def threshold_of_def calls_left_def sound_detector_def
    split: option.splits)

text \<open>
  C5. The limits of a run hold at every moment of it: the iteration counter never passes the
  configured maximum, and at most \<open>threshold + 1\<close> tool calls are executed for each iteration, even
  though repeating a call does not count as an iteration.
\<close>

theorem runLoop_bounded:
  assumes "passes env r (fresh_vars env v) r' v'" and "ready env v" and "1 \<le> ld_threshold (lv_detector v)"
  shows "0 \<le> lv_iteration v' \<and> lv_iteration v' \<le> max 0 (le_max_iterations env) \<and>
    length (lv_history v') \<le> nat (lv_iteration v') * (nat (ld_threshold (lv_detector v)) + 1)"
proof -
  let ?t = "nat (ld_threshold (lv_detector v))"
  have start: "bound_inv env ?t (ctrl (fresh_vars env v))"
    using assms(3) by (simp add: fresh_ctrl bound_inv_def room_for_calls_def sound_detector_def threshold_of_def)
  have "bound_inv env ?t (ctrl v') \<and> ready env v' \<and> ctl_ok env (ctrl v')"
    by (rule run_inv [where P = "bound_inv env ?t", OF assms(1,2) start]) (rule bound_step)
  then show ?thesis by (auto simp: bound_inv_def)
qed

lemma runLoop_bounded_witness:
  "\<exists>v'. after_turns 8 (demo_env 1 (Some DecisionRetry)) demo_rt
     (fresh_vars (demo_env 1 (Some DecisionRetry)) demo_vars) = Some (demo_rt, v') \<and>
     length (lv_history v') = 3 \<and> length (lv_history v') \<le> nat (lv_iteration v') * 4"
proof -
  let ?env = "demo_env 1 (Some DecisionRetry)"
  have "case after_turns 8 ?env demo_rt (fresh_vars ?env demo_vars) of
      Some (r', v') \<Rightarrow> r' = demo_rt \<and> length (lv_history v') = 3 | None \<Rightarrow> False"
    by code_simp
  then obtain v' where at: "after_turns 8 ?env demo_rt (fresh_vars ?env demo_vars) = Some (demo_rt, v')"
    and three: "length (lv_history v') = 3"
    by (auto split: option.splits)
  have "1 \<le> ld_threshold (lv_detector demo_vars)" by (simp add: demo_vars_def NewLoopDetector_def)
  from runLoop_bounded [OF after_turns_passes [OF at] demo_ready this] at three
  show ?thesis by (auto simp: demo_vars_def NewLoopDetector_def)
qed

text \<open>
  C6. What a run returns. A run that ends without a Go error returns either an error result, empty
  but for the error, or an answer without an error; such an answer is the one the loop held when it
  was completing, and when there is an output schema it is an answer that passed its validation.
\<close>

theorem runLoop_result:
  assumes "runLoop fuel env r v = Some (Ok x, r', v')" and "ready env v"
  shows "(\<exists>e. x = error_result e) \<or>
    (ar_error x = None \<and> answer_valid env (ar_answer x))"
proof (cases "le_mode env = ModeReAct \<and> le_planner env = None")
  case True
  with assms(1) show ?thesis by (auto simp: runLoop_def Let_def split: prod.splits)
next
  case False
  with assms(1) have "run_turns fuel env r (fresh_vars env v) = Some (Ok x, r', v')"
    by (auto simp: runLoop_def)
  then obtain r1 v1 where p: "passes env r (fresh_vars env v) r1 v1"
    and l: "loop_turn env r1 v1 = (Ok (Some x), r', v')"
    by (auto dest: run_turns_last)
  define at_work :: "control \<Rightarrow> bool" where "at_work c \<longleftrightarrow> ct_state c \<notin> {StateComplete, StateError}" for c
  have "at_work (ctrl v1) \<and> ready env v1 \<and> ctl_ok env (ctrl v1)"
  proof (rule run_inv [where P = at_work, OF p assms(2)])
    show "at_work (ctrl (fresh_vars env v))" by (simp add: fresh_ctrl at_work_def)
  next
    fix c c' assume "ctl_step env c c'" "at_work c"
    then show "at_work c'"
      by (induction rule: ctl_step.induct) (auto simp: at_work_def taken_def split: action_type.splits)
  qed
  with loop_turn_result [OF l] show ?thesis
    by (auto simp: ctl_result_def at_work_def)
qed

definition demo_validate :: "string \<Rightarrow> string \<times> goerr option" where
  "demo_validate s = ([], if s = ''pong'' then None else Some (ErrNew ''not pong''))"

lemma runLoop_result_witness:
  "\<exists>x r' v'. runLoop 20 ((demo_env 1 None)\<lparr>le_validate := Some demo_validate\<rparr>) demo_rt demo_vars =
     Some (Ok x, r', v') \<and> ar_answer x = ''pong'' \<and>
     ((\<exists>e. x = error_result e) \<or> (ar_error x = None \<and>
       answer_valid ((demo_env 1 None)\<lparr>le_validate := Some demo_validate\<rparr>) (ar_answer x)))"
proof -
  let ?env = "(demo_env 1 None)\<lparr>le_validate := Some demo_validate\<rparr>"
  have "case runLoop 20 ?env demo_rt demo_vars of Some (Ok x, _, _) \<Rightarrow> ar_answer x = ''pong'' | _ \<Rightarrow> False"
    by code_simp
  then obtain x r' v' where run: "runLoop 20 ?env demo_rt demo_vars = Some (Ok x, r', v')"
    and pong: "ar_answer x = ''pong''"
    by (cases "runLoop 20 ?env demo_rt demo_vars"; cases "fst (the (runLoop 20 ?env demo_rt demo_vars))") auto
  have "ready ?env demo_vars" by (simp add: ready_def demo_env_def)
  from runLoop_result [OF run this] run pong show ?thesis by blast
qed

section \<open>Memory and cancellation\<close>

definition compacted :: "('w, 'm, 'c) loop_env \<Rightarrow> chat_message list \<Rightarrow> chat_message list" where
  "compacted env msgs = CompactStaleToolResults (PruneConsecutiveFailures msgs) (le_recent_tokens env)"



end
