(* ===== verification/PlanRuns.thy ===== *)
theory PlanRuns
  imports LoopProofs
begin

text \<open>
  Runs in plan-and-solve mode: the review of a plan, and what becomes of a plan when the run that made
  it is over.
\<close>

section \<open>Reviewing a plan\<close>

text \<open>
  C11. Turning down a plan does not turn down its first action. \<open>StatePlanGen\<close> keeps the first
  answer of the planner for the planning turn; when the human rejects the plan, \<open>Replan\<close> makes a
  new one but the kept answer stays, through every further review, and is what the loop carries
  out next, instead of the first step of the plan that was approved.
\<close>

theorem rejected_first_action_stays:
  assumes "ready env v" and "lv_state v = StatePlanReview" and "le_mode env = ModePlanAndSolve"
    and "lv_plan_gen_first v = Some f"
    and "loop_turn env r v = (Ok None, r1, v1)"
  shows "lv_plan_gen_first v1 = Some f \<and> lv_state v1 \<in> {StatePlanReview, StatePlanning} \<and>
    (\<forall>r2 r3 v3. lv_state v1 = StatePlanning \<and> loop_turn env r2 v1 = (Ok None, r3, v3) \<longrightarrow>
       lv_pending_action v3 = Some (pr_action f))"
proof -
  have ok: "ctl_ok env (ctrl v)" using assms(2,3) by (simp add: ctl_ok_def ctl_inv_def)
  note st = loop_turn_step [OF assms(5,1) ok]
  have kept: "lv_plan_gen_first v1 = Some f" "lv_state v1 \<in> {StatePlanReview, StatePlanning}"
    using st(1) assms(2,4) by (auto elim!: ctl_step.cases simp: ctrl_def)
  have "lv_pending_action v3 = Some (pr_action f)"
    if "lv_state v1 = StatePlanning" and t: "loop_turn env r2 v1 = (Ok None, r3, v3)" for r2 r3 v3
  proof -
    have "ctl_step env (ctrl v1) (ctrl v3)"
      by (rule loop_turn_step [OF t st(2) ctl_ok_step [OF st(1) ok]])
    then show ?thesis
    proof cases
      case (c_planned res)
      then have "res = f" using kept(1) by (simp add: ctrl_def)
      moreover have "lv_pending_action v3 = Some (pr_action res)"
        using c_planned(1) taken_sel(5) by (metis ctrl_sel(4))
      ultimately show ?thesis by simp
    qed (use that(1) in \<open>auto simp: ctrl_def\<close>)
  qed
  with kept show ?thesis by blast
qed

text \<open>
  A world that counts plans: the model first plans to call \<open>wipe\<close>, afterwards to call \<open>look\<close>. The
  human turns down the first \<open>n\<close> plans and approves everything else.
\<close>

definition one_step_plan :: "string \<Rightarrow> string" where
  "one_step_plan tool =
     ''{'' @ q @ ''steps'' @ q @ '':[{'' @ q @ ''tool_name'' @ q @ '':'' @ q @ tool @ q @ ''}]}''"

definition plan_model :: "nat chat_model" where
  "plan_model =
     \<lparr>cm_generate = (\<lambda>r _ _. (Inr (Some \<lparr>resp_message = text_message RoleAssistant
         (one_step_plan (if rt_world r = 0 then ''wipe'' else ''look'')), resp_usage = \<lparr>prompt_tokens = 0, completion_tokens = 0, total_tokens = 0\<rparr>\<rparr>),
        r\<lparr>rt_world := Suc (rt_world r)\<rparr>)),
      cm_stream = (\<lambda>r _ _. (Inr ([], None), r))\<rparr>"

definition plan_human :: "nat \<Rightarrow> nat interrupter" where
  "plan_human n =
     \<lparr>in_should = (\<lambda>ev r. (Inr True, r)),
      in_wait = (\<lambda>ev r. (Inr (Some \<lparr>hr_approved = (ie_type ev \<noteq> InterruptAfterPlan \<or> n < rt_world r),
        hr_message = [], hr_modified_input = None\<rparr>), r))\<rparr>"

definition plan_env :: "nat \<Rightarrow> (nat, inmem_store buffer_memory, content_map) loop_env" where
  "plan_env n =
     \<lparr>le_mode = ModePlanAndSolve, le_planner = None, le_model = Some plan_model,
      le_max_iterations = 5, le_validate = None, le_auto_retry = 0,
      le_eval_on = False, le_evaluator = None, le_stream_on = False,
      le_model_max_tokens = 0, le_interrupter = Some (plan_human n),
      le_executor = (\<lambda>act. go_return (Some \<lparr>er_tool_name = act_tool_name act, er_output = ''ok'', er_error = None\<rparr>)),
      le_hooks = [], le_tool_result_max_len = 2000, le_recent_tokens = 1000, le_loop_threshold = 3,
      le_system_prompt = ''be brief'', le_tools = [], le_memory = buffer_ops inmem_ops,
      le_contents = content_map_ops, le_compressor = None, le_checkpoint = None,
      le_digest = (\<lambda>s. s), le_clock = (\<lambda>w. (0, w))\<rparr>"

definition plan_vars :: "(nat, inmem_store buffer_memory, content_map) loop_vars" where
  "plan_vars =
     \<lparr>lv_state = StateInit, lv_iteration = 0, lv_history = [], lv_pending_action = None,
      lv_pending_reasoning = [], lv_pending_call_id = [], lv_plan_gen_first = None,
      lv_complete_answer = [], lv_last_exec = None, lv_eval_escalate = False, lv_validate_left = 0,
      lv_memory = NewBuffer NewInMemoryMessageStore 0, lv_detector = NewLoopDetector 3,
      lv_contents = None, lv_pas = Some (NewPlanAndSolve (Some plan_model) []), lv_events = [], lv_saves = []\<rparr>"

definition plan_rt :: "nat rt" where
  "plan_rt = \<lparr>rt_ctx = Background, rt_world = 0\<rparr>"

definition look_step :: plan_step where
  "look_step =
     \<lparr>step_id = 1, step_description = [], step_action = tool_action ''look'' (Some []),
      step_status = StepPending, step_result_text = []\<rparr>"

lemma parse_look_plan:
  "parseActionPlan (one_step_plan ''look'') = Inr \<lparr>ap_steps = [look_step], ap_current = 0\<rparr>"
  by code_simp

text \<open>The moment the human sees the first plan.\<close>

definition wipe_result :: plan_result where
  "wipe_result = \<lparr>pr_action = tool_action ''wipe'' (Some []), pr_reasoning = []\<rparr>"

definition wipe_planner :: "nat pas_planner" where
  "wipe_planner = (NewPlanAndSolve (Some plan_model) [])
     \<lparr>pas_plan := Some \<lparr>ap_steps = [look_step\<lparr>step_action := tool_action ''wipe'' (Some []),
        step_status := StepRunning\<rparr>], ap_current = 0\<rparr>\<rparr>"

definition wipe_review :: "(nat, inmem_store buffer_memory, content_map) loop_vars" where
  "wipe_review = plan_vars\<lparr>lv_state := StatePlanReview, lv_plan_gen_first := Some wipe_result,
     lv_pas := Some wipe_planner\<rparr>"

lemmas turn_defs =
  loop_turn_def turn_of_def go_try_def go_attempt_def go_ignore_def go_bind_def go_get_def go_put_def
  go_modify_def go_return_def go_fail_def go_poll_def poll_def go_outside_def go_call_def go_deref_def
  on_memory_def on_pas_def go_zoom_def goto_def add_messages_def buildPlanState_def

lemmas memory_defs =
  buffer_ops_def buffer_messages_def buffer_clear_def buffer_add_def on_store_def inmem_defs op_defs

lemma wipe_turned_down:
  "\<exists>r1 v1. loop_turn (plan_env 1) \<lparr>rt_ctx = Background, rt_world = 1\<rparr> wipe_review = (Ok None, r1, v1) \<and>
     lv_state v1 = StatePlanReview \<and>
     map_option (\<lambda>p. map step_action (plan_steps_of (pas_plan p))) (lv_pas v1) =
       Some [tool_action ''look'' (Some [])]"
  by (simp add: turn_defs turn_plan_review_def plan_env_def plan_human_def wipe_review_def plan_vars_def
      memory_defs rejected_def NewBuffer_def wipe_planner_def NewPlanAndSolve_def Replan_def
      generatePlanWithNotes_def planner_generate_def plan_model_def parse_look_plan plan_steps_of_def
      look_step_def Let_def)

lemma rejected_first_action_stays_witness:
  "\<exists>r1 v1. loop_turn (plan_env 1) \<lparr>rt_ctx = Background, rt_world = 1\<rparr> wipe_review = (Ok None, r1, v1) \<and>
     lv_plan_gen_first v1 = Some wipe_result \<and>
     map_option (\<lambda>p. map step_action (plan_steps_of (pas_plan p))) (lv_pas v1) =
       Some [tool_action ''look'' (Some [])]"
proof -
  obtain r1 v1 where turn:
    "loop_turn (plan_env 1) \<lparr>rt_ctx = Background, rt_world = 1\<rparr> wipe_review = (Ok None, r1, v1)"
    "map_option (\<lambda>p. map step_action (plan_steps_of (pas_plan p))) (lv_pas v1) =
       Some [tool_action ''look'' (Some [])]"
    using wipe_turned_down by (elim exE conjE) (rule that)
  have "ready (plan_env 1) wipe_review"
    by (simp add: ready_def wipe_review_def wipe_planner_def NewPlanAndSolve_def)
  moreover have "le_mode (plan_env 1) = ModePlanAndSolve" by (simp add: plan_env_def)
  moreover have "lv_state wipe_review = StatePlanReview" "lv_plan_gen_first wipe_review = Some wipe_result"
    by (simp_all add: wipe_review_def)
  ultimately have "lv_plan_gen_first v1 = Some wipe_result"
    using rejected_first_action_stays turn(1) by blast
  with turn show ?thesis by (intro exI conjI)
qed

section \<open>A review without end\<close>

text \<open>A memory that works as long as the context is alive.\<close>

definition memory_alive :: "('w, 'm) memory_ops \<Rightarrow> bool" where
  "memory_alive ops \<longleftrightarrow>
     (\<forall>r m. rt_ctx r = Background \<longrightarrow>
        (\<exists>ms r' m'. mem_messages ops r m = (Ok ms, r', m') \<and> rt_ctx r' = Background)) \<and>
     (\<forall>xs r m. rt_ctx r = Background \<longrightarrow>
        (\<exists>r' m'. mem_add ops xs r m = (Ok (), r', m') \<and> rt_ctx r' = Background))"

lemma poll_alive: "rt_ctx r = Background \<Longrightarrow> poll r = (None, r)"
  by (cases r) (simp add: poll_def)

lemma build_alive:
  assumes "memory_alive (le_memory env)" and "rt_ctx r = Background"
  shows "\<exists>ps r' m'. buildPlanState env r v = (Ok ps, r', v\<lparr>lv_memory := m'\<rparr>) \<and> rt_ctx r' = Background"
proof -
  obtain ms r' m' where "mem_messages (le_memory env) r (lv_memory v) = (Ok ms, r', m')" "rt_ctx r' = Background"
    using assms by (meson memory_alive_def)
  then show ?thesis by (auto simp: buildPlanState_def on_memory_def go_zoom_def go_bind_def go_get_def go_return_def)
qed

lemma add_alive:
  assumes "memory_alive (le_memory env)" and "rt_ctx r = Background"
  shows "\<exists>r' m'. add_messages env xs r v = (Ok (), r', v\<lparr>lv_memory := m'\<rparr>) \<and> rt_ctx r' = Background"
proof -
  obtain r' m' where "mem_add (le_memory env) xs r (lv_memory v) = (Ok (), r', m')" "rt_ctx r' = Background"
    using assms by (meson memory_alive_def)
  then show ?thesis
    by (auto simp: add_messages_def go_ignore_def go_attempt_def on_memory_def go_zoom_def go_bind_def go_return_def)
qed

text \<open>A model that always answers with a plan, and a human who always says no.\<close>

definition always_plans :: "'w chat_model \<Rightarrow> bool" where
  "always_plans m \<longleftrightarrow>
     (\<forall>r msgs os. rt_ctx r = Background \<longrightarrow>
        (\<exists>resp r' ap. cm_generate m r msgs os = (Inr (Some resp), r') \<and> rt_ctx r' = Background \<and>
           parseActionPlan (msg_content (resp_message resp)) = Inr ap))"

definition always_rejects :: "'w interrupter \<Rightarrow> bool" where
  "always_rejects ir \<longleftrightarrow>
     (\<forall>ev r. rt_ctx r = Background \<longrightarrow>
        (\<exists>r'. in_should ir ev r = (Inr True, r') \<and> rt_ctx r' = Background) \<and>
        (\<exists>hr r'. in_wait ir ev r = (Inr hr, r') \<and> rejected hr \<and> rt_ctx r' = Background))"

lemma generate_alive:
  assumes "always_plans m" and "rt_ctx r = Background" and "pas_model p = Some m"
  shows "\<exists>ap r'. generatePlanWithNotes st notes r p = (Ok (), r', p\<lparr>pas_plan := Some ap\<rparr>) \<and>
    rt_ctx r' = Background \<and> fresh_plan ap"
proof -
  obtain resp r' ap where "cm_generate m r (plan_request p st notes) [] = (Inr (Some resp), r')"
    and "rt_ctx r' = Background" and ap: "parseActionPlan (msg_content (resp_message resp)) = Inr ap"
    using assms(1,2) by (meson always_plans_def)
  moreover have "fresh_plan ap" using ap by (rule parseActionPlan_fresh)
  ultimately show ?thesis
    using assms(3)
    by (intro exI [of _ ap] exI [of _ r']) (simp add: generatePlanWithNotes_def planner_generate_def go_bind_def go_get_def go_put_def)
qed

lemma pas_Plan_first:
  assumes "pas_model p \<noteq> None" and "pas_plan p = Some ap" and "fresh_plan ap"
  shows "\<exists>res p'. pas_next r p = (Ok res, r, p') \<and> pas_model p' = pas_model p"
proof -
  obtain s ss where ss: "ap_steps ap = s # ss" "step_status s = StepPending"
    using assms(3) by (cases "ap_steps ap") (auto simp: fresh_plan_def)
  have "runningStep (ap_steps ap) = None"
    using assms(3) by (intro runningStep_None) (auto simp: fresh_plan_def)
  with ss assms(2) show ?thesis by (auto simp: pas_next_def plan_steps_of_def)
qed

definition under_review :: "'w chat_model \<Rightarrow> 'w rt \<Rightarrow> ('w, 'm, 'c) loop_vars \<Rightarrow> bool" where
  "under_review m r v \<longleftrightarrow> rt_ctx r = Background \<and> lv_state v = StatePlanReview \<and>
     (\<exists>p. lv_pas v = Some p \<and> pas_model p = Some m)"

lemma review_again:
  assumes "under_review m r v" and "le_interrupter env = Some ir" and "always_rejects ir"
    and "always_plans m" and "memory_alive (le_memory env)"
  shows "\<exists>r' v'. loop_turn env r v = (Ok None, r', v') \<and> under_review m r' v'"
proof -
  from assms(1) obtain p where bg: "rt_ctx r = Background" and st: "lv_state v = StatePlanReview"
    and p: "lv_pas v = Some p" "pas_model p = Some m" by (auto simp: under_review_def)
  let ?ev = "\<lparr>ie_type = InterruptAfterPlan, ie_action = answer_action (planDigest (lv_pas v))\<rparr>"
  obtain r1 where should: "in_should ir ?ev r = (Inr True, r1)" "rt_ctx r1 = Background"
    using assms(3) bg by (meson always_rejects_def)
  obtain hr r2 where wait: "in_wait ir ?ev r1 = (Inr hr, r2)" "rejected hr" "rt_ctx r2 = Background"
    using assms(3) should(2) by (meson always_rejects_def)
  obtain r3 m3 where add: "add_messages env [text_message RoleUser (''Plan review rejected: '' @ human_message hr)] r2 v =
      (Ok (), r3, v\<lparr>lv_memory := m3\<rparr>)" "rt_ctx r3 = Background"
    using add_alive [OF assms(5) wait(3)] by blast
  obtain ps r4 m4 where build: "buildPlanState env r3 (v\<lparr>lv_memory := m3\<rparr>) =
      (Ok ps, r4, v\<lparr>lv_memory := m4\<rparr>)" "rt_ctx r4 = Background"
    using build_alive [OF assms(5) add(2), of "v\<lparr>lv_memory := m3\<rparr>"] by auto
  obtain ap r5 where gen: "generatePlanWithNotes ps (replan_notes (pas_plan p) (ps_history ps)) r4
      (p\<lparr>pas_plan := None\<rparr>) = (Ok (), r5, p\<lparr>pas_plan := Some ap\<rparr>)" "rt_ctx r5 = Background"
    using generate_alive [OF assms(4) build(2), of "p\<lparr>pas_plan := None\<rparr>"] p(2) by force
  have "loop_turn env r v = (Ok None, r5,
      v\<lparr>lv_memory := m4, lv_pas := Some (p\<lparr>pas_plan := Some ap\<rparr>), lv_state := StatePlanReview\<rparr>)"
    using st p should wait add build gen
    by (simp add: loop_turn_def turn_of_def turn_plan_review_def go_poll_def poll_alive [OF bg] go_bind_def
        go_get_def go_put_def go_try_def go_attempt_def go_outside_def go_return_def go_modify_def goto_def on_pas_def
        Replan_def assms(2) Let_def)
  with gen(2) p(2) show ?thesis by (simp add: under_review_def)
qed

lemma review_forever:
  assumes "under_review m r v" and "le_interrupter env = Some ir" and "always_rejects ir"
    and "always_plans m" and "memory_alive (le_memory env)"
  shows "run_turns n env r v = None"
  using assms(1)
proof (induction n arbitrary: r v)
  case (Suc n)
  obtain r' v' where t: "loop_turn env r v = (Ok None, r', v')" and u: "under_review m r' v'"
    using review_again [OF Suc.prems assms(2-5)] by blast
  from Suc.IH [OF u] t show ?case by simp
qed simp

lemma plan_gen_turn:
  assumes "rt_ctx r = Background" and "lv_state v = StatePlanGen" and "lv_pas v = Some p"
    and "pas_model p = Some m" and "pas_plan p = None" and "always_plans m" and "memory_alive (le_memory env)"
  shows "\<exists>r' v'. loop_turn env r v = (Ok None, r', v') \<and> under_review m r' v'"
proof -
  obtain ps r1 m1 where build: "buildPlanState env r v = (Ok ps, r1, v\<lparr>lv_memory := m1\<rparr>)" "rt_ctx r1 = Background"
    using build_alive [OF assms(7,1)] by blast
  obtain ap r2 where gen: "generatePlanWithNotes ps [] r1 p = (Ok (), r2, p\<lparr>pas_plan := Some ap\<rparr>)"
      "rt_ctx r2 = Background" "fresh_plan ap"
    using generate_alive [OF assms(6) build(2) assms(4)] by blast
  obtain res p' where step: "pas_next r2 (p\<lparr>pas_plan := Some ap\<rparr>) = (Ok res, r2, p')" "pas_model p' = Some m"
    using pas_Plan_first [of "p\<lparr>pas_plan := Some ap\<rparr>" ap r2] gen(3) assms(4) by auto
  have plan: "pas_Plan ps r1 p = (Ok res, r2, p')"
    using gen(1) step(1) assms(4,5) by (simp add: pas_Plan_def generatePlan_def go_bind_def)
  have "loop_turn env r v = (Ok None, r2,
      v\<lparr>lv_memory := m1, lv_pas := Some p', lv_plan_gen_first := Some res, lv_state := StatePlanReview\<rparr>)"
    using build(1) plan assms(2,3,5)
    by (simp add: loop_turn_def turn_of_def turn_plan_gen_def go_poll_def poll_alive [OF assms(1)] go_bind_def
        go_get_def go_try_def go_attempt_def go_return_def go_modify_def goto_def on_pas_def CurrentPlan_def)
  with gen(2) step(2) show ?thesis by (simp add: under_review_def)
qed


definition stubborn_human :: "nat interrupter" where
  "stubborn_human =
     \<lparr>in_should = (\<lambda>ev r. (Inr True, r)),
      in_wait = (\<lambda>ev r. (Inr (Some \<lparr>hr_approved = False, hr_message = ''no'', hr_modified_input = None\<rparr>), r))\<rparr>"

lemma parse_wipe_plan: "\<exists>ap. parseActionPlan (one_step_plan ''wipe'') = Inr ap"
proof -
  have "case parseActionPlan (one_step_plan ''wipe'') of Inr _ \<Rightarrow> True | Inl _ \<Rightarrow> False" by code_simp
  then show ?thesis by (auto split: sum.splits)
qed

lemma plan_model_plans: "always_plans plan_model"
  using parse_look_plan parse_wipe_plan by (auto simp: always_plans_def plan_model_def)

lemma inmem_memory_alive: "memory_alive (buffer_ops inmem_ops)"
  unfolding memory_alive_def
proof (intro conjI allI impI)
  fix r :: "'a rt" and m assume "rt_ctx r = Background"
  then show "\<exists>ms r' m'. mem_messages (buffer_ops inmem_ops) r m = (Ok ms, r', m') \<and> rt_ctx r' = Background"
    by (simp add: memory_defs go_zoom_def go_bind_def go_get_def go_return_def poll_alive)
next
  fix xs and r :: "'a rt" and m assume "rt_ctx r = Background"
  then show "\<exists>r' m'. mem_add (buffer_ops inmem_ops) xs r m = (Ok (), r', m') \<and> rt_ctx r' = Background"
    by (simp add: memory_defs trimPreservingSystem_def go_zoom_def go_bind_def go_get_def go_put_def go_return_def
        poll_alive Let_def)
qed


section \<open>A plan outlives its run\<close>

lemma completing_alive:
  assumes "lv_state v = StateCompleting" and "le_validate env = None" and "le_hooks env = []"
    and "memory_alive (le_memory env)" and "rt_ctx r = Background"
  shows "\<exists>x r' v'. loop_turn env r v = (Ok (Some x), r', v') \<and> ar_answer x = lv_complete_answer v \<and>
    ar_error x = None \<and> lv_pas v' = lv_pas v"
proof -
  let ?answer = "if trim_space (lv_complete_answer v) \<noteq> []
    then add_messages env [text_message RoleAssistant (lv_complete_answer v)] else go_return ()"
  have "\<exists>r1 m1. ?answer r v = (Ok (), r1, v\<lparr>lv_memory := m1\<rparr>) \<and> rt_ctx r1 = Background"
  proof (cases "trim_space (lv_complete_answer v) = []")
    case True
    then have "?answer r v = (Ok (), r, v\<lparr>lv_memory := lv_memory v\<rparr>)" by (simp add: go_return_def)
    with assms(5) show ?thesis by blast
  qed (use add_alive [OF assms(4,5)] in auto)
  then obtain r1 m1 where a: "?answer r v = (Ok (), r1, v\<lparr>lv_memory := m1\<rparr>)" "rt_ctx r1 = Background" by blast
  obtain ms r2 m2 where m: "mem_messages (le_memory env) r1 m1 = (Ok ms, r2, m2)"
    using assms(4) a(2) by (meson memory_alive_def)
  show ?thesis
    using assms(1,2,3) a(1) m
    by (auto simp: loop_turn_def turn_of_def turn_completing_def finish_def go_poll_def poll_alive [OF assms(5)]
        go_bind_def go_get_def go_return_def go_try_def go_attempt_def emit_def on_memory_def go_zoom_def)
qed



end
