(* ===== verification/LoopFrame.thy ===== *)
theory LoopFrame
  imports LoopProofs
begin

text \<open>
  What every run leaves as it was, however it ends - with an answer, an error or a panic: the
  threshold of the loop detector, and that the agent has a plan-and-solve planner with a model. These
  outlive a run, and the next one relies on them.
\<close>

section \<open>Operations that keep it\<close>

definition lasting :: "int \<Rightarrow> ('w, 'm, 'c) loop_vars \<Rightarrow> bool" where
  "lasting t v \<longleftrightarrow>
     ld_threshold (lv_detector v) = t \<and> (\<exists>p. lv_pas v = Some p \<and> pas_model p \<noteq> None)"

definition lasts :: "int \<Rightarrow> ('w, ('w, 'm, 'c) loop_vars, 'a) op \<Rightarrow> bool" where
  "lasts t m \<longleftrightarrow> (\<forall>r v. lasting t v \<longrightarrow> lasting t (snd (snd (m r v))))"

lemma lasting_frame [simp]:
  "lasting t (v\<lparr>lv_memory := m\<rparr>) = lasting t v" "lasting t (v\<lparr>lv_contents := cs\<rparr>) = lasting t v"
  "lasting t (v\<lparr>lv_events := es\<rparr>) = lasting t v" "lasting t (v\<lparr>lv_saves := ss\<rparr>) = lasting t v"
  "lasting t (v\<lparr>lv_pending_call_id := i\<rparr>) = lasting t v"
  "lasting t (v\<lparr>lv_pending_reasoning := u\<rparr>) = lasting t v"
  "lasting t (v\<lparr>lv_state := s\<rparr>) = lasting t v" "lasting t (v\<lparr>lv_iteration := n\<rparr>) = lasting t v"
  "lasting t (v\<lparr>lv_history := h\<rparr>) = lasting t v" "lasting t (v\<lparr>lv_pending_action := a\<rparr>) = lasting t v"
  "lasting t (v\<lparr>lv_plan_gen_first := f\<rparr>) = lasting t v" "lasting t (v\<lparr>lv_last_exec := l\<rparr>) = lasting t v"
  "lasting t (v\<lparr>lv_eval_escalate := b\<rparr>) = lasting t v" "lasting t (v\<lparr>lv_validate_left := k\<rparr>) = lasting t v"
  "lasting t (v\<lparr>lv_complete_answer := x\<rparr>) = lasting t v"
  by (simp_all add: lasting_def)

named_theorems last

lemma lasts_bind [last]:
  fixes m :: "('w, ('w, 'm, 'c) loop_vars, 'a) op"
  assumes "lasts t m" and "\<And>x. lasts t (f x)"
  shows "lasts t (go_bind m f)"
  unfolding lasts_def
proof (intro allI impI)
  fix r :: "'w rt" and v :: "('w, 'm, 'c) loop_vars" assume "lasting t v"
  with assms(1) have "lasting t (snd (snd (m r v)))" by (simp add: lasts_def)
  with assms(2) show "lasting t (snd (snd (go_bind m f r v)))"
    by (auto simp: go_bind_def lasts_def split: prod.splits res.splits)
qed

lemma lasts_get: "(\<And>v. lasting t v \<Longrightarrow> lasts t (f v)) \<Longrightarrow> lasts t (go_bind go_get f)"
  by (simp add: lasts_def go_bind_def go_get_def)

lemma lasts_modify [last]: "(\<And>v. lasting t v \<Longrightarrow> lasting t (f v)) \<Longrightarrow> lasts t (go_modify f)"
  by (simp add: lasts_def go_modify_def)

lemma lasts_simple [last]:
  "lasts t go_get" "lasts t (go_return x)" "lasts t (go_fail e)" "lasts t go_poll" "lasts t (go_outside g)" "lasts t (go_call h)"
  "lasts t (go_deref s p)" "lasts t (emit env ev)" "lasts t (on_memory f)" "lasts t (on_contents k)"
  by (auto simp: lasts_def go_get_def go_return_def go_fail_def go_poll_def go_outside_def go_call_def go_deref_def
      emit_def on_memory_def on_contents_def go_zoom_def split: prod.split sum.split option.split)

lemma lasts_attempt [last]:
  fixes m :: "('w, ('w, 'm, 'c) loop_vars, 'a) op"
  shows "lasts t m \<Longrightarrow> lasts t (go_attempt m)"
proof -
  have "snd (snd (go_attempt m r v)) = snd (snd (m r v))" for r v
    by (simp add: go_attempt_def split: prod.split res.split)
  then show "lasts t m \<Longrightarrow> lasts t (go_attempt m)" by (simp add: lasts_def)
qed

lemma lasts_try [last]:
  "lasts t m \<Longrightarrow> (\<And>e. lasts t (h e)) \<Longrightarrow> (\<And>x. lasts t (k x)) \<Longrightarrow> lasts t (go_try m h k)"
  unfolding go_try_def by (intro last) (auto split: sum.split)

lemma lasts_cases [last]:
  "(b \<Longrightarrow> lasts t m) \<Longrightarrow> (\<not> b \<Longrightarrow> lasts t m') \<Longrightarrow> lasts t (if b then m else m')"
  "lasts t m1 \<Longrightarrow> (\<And>x. lasts t (m2 x)) \<Longrightarrow> lasts t (case p of None \<Rightarrow> m1 | Some x \<Rightarrow> m2 x)"
  "(\<And>e. lasts t (n1 e)) \<Longrightarrow> (\<And>x. lasts t (n2 x)) \<Longrightarrow> lasts t (case y of Inl e \<Rightarrow> n1 e | Inr x \<Rightarrow> n2 x)"
  by (auto split: option.split sum.split)

lemma lasts_ignore [last]: "lasts t m \<Longrightarrow> lasts t (go_ignore m)"
  unfolding go_ignore_def by (intro last)

lemma lasts_on_pas:
  assumes "\<And>r p x r' p'. pas_model p \<noteq> None \<Longrightarrow> f r p = (x, r', p') \<Longrightarrow> pas_model p' = pas_model p"
  shows "lasts t (on_pas f)"
  using assms by (fastforce simp: lasts_def lasting_def on_pas_def split: prod.splits option.splits)

lemma lasts_plan [last]: "lasts t (on_pas (pas_Plan ps))" "lasts t (on_pas (Replan ps))"
  by (rule lasts_on_pas; use pas_Plan_model Replan_model in blast)+

section \<open>The turns keep it\<close>

lemma lasts_helpers [last]:
  "lasts t (add_messages env msgs)" "lasts t (replace_memory env msgs)" "lasts t (maybeSaveCheckpoint env plan)"
  "lasts t (buildPlanState env)" "lasts t (goto st)" "lasts t (give_error e)" "lasts t (report_error env s e)"
  unfolding add_messages_def replace_memory_def maybeSaveCheckpoint_def buildPlanState_def goto_def
    give_error_def report_error_def by (intro last | simp)+

lemma lasts_emit_all [last]: "lasts t (emit_all env evs)"
  by (induction evs) (auto intro: last)

lemma lasts_compress [last]: "lasts t (Compress c msgs)"
  by (auto simp: lasts_def Compress_def split: option.split prod.split sum.split)

lemma lasts_compress_context [last]: "lasts t (compress_context env ps)"
  unfolding compress_context_def by (auto intro!: last split: option.split)

lemma lasts_stream [last]: "lasts t (streamReActPlan env m ps)"
  unfolding streamReActPlan_def Let_def by (auto intro!: last split: prod.split)

lemma lasts_planner [last]: "lasts t (call_planner env ps)" "lasts t (ask_planner env ps)"
proof -
  show c: "lasts t (call_planner env ps)"
    unfolding call_planner_def by (auto intro!: last split: execution_mode.split)
  show "lasts t (ask_planner env ps)"
    unfolding ask_planner_def by (intro last c)
qed

lemma lasts_unless_cancelled [last]: "lasts t k \<Longrightarrow> lasts t (unless_cancelled k)"
  unfolding unless_cancelled_def by (intro last)

lemma lasts_take_action [last]: "lasts t (take_action res)"
  unfolding take_action_def by (auto intro!: last split: action_type.split)

lemma lasts_plan_turns [last]:
  "lasts t (turn_plan_gen env)" "lasts t (turn_plan_review env)" "lasts t (turn_planning env)"
  unfolding turn_plan_gen_def turn_plan_review_def turn_planning_def plan_turn_def Let_def
  by (intro last | simp)+

lemma lasts_calls [last]:
  "lasts t (announce_call env act)" "lasts t (answer_question env act ans)" "lasts t (escalate env act)"
  unfolding announce_call_def answer_question_def escalate_def Let_def by (intro last | simp)+

lemma lasts_interrupt [last]: "lasts t (turn_interrupt env)"
  unfolding turn_interrupt_def interrupt_for_def without_human_def Let_def by (intro last | simp)+

lemma lasts_after_tool [last]: "lasts t (after_tool env status act res)"
proof -
  have "lasting t (record_step env act res v)" if "lasting t v" for v
  proof -
    have "pas_model (mark_plan_step res p) = pas_model p" for p
      by (auto simp: mark_plan_step_def MarkStepDone_def MarkStepFailed_def split: option.split)
    with that show ?thesis by (auto simp: lasting_def record_step_def)
  qed
  then show ?thesis
    unfolding after_tool_def tool_output_def shrink_memory_def Let_def by (intro last) simp_all
qed

lemma lasts_executing [last]: "lasts t (turn_executing env)"
proof -
  have "ld_threshold d = ld_threshold d0" if "Record digest n p d0 = (status, d)" for digest n p d0 status d
    using that by (auto simp: Record_def record_sig_def Let_def split: if_splits)
  then have "lasting t (w\<lparr>lv_detector := d\<rparr>)"
    if "lasting t v" "lasting t w" "Record digest n p (lv_detector v) = (status, d)" for v w digest n p status d
    using that by (auto simp: lasting_def)
  then show ?thesis
    unfolding turn_executing_def Let_def
    by (intro lasts_get) (auto intro!: last split: prod.split)
qed

lemma lasts_evaluating [last]: "lasts t (turn_evaluating env)"
proof -
  have "lasts t (follow_decision env ev)" for ev :: eval_result
    unfolding follow_decision_def complete_with_def retry_last_def begin_escalation_def replan_def
    by (cases "er_decision ev"; simp) (intro last; simp)+
  then show ?thesis
    unfolding turn_evaluating_def Let_def by (intro last) simp_all
qed

lemma lasts_completing [last]: "lasts t (turn_completing env)"
proof -
  have "lasts t (finish env)" "lasts t (output_invalid env f e)" for f e
    unfolding finish_def output_invalid_def by (intro last | simp)+
  then show ?thesis
    unfolding turn_completing_def by (auto intro!: last split: prod.split)
qed

lemma lasts_loop_turn: "lasts t (loop_turn env)"
  unfolding loop_turn_def turn_of_def turn_init_def
  by (auto intro!: last split: loop_state.split option.split)

text \<open>However a run ends.\<close>

lemma run_turns_lasting:
  "run_turns n env r v = Some (x, r', v') \<Longrightarrow> lasting t v \<Longrightarrow> lasting t v'"
proof (induction n arbitrary: r v)
  case (Suc n)
  obtain y r1 v1 where y: "loop_turn env r v = (y, r1, v1)" by (rule prod_cases3)
  have "lasting t v1"
    using lasts_loop_turn [of t env] Suc.prems(2) y unfolding lasts_def by (metis snd_conv)
  with Suc y show ?case by (auto split: res.splits option.splits)
qed simp

lemma runLoop_lasting:
  assumes "runLoop n env r v = Some (x, r', v')" and "lasting t v"
  shows "lasting t v'"
proof -
  have f: "lasting t (fresh_vars env v)" using assms(2) by (simp add: lasting_def fresh_vars_def)
  have "lasts t (emit env ev)" for ev by (rule last)
  with f have "lasting t (snd (snd (emit env ev r (fresh_vars env v))))" for ev by (simp add: lasts_def)
  with assms(1) show ?thesis
    by (auto simp: runLoop_def Let_def run_turns_lasting [OF _ f] split: if_splits prod.splits)
      (metis snd_conv)
qed

end
