(* ===== verification/Paths.thy ===== *)
theory Paths
  imports Registry
begin

text \<open>
  The functions of package \<open>path/filepath\<close> the framework calls, on Unix, and the tool \<open>skill_view\<close> of
  \<open>skill/view_tool.go\<close>, which reads files under the directory of a skill and under no other. Reading a
  file is a parameter. Symbolic links are not looked through, as in the code.
\<close>

section \<open>\<open>path/filepath\<close>\<close>

definition slash :: char where
  "slash = CHR ''/''"

text \<open>The elements of a path, and of a path that \<open>Clean\<close> has returned.\<close>

definition elements :: "string \<Rightarrow> string list" where
  "elements p = filter (\<lambda>c. c \<noteq> [] \<and> c \<noteq> ''.'') (split_on slash p)"

definition IsAbs :: "string \<Rightarrow> bool" where
  "IsAbs p \<longleftrightarrow> has_prefix [slash] p"

text \<open>The elements read so far, the last one first; \<open>..\<close> takes one away or, on a relative path, stays.\<close>

definition clean_push :: "bool \<Rightarrow> string \<Rightarrow> string list \<Rightarrow> string list" where
  "clean_push rooted c st =
     (if c \<noteq> ''..'' then c # st
      else (case st of
          [] \<Rightarrow> if rooted then [] else [c]
        | t # ts \<Rightarrow> if t = ''..'' then c # st else ts))"

definition clean_elements :: "bool \<Rightarrow> string list \<Rightarrow> string list" where
  "clean_elements rooted cs = rev (fold (clean_push rooted) cs [])"

definition render_path :: "bool \<Rightarrow> string list \<Rightarrow> string" where
  "render_path rooted cs =
     (if rooted then slash # join [slash] cs else if cs = [] then ''.'' else join [slash] cs)"

definition Clean :: "string \<Rightarrow> string" where
  "Clean p = render_path (IsAbs p) (clean_elements (IsAbs p) (elements p))"

definition Join :: "string list \<Rightarrow> string" where
  "Join ps =
     (case dropWhile (\<lambda>p. p = []) ps of [] \<Rightarrow> [] | qs \<Rightarrow> Clean (join [slash] qs))"

fun drop_common :: "string list \<Rightarrow> string list \<Rightarrow> string list \<times> string list" where
  "drop_common (b # bs) (t # ts) = (if b = t then drop_common bs ts else (b # bs, t # ts))"
| "drop_common bs ts = (bs, ts)"

text \<open>\<open>Rel\<close> compares the cleaned paths element by element; the element of \<open>.\<close> is \<open>.\<close> in a target.\<close>

definition Rel :: "string \<Rightarrow> string \<Rightarrow> goerr + string" where
  "Rel basepath targpath =
     (let base = Clean basepath; targ = Clean targpath;
          failed = Inl (ErrNew (''Rel: can'' @ [CHR 0x27] @ ''t make '' @ targpath @ '' relative to '' @ basepath))
      in if base = targ then Inr ''.''
         else if IsAbs base \<noteq> IsAbs targ then failed
         else
           let (bs, ts) = drop_common (elements base) (if targ = ''.'' then [''.''] else elements targ)
           in if bs \<noteq> [] \<and> hd bs = ''..'' then failed
              else Inr (join [slash] (replicate (length bs) ''..'' @ ts)))"

definition Base :: "string \<Rightarrow> string" where
  "Base p =
     (if p = [] then ''.''
      else let q = rev (dropWhile (\<lambda>c. c = slash) (rev p)) in
        if q = [] then [slash] else rev (takeWhile (\<lambda>c. c \<noteq> slash) (rev q)))"

definition Dir :: "string \<Rightarrow> string" where
  "Dir p = Clean (rev (dropWhile (\<lambda>c. c \<noteq> slash) (rev p)))"

definition Ext :: "string \<Rightarrow> string" where
  "Ext p =
     (let name = rev (takeWhile (\<lambda>c. c \<noteq> slash) (rev p)) in
      case last_index_of ''.'' name of None \<Rightarrow> [] | Some i \<Rightarrow> drop i name)"

section \<open>The tool \<open>skill_view\<close>\<close>

definition skill_view_Schema :: schema_property where
  "skill_view_Schema =
     SchemaProperty ''object'' [] []
       (Some [(''path'', SchemaProperty ''string'' ''File path relative to the Skill root directory.'' [] None [] None)])
       [''path''] None"

text \<open>The file that a request reads, or the reason why it reads none.\<close>

definition skill_view_target :: "string \<Rightarrow> params \<Rightarrow> goerr + string \<times> string" where
  "skill_view_target basePath input =
     (case params_get input ''path'' of
        None \<Rightarrow> Inl (ErrNew ''missing path'')
      | Some (VStr relPath) \<Rightarrow>
          if IsAbs relPath then Inl (ErrNew ''path must be relative'')
          else
            let base = Clean basePath; fullPath = Clean (Join [base, relPath]) in
            (case Rel base fullPath of
               Inl _ \<Rightarrow> Inl (ErrNew ''path escapes skill directory'')
             | Inr rel \<Rightarrow>
                 if has_prefix ''..'' rel then Inl (ErrNew ''path escapes skill directory'')
                 else Inr (relPath, fullPath))
      | Some _ \<Rightarrow> Inl (ErrNew ''path must be a string''))"

definition skill_view_Execute ::
    "(string \<Rightarrow> 'w rt \<Rightarrow> (goerr + string) \<times> 'w rt) \<Rightarrow> string \<Rightarrow> params \<Rightarrow> 'w rt \<Rightarrow> tool_result \<times> 'w rt" where
  "skill_view_Execute read_file basePath input r =
     (case skill_view_target basePath input of
        Inl e \<Rightarrow> (([], Some e), r)
      | Inr (relPath, fullPath) \<Rightarrow>
          (case read_file fullPath r of
             (Inl e, r) \<Rightarrow> (([], Some (ErrWrapf (''read '' @ relPath @ '': '') e [])), r)
           | (Inr content, r) \<Rightarrow> ((content, None), r)))"

definition NewSkillViewTool ::
    "(string \<Rightarrow> 'w rt \<Rightarrow> (goerr + string) \<times> 'w rt) \<Rightarrow> string \<Rightarrow> 'w tool" where
  "NewSkillViewTool read_file basePath =
     \<lparr>tool_name = ''skill_view'', tool_description = ''Read a file under the current Skill directory.'',
      tool_schema = Some skill_view_Schema, tool_execute = skill_view_Execute read_file (Clean basePath)\<rparr>"

section \<open>Cleaned paths\<close>

text \<open>An element of a path is not empty, not \<open>.\<close> and has no slash.\<close>

definition element :: "string \<Rightarrow> bool" where
  "element c \<longleftrightarrow> c \<noteq> [] \<and> c \<noteq> ''.'' \<and> slash \<notin> set c"

definition normal :: "string list \<Rightarrow> bool" where
  "normal cs \<longleftrightarrow> (\<exists>n ys. cs = replicate n ''..'' @ ys \<and> ''..'' \<notin> set ys)"

lemma split_on_no_sep: "\<forall>c \<in> set (split_on s p). s \<notin> set c"
  by (induction p) (auto split: list.splits)

lemma split_on_not_Nil [simp]: "split_on s p \<noteq> []"
  by (induction p) (auto split: list.splits)

lemma split_on_plain: "s \<notin> set c \<Longrightarrow> split_on s c = [c]"
  by (induction c) auto

lemma split_on_append: "s \<notin> set c \<Longrightarrow> split_on s (c @ s # p) = c # split_on s p"
  by (induction c) auto

lemma split_on_join: "cs \<noteq> [] \<Longrightarrow> \<forall>c \<in> set cs. s \<notin> set c \<Longrightarrow> split_on s (join [s] cs) = cs"
proof (induction cs)
  case (Cons c cs)
  then show ?case by (cases cs) (simp_all add: split_on_plain split_on_append)
qed simp

lemma elements_element: "\<forall>c \<in> set (elements p). element c"
  using split_on_no_sep by (auto simp: elements_def element_def)

lemma elements_render: "\<forall>c \<in> set cs. element c \<Longrightarrow> elements (render_path rooted cs) = cs"
proof -
  assume a: "\<forall>c \<in> set cs. element c"
  then have f: "filter (\<lambda>c. c \<noteq> [] \<and> c \<noteq> ''.'') cs = cs"
    by (intro filter_True) (auto simp: element_def)
  have j: "split_on slash (join [slash] cs) = cs" if "cs \<noteq> []"
    using a that by (intro split_on_join) (auto simp: element_def)
  show ?thesis
  proof (cases "cs = []")
    case True
    then show ?thesis by (simp add: elements_def render_path_def slash_def)
  next
    case False
    then show ?thesis using j f by (simp add: elements_def render_path_def)
  qed
qed

lemma join_head: "c \<noteq> [] \<Longrightarrow> \<exists>t. join sep (c # cs) = hd c # t"
  by (cases cs; cases c) auto

lemma IsAbs_render: "\<forall>c \<in> set cs. element c \<Longrightarrow> IsAbs (render_path rooted cs) = rooted"
proof (cases cs)
  case (Cons c cs')
  assume "\<forall>c \<in> set cs. element c"
  with Cons have c: "c \<noteq> []" "slash \<notin> set c" by (simp_all add: element_def)
  then have "hd c \<noteq> slash" by (metis list.set_sel(1))
  note c = c(1) this
  with join_head [OF c(1), of "[slash]" cs'] Cons show ?thesis
    by (auto simp: IsAbs_def render_path_def has_prefix_def)
qed (auto simp: IsAbs_def render_path_def has_prefix_def slash_def)

lemma clean_push_element:
  "element c \<Longrightarrow> \<forall>c \<in> set st. element c \<Longrightarrow> \<forall>c \<in> set (clean_push rooted c st). element c"
proof (cases "c = ''..''")
  case True
  assume "element c" and "\<forall>c \<in> set st. element c"
  with True show ?thesis
    by (cases st) (simp_all add: clean_push_def)
qed (simp add: clean_push_def)

lemma clean_elements_element:
  "\<forall>c \<in> set cs. element c \<Longrightarrow> \<forall>c \<in> set (clean_elements rooted cs). element c"
proof -
  have "\<forall>c \<in> set cs. element c \<Longrightarrow> \<forall>c \<in> set st. element c \<Longrightarrow>
      \<forall>c \<in> set (fold (clean_push rooted) cs st). element c" for st
  proof (induction cs arbitrary: st)
    case (Cons c cs)
    have c: "element c" and cs: "\<forall>c \<in> set cs. element c" using Cons.prems(1) by simp_all
    from Cons.IH [OF cs clean_push_element [OF c Cons.prems(2)]] show ?case by simp
  qed simp
  from this [of "[]"] show "\<forall>c \<in> set cs. element c \<Longrightarrow> ?thesis" by (simp add: clean_elements_def)
qed

lemma normal_snoc: "normal cs \<Longrightarrow> c \<noteq> ''..'' \<Longrightarrow> normal (cs @ [c])"
  unfolding normal_def by (elim exE conjE) (rule_tac x = n in exI, auto)

lemma normal_butlast: "normal (cs @ [c]) \<Longrightarrow> c \<noteq> ''..'' \<Longrightarrow> normal cs"
proof -
  assume "normal (cs @ [c])" and c: "c \<noteq> ''..''"
  then obtain n ys where *: "cs @ [c] = replicate n ''..'' @ ys" "''..'' \<notin> set ys"
    unfolding normal_def by blast
  have "ys \<noteq> []"
  proof
    assume "ys = []"
    with * have "last (cs @ [c]) = last (replicate n ''..'')" "n \<noteq> 0" by (auto intro: gr0I)
    with c show False by simp
  qed
  then obtain zs z where "ys = zs @ [z]" by (metis rev_exhaust)
  with * show ?thesis unfolding normal_def by (intro exI [of _ n] exI [of _ zs]) auto
qed

lemma normal_all_up: "normal (cs @ [''..'']) \<Longrightarrow> normal (cs @ [''..'', ''..''])"
proof -
  assume "normal (cs @ [''..''])"
  then obtain n ys where *: "cs @ [''..''] = replicate n ''..'' @ ys" "''..'' \<notin> set ys"
    unfolding normal_def by blast
  then have "ys = []" by (metis append_is_Nil_conv in_set_conv_decomp last_appendR last_in_set last_snoc)
  with * have "cs @ [''..'', ''..''] = replicate (Suc n) ''..''"
    by (metis append.assoc append_Cons append_Nil append_Nil2 replicate_append_same replicate_Suc)
  then show ?thesis unfolding normal_def by (intro exI [of _ "Suc n"] exI [of _ "[]"]) auto
qed

lemma clean_push_normal: "normal (rev st) \<Longrightarrow> normal (rev (clean_push rooted c st))"
proof (cases "c = ''..''")
  case True
  show "normal (rev st) \<Longrightarrow> ?thesis"
  proof (cases st)
    case Nil
    have "normal []" "normal [''..'']"
      unfolding normal_def by (rule exI [of _ 0], simp) (rule exI [of _ 1], simp)
    with True Nil show ?thesis by (simp add: clean_push_def)
  next
    case (Cons t ts)
    assume "normal (rev st)"
    with Cons have n: "normal (rev ts @ [t])" by simp
    show ?thesis
    proof (cases "t = ''..''")
      case True
      with \<open>c = ''..''\<close> Cons normal_all_up n show ?thesis by (simp add: clean_push_def)
    next
      case False
      with \<open>c = ''..''\<close> Cons normal_butlast [OF n] show ?thesis by (simp add: clean_push_def)
    qed
  qed
qed (simp add: clean_push_def normal_snoc)

lemma clean_elements_normal: "normal (clean_elements rooted cs)"
proof -
  have "normal (rev st) \<Longrightarrow> normal (rev (fold (clean_push rooted) cs st))" for st
    by (induction cs arbitrary: st) (simp_all add: clean_push_normal)
  from this [of "[]"] show ?thesis
    unfolding clean_elements_def by (simp add: normal_def)
qed

lemma fold_push_plain: "''..'' \<notin> set cs \<Longrightarrow> fold (clean_push rooted) cs st = rev cs @ st"
  by (induction cs arbitrary: st) (auto simp: clean_push_def)

text \<open>Elements after which nothing is left to simplify are kept.\<close>

definition cleaned :: "bool \<Rightarrow> string list \<Rightarrow> bool" where
  "cleaned rooted cs \<longleftrightarrow> (\<forall>c \<in> set cs. element c) \<and> normal cs \<and> (rooted \<longrightarrow> ''..'' \<notin> set cs)"

lemma fold_push_cleaned: "cleaned rooted cs \<Longrightarrow> fold (clean_push rooted) cs [] = rev cs"
proof -
  assume c: "cleaned rooted cs"
  then obtain n ys where cs: "cs = replicate n ''..'' @ ys" "''..'' \<notin> set ys"
    unfolding cleaned_def normal_def by blast
  have "fold (clean_push False) (replicate n ''..'') st = replicate n ''..'' @ st"
    if "\<forall>c \<in> set st. c = ''..''" for st
    using that
  proof (induction n arbitrary: st)
    case (Suc n)
    have p: "clean_push False ''..'' st = ''..'' # st"
      using Suc.prems by (cases st) (simp_all add: clean_push_def)
    from Suc.IH [of "''..'' # st"] Suc.prems p show ?case
      by (simp add: replicate_app_Cons_same)
  qed simp
  from this [of "[]"] have up: "fold (clean_push False) (replicate n ''..'') [] = replicate n ''..''"
    by simp
  show ?thesis
  proof (cases "n = 0")
    case True
    then show ?thesis using cs fold_push_plain [of ys rooted "[]"] by simp
  next
    case False
    with c cs have "\<not> rooted" unfolding cleaned_def by auto
    with up cs fold_push_plain [of ys False "replicate n ''..''"] show ?thesis by simp
  qed
qed

lemma fold_push_rooted: "''..'' \<notin> set st \<Longrightarrow> ''..'' \<notin> set (fold (clean_push True) cs st)"
proof (induction cs arbitrary: st)
  case (Cons c cs)
  have "''..'' \<notin> set (clean_push True c st)"
    using Cons.prems by (cases st) (auto simp: clean_push_def)
  from Cons.IH [OF this] show ?case by simp
qed simp

lemma cleaned_clean_elements: "\<forall>c \<in> set cs. element c \<Longrightarrow> cleaned rooted (clean_elements rooted cs)"
  using clean_elements_element clean_elements_normal fold_push_rooted [of "[]"]
  by (auto simp: cleaned_def clean_elements_def)

lemma clean_elements_id: "cleaned rooted cs \<Longrightarrow> clean_elements rooted cs = cs"
  by (simp add: clean_elements_def fold_push_cleaned)

text \<open>A cleaned path is determined by whether it is absolute and by its elements.\<close>

lemma Clean_obtain:
  obtains cs where "Clean p = render_path (IsAbs p) cs" and "cleaned (IsAbs p) cs" and "elements (Clean p) = cs"
    and "IsAbs (Clean p) = IsAbs p"
proof
  let ?cs = "clean_elements (IsAbs p) (elements p)"
  show "Clean p = render_path (IsAbs p) ?cs" by (rule Clean_def)
  show c: "cleaned (IsAbs p) ?cs" by (rule cleaned_clean_elements) (rule elements_element)
  then have e: "\<forall>c \<in> set ?cs. element c" by (simp add: cleaned_def)
  show "elements (Clean p) = ?cs" unfolding Clean_def by (rule elements_render [OF e])
  show "IsAbs (Clean p) = IsAbs p" unfolding Clean_def by (rule IsAbs_render [OF e])
qed

lemma Clean_render: "cleaned rooted cs \<Longrightarrow> Clean (render_path rooted cs) = render_path rooted cs"
proof -
  assume c: "cleaned rooted cs"
  then have e: "\<forall>c \<in> set cs. element c" by (simp add: cleaned_def)
  show ?thesis
    unfolding Clean_def IsAbs_render [OF e] elements_render [OF e] clean_elements_id [OF c] ..
qed

lemma Clean_idem [simp]: "Clean (Clean p) = Clean p"
  by (rule Clean_obtain [of p]) (metis Clean_render)

section \<open>Confinement\<close>

lemma drop_common_append: "\<exists>pre. xs = pre @ fst (drop_common xs ys) \<and> ys = pre @ snd (drop_common xs ys)"
proof (induction xs ys rule: drop_common.induct)
  case (1 b bs t ts)
  show ?case
  proof (cases "b = t")
    case True
    with 1 obtain pre where "bs = pre @ fst (drop_common bs ts)" "ts = pre @ snd (drop_common bs ts)" by blast
    with True show ?thesis by (intro exI [of _ "b # pre"]) simp
  qed simp
qed auto

lemma drop_common_prefix: "drop_common xs (xs @ ys) = ([], ys)"
  by (induction xs) (cases ys; simp)+

lemma normal_append: "normal (xs @ y # ys) \<Longrightarrow> y \<noteq> ''..'' \<Longrightarrow> ''..'' \<notin> set (y # ys)"
proof -
  assume "normal (xs @ y # ys)" and y: "y \<noteq> ''..''"
  then obtain n zs where *: "xs @ y # ys = replicate n ''..'' @ zs" "''..'' \<notin> set zs"
    unfolding normal_def by blast
  have "n \<le> length xs"
  proof (rule ccontr)
    assume "\<not> n \<le> length xs"
    then have "(replicate n ''..'' @ zs) ! length xs = ''..''" by (simp add: nth_append)
    with *(1) y show False by (metis nth_append_length)
  qed
  have "y # ys = drop (length xs) (xs @ y # ys)" by simp
  also have "\<dots> = drop (length xs - n) zs"
    unfolding *(1) using \<open>n \<le> length xs\<close> by simp
  finally have "y # ys = drop (length xs - n) zs" .
  with *(2) show ?thesis by (metis in_set_dropD)
qed

lemma join_dotdot: "has_prefix ''..'' (join [slash] (''..'' # cs))"
  by (cases cs) (simp_all add: has_prefix_def)

lemma Rel_inside:
  assumes "Rel base targ = Inr rel" and "\<not> has_prefix ''..'' rel"
  shows "\<exists>ws. elements (Clean targ) = elements (Clean base) @ ws \<and> ''..'' \<notin> set ws \<and>
    IsAbs (Clean targ) = IsAbs (Clean base)"
proof (cases "Clean base = Clean targ")
  case False
  let ?b = "elements (Clean base)"
  let ?t = "if Clean targ = ''.'' then [''.''] else elements (Clean targ)"
  obtain bs ts where d: "drop_common ?b ?t = (bs, ts)" by force
  have abs: "IsAbs (Clean base) = IsAbs (Clean targ)"
    using assms(1) False by (simp add: Rel_def Let_def split: if_splits)
  have rel: "rel = join [slash] (replicate (length bs) ''..'' @ ts)"
    using assms(1) False abs d by (simp add: Rel_def Let_def split: if_splits)
  have bs: "bs = []"
  proof (rule ccontr)
    assume "bs \<noteq> []"
    then obtain k where "replicate (length bs) ''..'' = ''..'' # replicate k ''..''"
      by (metis length_0_conv not0_implies_Suc replicate_Suc)
    with rel join_dotdot assms(2) show False by simp
  qed
  with drop_common_append [of ?b ?t] d have t: "?t = ?b @ ts" by auto
  have dot: "Clean targ \<noteq> ''.''"
  proof
    assume dot: "Clean targ = ''.''"
    with t elements_element [of "Clean base"] have e: "?b = []"
      by (cases ?b) (auto simp: element_def)
    have "IsAbs (Clean targ) = False" unfolding dot by (simp add: IsAbs_def has_prefix_def slash_def)
    with abs have "IsAbs (Clean base) = False" by simp
    with e have "Clean base = ''.''"
      by (metis Clean_obtain render_path_def)
    with dot False show False by simp
  qed
  with t have e: "elements (Clean targ) = ?b @ ts" by simp
  have "''..'' \<notin> set ts"
  proof (cases ts)
    case (Cons w ws)
    have "w \<noteq> ''..''" using assms(2) rel bs Cons join_dotdot by auto
    moreover have "normal (?b @ w # ws)"
      using e Cons by (metis Clean_obtain cleaned_def)
    ultimately show ?thesis using normal_append Cons by metis
  qed simp
  with e abs show ?thesis by blast
next
  case True
  then show ?thesis by (intro exI [of _ "[]"]) simp
qed

lemma Join_two: "b \<noteq> [] \<Longrightarrow> Join [b, p] = Clean (b @ slash # p)"
  by (simp add: Join_def)

lemma Clean_not_Nil: "Clean p \<noteq> []"
proof -
  have "join [slash] (c # cs) \<noteq> []" if "c \<noteq> []" for c cs
    using that by (cases cs) auto
  then show ?thesis
    by (rule_tac Clean_obtain [of p]) (auto simp: render_path_def cleaned_def element_def neq_Nil_conv)
qed

lemma elements_slash: "elements (b @ slash # p) = elements b @ elements p"
proof -
  have "\<exists>c cs. split_on slash b = c # cs" by (metis neq_Nil_conv split_on_not_Nil)
  have "split_on slash (b @ slash # p) = split_on slash b @ split_on slash p"
  proof (induction b)
    case (Cons x b)
    have "\<exists>c cs. split_on slash b = c # cs" by (metis neq_Nil_conv split_on_not_Nil)
    with Cons show ?case by auto
  qed simp
  then show ?thesis by (simp add: elements_def)
qed

lemma IsAbs_append: "b \<noteq> [] \<Longrightarrow> IsAbs (b @ s) = IsAbs b"
  by (cases b) (auto simp: IsAbs_def has_prefix_def)

text \<open>The path of a file below a directory, both cleaned.\<close>

lemma below:
  assumes ws: "elements p = ws" "''..'' \<notin> set ws"
  shows "Clean (Join [Clean b, p]) = render_path (IsAbs b) (elements (Clean b) @ ws)"
    and "\<forall>c \<in> set (elements (Clean b) @ ws). element c"
proof -
  obtain bs where b: "Clean b = render_path (IsAbs b) bs" "cleaned (IsAbs b) bs" "elements (Clean b) = bs"
      "IsAbs (Clean b) = IsAbs b"
    by (rule Clean_obtain)
  show e: "\<forall>c \<in> set (elements (Clean b) @ ws). element c"
    using elements_element ws(1) by auto
  have "Clean (Join [Clean b, p]) = Clean (Clean b @ slash # p)"
    by (simp add: Join_two Clean_not_Nil)
  also have "\<dots> = render_path (IsAbs b) (clean_elements (IsAbs b) (bs @ ws))"
    unfolding Clean_def [of "Clean b @ slash # p"] elements_slash b(3) ws(1) IsAbs_append [OF Clean_not_Nil] b(4) ..
  also have "clean_elements (IsAbs b) (bs @ ws) = bs @ ws"
    using fold_push_cleaned [OF b(2)] fold_push_plain [OF ws(2)] by (simp add: clean_elements_def)
  finally show "Clean (Join [Clean b, p]) = render_path (IsAbs b) (elements (Clean b) @ ws)"
    unfolding b(3) .
qed

lemma Rel_below:
  assumes ws: "elements p = ws" "''..'' \<notin> set ws" "ws \<noteq> []"
  shows "Rel (Clean b) (Clean (Join [Clean b, p])) = Inr (join [slash] ws)"
proof -
  let ?full = "Clean (Join [Clean b, p])"
  note f = below [OF ws(1,2), of b]
  have e: "elements ?full = elements (Clean b) @ ws"
    unfolding f(1) by (rule elements_render) (rule f(2))
  have a: "IsAbs ?full = IsAbs (Clean b)"
    unfolding f(1) IsAbs_render [OF f(2)] by (rule Clean_obtain [of b]) simp
  have "?full \<noteq> ''.''"
  proof
    assume "?full = ''.''"
    then have "elements ?full = []" by (simp add: elements_def slash_def)
    with e ws(3) show False by simp
  qed
  moreover from e ws(3) have "Clean b \<noteq> ?full" by auto
  ultimately show ?thesis
    using e a by (simp add: Rel_def Let_def drop_common_prefix)
qed

lemma has_prefix_dots_join:
  "w \<noteq> [] \<Longrightarrow> has_prefix ''..'' (join [slash] (w # ws)) = has_prefix ''..'' w"
proof (cases w)
  case (Cons x xs)
  then show ?thesis
    by (cases ws; cases xs) (auto simp: has_prefix_def slash_def)
qed simp



end
