(* ===== verification/Loaders.thy ===== *)
theory Loaders
  imports Paths
begin

text \<open>
  \<open>rule/loader.go\<close> and \<open>skill/loader.go\<close>: reading rules and skills from Markdown files with front
  matter. The file system is a tree as package \<open>os\<close> shows it: a file that can or cannot be read, a
  directory whose entries, sorted by name, can or cannot be listed.
\<close>

section \<open>Front matter\<close>

definition bom :: string where
  "bom = [CHR 0xEF, CHR 0xBB, CHR 0xBF]"

text \<open>One line of the front matter.\<close>

definition meta_line :: "string \<Rightarrow> string \<times> bool \<Rightarrow> string \<times> bool" where
  "meta_line line0 x =
     (let line = trim_space line0 in
      if has_prefix ''description:'' line then (trim_space (drop 12 line), snd x)
      else if has_prefix ''alwaysApply:'' line then (fst x, trim_space (drop 12 line) = ''true'')
      else x)"

text \<open>
  The description, whether the rule always applies, and the body. The loader of skills has a copy of
  this function.
\<close>

definition parseFrontmatter :: "string \<Rightarrow> string \<times> bool \<times> string" where
  "parseFrontmatter text =
     (let trimmed = strip [bom] text in
      if \<not> has_prefix (''---'' @ newline) trimmed \<and> \<not> has_prefix (''---'' @ [CHR 0x0D] @ newline) trimmed then
        let line = takeWhile (\<lambda>c. c \<noteq> CHR 0x0A) trimmed
        in (trim_space line, False, trim_space (drop (length line + 1) trimmed))
      else
        let rest = drop 4 trimmed in
        case index_of (newline @ ''---'') rest of
          None \<Rightarrow> ([], False, trim_space trimmed)
        | Some idx \<Rightarrow>
            let (description, always) = fold meta_line (split_on (CHR 0x0A) (take idx rest)) ([], False)
            in (description, always, trim_space (drop (idx + 4) rest)))"

definition skill_parseFrontmatter :: "string \<Rightarrow> string \<times> bool \<times> string" where
  "skill_parseFrontmatter = parseFrontmatter"

section \<open>Files\<close>

datatype fs_node =
    FsFile "goerr + string"
  | FsDir "goerr + (string \<times> fs_node) list"

definition trim_suffix :: "string \<Rightarrow> string \<Rightarrow> string" where
  "trim_suffix s suf =
     (if suf \<noteq> [] \<and> has_prefix (rev suf) (rev s) then take (length s - length suf) s else s)"

definition file_name :: "string \<Rightarrow> string" where
  "file_name path = trim_suffix (Base path) (Ext path)"

definition is_markdown :: "string \<Rightarrow> bool" where
  "is_markdown path \<longleftrightarrow> to_lower (Ext path) = ''.md''"

definition is_a_directory :: goerr where
  "is_a_directory = ErrNew ''is a directory''"

text \<open>\<open>os.ReadFile\<close> of a node.\<close>

definition read_node :: "fs_node \<Rightarrow> goerr + string" where
  "read_node n = (case n of FsFile x \<Rightarrow> x | FsDir _ \<Rightarrow> Inl is_a_directory)"

section \<open>Rules\<close>

definition rule_FromFile :: "string \<Rightarrow> fs_node \<Rightarrow> goerr + rule" where
  "rule_FromFile path n =
     (case read_node n of
        Inl e \<Rightarrow> Inl e
      | Inr text \<Rightarrow>
          (case parseFrontmatter text of (desc, always, body) \<Rightarrow>
            Inr (NewFileRule (file_name path) desc body always)))"

text \<open>
  \<open>filepath.WalkDir\<close> with the function that collects the rules: files in the order of the tree, to the
  first error.
\<close>

fun rule_walk :: "string \<Rightarrow> fs_node \<Rightarrow> rule list \<Rightarrow> goerr + rule list"
  and rule_walk_all :: "string \<Rightarrow> (string \<times> fs_node) list \<Rightarrow> rule list \<Rightarrow> goerr + rule list" where
  "rule_walk path (FsFile x) rules =
     (if is_markdown path then
        (case rule_FromFile path (FsFile x) of Inl e \<Rightarrow> Inl e | Inr r \<Rightarrow> Inr (rules @ [r]))
      else Inr rules)"
| "rule_walk path (FsDir (Inl e)) rules = Inl e"
| "rule_walk path (FsDir (Inr entries)) rules = rule_walk_all path entries rules"
| "rule_walk_all path [] rules = Inr rules"
| "rule_walk_all path ((name, n) # entries) rules =
     (case rule_walk (Join [path, name]) n rules of
        Inl e \<Rightarrow> Inl e
      | Inr rules' \<Rightarrow> rule_walk_all path entries rules')"

text \<open>\<open>node\<close> is what \<open>os.Stat\<close> finds at the path, or why it finds nothing.\<close>

definition rule_LoadDir :: "string \<Rightarrow> goerr + fs_node \<Rightarrow> goerr + rule list" where
  "rule_LoadDir path node = (case node of Inl err \<Rightarrow> Inl err | Inr n \<Rightarrow> rule_walk path n [])"

definition rule_LoadPath :: "string \<Rightarrow> goerr + fs_node \<Rightarrow> goerr + rule list" where
  "rule_LoadPath path node =
     (case node of
        Inl err \<Rightarrow> Inl err
      | Inr (FsDir d) \<Rightarrow> rule_LoadDir path (Inr (FsDir d))
      | Inr (FsFile x) \<Rightarrow>
          if is_markdown path then
            (case rule_FromFile path (FsFile x) of Inl e \<Rightarrow> Inl e | Inr r \<Rightarrow> Inr [r])
          else Inr [])"

section \<open>Skills\<close>

text \<open>The entry \<open>skill.md\<close> of a directory: a directory that cannot be listed may still be looked into.\<close>

definition skill_file :: "fs_node \<Rightarrow> goerr + fs_node" where
  "skill_file n =
     (case n of
        FsDir (Inr entries) \<Rightarrow>
          (case map_of entries ''skill.md'' of None \<Rightarrow> Inl (ErrSentinel ErrNotExist) | Some f \<Rightarrow> Inr f)
      | FsDir (Inl e) \<Rightarrow> Inl e
      | FsFile _ \<Rightarrow> Inl (ErrNew ''not a directory''))"

definition skill_of_text :: "string \<Rightarrow> string \<Rightarrow> string \<Rightarrow> 'w skill_option list \<Rightarrow> 'w skill" where
  "skill_of_text name basePath text opts =
     (case skill_parseFrontmatter text of (desc, always, body) \<Rightarrow>
       NewDirSkill name desc basePath body (skill_WithAlwaysApply always # opts))"

definition skill_FromDir :: "string \<Rightarrow> fs_node \<Rightarrow> 'w skill_option list \<Rightarrow> goerr + 'w skill" where
  "skill_FromDir dirPath n opts =
     (case skill_file n of
        Inl e \<Rightarrow> Inl e
      | Inr f \<Rightarrow>
          (case read_node f of
             Inl e \<Rightarrow> Inl e
           | Inr text \<Rightarrow> Inr (skill_of_text (Base (Clean dirPath)) dirPath text opts)))"

definition skill_FromFile :: "string \<Rightarrow> fs_node \<Rightarrow> 'w skill_option list \<Rightarrow> goerr + 'w skill" where
  "skill_FromFile path n opts =
     (case read_node n of
        Inl e \<Rightarrow> Inl e
      | Inr text \<Rightarrow> Inr (skill_of_text (file_name path) (Dir path) text opts))"

fun skill_scan :: "string \<Rightarrow> (string \<times> fs_node) list \<Rightarrow> goerr + 'w skill list" where
  "skill_scan dirPath [] = Inr []"
| "skill_scan dirPath ((name, FsFile x) # entries) = skill_scan dirPath entries"
| "skill_scan dirPath ((name, FsDir d) # entries) =
     (case skill_file (FsDir d) of
        Inl e \<Rightarrow> if err_is e ErrNotExist then skill_scan dirPath entries else Inl e
      | Inr _ \<Rightarrow>
          (case skill_FromDir (Join [dirPath, name]) (FsDir d) [] of
             Inl e \<Rightarrow> Inl e
           | Inr s \<Rightarrow> (case skill_scan dirPath entries of Inl e \<Rightarrow> Inl e | Inr ss \<Rightarrow> Inr (s # ss))))"

definition skill_LoadDir :: "string \<Rightarrow> goerr + fs_node \<Rightarrow> goerr + 'w skill list" where
  "skill_LoadDir dirPath node =
     (case node of
        Inl err \<Rightarrow> Inl err
      | Inr (FsFile _) \<Rightarrow> Inl (ErrNew ''not a directory'')
      | Inr (FsDir (Inl e)) \<Rightarrow> Inl e
      | Inr (FsDir (Inr entries)) \<Rightarrow> skill_scan dirPath entries)"

definition skill_LoadPath :: "string \<Rightarrow> goerr + fs_node \<Rightarrow> goerr + 'w skill list" where
  "skill_LoadPath path node =
     (case node of
        Inl err \<Rightarrow> Inl err
      | Inr (FsDir d) \<Rightarrow>
          (case skill_file (FsDir d) of
             Inl _ \<Rightarrow> skill_LoadDir path (Inr (FsDir d))
           | Inr _ \<Rightarrow> (case skill_FromDir path (FsDir d) [] of Inl e \<Rightarrow> Inl e | Inr s \<Rightarrow> Inr [s]))
      | Inr (FsFile x) \<Rightarrow>
          if is_markdown path then
            (case skill_FromFile path (FsFile x) [] of Inl e \<Rightarrow> Inl e | Inr s \<Rightarrow> Inr [s])
          else Inr [])"

section \<open>Trimming a text between white space\<close>

lemma has_prefix_simps [simp]:
  "has_prefix [] s"
  "has_prefix (p # ps) (x # s) \<longleftrightarrow> p = x \<and> has_prefix ps s"
  "\<not> has_prefix (p # ps) []"
  by (auto simp: has_prefix_def)

definition ascii_space :: "char \<Rightarrow> bool" where
  "ascii_space c \<longleftrightarrow> c = CHR 0x20 \<or> c = CHR 0x0D \<or> c = CHR 0x0A"

lemma find_space_rune:
  assumes "ascii_space c"
  shows "find (\<lambda>p. p \<noteq> [] \<and> has_prefix p (c # s)) space_runes = Some [c]"
    and "find (\<lambda>p. p \<noteq> [] \<and> has_prefix p (c # s)) (map rev space_runes) = Some [c]"
  using assms unfolding ascii_space_def by (elim disjE; simp add: space_runes_def)+

lemma strip_ascii_space:
  assumes "\<forall>c \<in> set w. ascii_space c"
  shows "strip space_runes (w @ s) = strip space_runes s"
    and "strip (map rev space_runes) (w @ s) = strip (map rev space_runes) s"
proof -
  have "strip space_runes (c # u) = strip space_runes u"
    "strip (map rev space_runes) (c # u) = strip (map rev space_runes) u" if "ascii_space c" for c u
    using find_space_rune [OF that] by (simp_all add: strip.simps [of _ "c # u"])
  with assms show "strip space_runes (w @ s) = strip space_runes s"
      "strip (map rev space_runes) (w @ s) = strip (map rev space_runes) s"
    by (induction w) auto
qed

text \<open>A byte that occurs in no encoding of two or more bytes ends every encoding in front of it.\<close>

definition lone :: "char \<Rightarrow> bool" where
  "lone c \<longleftrightarrow> (\<forall>p \<in> set space_runes. length p > 1 \<longrightarrow> c \<notin> set p)"

lemma lone_ascii_space: "ascii_space c \<Longrightarrow> lone c"
  unfolding ascii_space_def lone_def by (elim disjE; simp add: space_runes_def)

lemma rune_in_front:
  assumes "p \<in> set space_runes" and "s \<noteq> []" and "lone c"
  shows "has_prefix p (s @ c # t) \<Longrightarrow> has_prefix p s"
    and "has_prefix (rev p) (s @ c # t) \<Longrightarrow> has_prefix (rev p) s"
proof -
  have g: "has_prefix q s" if "has_prefix q (s @ c # t)" "length q > 1 \<longrightarrow> c \<notin> set q" for q
  proof (cases "length q \<le> length s")
    case True
    with that(1) show ?thesis by (simp add: has_prefix_def)
  next
    case False
    then obtain k where k: "length q - length s = Suc k" by (metis Suc_diff_Suc not_le)
    with that(1) have q: "q = s @ c # take k t" by (simp add: has_prefix_def)
    with assms(2) have "length q > 1" by (cases s) auto
    with that(2) q show ?thesis by simp
  qed
  show "has_prefix p (s @ c # t) \<Longrightarrow> has_prefix p s"
    using g [of p] assms(1,3) unfolding lone_def by blast
  show "has_prefix (rev p) (s @ c # t) \<Longrightarrow> has_prefix (rev p) s"
    using g [of "rev p"] assms(1,3) unfolding lone_def by auto
qed

definition left_trimmed :: "string \<Rightarrow> bool" where
  "left_trimmed s \<longleftrightarrow> (\<forall>p \<in> set space_runes. \<not> has_prefix p s)"

definition right_trimmed :: "string \<Rightarrow> bool" where
  "right_trimmed s \<longleftrightarrow> (\<forall>p \<in> set space_runes. \<not> has_prefix (rev p) (rev s))"

lemma space_runes_not_Nil: "p \<in> set space_runes \<Longrightarrow> p \<noteq> []"
  by (auto simp: space_runes_def)

lemma strip_left_trimmed: "left_trimmed s \<Longrightarrow> strip space_runes s = s"
  unfolding left_trimmed_def by (rule strip_done) blast

lemma strip_right_trimmed: "right_trimmed s \<Longrightarrow> strip (map rev space_runes) (rev s) = rev s"
  unfolding right_trimmed_def by (rule strip_done) auto

lemma trimmed_sides:
  assumes "trim_space s = s"
  shows "left_trimmed s" and "right_trimmed s"
proof -
  obtain t where t: "s = t @ trim_left s" using strip_suffix unfolding trim_left_def by blast
  obtain u where u: "trim_left s = s @ u" using trim_right_prefix [of "trim_left s"] assms
    unfolding trim_space_def by auto
  have "length (trim_left s) = length s"
    using arg_cong [OF t, of length] arg_cong [OF u, of length] by simp
  with u have l: "trim_left s = s" by simp
  with assms have r: "trim_right s = s" by (simp add: trim_space_def)
  show "left_trimmed s"
    unfolding left_trimmed_def using strip_no_prefix [of _ space_runes s] space_runes_not_Nil l
    by (auto simp: trim_left_def)
  have "strip (map rev space_runes) (rev s) = rev s"
    using arg_cong [OF r, of rev] by (simp add: trim_right_def)
  then show "right_trimmed s"
    unfolding right_trimmed_def
    using strip_no_prefix [of _ "map rev space_runes" "rev s"] space_runes_not_Nil by fastforce
qed

lemma trim_space_pad:
  assumes l: "left_trimmed s" and r: "right_trimmed s"
    and "\<forall>c \<in> set v. ascii_space c" and w: "\<forall>c \<in> set w. ascii_space c"
  shows "trim_space (v @ s @ w) = s"
proof (cases "s = []")
  case True
  have vw: "\<forall>c \<in> set (v @ w). ascii_space c" using assms(3) w by auto
  have n: "strip space_runes [] = []"
    by (rule strip_done) (auto simp: has_prefix_def)
  from strip_ascii_space(1) [OF vw, of "[]"] n have "trim_left (v @ w) = []"
    by (simp add: trim_left_def)
  with True show ?thesis
    using trim_space_Nil by (simp add: trim_space_def trim_left_def n)
next
  case False
  have "left_trimmed (s @ w)"
  proof (cases w)
    case (Cons c cs)
    with w have c: "lone c" by (simp add: lone_ascii_space)
    show ?thesis
      unfolding left_trimmed_def Cons using l rune_in_front(1) [OF _ False c, of _ cs]
      unfolding left_trimmed_def by blast
  qed (simp add: l)
  then have "trim_left (v @ s @ w) = s @ w"
    using assms(3) by (simp add: trim_left_def strip_ascii_space strip_left_trimmed)
  moreover have "\<forall>c \<in> set (rev w). ascii_space c" using w by simp
  ultimately show ?thesis
    using strip_ascii_space(2) [of "rev w" "rev s"] strip_right_trimmed [OF r]
    by (simp add: trim_space_def trim_right_def)
qed

section \<open>Reading a file with front matter\<close>

lemma index_of_skip:
  "c \<notin> set u \<Longrightarrow> index_of (c # s) (u @ v) =
   (case index_of (c # s) v of None \<Rightarrow> None | Some i \<Rightarrow> Some (length u + i))"
  by (induction u) (auto split: option.splits)

lemma index_of_step:
  "\<not> has_prefix s v \<Longrightarrow> index_of (c # s) (c # v) = map_option Suc (index_of (c # s) v)"
  by simp

text \<open>The first line break that three dashes follow, in a front matter of two lines.\<close>

lemma index_of_end:
  assumes "c \<notin> set D" "c \<notin> set A" "\<not> has_prefix s (D @ c # A @ c # s @ e)" "\<not> has_prefix s (A @ c # s @ e)"
    and "pre = [] \<or> pre = [c]"
  shows "index_of (c # s) (pre @ D @ c # A @ c # s @ e) = Some (length (pre @ D @ c # A))"
proof -
  have "index_of (c # s) (c # s @ e) = Some 0" by simp
  then have "index_of (c # s) (A @ c # s @ e) = Some (length A)"
    by (simp add: index_of_skip [OF assms(2)] del: index_of.simps)
  then have "index_of (c # s) (c # A @ c # s @ e) = Some (Suc (length A))"
    by (simp add: index_of_step [OF assms(4)] del: index_of.simps)
  then have "index_of (c # s) (D @ c # A @ c # s @ e) = Some (length D + Suc (length A))"
    by (simp add: index_of_skip [OF assms(1)] del: index_of.simps)
  then show ?thesis
    using assms(5) index_of_step [OF assms(3), of c] by (auto simp del: index_of.simps)
qed

lemma split_on_line: "c \<notin> set u \<Longrightarrow> split_on c (u @ c # v) = u # split_on c v"
  by (induction u) auto

lemma split_on_two_lines:
  "c \<notin> set D \<Longrightarrow> c \<notin> set A \<Longrightarrow>
   split_on c ((if b then [c] else []) @ D @ c # A) = (if b then [[]] else []) @ [D, A]"
  using split_on_line [of c D A] split_on_plain [of c A] by simp

definition line_end :: "bool \<Rightarrow> string" where
  "line_end crlf = (if crlf then [CHR 0x0D, CHR 0x0A] else [CHR 0x0A])"

definition front_matter :: "bool \<Rightarrow> string \<Rightarrow> bool \<Rightarrow> string \<Rightarrow> string" where
  "front_matter crlf description always body =
     ''---'' @ line_end crlf @
     ''description: '' @ description @ line_end crlf @
     ''alwaysApply: '' @ (if always then ''true'' else ''false'') @ line_end crlf @
     ''---'' @ line_end crlf @ body"

lemma description_line:
  assumes "trim_space d = d" and w: "\<forall>c \<in> set w. ascii_space c"
  shows "meta_line (''description: '' @ d @ w) x = (d, snd x)"
proof -
  note d = trimmed_sides [OF assms(1)]
  have sp: "\<forall>c \<in> set '' ''. ascii_space c" by (simp add: ascii_space_def)
  have k: "trim_space ''description:'' = ''description:''" by code_simp
  have "trim_space (''description: '' @ d @ w) = (if d = [] then ''description:'' else ''description: '' @ d)"
  proof (cases "d = []")
    case True
    have "\<forall>c \<in> set ('' '' @ w). ascii_space c" using w by (simp add: ascii_space_def)
    from trim_space_pad [OF trimmed_sides [OF k], of "[]", OF _ this] True show ?thesis by simp
  next
    case False
    have "left_trimmed (''description: '' @ d)"
      by (simp add: left_trimmed_def space_runes_def)
    moreover have "right_trimmed (''description: '' @ d)"
    proof -
      have "lone CHR '' ''" by (rule lone_ascii_space) (simp add: ascii_space_def)
      from rune_in_front(2) [OF _ _ this, of _ "rev d" "rev ''description:''"] d(2) False
      show ?thesis by (auto simp: right_trimmed_def)
    qed
    ultimately have "trim_space ([] @ (''description: '' @ d) @ w) = ''description: '' @ d"
      by (rule trim_space_pad) (use w in auto)
    with False show ?thesis by simp
  qed
  moreover have "trim_space ('' '' @ d @ []) = d"
    by (rule trim_space_pad [OF d sp]) simp
  ultimately show ?thesis
    by (simp add: meta_line_def Let_def)
qed

lemma always_line:
  assumes w: "\<forall>c \<in> set w. ascii_space c"
  shows "meta_line (''alwaysApply: '' @ (if a then ''true'' else ''false'') @ w) x = (fst x, a)"
proof -
  let ?s = "''alwaysApply: '' @ (if a then ''true'' else ''false'')"
  have k: "trim_space ''alwaysApply: true'' = ''alwaysApply: true''"
      "trim_space ''alwaysApply: false'' = ''alwaysApply: false''"
      "trim_space '' true'' = ''true''" "trim_space '' false'' = ''false''" by code_simp+
  from k(1,2) have "trim_space ?s = ?s" by simp
  from trim_space_pad [OF trimmed_sides [OF this], of "[]", OF _ w] have "trim_space (?s @ w) = ?s" by simp
  with k(3,4) show ?thesis by (cases a) (simp_all add: meta_line_def)
qed

lemma line_end_space: "\<forall>c \<in> set (line_end crlf). ascii_space c"
  by (simp add: line_end_def ascii_space_def)

text \<open>
  C34. Reading a file with front matter gives back what was written, with either line ending: any
  description and body that are trimmed, the description on one line. Front matter that is empty is
  not recognised: the whole text becomes the body.
\<close>

theorem frontmatter_roundtrip:
  "(trim_space d = d \<and> CHR 0x0A \<notin> set d \<and> trim_space b = b \<longrightarrow>
      parseFrontmatter (front_matter crlf d a b) = (d, a, b)) \<and>
   parseFrontmatter (''---'' @ newline @ ''---'' @ newline @ ''text'') =
     ([], False, ''---'' @ newline @ ''---'' @ newline @ ''text'')"
proof (intro conjI impI, elim conjE)
  assume d: "trim_space d = d" and nl: "CHR 0x0A \<notin> set d" and b: "trim_space b = b"
  let ?cr = "if crlf then [CHR 0x0D] else []"
  let ?pre = "if crlf then [CHR 0x0A] else []"
  let ?D = "''description: '' @ d @ ?cr" and ?A = "''alwaysApply: '' @ (if a then ''true'' else ''false'') @ ?cr"
  let ?text = "front_matter crlf d a b"
  let ?tail = "line_end crlf @ b"
  have cr: "\<forall>c \<in> set ?cr. ascii_space c" by (simp add: ascii_space_def)
  have bom: "strip [bom] ?text = ?text"
    by (rule strip_done) (simp add: front_matter_def bom_def)
  have fm: "has_prefix (''---'' @ newline) ?text \<or> has_prefix (''---'' @ [CHR 0x0D] @ newline) ?text"
    by (simp add: front_matter_def line_end_def newline_def)
  define X where "X = ?pre @ ?D @ CHR 0x0A # ?A"
  have rest: "drop 4 ?text = X @ CHR 0x0A # ''---'' @ ?tail"
    by (simp add: X_def front_matter_def line_end_def)
  have noD: "CHR 0x0A \<notin> set ?D" using nl by simp
  have noA: "CHR 0x0A \<notin> set ?A" by simp
  have idx: "index_of (newline @ ''---'') (drop 4 ?text) = Some (length X)"
    using index_of_end [OF noD noA, of "''---''" ?tail ?pre] unfolding rest newline_def X_def by simp
  have take: "take (length X) (drop 4 ?text) = X"
    unfolding rest by simp
  have drop: "drop (length X + 4) (drop 4 ?text) = ?tail"
    unfolding rest by simp
  have lines: "split_on (CHR 0x0A) X = (if crlf then [[]] else []) @ [?D, ?A]"
    unfolding X_def by (rule split_on_two_lines [OF noD noA])
  have "meta_line [] x = x" for x by (simp add: meta_line_def)
  then have meta: "fold meta_line ((if crlf then [[]] else []) @ [?D, ?A]) ([], False) = (d, a)"
    by (simp only: fold_append fold_simps comp_def description_line [OF d cr] always_line [OF cr] split: if_split) simp
  have body: "trim_space ?tail = b"
    using trim_space_pad [OF trimmed_sides [OF b] line_end_space, of "[]"] by simp
  show "parseFrontmatter ?text = (d, a, b)"
    unfolding parseFrontmatter_def Let_def bom
    using fm by (simp only: idx option.case take lines meta drop body split simp_thms if_False) auto
next
  show "parseFrontmatter (''---'' @ newline @ ''---'' @ newline @ ''text'') =
     ([], False, ''---'' @ newline @ ''---'' @ newline @ ''text'')"
    by code_simp
qed

lemma frontmatter_roundtrip_witness:
  "parseFrontmatter (front_matter True ''style'' True ''be brief'') = (''style'', True, ''be brief'')"
proof -
  have "trim_space ''style'' = ''style''" "trim_space ''be brief'' = ''be brief''" by code_simp+
  with frontmatter_roundtrip [of "''style''" "''be brief''" True True] show ?thesis by simp
qed

end
