(* ===== verification/Builtin.thy ===== *)
theory Builtin
  imports Loaders
begin

text \<open>
  Package \<open>tool/builtin\<close>: the tools every agent can have. What they do to the world - files, processes -
  is the library's, collected in a record; the tools that look up rules, skills and stored results get
  a function from the agent.
\<close>

record 'w os =
  os_read_file :: "string \<Rightarrow> 'w rt \<Rightarrow> (goerr + string) \<times> 'w rt"
  os_mkdir_all :: "string \<Rightarrow> 'w rt \<Rightarrow> goerr option \<times> 'w rt"
  os_write_file :: "string \<Rightarrow> string \<Rightarrow> 'w rt \<Rightarrow> goerr option \<times> 'w rt"
  os_command :: "string \<Rightarrow> string list \<Rightarrow> string \<Rightarrow> 'w rt \<Rightarrow> tool_result \<times> 'w rt"

definition string_property :: "string \<Rightarrow> schema_property" where
  "string_property d = SchemaProperty ''string'' d [] None [] None"

definition object_schema :: "(string \<times> schema_property) list \<Rightarrow> string list \<Rightarrow> schema_property" where
  "object_schema ps required = SchemaProperty ''object'' [] [] (Some ps) required None"

text \<open>\<open>s, _ := input[k].(string)\<close>\<close>

definition string_input :: "params \<Rightarrow> string \<Rightarrow> string" where
  "string_input input k = zero_string (params_string input k)"

definition tool_error :: "string \<Rightarrow> tool_result" where
  "tool_error t = ([], Some (ErrNew t))"

section \<open>Files (\<open>read.go\<close>, \<open>write.go\<close>)\<close>

definition read_Execute :: "'w os \<Rightarrow> params \<Rightarrow> 'w rt \<Rightarrow> tool_result \<times> 'w rt" where
  "read_Execute os input r =
     (let path = string_input input ''path'' in
      if path = [] then (tool_error ''path is required'', r)
      else (case os_read_file os path r of
          (Inl e, r) \<Rightarrow> (([], Some e), r)
        | (Inr content, r) \<Rightarrow> ((content, None), r)))"

definition ReadTool :: "'w os \<Rightarrow> 'w tool" where
  "ReadTool os =
     \<lparr>tool_name = ''read_file'', tool_description = ''Read the content of a file at the given path.'',
      tool_schema = Some (object_schema [(''path'', string_property ''File path to read.'')] [''path'']),
      tool_execute = read_Execute os\<rparr>"

definition write_Execute :: "'w os \<Rightarrow> params \<Rightarrow> 'w rt \<Rightarrow> tool_result \<times> 'w rt" where
  "write_Execute os input r =
     (let path = string_input input ''path'' in
      if path = [] then (tool_error ''path is required'', r)
      else case params_string input ''content'' of
          None \<Rightarrow> (tool_error ''content is required'', r)
        | Some content \<Rightarrow>
            (case os_mkdir_all os (Dir path) r of
               (Some e, r) \<Rightarrow> (([], Some e), r)
             | (None, r) \<Rightarrow> (case os_write_file os path content r of (e, r) \<Rightarrow> (([], e), r))))"

definition WriteTool :: "'w os \<Rightarrow> 'w tool" where
  "WriteTool os =
     \<lparr>tool_name = ''write_file'',
      tool_description = ''Write content to a file, creating parent directories if they do not exist.'',
      tool_schema = Some (object_schema
        [(''path'', string_property ''Target file path.''), (''content'', string_property ''File content to write.'')]
        [''path'', ''content'']),
      tool_execute = write_Execute os\<rparr>"

section \<open>Commands (\<open>shell.go\<close>)\<close>

fun strings_of :: "gval list \<Rightarrow> string list" where
  "strings_of [] = []"
| "strings_of (VStr s # vs) = s # strings_of vs"
| "strings_of (_ # vs) = strings_of vs"

definition parseStringSlice :: "gval option \<Rightarrow> string list" where
  "parseStringSlice v =
     (case v of
        Some (VStrs ss) \<Rightarrow> ss
      | Some (VList vs) \<Rightarrow> strings_of vs
      | _ \<Rightarrow> [])"

text \<open>The text of a command that failed is returned beside the error.\<close>

definition shell_Execute :: "'w os \<Rightarrow> params \<Rightarrow> 'w rt \<Rightarrow> tool_result \<times> 'w rt" where
  "shell_Execute os input r =
     (let command = trim_space (string_input input ''command'') in
      if command = [] then (tool_error ''command is required'', r)
      else os_command os command (parseStringSlice (params_get input ''args'')) (string_input input ''work_dir'') r)"

definition ShellTool :: "'w os \<Rightarrow> 'w tool" where
  "ShellTool os =
     \<lparr>tool_name = ''shell'',
      tool_description = ''Execute a shell command (optionally in a given working directory). Returns combined stdout and stderr.'',
      tool_schema = Some (object_schema
        [(''command'', string_property ''Command name or absolute path of the executable to run.''),
         (''args'', SchemaProperty ''array'' ''Arguments to pass to the command.'' [] None []
            (Some (string_property []))),
         (''work_dir'', string_property ''Working directory for the command (optional).'')]
        [''command'']),
      tool_execute = shell_Execute os\<rparr>"

section \<open>Rules, skills, stored results\<close>

definition rule_view_Execute ::
    "(string \<Rightarrow> 'w rt \<Rightarrow> tool_result \<times> 'w rt) option \<Rightarrow> params \<Rightarrow> 'w rt \<Rightarrow> tool_result \<times> 'w rt" where
  "rule_view_Execute lookupFn input r =
     (let name = string_input input ''name'' in
      if name = [] then (tool_error ''name is required'', r)
      else case lookupFn of
          None \<Rightarrow> (tool_error ''rule lookup is not configured'', r)
        | Some f \<Rightarrow> f name r)"

definition NewRuleViewTool :: "(string \<Rightarrow> 'w rt \<Rightarrow> tool_result \<times> 'w rt) option \<Rightarrow> 'w tool" where
  "NewRuleViewTool lookupFn =
     \<lparr>tool_name = ''rule_view'', tool_description = ''Fetch the full content of a rule by name.'',
      tool_schema = Some (object_schema [(''name'', string_property ''Name of the rule to fetch.'')] [''name'']),
      tool_execute = rule_view_Execute lookupFn\<rparr>"

definition skill_call_Execute ::
    "(string \<Rightarrow> string \<Rightarrow> 'w rt \<Rightarrow> tool_result \<times> 'w rt) option \<Rightarrow> params \<Rightarrow> 'w rt \<Rightarrow> tool_result \<times> 'w rt" where
  "skill_call_Execute executeFn input r =
     (let name = string_input input ''name'' in
      if name = [] then (tool_error ''name is required'', r)
      else case params_string input ''input'' of
          None \<Rightarrow> (tool_error ''input is required'', r)
        | Some userInput \<Rightarrow>
            (case executeFn of
               None \<Rightarrow> (tool_error ''skill execution is not configured'', r)
             | Some f \<Rightarrow> f name userInput r))"

definition NewSkillCallTool :: "(string \<Rightarrow> string \<Rightarrow> 'w rt \<Rightarrow> tool_result \<times> 'w rt) option \<Rightarrow> 'w tool" where
  "NewSkillCallTool executeFn =
     \<lparr>tool_name = ''skill_call'', tool_description = ''Invoke a Skill by name with the given input text.'',
      tool_schema = Some (object_schema
        [(''name'', string_property ''Name of the Skill to invoke.''),
         (''input'', string_property ''Input text passed to the Skill.'')]
        [''name'', ''input'']),
      tool_execute = skill_call_Execute executeFn\<rparr>"

definition fetch_Execute ::
    "(string \<Rightarrow> 'w rt \<Rightarrow> tool_result \<times> 'w rt) option \<Rightarrow> params \<Rightarrow> 'w rt \<Rightarrow> tool_result \<times> 'w rt" where
  "fetch_Execute loadFn input r =
     (case loadFn of
        None \<Rightarrow> (tool_error ''fetch_full_result: no content store available'', r)
      | Some f \<Rightarrow>
          let id = string_input input ''id'' in
          (case f id r of
             ((_, Some e), r) \<Rightarrow>
               (([], Some (ErrWrapf (''content '' @ go_quote id @ '' not found or expired: '') e [])), r)
           | ((content, None), r) \<Rightarrow> ((content, None), r)))"

definition NewFetchFullResultTool :: "(string \<Rightarrow> 'w rt \<Rightarrow> tool_result \<times> 'w rt) option \<Rightarrow> 'w tool" where
  "NewFetchFullResultTool loadFn =
     \<lparr>tool_name = ''fetch_full_result'',
      tool_description = ''Retrieve the full content of a previously truncated tool result by its persisted ID'',
      tool_schema = Some (object_schema
        [(''id'', string_property ''The persisted content ID from the truncation notice'')] [''id'']),
      tool_execute = fetch_Execute loadFn\<rparr>"

end
