(* ===== verification/SkillContext.thy ===== *)
theory SkillContext
  imports Builtin
begin

text \<open>
  \<open>skill/context.go\<close>: a skill runs in a conversation of its own, with its own tools, for at most
  \<open>MaxIterations\<close> answers of the model. Durations are not modelled.
\<close>

section \<open>The context\<close>

record 'w skill_context =
  sc_skill :: "'w skill"
  sc_messages :: "chat_message list"
  sc_tools :: "'w tool option list"
  sc_max_iter :: int

record skill_log =
  sl_skill_name :: string
  sl_input :: string
  sl_messages :: "chat_message list"
  sl_result :: string
  sl_tokens_used :: int
  sl_steps :: nat

definition NewContext :: "'w skill \<Rightarrow> string \<Rightarrow> string \<Rightarrow> 'w skill_context" where
  "NewContext s userInput instruction =
     \<lparr>sc_skill = s,
      sc_messages = [text_message RoleSystem instruction, text_message RoleUser userInput],
      sc_tools = skill_tools s, sc_max_iter = skill_max_iter s\<rparr>"

text \<open>
  \<open>asToolLike\<close>: a value that is no tool is passed over. The schema found by reflection is whatever
  \<open>Schema\<close> returns, a pointer that may be nil.
\<close>

definition tool_defs :: "'w tool option list \<Rightarrow> tool_def list" where
  "tool_defs ts =
     map (\<lambda>t. \<lparr>td_name = tool_name t, td_description = tool_description t,
               td_parameters = SchemaOf (tool_schema t)\<rparr>) (List.map_filter id ts)"

text \<open>Of two tools with one name the later is called.\<close>

definition tool_by_name :: "'w tool option list \<Rightarrow> string \<Rightarrow> 'w tool option" where
  "tool_by_name ts = map_of (rev (map (\<lambda>t. (tool_name t, t)) (List.map_filter id ts)))"

definition tool_message :: "tool_call \<Rightarrow> string \<Rightarrow> chat_message" where
  "tool_message tc content =
     \<lparr>msg_role = RoleTool, msg_content = content, msg_tool_calls = [], msg_tool_call_id = tc_id tc,
      msg_name = tc_name tc\<rparr>"

text \<open>An error's text replaces whatever text the tool returned with it.\<close>

definition answer_call :: "'w tool option list \<Rightarrow> tool_call \<Rightarrow> 'w rt \<Rightarrow> chat_message \<times> 'w rt" where
  "answer_call ts tc r =
     (case tool_by_name ts (tc_name tc) of
        None \<Rightarrow> (tool_message tc (''unknown tool: '' @ tc_name tc), r)
      | Some t \<Rightarrow>
          (case tool_execute t (case tc_arguments tc of None \<Rightarrow> Some [] | Some m \<Rightarrow> Some m) r of
             ((out, None), r) \<Rightarrow> (tool_message tc out, r)
           | ((_, Some e), r) \<Rightarrow> (tool_message tc (err_text e), r)))"

fun answer_calls :: "'w tool option list \<Rightarrow> tool_call list \<Rightarrow> 'w rt \<Rightarrow> chat_message list \<times> 'w rt" where
  "answer_calls ts [] r = ([], r)"
| "answer_calls ts (tc # tcs) r =
     (case answer_call ts tc r of (m, r) \<Rightarrow>
      case answer_calls ts tcs r of (ms, r) \<Rightarrow> (m # ms, r))"

definition used_tokens :: "usage \<Rightarrow> int" where
  "used_tokens u = (if total_tokens u > 0 then total_tokens u else prompt_tokens u + completion_tokens u)"

text \<open>
  The loop: the steps that are left, the messages, the tokens and the steps so far. It gives the final
  answer and what the log needs. A nil response is dereferenced.
\<close>

fun skill_loop ::
    "'w chat_model \<Rightarrow> 'w tool option list \<Rightarrow> nat \<Rightarrow> chat_message list \<Rightarrow> int \<Rightarrow> nat \<Rightarrow> 'w rt \<Rightarrow>
     (string \<times> chat_message list \<times> int \<times> nat) res \<times> 'w rt" where
  "skill_loop m ts 0 msgs tokens steps r = (Ok ([], msgs, tokens, steps), r)"
| "skill_loop m ts (Suc n) msgs tokens steps r =
     (let opts = (if length (tool_defs ts) > 0 then [WithTools (tool_defs ts)] else []) in
      case cm_generate m r msgs opts of
        (Inl e, r) \<Rightarrow> (Ok (err_text e, msgs, tokens, Suc steps), r)
      | (Inr None, r) \<Rightarrow> (Panic ''nil response'', r)
      | (Inr (Some resp), r) \<Rightarrow>
          let msg = resp_message resp; tokens = tokens + used_tokens (resp_usage resp); msgs = msgs @ [msg] in
          if length (msg_tool_calls msg) > 0 then
            (case answer_calls ts (msg_tool_calls msg) r of (ms, r) \<Rightarrow>
              skill_loop m ts n (msgs @ ms) tokens (Suc steps) r)
          else if msg_content msg \<noteq> [] then (Ok (msg_content msg, msgs, tokens, Suc steps), r)
          else skill_loop m ts n msgs tokens (Suc steps) r)"

definition skill_Run :: "'w skill_context \<Rightarrow> 'w chat_model \<Rightarrow> 'w rt \<Rightarrow> (string \<times> skill_log) res \<times> 'w rt" where
  "skill_Run sc m r =
     (case skill_loop m (sc_tools sc) (nat (sc_max_iter sc)) (sc_messages sc) 0 0 r of
        (Ok (answer, msgs, tokens, steps), r) \<Rightarrow>
          (Ok (answer,
               \<lparr>sl_skill_name = skill_name (sc_skill sc), sl_input = msg_content (msgs ! 1),
                sl_messages = msgs, sl_result = answer, sl_tokens_used = tokens, sl_steps = steps\<rparr>), r)
      | (Err e, r) \<Rightarrow> (Err e, r)
      | (Panic p, r) \<Rightarrow> (Panic p, r))"

section \<open>What a run of a skill is\<close>

text \<open>An answer of the model and the results of its calls, in their order.\<close>

definition skill_turn :: "chat_message list \<Rightarrow> bool" where
  "skill_turn t \<longleftrightarrow>
     (\<exists>m ms. t = m # ms \<and> map msg_tool_call_id ms = map tc_id (msg_tool_calls m) \<and>
             (\<forall>x \<in> set ms. msg_role x = RoleTool \<and> msg_tool_calls x = []))"

text \<open>How a run ends: with the last answer, with the error of the model, or with nothing.\<close>

definition skill_ending :: "nat \<Rightarrow> string \<Rightarrow> nat \<Rightarrow> chat_message list list \<Rightarrow> bool" where
  "skill_ending maxSteps answer steps turns \<longleftrightarrow>
     (\<exists>ts m. turns = ts @ [[m]] \<and> answer = msg_content m \<and> answer \<noteq> [] \<and> msg_tool_calls m = [] \<and>
             steps = length turns) \<or>
     (\<exists>e. answer = err_text e \<and> steps = Suc (length turns)) \<or>
     (answer = [] \<and> steps = length turns \<and> steps = maxSteps)"

lemma answer_calls_turn:
  "answer_calls ts tcs r = (ms, r') \<Longrightarrow>
   map msg_tool_call_id ms = map tc_id tcs \<and> (\<forall>x \<in> set ms. msg_role x = RoleTool \<and> msg_tool_calls x = [])"
proof (induction tcs arbitrary: r ms r')
  case (Cons tc tcs)
  obtain m r1 where m: "answer_call ts tc r = (m, r1)" by force
  obtain ms' r2 where ms': "answer_calls ts tcs r1 = (ms', r2)" by force
  have "msg_tool_call_id m = tc_id tc \<and> msg_role m = RoleTool \<and> msg_tool_calls m = []"
    using m by (auto simp: answer_call_def tool_message_def split: option.splits prod.splits)
  with Cons.IH [OF ms'] Cons.prems m ms' show ?case by auto
qed auto

lemma skill_loop_spec:
  "skill_loop m ts n msgs tokens steps r = (Ok (answer, out, tokens', steps'), r') \<Longrightarrow>
   \<exists>turns. out = msgs @ concat turns \<and> (\<forall>t \<in> set turns. skill_turn t) \<and> steps \<le> steps' \<and>
     steps' - steps \<le> n \<and> skill_ending n answer (steps' - steps) turns"
proof (induction n arbitrary: msgs tokens steps r)
  case 0
  then show ?case by (intro exI [of _ "[]"]) (simp add: skill_ending_def)
next
  case (Suc n)
  let ?opts = "if length (tool_defs ts) > 0 then [WithTools (tool_defs ts)] else []"
  obtain g r1 where g: "cm_generate m r msgs ?opts = (g, r1)" by force
  show ?case
  proof (cases g)
    case (Inl e)
    then show ?thesis
      using Suc.prems g by (intro exI [of _ "[]"]) (auto simp: Let_def skill_ending_def)
  next
    case (Inr x)
    then obtain resp where x: "g = Inr (Some resp)"
      using Suc.prems g by (cases x) (auto simp: Let_def)
    let ?msg = "resp_message resp"
    have more: "\<exists>turns. out = msgs @ concat turns \<and> (\<forall>t \<in> set turns. skill_turn t) \<and> steps \<le> steps' \<and>
        steps' - steps \<le> Suc n \<and> skill_ending (Suc n) answer (steps' - steps) turns"
      if "skill_loop m ts n (msgs @ t) tk (Suc steps) r2 = (Ok (answer, out, tokens', steps'), r')"
        and t: "skill_turn t" for t tk r2
    proof -
      from Suc.IH [OF that(1)] obtain turns where
        i: "out = (msgs @ t) @ concat turns" "\<forall>t \<in> set turns. skill_turn t" "Suc steps \<le> steps'"
          "steps' - Suc steps \<le> n" "skill_ending n answer (steps' - Suc steps) turns"
        by blast
      have "skill_ending (Suc n) answer (steps' - steps) (t # turns)"
        using i(3,5) unfolding skill_ending_def
        by (elim disjE exE conjE) (fastforce simp: Suc_diff_le [symmetric] intro: exI [of _ "t # _"])+
      with i t show ?thesis by (intro exI [of _ "t # turns"]) auto
    qed
    show ?thesis
    proof (cases "msg_tool_calls ?msg")
      case (Cons c cs)
      obtain ms r2 where ms: "answer_calls ts (msg_tool_calls ?msg) r1 = (ms, r2)" by force
      have "skill_turn (?msg # ms)"
        unfolding skill_turn_def using answer_calls_turn [OF ms] by blast
      moreover have "\<exists>tk. skill_loop m ts n (msgs @ ?msg # ms) tk (Suc steps) r2 = (Ok (answer, out, tokens', steps'), r')"
        using Suc.prems g x Cons ms by (auto simp: Let_def)
      ultimately show ?thesis using more by blast
    next
      case Nil
      have t: "skill_turn [?msg]" unfolding skill_turn_def using Nil by simp
      show ?thesis
      proof (cases "msg_content ?msg = []")
        case True
        have "\<exists>tk. skill_loop m ts n (msgs @ [?msg]) tk (Suc steps) r1 = (Ok (answer, out, tokens', steps'), r')"
          using Suc.prems g x Nil True by (auto simp: Let_def)
        with more t show ?thesis by blast
      next
        case False
        then show ?thesis
          using Suc.prems g x Nil t
          by (intro exI [of _ "[[?msg]]"]) (auto simp: Let_def skill_ending_def)
      qed
    qed
  qed
qed

lemma skill_loop_returns:
  "(\<And>r msgs opts. fst (cm_generate m r msgs opts) \<noteq> Inr None) \<Longrightarrow>
   \<exists>x r'. skill_loop m ts n msgs tokens steps r = (Ok x, r')"
proof (induction n arbitrary: msgs tokens steps r)
  case (Suc n)
  let ?opts = "if length (tool_defs ts) > 0 then [WithTools (tool_defs ts)] else []"
  obtain g r1 where g: "cm_generate m r msgs ?opts = (g, r1)" by force
  with Suc.prems [of r msgs ?opts] have "g \<noteq> Inr None" by auto
  then consider e where "g = Inl e" | resp where "g = Inr (Some resp)"
    by (metis option.exhaust sumE)
  then show ?case
  proof cases
    case (2 resp)
    obtain ms r2 where "answer_calls ts (msg_tool_calls (resp_message resp)) r1 = (ms, r2)" by force
    with 2 g Suc.IH [OF Suc.prems] show ?thesis by (auto simp: Let_def)
  qed (use g in \<open>auto simp: Let_def\<close>)
qed auto

text \<open>
  C35. Running a skill ends: it asks the model at most \<open>MaxIterations\<close> times. Its conversation is the
  instruction and the input followed by turns, each an answer of the model and one result for each of
  its calls, in order and under its ID, whatever the tools do. The result is the last answer, the
  text of the model's error, or, when the steps are used up, the empty string. The one thing a
  skill does not survive is a model that returns neither a response nor an error.
\<close>

theorem skill_run_bounded:
  assumes "\<And>r msgs opts. fst (cm_generate m r msgs opts) \<noteq> Inr None"
  shows "\<exists>answer log r' turns.
    skill_Run (NewContext s userInput instruction) m r = (Ok (answer, log), r') \<and>
    sl_result log = answer \<and> sl_input log = userInput \<and> sl_skill_name log = skill_name s \<and>
    int (sl_steps log) \<le> max 0 (skill_max_iter s) \<and>
    sl_messages log = [text_message RoleSystem instruction, text_message RoleUser userInput] @ concat turns \<and>
    (\<forall>t \<in> set turns. skill_turn t) \<and>
    skill_ending (nat (skill_max_iter s)) answer (sl_steps log) turns"
proof -
  let ?msgs = "[text_message RoleSystem instruction, text_message RoleUser userInput]"
  obtain answer out tokens steps r' where
    run: "skill_loop m (skill_tools s) (nat (skill_max_iter s)) ?msgs 0 0 r = (Ok (answer, out, tokens, steps), r')"
    using skill_loop_returns [of m "skill_tools s" "nat (skill_max_iter s)" ?msgs 0 0 r] assms by (metis prod_cases4)
  from skill_loop_spec [OF run] obtain turns where
    t: "out = ?msgs @ concat turns" "\<forall>t \<in> set turns. skill_turn t" "steps \<le> nat (skill_max_iter s)"
      "skill_ending (nat (skill_max_iter s)) answer steps turns"
    by auto
  have "int steps \<le> max 0 (skill_max_iter s)" using t(3) by linarith
  with run t show ?thesis
    by (simp add: skill_Run_def NewContext_def) blast
qed

definition silent_model :: "'w chat_model" where
  "silent_model =
     \<lparr>cm_generate = (\<lambda>r msgs opts.
        (Inr (Some \<lparr>resp_message = text_message RoleAssistant (if length msgs > 3 then ''ok'' else []),
                    resp_usage = \<lparr>prompt_tokens = 2, completion_tokens = 1, total_tokens = 0\<rparr>\<rparr>), r)),
      cm_stream = (\<lambda>r msgs opts. (Inl (ErrSentinel ErrStreamNotSupported), r))\<rparr>"

lemma skill_run_bounded_witness:
  "\<exists>log r'. skill_Run (NewContext (NewDirSkill ''s'' [] [] [] []) ''go'' ''help'') silent_model
       \<lparr>rt_ctx = Background, rt_world = ()\<rparr> = (Ok (''ok'', log), r') \<and>
     sl_steps log = 3 \<and> sl_tokens_used log = 9 \<and> int (sl_steps log) \<le> 10"
proof -
  have "\<And>r msgs opts. fst (cm_generate (silent_model :: unit chat_model) r msgs opts) \<noteq> Inr None"
    by (simp add: silent_model_def)
  from skill_run_bounded [OF this, of "NewDirSkill ''s'' [] [] [] []" "''go''" "''help''" "\<lparr>rt_ctx = Background, rt_world = ()\<rparr>"]
  have "\<exists>answer log r'. skill_Run (NewContext (NewDirSkill ''s'' [] [] [] []) ''go'' ''help'') silent_model
       \<lparr>rt_ctx = Background, rt_world = ()\<rparr> = (Ok (answer, log), r') \<and> int (sl_steps log) \<le> 10"
    by (auto simp: NewDirSkill_def)
  moreover have "\<exists>log r'. skill_Run (NewContext (NewDirSkill ''s'' [] [] [] []) ''go'' ''help'') silent_model
       \<lparr>rt_ctx = Background, rt_world = ()\<rparr> = (Ok (''ok'', log), r') \<and> sl_steps log = 3 \<and> sl_tokens_used log = 9"
    by (simp add: skill_Run_def NewContext_def NewDirSkill_def silent_model_def tool_defs_def used_tokens_def
        List.map_filter_def numeral_eq_Suc Let_def)
  ultimately show ?thesis by auto
qed

end
