(* ===== verification/Prompt.thy ===== *)
theory Prompt
  imports Json
begin

text \<open>
  Package \<open>prompt\<close>: the default system prompts, the blocks and catalogues that show rules and skills
  to the model, the builder that puts a system prompt together, and the register of templates.
\<close>

section \<open>Default prompts (\<open>defaults.go\<close>)\<close>

definition DefaultReActSystemPrompt :: string where
  "DefaultReActSystemPrompt = join newline
    [''You are an autonomous AI agent operating in a ReAct (Reason + Act) loop. You solve tasks by iteratively reasoning about the current situation, taking a single action, observing the result, and repeating until the task is complete.'',
     [],
     ''<core_behavior>'',
     ''1. THINK before each action. Briefly state what you know, what you still need, and why you are choosing the next action.'',
     ''2. ACT by calling exactly one tool per turn. Choose the tool that makes the most progress toward the goal.'',
     ''3. OBSERVE the tool result. If it succeeded, plan the next step. If it failed, diagnose the error and adapt.'',
     ''4. ANSWER only when you have gathered enough information to fully address the user'' @ [CHR 0x27] @ ''s request. Provide a concise, direct final answer in plain text '' @ [CHR 0xE2, CHR 0x80, CHR 0x94] @ '' do not wrap it in tool calls.'',
     ''</core_behavior>'',
     [],
     ''<tool_use_guidelines>'',
     ''- Always supply required parameters. Infer reasonable defaults from context when optional parameters are missing.'',
     ''- If a tool returns an error, do NOT retry the exact same call blindly. Analyze the error, adjust parameters or try an alternative approach.'',
     ''- When multiple tools could work, prefer the most specific one. Avoid unnecessary exploratory calls.'',
     ''- If you need information that no available tool can provide, state what is missing and ask the user.'',
     ''</tool_use_guidelines>'',
     [],
     ''<output_quality>'',
     ''- Be concise. Avoid filler phrases like '' @ [quote_char] @ ''Sure, I'' @ [CHR 0x27] @ ''d be happy to help'' @ [quote_char] @ '' or '' @ [quote_char] @ ''Let me think about this.'' @ [quote_char],
     ''- Structure complex answers with clear sections or bullet points when appropriate.'',
     ''- If the task is ambiguous, clarify with the user rather than making risky assumptions.'',
     ''- When reporting results, include relevant specifics (numbers, names, paths) rather than vague summaries.'',
     ''</output_quality>'',
     [],
     ''<error_handling>'',
     ''- If you detect you are stuck in a loop (repeating the same action), stop and explain the situation to the user.'',
     ''- If a task is impossible with the available tools, say so clearly and suggest alternatives.'',
     ''- Never fabricate tool outputs or pretend a tool call succeeded when it did not.'',
     ''</error_handling>'']"

definition DefaultPlanAndSolveSystemPrompt :: string where
  "DefaultPlanAndSolveSystemPrompt = join newline
    [''You are an autonomous AI agent operating in Plan-and-Solve mode. You tackle complex tasks by first creating an explicit, ordered execution plan, then carrying out each step methodically.'',
     [],
     ''<planning_phase>'',
     ''1. ANALYZE the user'' @ [CHR 0x27] @ ''s request. Identify the goal, constraints, and required information.'',
     ''2. DECOMPOSE the task into a numbered sequence of concrete, actionable steps. Each step should map to exactly one tool call, a clarifying question, or a final answer.'',
     ''3. ORDER steps so that dependencies are resolved before dependent steps execute.'',
     ''4. Keep the plan as short as possible '' @ [CHR 0xE2, CHR 0x80, CHR 0x94] @ '' avoid unnecessary intermediate steps.'',
     ''</planning_phase>'',
     [],
     ''<execution_phase>'',
     ''1. Execute steps one at a time in order. For each step, call the designated tool with correct parameters.'',
     ''2. After each step completes, verify the result matches expectations before moving to the next step.'',
     ''3. If a step fails or produces unexpected output, decide whether to:'',
     ''   a. Retry with adjusted parameters'',
     ''   b. Insert a corrective step'',
     ''   c. Replan the remaining steps based on new information'',
     ''4. Track progress explicitly: note which steps are done, which are pending, and any deviations from the original plan.'',
     ''</execution_phase>'',
     [],
     ''<replanning>'',
     ''- If the situation has changed significantly (new information, unexpected errors, user clarification), rewrite the remaining plan rather than forcing the original.'',
     ''- When replanning, preserve completed work '' @ [CHR 0xE2, CHR 0x80, CHR 0x94] @ '' do not re-execute successful steps.'',
     ''- Explain briefly why you are replanning so the user can follow your reasoning.'',
     ''</replanning>'',
     [],
     ''<tool_use_guidelines>'',
     ''- Always supply required parameters. Infer reasonable defaults from context when optional parameters are missing.'',
     ''- If a tool returns an error, do NOT retry the exact same call blindly. Analyze the error, adjust parameters or try an alternative approach.'',
     ''- When multiple tools could work, prefer the most specific one. Avoid unnecessary exploratory calls.'',
     ''- If you need information that no available tool can provide, state what is missing and ask the user.'',
     ''</tool_use_guidelines>'',
     [],
     ''<output_quality>'',
     ''- Be concise. Avoid filler phrases.'',
     ''- Structure complex answers with clear sections or bullet points when appropriate.'',
     ''- If the task is ambiguous, clarify with the user rather than making risky assumptions.'',
     ''- When reporting results, include relevant specifics (numbers, names, paths) rather than vague summaries.'',
     ''- At the end, summarize what was accomplished and highlight anything that needs the user'' @ [CHR 0x27] @ ''s attention.'',
     ''</output_quality>'',
     [],
     ''<error_handling>'',
     ''- If you detect you are stuck in a loop (repeating the same action), stop and explain the situation to the user.'',
     ''- If a task is impossible with the available tools, say so clearly and suggest alternatives.'',
     ''- Never fabricate tool outputs or pretend a tool call succeeded when it did not.'',
     ''</error_handling>'']"

section \<open>Rules and skills (\<open>catalog.go\<close>)\<close>

record rule_summary =
  rs_name :: string
  rs_description :: string
  rs_always_apply :: bool
  rs_content :: string

record skill_summary =
  ss_name :: string
  ss_description :: string
  ss_always_apply :: bool
  ss_content :: string

definition BuildAlwaysOnRules :: "rule_summary list \<Rightarrow> string" where
  "BuildAlwaysOnRules rules =
     (let on = filter rs_always_apply rules in
      if on = [] then []
      else ''<rules>'' @ newline @
        concat (map (\<lambda>r. ''<rule name='' @ go_quote (rs_name r) @ ''>'' @ newline @ rs_content r @ newline @
                         ''</rule>'' @ newline) on) @
        ''</rules>'')"

definition BuildRuleCatalog :: "rule_summary list \<Rightarrow> string" where
  "BuildRuleCatalog rules =
     (let items = filter (\<lambda>r. \<not> rs_always_apply r) rules in
      if items = [] then []
      else ''<available_rules>'' @ newline @
        ''Use the rule_view tool to read the full content of a rule when needed.'' @ newline @
        concat (map (\<lambda>r. ''  <rule name='' @ go_quote (rs_name r) @ ''>'' @ rs_description r @ ''</rule>'' @
                         newline) items) @
        ''</available_rules>'')"

definition BuildAlwaysOnSkills :: "skill_summary list \<Rightarrow> string" where
  "BuildAlwaysOnSkills skills =
     (let on = filter ss_always_apply skills in
      if on = [] then []
      else ''<skills>'' @ newline @
        concat (map (\<lambda>s. ''<skill name='' @ go_quote (ss_name s) @ ''>'' @ newline @ ss_content s @ newline @
                         ''</skill>'' @ newline) on) @
        ''</skills>'')"

definition BuildSkillCatalog :: "skill_summary list \<Rightarrow> string" where
  "BuildSkillCatalog skills =
     (let items = filter (\<lambda>s. \<not> ss_always_apply s) skills in
      if items = [] then []
      else ''<available_skills>'' @ newline @
        ''Use the skill_call tool to invoke a skill when needed.'' @ newline @
        concat (map (\<lambda>s. ''  <skill name='' @ go_quote (ss_name s) @ ''>'' @ ss_description s @ ''</skill>'' @
                         newline) items) @
        ''</available_skills>'')"

section \<open>Templates (\<open>template.go\<close>)\<close>

text \<open>
  Parsing and executing a template is \<open>text/template\<close>: a template is what \<open>parse\<close> makes of its text,
  a function of the data. The engine is the map from names to templates.
\<close>

type_synonym 'd template = "'d \<Rightarrow> goerr + string"

type_synonym 'd template_engine = "string \<rightharpoonup> 'd template"

definition NewTemplateEngine :: "'d template_engine" where
  "NewTemplateEngine = Map.empty"

definition template_Register ::
    "(string \<Rightarrow> string \<Rightarrow> goerr + 'd template) \<Rightarrow> string \<Rightarrow> string \<Rightarrow> 'd template_engine \<Rightarrow>
     goerr option \<times> 'd template_engine" where
  "template_Register parse name tmpl e =
     (if name = [] then (Some (ErrNew ''prompt: empty template name''), e)
      else (case parse name tmpl of
          Inl err \<Rightarrow> (Some err, e)
        | Inr t \<Rightarrow> (None, e(name \<mapsto> t))))"

definition template_Render :: "string \<Rightarrow> 'd \<Rightarrow> 'd template_engine \<Rightarrow> goerr + string" where
  "template_Render name d e =
     (case e name of
        None \<Rightarrow> Inl (ErrNew (''prompt: template '' @ go_quote name @ '' not registered''))
      | Some t \<Rightarrow> t d)"

section \<open>The builder (\<open>builder.go\<close>)\<close>

record prompt_section =
  sec_name :: string
  sec_content :: string
  sec_priority :: int

text \<open>The builder also holds an engine, which nothing reads; \<open>pb_engine\<close> says whether one was set.\<close>

record prompt_builder =
  pb_base :: string
  pb_rules :: "rule_summary list"
  pb_skills :: "skill_summary list"
  pb_sections :: "prompt_section list"
  pb_engine :: bool

definition NewBuilder :: "string \<Rightarrow> prompt_builder" where
  "NewBuilder base =
     \<lparr>pb_base = base, pb_rules = [], pb_skills = [], pb_sections = [], pb_engine = False\<rparr>"

definition WithRules :: "rule_summary list \<Rightarrow> prompt_builder \<Rightarrow> prompt_builder" where
  "WithRules rules b = b\<lparr>pb_rules := rules\<rparr>"

definition WithSkills :: "skill_summary list \<Rightarrow> prompt_builder \<Rightarrow> prompt_builder" where
  "WithSkills skills b = b\<lparr>pb_skills := skills\<rparr>"

definition AddSection :: "string \<Rightarrow> string \<Rightarrow> int \<Rightarrow> prompt_builder \<Rightarrow> prompt_builder" where
  "AddSection name content priority b =
     b\<lparr>pb_sections := pb_sections b @ [\<lparr>sec_name = name, sec_content = content, sec_priority = priority\<rparr>]\<rparr>"

definition WithTemplateEngine :: "bool \<Rightarrow> prompt_builder \<Rightarrow> prompt_builder" where
  "WithTemplateEngine e b = b\<lparr>pb_engine := e\<rparr>"

text \<open>
  \<open>sort.Slice\<close> is an insertion sort, which is stable, for up to twelve sections. Of more sections it
  may exchange those with equal priorities, which this definition does not.
\<close>

definition sort_sections :: "prompt_section list \<Rightarrow> prompt_section list" where
  "sort_sections secs = sort_key sec_priority secs"

definition nonempty :: "string \<Rightarrow> string list" where
  "nonempty s = (if s = [] then [] else [s])"

text \<open>The text, and the builder with its sections sorted in place.\<close>

definition Build :: "prompt_builder \<Rightarrow> string \<times> prompt_builder" where
  "Build b =
     (let secs = sort_sections (pb_sections b) in
      (join (newline @ newline)
        (nonempty (pb_base b) @
         nonempty (BuildAlwaysOnRules (pb_rules b)) @ nonempty (BuildRuleCatalog (pb_rules b)) @
         nonempty (BuildAlwaysOnSkills (pb_skills b)) @ nonempty (BuildSkillCatalog (pb_skills b)) @
         map sec_content secs),
       b\<lparr>pb_sections := secs\<rparr>))"

text \<open>Building again gives the same text and leaves the builder as it is.\<close>

lemma Build_again: "Build (snd (Build b)) = Build b"
proof -
  have "sort_sections (sort_sections s) = sort_sections s" for s
    unfolding sort_sections_def by (rule sort_key_id_if_sorted) simp
  then show ?thesis by (simp add: Build_def Let_def)
qed

end
