(* ===== verification/OutputHook.thy ===== *)
theory OutputHook
  imports Evaluator
begin

text \<open>
  \<open>hook/outputhook/output_controller.go\<close> and \<open>StructuredValidationError\<close> of \<open>errors/errors.go\<close>: taking
  a value of a given Go type out of a model's answer. Decoding JSON into the user's type, reading a
  floating-point number, the repair of JSON (\<open>hujson\<close>) and the validator of struct tags are
  parameters.
\<close>

section \<open>The target\<close>

datatype out_kind =
    OutStruct | OutSlice | OutString | OutInt | OutFloat64 | OutBool
  | OutOtherKind \<comment> \<open>maps, pointers, other numbers\<close>

text \<open>What the validator says of a value: it passes, it breaks rules, or it cannot be validated.\<close>

datatype validation = Valid | Violations "field_violation list" | NotValidated string

record 'v output_controller =
  oc_kind :: out_kind
  oc_type_text :: string
  oc_unmarshal :: "string \<Rightarrow> goerr + 'v"
  oc_repair :: "string \<Rightarrow> goerr + string"
  oc_validate :: "'v \<Rightarrow> validation"
  oc_of_string :: "string \<Rightarrow> 'v"
  oc_of_int :: "int \<Rightarrow> 'v"
  oc_of_bool :: "bool \<Rightarrow> 'v"
  oc_parse_float :: "string \<Rightarrow> 'v option"

section \<open>Extraction\<close>

definition between :: "string \<Rightarrow> string \<Rightarrow> string \<Rightarrow> string" where
  "between opening closing s =
     (case (index_of opening s, last_index_of closing s) of
        (Some i, Some j) \<Rightarrow> if j > i then take (j + 1 - i) (drop i s) else s
      | _ \<Rightarrow> s)"

text \<open>
  \<open>codeBlock.FindStringSubmatch\<close>: the text between the first fence (and \<open>json\<close> after it) and the next
  one. White space at its ends does not matter, the caller trims it.
\<close>

definition code_block :: "string \<Rightarrow> string option" where
  "code_block input =
     (case index_of fence input of
        None \<Rightarrow> None
      | Some i \<Rightarrow>
          let rest = drop (i + 3) input;
              rest = (if has_prefix ''json'' rest then drop 4 rest else rest)
          in map_option (\<lambda>j. take j rest) (index_of fence rest))"

definition extractContent :: "out_kind \<Rightarrow> string \<Rightarrow> string" where
  "extractContent k input =
     (case code_block input of
        Some m \<Rightarrow> trim_space m
      | None \<Rightarrow>
          (case k of
             OutStruct \<Rightarrow> between ''{'' ''}'' input
           | OutSlice \<Rightarrow> between ''['' '']'' input
           | _ \<Rightarrow> input))"

section \<open>Values of basic types\<close>

definition trim_quotes :: "string \<Rightarrow> string" where
  "trim_quotes s =
     rev (dropWhile (\<lambda>c. c = quote_char) (rev (dropWhile (\<lambda>c. c = quote_char) s)))"

text \<open>\<open>strconv.ParseInt(s, 10, 64)\<close> and \<open>strconv.ParseBool\<close>.\<close>

definition ParseInt :: "string \<Rightarrow> int option" where
  "ParseInt s =
     (if has_prefix ''+'' s then (if has_prefix ''-'' (drop 1 s) then None else text_int (drop 1 s))
      else text_int s)"

definition ParseBool :: "string \<Rightarrow> bool option" where
  "ParseBool s =
     (if s \<in> set [''1'', ''t'', ''T'', ''true'', ''TRUE'', ''True''] then Some True
      else if s \<in> set [''0'', ''f'', ''F'', ''false'', ''FALSE'', ''False''] then Some False
      else None)"

definition fallbackBasicTypes :: "'v output_controller \<Rightarrow> string \<Rightarrow> 'v option" where
  "fallbackBasicTypes oc content =
     (let clean = trim_quotes content in
      case oc_kind oc of
        OutString \<Rightarrow> Some (oc_of_string oc content)
      | OutInt \<Rightarrow> map_option (oc_of_int oc) (ParseInt clean)
      | OutFloat64 \<Rightarrow> oc_parse_float oc clean
      | OutBool \<Rightarrow> map_option (oc_of_bool oc) (ParseBool (to_lower clean))
      | _ \<Rightarrow> None)"

section \<open>Errors\<close>

definition buildStructuredError ::
    "'v output_controller \<Rightarrow> string \<Rightarrow> field_violation list \<Rightarrow> structured_validation_error" where
  "buildStructuredError oc message violations =
     \<lparr>sve_message = message, sve_expected_schema = oc_type_text oc, sve_violations = violations,
      sve_hint = ''Please output valid JSON strictly matching the expected schema. Pay attention to required fields, field types, and enum constraints.''\<rparr>"

definition validationErrorsToStructured ::
    "'v output_controller \<Rightarrow> validation \<Rightarrow> structured_validation_error option" where
  "validationErrorsToStructured oc v =
     (case v of
        Valid \<Rightarrow> None
      | Violations vs \<Rightarrow> Some (buildStructuredError oc ''schema validation failed'' vs)
      | NotValidated t \<Rightarrow> Some (buildStructuredError oc t
          [\<lparr>fv_field = ''validation'', fv_rule = [], fv_expected = [], fv_actual = [], fv_message = t\<rparr>]))"

text \<open>\<open>FormatForModel\<close>: the error as indented JSON.\<close>

definition violation_document :: "field_violation \<Rightarrow> gval" where
  "violation_document v =
     VMap [(''field'', VStr (fv_field v)), (''rule'', VStr (fv_rule v)), (''expected'', VStr (fv_expected v)),
           (''actual'', VStr (fv_actual v)), (''message'', VStr (fv_message v))]"

definition FormatForModel :: "structured_validation_error \<Rightarrow> string" where
  "FormatForModel e =
     pretty [] (VMap [(''message'', VStr (sve_message e)), (''expected_schema'', VStr (sve_expected_schema e)),
       (''violations'', VList (map violation_document (sve_violations e))), (''hint'', VStr (sve_hint e))])"

section \<open>The pipeline\<close>

definition decode_output :: "'v output_controller \<Rightarrow> string \<Rightarrow> goerr + 'v" where
  "decode_output oc content =
     (let bytes = (if has_prefix ''{'' content \<or> has_prefix ''['' content
                   then (case oc_repair oc content of Inl _ \<Rightarrow> content | Inr b \<Rightarrow> b) else content)
      in case oc_unmarshal oc bytes of
           Inr v \<Rightarrow> Inr v
         | Inl e \<Rightarrow>
             (case fallbackBasicTypes oc content of
                Some v \<Rightarrow> Inr v
              | None \<Rightarrow> Inl (ErrStructured (buildStructuredError oc (''JSON parsing failed: '' @ err_text e)
                  [\<lparr>fv_field = ''parse_error'', fv_rule = [], fv_expected = [], fv_actual = content,
                    fv_message = err_text e\<rparr>]))))"

text \<open>
  A slice is handed to the validator of structs, which refuses whatever is not a struct; its answer is
  the text \<open>validator: (nil <type>)\<close> or \<open>validator: <type>\<close>, here \<open>not_a_struct\<close>.
\<close>

definition ValidateOutput :: "string \<Rightarrow> 'v output_controller \<Rightarrow> string \<Rightarrow> goerr + 'v" where
  "ValidateOutput not_a_struct oc output =
     (let raw = trim_space output in
      if raw = [] then Inl (ErrNew ''input text is empty'')
      else case decode_output oc (extractContent (oc_kind oc) raw) of
          Inl e \<Rightarrow> Inl e
        | Inr v \<Rightarrow>
            (case validationErrorsToStructured oc
               (case oc_kind oc of
                  OutStruct \<Rightarrow> oc_validate oc v
                | OutSlice \<Rightarrow> NotValidated not_a_struct
                | _ \<Rightarrow> Valid) of
               None \<Rightarrow> Inr v
             | Some s \<Rightarrow> Inl (ErrStructured s)))"

text \<open>\<open>validateFinalOutput\<close> of \<open>agent/agent.go\<close>: what the model is told and the error.\<close>

definition validateFinalOutput :: "string \<Rightarrow> 'v output_controller option \<Rightarrow> string \<Rightarrow> string \<times> goerr option" where
  "validateFinalOutput not_a_struct schema answer =
     (case schema of
        None \<Rightarrow> ([], None)
      | Some oc \<Rightarrow>
          (case ValidateOutput not_a_struct oc answer of
             Inr _ \<Rightarrow> ([], None)
           | Inl e \<Rightarrow>
               (case as_structured e of
                  Some s \<Rightarrow> (FormatForModel s, Some e)
                | None \<Rightarrow> (err_text e, Some e))))"

text \<open>No answer satisfies a schema that is a slice.\<close>

lemma slice_never_valid:
  assumes "oc_kind oc = OutSlice"
  shows "snd (validateFinalOutput t (Some oc) answer) \<noteq> None"
proof -
  have "\<exists>e. ValidateOutput t oc answer = Inl e"
    using assms
    by (auto simp: ValidateOutput_def Let_def validationErrorsToStructured_def split: sum.splits)
  then show ?thesis
    by (auto simp: validateFinalOutput_def split: option.splits)
qed

text \<open>The model is told something exactly when there is an error.\<close>

lemma validateFinalOutput_told:
  assumes "\<And>e. ValidateOutput t oc answer = Inl e \<Longrightarrow> err_text e \<noteq> []"
  shows "fst (validateFinalOutput t (Some oc) answer) = [] \<longleftrightarrow> snd (validateFinalOutput t (Some oc) answer) = None"
proof -
  have "FormatForModel s \<noteq> []" for s
    by (simp add: FormatForModel_def json_block_def)
  then show ?thesis
    using assms by (auto simp: validateFinalOutput_def split: sum.splits option.splits)
qed

end
