(* ===== verification/Agent.thy ===== *)
theory Agent
  imports LoopProofs SkillContext Prompt OutputHook
begin

text \<open>
  \<open>agent/agent.go\<close>, \<open>agent/option.go\<close> and \<open>agent/session.go\<close>: the agent, which holds what all
  sessions share, the options it is built from, its sessions, and how a session runs the loop with
  what the agent and the session have. Calls of the agent are modelled one after the other.
\<close>

section \<open>Values of interface types\<close>

text \<open>
  A memory and a content store with their operations. The framework's own are the defaults, others
  come from outside; \<open>'m\<close> and \<open>'c\<close> are the states of those.
\<close>

record ('w, 'm) memory_object =
  mo_ops :: "('w, 'm) memory_ops"
  mo_state :: 'm

record ('w, 'c) contents_object =
  co_ops :: "('w, 'c) content_store_ops"
  co_state :: "'c option"

type_synonym 'm any_memory = "'m + inmem_store buffer_memory"

type_synonym 'c any_contents = "'c + content_map"

definition either_op :: "('w, 'a, 'x) op \<Rightarrow> ('w, 'b, 'x) op \<Rightarrow> ('w, 'a + 'b, 'x) op" where
  "either_op f g r s =
     (case s of
        Inl a \<Rightarrow> (case f r a of (x, r, a) \<Rightarrow> (x, r, Inl a))
      | Inr b \<Rightarrow> (case g r b of (x, r, b) \<Rightarrow> (x, r, Inr b)))"

definition either_memory :: "('w, 'm) memory_ops \<Rightarrow> ('w, 'm any_memory) memory_ops" where
  "either_memory ops =
     (let own = buffer_ops inmem_ops in
      \<lparr>mem_messages = either_op (mem_messages ops) (mem_messages own),
       mem_add = (\<lambda>xs. either_op (mem_add ops xs) (mem_add own xs)),
       mem_clear = either_op (mem_clear ops) (mem_clear own)\<rparr>)"

definition either_contents :: "('w, 'c) content_store_ops \<Rightarrow> ('w, 'c any_contents) content_store_ops" where
  "either_contents ops =
     \<lparr>cs_store = (\<lambda>k x. either_op (cs_store ops k x) (cs_store content_map_ops k x)),
      cs_load = (\<lambda>k. either_op (cs_load ops k) (cs_load content_map_ops k))\<rparr>"

text \<open>With a default there is no state from outside, and nothing to do with one.\<close>

definition no_memory :: "('w, 'm) memory_ops" where
  "no_memory = \<lparr>mem_messages = go_return [], mem_add = (\<lambda>_. go_return ()), mem_clear = go_return ()\<rparr>"

definition no_contents :: "('w, 'c) content_store_ops" where
  "no_contents = \<lparr>cs_store = (\<lambda>_ _. go_return ()), cs_load = (\<lambda>_. go_return [])\<rparr>"

definition given_memory :: "('w, 'm) memory_object \<Rightarrow> ('w, 'm any_memory) memory_object" where
  "given_memory o1 = \<lparr>mo_ops = either_memory (mo_ops o1), mo_state = Inl (mo_state o1)\<rparr>"

definition given_contents :: "('w, 'c) contents_object \<Rightarrow> ('w, 'c any_contents) contents_object" where
  "given_contents o1 = \<lparr>co_ops = either_contents (co_ops o1), co_state = map_option Inl (co_state o1)\<rparr>"

text \<open>\<open>memory.NewBuffer(memory.NewInMemoryMessageStore(), 100)\<close>, \<open>memory.NewInMemoryContentStore()\<close>\<close>

definition default_memory :: "('w, 'm any_memory) memory_object" where
  "default_memory =
     \<lparr>mo_ops = either_memory no_memory, mo_state = Inr (NewBuffer NewInMemoryMessageStore 100)\<rparr>"

definition default_contents :: "('w, 'c any_contents) contents_object" where
  "default_contents =
     \<lparr>co_ops = either_contents no_contents, co_state = Some (Inr NewInMemoryContentStore)\<rparr>"

text \<open>A factory makes a value for each session, or gives all of them the one it was made with.\<close>

datatype 'x factory = PerSession "string \<Rightarrow> 'x" | Shared 'x

datatype 'x resource = Own 'x | OfAgent

section \<open>The state\<close>

text \<open>The tools of an agent: those it was given and the three that look into the agent.\<close>

datatype 'w agent_tool = GivenTool "'w tool" | RuleViewTool | SkillCallTool | FetchFullResultTool

record 'w compress_config =
  ca_model :: "'w chat_model option"
  ca_prompt :: string
  ca_max_ratio :: rat

text \<open>\<open>sessionCheckpointConfig\<close>; its interval and its time of the last save are never read.\<close>

record ('w, 'k) checkpoint_config =
  scp_store :: "('w, 'k) checkpoint_store option"
  scp_run_id :: string

record ('w, 'm, 'c, 'k) session =
  se_id :: string
  se_memory :: "('w, 'm any_memory) memory_object resource"
  se_detector :: loop_detector
  se_contents :: "('w, 'c any_contents) contents_object resource"
  se_compressor :: "'w context_compressor"
  se_checkpoint :: "('w, 'k) checkpoint_config option"

type_synonym 'w planner_fn = "plan_state \<Rightarrow> 'w rt \<Rightarrow> plan_result option res \<times> 'w rt"

text \<open>\<open>a.planner\<close> is one of the two planners, whichever they are.\<close>

datatype planner_ref = ReActRef | PlanAndSolveRef

text \<open>
  There is no option for the executor: it is always \<open>NewParallel(a.toolRegistry, 8)\<close>, made when a
  run needs it.
\<close>

record ('w, 'm, 'c, 'k, 'v) agent =
  a_name :: string
  a_model :: "'w chat_model option"
  a_planner :: planner_ref
  a_evaluator :: "'w evaluator option"
  a_react_planner :: "'w planner_fn option"
  a_pas_planner :: "'w pas_planner option"
  a_tools :: "'w agent_tool registry"
  a_interrupter :: "'w interrupter option"
  a_hooks :: "'w hook list"
  a_rules :: "rule registry"
  a_skills :: "'w skill registry"
  a_prompt_builder :: "prompt_builder option"
  a_system_prompt :: string
  a_mode :: execution_mode
  a_eval_enabled :: bool
  a_max_iterations :: int
  a_timeout :: int
  a_stream_enabled :: bool
  a_output_schema :: "'v output_controller option"
  a_auto_retry :: int
  a_rule_view :: bool
  a_skill_call :: bool
  a_fetch :: bool
  a_threshold :: int
  a_result_max_len :: int
  a_recent_tokens :: int
  a_compress :: "'w compress_config option"
  a_max_ratio :: rat
  a_model_max_tokens :: int
  a_memory_factory :: "('w, 'm any_memory) memory_object factory option"
  a_contents_factory :: "('w, 'c any_contents) contents_object factory option"
  a_sessions :: "string \<rightharpoonup> ('w, 'm, 'c, 'k) session"
  a_checkpoint_store :: "('w, 'k) checkpoint_store option"

type_synonym ('w, 'm, 'c, 'k, 'v) agent_option = "('w, 'm, 'c, 'k, 'v) agent \<Rightarrow> ('w, 'm, 'c, 'k, 'v) agent"

section \<open>Options (\<open>option.go\<close>)\<close>

definition WithModel :: "'w chat_model option \<Rightarrow> ('w, 'm, 'c, 'k, 'v) agent_option" where
  "WithModel m a = a\<lparr>a_model := m\<rparr>"

definition WithPlanner :: "'w planner_fn option \<Rightarrow> ('w, 'm, 'c, 'k, 'v) agent_option" where
  "WithPlanner p a = a\<lparr>a_react_planner := p\<rparr>"

definition WithEvaluator :: "'w evaluator option \<Rightarrow> ('w, 'm, 'c, 'k, 'v) agent_option" where
  "WithEvaluator e a = a\<lparr>a_evaluator := e, a_eval_enabled := (e \<noteq> None)\<rparr>"

definition WithMemory :: "('w, 'm) memory_object \<Rightarrow> ('w, 'm, 'c, 'k, 'v) agent_option" where
  "WithMemory m a = a\<lparr>a_memory_factory := Some (Shared (given_memory m))\<rparr>"

text \<open>A factory, that makes a new memory for each session.\<close>

definition WithMemoryFactory ::
    "(string \<Rightarrow> ('w, 'm) memory_object) option \<Rightarrow> ('w, 'm, 'c, 'k, 'v) agent_option" where
  "WithMemoryFactory f a =
     a\<lparr>a_memory_factory := map_option (\<lambda>f. PerSession (\<lambda>sid. given_memory (f sid))) f\<rparr>"

definition WithContentStoreFactory ::
    "(string \<Rightarrow> ('w, 'c) contents_object) option \<Rightarrow> ('w, 'm, 'c, 'k, 'v) agent_option" where
  "WithContentStoreFactory f a =
     a\<lparr>a_contents_factory := map_option (\<lambda>f. PerSession (\<lambda>sid. given_contents (f sid))) f\<rparr>"

definition WithContentStore :: "('w, 'c) contents_object \<Rightarrow> ('w, 'm, 'c, 'k, 'v) agent_option" where
  "WithContentStore c a = a\<lparr>a_contents_factory := Some (Shared (given_contents c))\<rparr>"

text \<open>A tool as the registry sees it before it has anything to look into.\<close>

definition agent_tool_name :: "'w agent_tool \<Rightarrow> string" where
  "agent_tool_name t =
     (case t of
        GivenTool x \<Rightarrow> tool_name x
      | RuleViewTool \<Rightarrow> ''rule_view''
      | SkillCallTool \<Rightarrow> ''skill_call''
      | FetchFullResultTool \<Rightarrow> ''fetch_full_result'')"

definition add_tool :: "'w agent_tool \<Rightarrow> ('w, 'm, 'c, 'k, 'v) agent_option" where
  "add_tool t a = a\<lparr>a_tools := reg_put (agent_tool_name t) t (a_tools a)\<rparr>"

definition agent_WithTools :: "'w tool option list \<Rightarrow> ('w, 'm, 'c, 'k, 'v) agent_option" where
  "agent_WithTools ts a = fold (\<lambda>t. case t of None \<Rightarrow> id | Some x \<Rightarrow> add_tool (GivenTool x)) ts a"

text \<open>The registry replaces the one that earlier options filled.\<close>

definition WithToolRegistry :: "'w tool_registry option \<Rightarrow> ('w, 'm, 'c, 'k, 'v) agent_option" where
  "WithToolRegistry r a =
     (case r of
        None \<Rightarrow> a
      | Some x \<Rightarrow> a\<lparr>a_tools := \<lparr>reg_items = (\<lambda>n. map_option GivenTool (reg_items x n)), reg_order = reg_order x\<rparr>\<rparr>)"

definition agent_WithRules :: "rule option list \<Rightarrow> ('w, 'm, 'c, 'k, 'v) agent_option" where
  "agent_WithRules rs a = a\<lparr>a_rules := rule_Add rs (a_rules a)\<rparr>"

text \<open>A path with what the file system has there.\<close>

definition WithRulePaths :: "(string \<times> (goerr + fs_node)) list \<Rightarrow> ('w, 'm, 'c, 'k, 'v) agent_option" where
  "WithRulePaths paths a =
     fold (\<lambda>(p, node) a. case rule_LoadPath p node of
         Inl _ \<Rightarrow> a
       | Inr rs \<Rightarrow> a\<lparr>a_rules := rule_Add (map Some rs) (a_rules a)\<rparr>) paths a"

definition agent_WithSkills :: "'w skill option list \<Rightarrow> ('w, 'm, 'c, 'k, 'v) agent_option" where
  "agent_WithSkills ss a = a\<lparr>a_skills := skill_Add ss (a_skills a)\<rparr>"

definition WithSkillPaths :: "(string \<times> (goerr + fs_node)) list \<Rightarrow> ('w, 'm, 'c, 'k, 'v) agent_option" where
  "WithSkillPaths paths a =
     fold (\<lambda>(p, node) a. case skill_LoadPath p node of
         Inl _ \<Rightarrow> a
       | Inr ss \<Rightarrow> a\<lparr>a_skills := skill_Add (map Some ss) (a_skills a)\<rparr>) paths a"

definition WithHITL :: "'w interrupter option \<Rightarrow> ('w, 'm, 'c, 'k, 'v) agent_option" where
  "WithHITL h a = a\<lparr>a_interrupter := h\<rparr>"

definition WithHook :: "'w hook option \<Rightarrow> ('w, 'm, 'c, 'k, 'v) agent_option" where
  "WithHook h a = a\<lparr>a_hooks := hook_Add h (a_hooks a)\<rparr>"

definition WithHooks :: "'w hook option list \<Rightarrow> ('w, 'm, 'c, 'k, 'v) agent_option" where
  "WithHooks hs a = fold WithHook hs a"

definition WithExecutionMode :: "execution_mode \<Rightarrow> ('w, 'm, 'c, 'k, 'v) agent_option" where
  "WithExecutionMode mode a = a\<lparr>a_mode := mode\<rparr>"

definition WithMaxIterations :: "int \<Rightarrow> ('w, 'm, 'c, 'k, 'v) agent_option" where
  "WithMaxIterations n a = (if n > 0 then a\<lparr>a_max_iterations := n\<rparr> else a)"

definition WithTimeout :: "int \<Rightarrow> ('w, 'm, 'c, 'k, 'v) agent_option" where
  "WithTimeout d a = (if d > 0 then a\<lparr>a_timeout := d\<rparr> else a)"

definition WithSystemPrompt :: "string \<Rightarrow> ('w, 'm, 'c, 'k, 'v) agent_option" where
  "WithSystemPrompt p a = a\<lparr>a_system_prompt := p\<rparr>"

definition WithOutputSchema :: "'v output_controller option \<Rightarrow> int \<Rightarrow> ('w, 'm, 'c, 'k, 'v) agent_option" where
  "WithOutputSchema schema retries a =
     (let a = a\<lparr>a_output_schema := schema\<rparr> in if retries \<ge> 0 then a\<lparr>a_auto_retry := retries\<rparr> else a)"

definition WithStreamEnabled :: "bool \<Rightarrow> ('w, 'm, 'c, 'k, 'v) agent_option" where
  "WithStreamEnabled b a = a\<lparr>a_stream_enabled := b\<rparr>"

definition WithName :: "string \<Rightarrow> ('w, 'm, 'c, 'k, 'v) agent_option" where
  "WithName s a = a\<lparr>a_name := s\<rparr>"

definition WithLoopDetectionThreshold :: "int \<Rightarrow> ('w, 'm, 'c, 'k, 'v) agent_option" where
  "WithLoopDetectionThreshold n a = (if n > 0 then a\<lparr>a_threshold := n\<rparr> else a)"

definition WithToolResultMaxLen :: "int \<Rightarrow> ('w, 'm, 'c, 'k, 'v) agent_option" where
  "WithToolResultMaxLen n a = (if n > 0 then a\<lparr>a_result_max_len := n\<rparr> else a)"

definition WithRecentToolResultTokens :: "int \<Rightarrow> ('w, 'm, 'c, 'k, 'v) agent_option" where
  "WithRecentToolResultTokens n a = (if n > 0 then a\<lparr>a_recent_tokens := n\<rparr> else a)"

definition WithMaxContextRatio :: "rat \<Rightarrow> ('w, 'm, 'c, 'k, 'v) agent_option" where
  "WithMaxContextRatio ratio a = (if ratio > 0 then a\<lparr>a_max_ratio := ratio\<rparr> else a)"

definition WithModelMaxTokens :: "int \<Rightarrow> ('w, 'm, 'c, 'k, 'v) agent_option" where
  "WithModelMaxTokens n a = (if n > 0 then a\<lparr>a_model_max_tokens := n\<rparr> else a)"

definition WithCompressAgent :: "'w compress_config \<Rightarrow> ('w, 'm, 'c, 'k, 'v) agent_option" where
  "WithCompressAgent config a = a\<lparr>a_compress := Some config\<rparr>"

definition WithCheckpointStore :: "('w, 'k) checkpoint_store option \<Rightarrow> ('w, 'm, 'c, 'k, 'v) agent_option" where
  "WithCheckpointStore store a = a\<lparr>a_checkpoint_store := store\<rparr>"

text \<open>
  \<open>wrap\<close> is \<open>model.WrapWithMetrics\<close> for a handler and a name; the counters of the wrapped model are
  part of the world. Given before the model, the option does nothing.
\<close>

definition WithMetricsHandler ::
    "('w chat_model \<Rightarrow> 'w chat_model) option \<Rightarrow> ('w, 'm, 'c, 'k, 'v) agent_option" where
  "WithMetricsHandler wrap a =
     (case (a_model a, wrap) of (Some m, Some f) \<Rightarrow> a\<lparr>a_model := Some (f m)\<rparr> | _ \<Rightarrow> a)"

section \<open>Prompts and built-in tools (\<open>agent.go\<close>)\<close>

definition DefaultModelMaxTokens :: int where
  "DefaultModelMaxTokens = 128000"

definition buildPromptSummaries ::
    "('w, 'm, 'c, 'k, 'v) agent \<Rightarrow> rule_summary list \<times> skill_summary list" where
  "buildPromptSummaries a =
     (map (\<lambda>r. \<lparr>rs_name = rule_name r, rs_description = rule_description r,
                rs_always_apply = rule_always_apply r, rs_content = rule_content r\<rparr>) (rule_List (a_rules a)),
      map (\<lambda>s. \<lparr>ss_name = skill_name s, ss_description = skill_description s,
                ss_always_apply = skill_always_apply s, ss_content = skill_instruction s\<rparr>) (skill_List (a_skills a)))"

definition defaultSystemPrompt :: "('w, 'm, 'c, 'k, 'v) agent \<Rightarrow> string" where
  "defaultSystemPrompt a =
     (if a_mode a = ModePlanAndSolve then DefaultPlanAndSolveSystemPrompt else DefaultReActSystemPrompt)"

definition rebuildPromptBuilder :: "('w, 'm, 'c, 'k, 'v) agent_option" where
  "rebuildPromptBuilder a =
     (let base = (if a_system_prompt a = [] then defaultSystemPrompt a else a_system_prompt a);
          (ruleSums, skillSums) = buildPromptSummaries a
      in a\<lparr>a_prompt_builder := Some (WithSkills skillSums (WithRules ruleSums (NewBuilder base)))\<rparr>)"

definition ShowSystemPrompt :: "('w, 'm, 'c, 'k, 'v) agent \<Rightarrow> string \<times> ('w, 'm, 'c, 'k, 'v) agent" where
  "ShowSystemPrompt a =
     (let a = (if a_prompt_builder a = None then rebuildPromptBuilder a else a) in
      case a_prompt_builder a of
        None \<Rightarrow> ([], a)
      | Some pb \<Rightarrow> (case Build pb of (text, pb) \<Rightarrow> (text, a\<lparr>a_prompt_builder := Some pb\<rparr>)))"

definition syncPlannerRef :: "('w, 'm, 'c, 'k, 'v) agent_option" where
  "syncPlannerRef a =
     a\<lparr>a_planner := (if a_mode a = ModePlanAndSolve then PlanAndSolveRef else ReActRef)\<rparr>"

text \<open>A built-in tool is registered when it is first of use, and stays.\<close>

definition ensureBuiltinToolsUnlocked :: "('w, 'm, 'c, 'k, 'v) agent_option" where
  "ensureBuiltinToolsUnlocked a0 =
     (let a1 = (if length (rule_List (a_rules a0)) > 0 \<and> \<not> a_rule_view a0
                then (add_tool RuleViewTool a0)\<lparr>a_rule_view := True\<rparr> else a0);
          a2 = (if length (skill_List (a_skills a1)) > 0 \<and> \<not> a_skill_call a1
                then (add_tool SkillCallTool a1)\<lparr>a_skill_call := True\<rparr> else a1)
      in if \<not> a_fetch a2 then (add_tool FetchFullResultTool a2)\<lparr>a_fetch := True\<rparr> else a2)"

section \<open>Making an agent\<close>

definition base_agent :: "('w, 'm, 'c, 'k, 'v) agent" where
  "base_agent =
     \<lparr>a_name = [], a_model = None, a_planner = ReActRef, a_evaluator = None, a_react_planner = None,
      a_pas_planner = None, a_tools = \<lparr>reg_items = Map.empty, reg_order = []\<rparr>, a_interrupter = None,
      a_hooks = [], a_rules = rule_NewRegistry, a_skills = skill_NewRegistry, a_prompt_builder = None,
      a_system_prompt = [], a_mode = ModeReAct, a_eval_enabled = False, a_max_iterations = 10,
      a_timeout = 5 * 60 * 1000000000, a_stream_enabled = False, a_output_schema = None, a_auto_retry = 0,
      a_rule_view = False, a_skill_call = False, a_fetch = False, a_threshold = DefaultLoopThreshold,
      a_result_max_len = DefaultToolResultMaxLen, a_recent_tokens = DefaultRecentToolResultTokens,
      a_compress = None, a_max_ratio = 9 / 10, a_model_max_tokens = DefaultModelMaxTokens,
      a_memory_factory = None, a_contents_factory = None, a_sessions = Map.empty, a_checkpoint_store = None\<rparr>"

text \<open>A ReAct planner of the framework as the loop calls it; its fields never change.\<close>

definition react_fn :: "'w react_planner \<Rightarrow> 'w planner_fn" where
  "react_fn p ps r =
     (case react_Plan ps r p of
        (Ok x, r, _) \<Rightarrow> (Ok (Some x), r)
      | (Err e, r, _) \<Rightarrow> (Err e, r)
      | (Panic s, r, _) \<Rightarrow> (Panic s, r))"

definition default_planners :: "('w, 'm, 'c, 'k, 'v) agent_option" where
  "default_planners a =
     (case a_model a of
        None \<Rightarrow> a
      | Some m \<Rightarrow>
          let a = (if a_react_planner a = None
                   then a\<lparr>a_react_planner := Some (react_fn (NewReAct (Some m) (Some (a_system_prompt a))))\<rparr>
                   else a)
          in if a_pas_planner a = None then a\<lparr>a_pas_planner := Some (NewPlanAndSolve (Some m) [])\<rparr> else a)"

text \<open>\<open>init\<close>, less the two lines it logs.\<close>

definition default_factories :: "('w, 'm, 'c, 'k, 'v) agent_option" where
  "default_factories a =
     a\<lparr>a_memory_factory := (case a_memory_factory a of
           None \<Rightarrow> Some (PerSession (\<lambda>_. default_memory)) | Some f \<Rightarrow> Some f),
       a_contents_factory := (case a_contents_factory a of
           None \<Rightarrow> Some (PerSession (\<lambda>_. default_contents)) | Some f \<Rightarrow> Some f)\<rparr>"

definition agent_init :: "('w, 'm, 'c, 'k, 'v) agent_option" where
  "agent_init a0 =
     (let a = default_planners (default_factories a0);
          a = (if a_evaluator a \<noteq> None then a\<lparr>a_eval_enabled := True\<rparr> else a)
      in syncPlannerRef (ensureBuiltinToolsUnlocked (rebuildPromptBuilder a)))"

definition New :: "('w, 'm, 'c, 'k, 'v) agent_option list \<Rightarrow> ('w, 'm, 'c, 'k, 'v) agent" where
  "New opts = agent_init (fold (\<lambda>f a. f a) opts base_agent)"

section \<open>Changing an agent\<close>

definition SetExecutionMode :: "execution_mode \<Rightarrow> ('w, 'm, 'c, 'k, 'v) agent_option" where
  "SetExecutionMode mode a =
     (let a = syncPlannerRef (a\<lparr>a_mode := mode\<rparr>)
      in if a_system_prompt a = [] then rebuildPromptBuilder a else a)"

definition EnableEvaluator :: "'w evaluator option \<Rightarrow> ('w, 'm, 'c, 'k, 'v) agent_option" where
  "EnableEvaluator ev a = a\<lparr>a_evaluator := ev, a_eval_enabled := (ev \<noteq> None)\<rparr>"

definition DisableEvaluator :: "('w, 'm, 'c, 'k, 'v) agent_option" where
  "DisableEvaluator a = a\<lparr>a_evaluator := None, a_eval_enabled := False\<rparr>"

definition AddRule :: "rule option \<Rightarrow> ('w, 'm, 'c, 'k, 'v) agent_option" where
  "AddRule r a = ensureBuiltinToolsUnlocked (rebuildPromptBuilder (a\<lparr>a_rules := rule_Add [r] (a_rules a)\<rparr>))"

definition RemoveRule :: "string \<Rightarrow> ('w, 'm, 'c, 'k, 'v) agent_option" where
  "RemoveRule name a = rebuildPromptBuilder (a\<lparr>a_rules := rule_Remove name (a_rules a)\<rparr>)"

definition AddSkill :: "'w skill option \<Rightarrow> ('w, 'm, 'c, 'k, 'v) agent_option" where
  "AddSkill s a = ensureBuiltinToolsUnlocked (rebuildPromptBuilder (a\<lparr>a_skills := skill_Add [s] (a_skills a)\<rparr>))"

definition RemoveSkill :: "string \<Rightarrow> ('w, 'm, 'c, 'k, 'v) agent_option" where
  "RemoveSkill name a = rebuildPromptBuilder (a\<lparr>a_skills := skill_Remove name (a_skills a)\<rparr>)"

definition InjectRules ::
    "string \<Rightarrow> goerr + fs_node \<Rightarrow> ('w, 'm, 'c, 'k, 'v) agent \<Rightarrow> goerr option \<times> ('w, 'm, 'c, 'k, 'v) agent" where
  "InjectRules dirPath node a =
     (case rule_LoadDir dirPath node of
        Inl e \<Rightarrow> (Some e, a)
      | Inr rs \<Rightarrow> (None, ensureBuiltinToolsUnlocked (rebuildPromptBuilder
          (a\<lparr>a_rules := rule_Add (map Some rs) (a_rules a)\<rparr>))))"

definition InjectSkills ::
    "string \<Rightarrow> goerr + fs_node \<Rightarrow> ('w, 'm, 'c, 'k, 'v) agent \<Rightarrow> goerr option \<times> ('w, 'm, 'c, 'k, 'v) agent" where
  "InjectSkills dirPath node a =
     (case skill_LoadDir dirPath node of
        Inl e \<Rightarrow> (Some e, a)
      | Inr ss \<Rightarrow> (None, ensureBuiltinToolsUnlocked (rebuildPromptBuilder
          (a\<lparr>a_skills := skill_Add (map Some ss) (a_skills a)\<rparr>))))"

end
