(* ===== verification/Session.thy ===== *)
theory Session
  imports Agent
begin

text \<open>
  The rest of \<open>agent/agent.go\<close> and \<open>agent/session.go\<close>: what the tools of an agent see, sessions,
  running a session, checkpoints.
\<close>

section \<open>What the tools see\<close>

text \<open>
  A tool gets the context of the run, which carries the content store of the session. So the world of
  the tools is the world outside and that store. A tool has no panic of its own in \<open>Registry\<close>;
  \<open>tw_panic\<close> says that one happened in it, and then the run has panicked.
\<close>

record ('w, 's) tool_world =
  tw_world :: 'w
  tw_contents :: "'s option"
  tw_panic :: "string option"

definition on_world :: "('w rt \<Rightarrow> 'a \<times> 'w rt) \<Rightarrow> ('w, 's) tool_world rt \<Rightarrow> 'a \<times> ('w, 's) tool_world rt" where
  "on_world f r =
     (case f \<lparr>rt_ctx = rt_ctx r, rt_world = tw_world (rt_world r)\<rparr> of
        (x, r') \<Rightarrow> (x, \<lparr>rt_ctx = rt_ctx r', rt_world = (rt_world r)\<lparr>tw_world := rt_world r'\<rparr>\<rparr>))"

definition panic_in_tool :: "string \<Rightarrow> ('w, 's) tool_world rt \<Rightarrow> tool_result \<times> ('w, 's) tool_world rt" where
  "panic_in_tool p r = (([], None), r\<lparr>rt_world := (rt_world r)\<lparr>tw_panic := Some p\<rparr>\<rparr>)"

definition given_tool :: "'w tool \<Rightarrow> ('w, 's) tool_world tool" where
  "given_tool t =
     \<lparr>tool_name = tool_name t, tool_description = tool_description t, tool_schema = tool_schema t,
      tool_execute = (\<lambda>input. on_world (tool_execute t input))\<rparr>"

text \<open>\<open>a.hookManager.Emit(...)\<close> with its error ignored; \<open>with_background\<close> is \<open>context.Background()\<close>.\<close>

definition tell_hooks :: "('w, 'm, 'c, 'k, 'v) agent \<Rightarrow> event \<Rightarrow> 'w rt \<Rightarrow> 'w rt" where
  "tell_hooks a ev r = snd (Emit (a_hooks a) ev r)"

definition with_background :: "('w rt \<Rightarrow> 'w rt) \<Rightarrow> 'w rt \<Rightarrow> 'w rt" where
  "with_background f r = r\<lparr>rt_world := rt_world (f (r\<lparr>rt_ctx := Background\<rparr>))\<rparr>"

text \<open>The function behind \<open>rule_view\<close>.\<close>

definition view_rule ::
    "('w, 'm, 'c, 'k, 'v) agent \<Rightarrow> string \<Rightarrow> ('w, 's) tool_world rt \<Rightarrow> tool_result \<times> ('w, 's) tool_world rt" where
  "view_rule a name r =
     (case rule_Get name (a_rules a) of
        None \<Rightarrow> (tool_error (''rule not found: '' @ name), r)
      | Some ru \<Rightarrow>
          on_world (\<lambda>r. ((rule_content ru, None), with_background (tell_hooks a (EventRuleView name)) r)) r)"

text \<open>The function behind \<open>skill_call\<close>. The result of a skill is never an error.\<close>

definition run_skill ::
    "('w, 'm, 'c, 'k, 'v) agent \<Rightarrow> 'w skill \<Rightarrow> string \<Rightarrow> string \<Rightarrow> 'w rt \<Rightarrow> string res \<times> 'w rt" where
  "run_skill a s name userInput r =
     (let r = tell_hooks a (EventSkillCallStart name userInput) r;
          sc = NewContext s userInput (skill_instruction s)
      in case a_model a of
           None \<Rightarrow> (if sc_max_iter sc > 0 then (Panic ''nil model'', r) else
             (let r = tell_hooks a (EventSkillContextLog (skill_name s) userInput (sc_messages sc) [] 0 0) r
              in (Ok [], tell_hooks a (EventSkillCallDone name []) r)))
         | Some m \<Rightarrow>
             (case skill_Run sc m r of
                (Ok (out, entry), r) \<Rightarrow>
                  let r = tell_hooks a (EventSkillContextLog (sl_skill_name entry) (sl_input entry)
                        (sl_messages entry) (sl_result entry) (sl_tokens_used entry) (sl_steps entry)) r
                  in (Ok out, tell_hooks a (EventSkillCallDone name out) r)
              | (Err e, r) \<Rightarrow> (Err e, r)
              | (Panic p, r) \<Rightarrow> (Panic p, r)))"

definition call_skill ::
    "('w, 'm, 'c, 'k, 'v) agent \<Rightarrow> string \<Rightarrow> string \<Rightarrow> ('w, 's) tool_world rt \<Rightarrow>
     tool_result \<times> ('w, 's) tool_world rt" where
  "call_skill a name userInput r =
     (case skill_Get name (a_skills a) of
        None \<Rightarrow> (tool_error (''skill not found: '' @ name), r)
      | Some s \<Rightarrow>
          (case on_world (run_skill a s name userInput) r of
             (Ok out, r) \<Rightarrow> ((out, None), r)
           | (Err e, r) \<Rightarrow> (([], Some e), r)
           | (Panic p, r) \<Rightarrow> panic_in_tool p r))"

text \<open>The function behind \<open>fetch_full_result\<close>: the store that the context carries.\<close>

definition fetch_content ::
    "('w, 's) content_store_ops \<Rightarrow> string \<Rightarrow> ('w, 's) tool_world rt \<Rightarrow> tool_result \<times> ('w, 's) tool_world rt" where
  "fetch_content ops cid r =
     (case tw_contents (rt_world r) of
        None \<Rightarrow> (tool_error ''no content store in context'', r)
      | Some cs \<Rightarrow>
          (case cs_load ops cid \<lparr>rt_ctx = rt_ctx r, rt_world = tw_world (rt_world r)\<rparr> cs of
             (x, r', cs') \<Rightarrow>
               let r'' = \<lparr>rt_ctx = rt_ctx r',
                     rt_world = (rt_world r)\<lparr>tw_world := rt_world r', tw_contents := Some cs'\<rparr>\<rparr>
               in case x of
                    Ok text \<Rightarrow> ((text, None), r'')
                  | Err e \<Rightarrow> (([], Some e), r'')
                  | Panic p \<Rightarrow> panic_in_tool p r''))"

definition agent_tool_of ::
    "('w, 's) content_store_ops \<Rightarrow> ('w, 'm, 'c, 'k, 'v) agent \<Rightarrow> 'w agent_tool \<Rightarrow> ('w, 's) tool_world tool" where
  "agent_tool_of ops a t =
     (case t of
        GivenTool x \<Rightarrow> given_tool x
      | RuleViewTool \<Rightarrow> NewRuleViewTool (Some (view_rule a))
      | SkillCallTool \<Rightarrow> NewSkillCallTool (Some (call_skill a))
      | FetchFullResultTool \<Rightarrow> NewFetchFullResultTool (Some (fetch_content ops)))"

text \<open>The tools know their names before they know their agent.\<close>

lemma agent_tool_of_name: "tool_name (agent_tool_of ops a t) = agent_tool_name t"
  by (simp add: agent_tool_of_def agent_tool_name_def given_tool_def NewRuleViewTool_def
      NewSkillCallTool_def NewFetchFullResultTool_def split: agent_tool.split)

definition run_registry ::
    "('w, 's) content_store_ops \<Rightarrow> ('w, 'm, 'c, 'k, 'v) agent \<Rightarrow> ('w, 's) tool_world tool_registry" where
  "run_registry ops a =
     \<lparr>reg_items = (\<lambda>n. map_option (agent_tool_of ops a) (reg_items (a_tools a) n)),
      reg_order = reg_order (a_tools a)\<rparr>"

text \<open>A nil tool in the registry would panic; \<open>AddTool\<close> lets none in.\<close>

definition toolInfos :: "'w tool_registry \<Rightarrow> tool_info list" where
  "toolInfos reg =
     map (\<lambda>t. \<lparr>ti_name = tool_name t, ti_description = tool_description t,
               ti_schema = (if tool_schema t \<noteq> None then SchemaOf (tool_schema t) else SchemaEmptyMap)\<rparr>)
       (List.map_filter id (Tools reg))"

text \<open>\<open>a.executor.Execute\<close>, on the content store of the session.\<close>

definition execute_tools ::
    "('w, 's) tool_world executor \<Rightarrow> action \<Rightarrow> ('w, 's option, exec_result option) op" where
  "execute_tools ex act r s =
     (case ex act \<lparr>rt_ctx = rt_ctx r, rt_world = \<lparr>tw_world = rt_world r, tw_contents = s, tw_panic = None\<rparr>\<rparr> of
        (x, r') \<Rightarrow>
          ((case tw_panic (rt_world r') of
              Some p \<Rightarrow> Panic p
            | None \<Rightarrow> (case x of Inl e \<Rightarrow> Err e | Inr y \<Rightarrow> Ok y)),
           \<lparr>rt_ctx = rt_ctx r', rt_world = tw_world (rt_world r')\<rparr>, tw_contents (rt_world r')))"

section \<open>Sessions (\<open>session.go\<close>)\<close>

type_synonym ('w, 'm, 'c, 'k) session_option = "('w, 'm, 'c, 'k) session \<Rightarrow> ('w, 'm, 'c, 'k) session"

definition make_resource :: "'x factory option \<Rightarrow> string \<Rightarrow> 'x \<Rightarrow> 'x resource" where
  "make_resource f sid fallback =
     (case f of None \<Rightarrow> Own fallback | Some (PerSession g) \<Rightarrow> Own (g sid) | Some (Shared _) \<Rightarrow> OfAgent)"

text \<open>After \<open>init\<close> there are both factories.\<close>

definition newSessionInternal ::
    "string \<Rightarrow> ('w, 'm, 'c, 'k) session_option list \<Rightarrow> ('w, 'm, 'c, 'k, 'v) agent \<Rightarrow> ('w, 'm, 'c, 'k) session" where
  "newSessionInternal sid opts a =
     (let (compressModel, compressPrompt, compressRatio) =
            (case a_compress a of
               None \<Rightarrow> (None, [], a_max_ratio a)
             | Some cc \<Rightarrow> (ca_model cc, ca_prompt cc, if ca_max_ratio cc > 0 then ca_max_ratio cc else a_max_ratio a))
      in fold (\<lambda>f s. f s) opts
        \<lparr>se_id = sid, se_memory = make_resource (a_memory_factory a) sid default_memory,
         se_detector = NewLoopDetector (a_threshold a),
         se_contents = make_resource (a_contents_factory a) sid default_contents,
         se_compressor = NewContextCompressor (a_model a) compressModel compressPrompt compressRatio,
         se_checkpoint = None\<rparr>)"

definition Session ::
    "string \<Rightarrow> ('w, 'm, 'c, 'k) session_option list \<Rightarrow> ('w, 'm, 'c, 'k, 'v) agent \<Rightarrow>
     ('w, 'm, 'c, 'k) session \<times> ('w, 'm, 'c, 'k, 'v) agent" where
  "Session sid opts a =
     (case a_sessions a sid of
        Some s \<Rightarrow> (s, a)
      | None \<Rightarrow>
          let s = newSessionInternal sid opts a
          in (s, a\<lparr>a_sessions := (a_sessions a)(sid \<mapsto> s)\<rparr>))"

text \<open>Sixteen random bytes, printed in groups of four, two, two, two and six.\<close>

definition hex_bytes :: "nat list \<Rightarrow> string" where
  "hex_bytes bs = concat (map (\<lambda>b. [hex_digit (b div 16), hex_digit (b mod 16)]) bs)"

definition generateSessionID :: "nat list \<Rightarrow> string" where
  "generateSessionID b =
     hex_bytes (take 4 b) @ ''-'' @ hex_bytes (take 2 (drop 4 b)) @ ''-'' @ hex_bytes (take 2 (drop 6 b)) @ ''-'' @
     hex_bytes (take 2 (drop 8 b)) @ ''-'' @ hex_bytes (drop 10 b)"

definition generateRunID :: "nat list \<Rightarrow> string" where
  "generateRunID b = ''run-'' @ generateSessionID b"

text \<open>The bytes are an argument, \<open>crypto/rand\<close> chose them.\<close>

definition NewSession ::
    "nat list \<Rightarrow> ('w, 'm, 'c, 'k) session_option list \<Rightarrow> ('w, 'm, 'c, 'k, 'v) agent \<Rightarrow>
     ('w, 'm, 'c, 'k) session \<times> ('w, 'm, 'c, 'k, 'v) agent" where
  "NewSession bytes opts a = Session (generateSessionID bytes) opts a"

definition WithCheckpoint ::
    "('w, 'k) checkpoint_store option \<Rightarrow> nat list \<Rightarrow> ('w, 'm, 'c, 'k) session_option" where
  "WithCheckpoint store bytes s = s\<lparr>se_checkpoint := Some \<lparr>scp_store = store, scp_run_id = generateRunID bytes\<rparr>\<rparr>"

definition resolveSession ::
    "nat list \<Rightarrow> string option \<Rightarrow> ('w, 'm, 'c, 'k, 'v) agent \<Rightarrow>
     ('w, 'm, 'c, 'k) session \<times> ('w, 'm, 'c, 'k, 'v) agent" where
  "resolveSession bytes sessionID a =
     (case sessionID of
        Some sid \<Rightarrow> if sid \<noteq> [] then Session sid [] a else NewSession bytes [] a
      | None \<Rightarrow> NewSession bytes [] a)"

section \<open>Running a session\<close>

text \<open>
  What the library has a part in: a context with a timeout, SHA-256, the clock, and what the
  validator says of a value that is no struct.
\<close>

record 'w agent_lib =
  al_with_timeout :: "int \<Rightarrow> ctx \<Rightarrow> ctx"
  al_digest :: "string \<Rightarrow> string"
  al_clock :: "'w \<Rightarrow> int \<times> 'w"
  al_not_a_struct :: string

definition resource_of :: "'x factory option \<Rightarrow> 'x \<Rightarrow> 'x resource \<Rightarrow> 'x" where
  "resource_of f fallback x =
     (case x of Own y \<Rightarrow> y | OfAgent \<Rightarrow> (case f of Some (Shared y) \<Rightarrow> y | _ \<Rightarrow> fallback))"

definition session_memory ::
    "('w, 'm, 'c, 'k, 'v) agent \<Rightarrow> ('w, 'm, 'c, 'k) session \<Rightarrow> ('w, 'm any_memory) memory_object" where
  "session_memory a s = resource_of (a_memory_factory a) default_memory (se_memory s)"

definition session_contents ::
    "('w, 'm, 'c, 'k, 'v) agent \<Rightarrow> ('w, 'm, 'c, 'k) session \<Rightarrow> ('w, 'c any_contents) contents_object" where
  "session_contents a s = resource_of (a_contents_factory a) default_contents (se_contents s)"

definition isCheckpointEnabled :: "('w, 'm, 'c, 'k) session \<Rightarrow> bool" where
  "isCheckpointEnabled s \<longleftrightarrow> (case se_checkpoint s of None \<Rightarrow> False | Some c \<Rightarrow> scp_store c \<noteq> None)"

definition getRunID :: "('w, 'm, 'c, 'k) session \<Rightarrow> string" where
  "getRunID s = (case se_checkpoint s of None \<Rightarrow> [] | Some c \<Rightarrow> scp_run_id c)"

definition run_env ::
    "'w agent_lib \<Rightarrow> ('w, 'm, 'c, 'k, 'v) agent \<Rightarrow> ('w, 'm, 'c, 'k) session \<Rightarrow> bool \<Rightarrow>
     ('w, 'm any_memory, 'c any_contents) loop_env" where
  "run_env lib a s stream =
     (let contents = co_ops (session_contents a s); reg = run_registry contents a in
      \<lparr>le_mode = a_mode a,
       le_planner = (case a_planner a of ReActRef \<Rightarrow> a_react_planner a | PlanAndSolveRef \<Rightarrow> None),
       le_model = a_model a, le_max_iterations = a_max_iterations a,
       le_validate = map_option (\<lambda>oc. validateFinalOutput (al_not_a_struct lib) (Some oc)) (a_output_schema a),
       le_auto_retry = a_auto_retry a, le_eval_on = (a_eval_enabled a \<and> a_evaluator a \<noteq> None),
       le_evaluator = a_evaluator a, le_stream_on = (a_stream_enabled a \<and> stream),
       le_model_max_tokens = a_model_max_tokens a, le_interrupter = a_interrupter a,
       le_executor = execute_tools (parallel_Execute (NewParallel reg 8)), le_hooks = a_hooks a,
       le_tool_result_max_len = a_result_max_len a, le_recent_tokens = a_recent_tokens a,
       le_loop_threshold = a_threshold a, le_system_prompt = fst (ShowSystemPrompt a),
       le_tools = toolInfos reg, le_memory = mo_ops (session_memory a s), le_contents = contents,
       le_compressor = Some (se_compressor s),
       le_checkpoint = (if isCheckpointEnabled s then Some (getRunID s) else None),
       le_digest = al_digest lib, le_clock = al_clock lib\<rparr>)"

text \<open>The variables that outlive a run; a run sets the others first.\<close>

definition run_vars ::
    "('w, 'm, 'c, 'k, 'v) agent \<Rightarrow> ('w, 'm, 'c, 'k) session \<Rightarrow> 'm any_memory \<Rightarrow>
     ('w, 'm any_memory, 'c any_contents) loop_vars" where
  "run_vars a s mem =
     \<lparr>lv_state = StateInit, lv_iteration = 0, lv_history = [], lv_pending_action = None,
      lv_pending_reasoning = [], lv_pending_call_id = [], lv_plan_gen_first = None,
      lv_complete_answer = [], lv_last_exec = None, lv_eval_escalate = False, lv_validate_left = 0,
      lv_memory = mem, lv_detector = se_detector s, lv_contents = co_state (session_contents a s),
      lv_pas = a_pas_planner a, lv_events = [], lv_saves = []\<rparr>"

text \<open>What a run leaves: in the session when it is the session's own, in the agent when it is shared.\<close>

definition keep_resource :: "'x \<Rightarrow> 'x resource \<Rightarrow> 'x resource" where
  "keep_resource y x = (case x of Own _ \<Rightarrow> Own y | OfAgent \<Rightarrow> OfAgent)"

definition keep_shared :: "'x \<Rightarrow> 'x resource \<Rightarrow> 'x factory option \<Rightarrow> 'x factory option" where
  "keep_shared y x f = (case (x, f) of (OfAgent, Some (Shared _)) \<Rightarrow> Some (Shared y) | _ \<Rightarrow> f)"

definition after_run ::
    "('w, 'm, 'c, 'k) session \<Rightarrow> ('w, 'm any_memory, 'c any_contents) loop_vars \<Rightarrow>
     ('w, 'm, 'c, 'k, 'v) agent \<Rightarrow> ('w, 'm, 'c, 'k, 'v) agent" where
  "after_run s v a =
     (let mo = (session_memory a s)\<lparr>mo_state := lv_memory v\<rparr>;
          co = (session_contents a s)\<lparr>co_state := lv_contents v\<rparr>
      in a\<lparr>a_sessions := (a_sessions a)(se_id s \<mapsto>
             s\<lparr>se_memory := keep_resource mo (se_memory s), se_contents := keep_resource co (se_contents s),
               se_detector := lv_detector v\<rparr>),
           a_memory_factory := keep_shared mo (se_memory s) (a_memory_factory a),
           a_contents_factory := keep_shared co (se_contents s) (a_contents_factory a),
           a_pas_planner := lv_pas v\<rparr>)"

text \<open>
  \<open>Session.Run\<close> and, with \<open>stream\<close>, \<open>Session.RunStream\<close>. The context is the caller's; the fuel is the
  number of turns the loop may take.
\<close>

definition Session_Run ::
    "nat \<Rightarrow> 'w agent_lib \<Rightarrow> bool \<Rightarrow> ctx \<Rightarrow> string \<Rightarrow> ('w, 'm, 'c, 'k) session \<Rightarrow> 'w \<Rightarrow>
     ('w, 'm, 'c, 'k, 'v) agent \<Rightarrow> (agent_result res \<times> 'w \<times> ('w, 'm, 'c, 'k, 'v) agent) option" where
  "Session_Run fuel lib stream ctx input s w a =
     (let r = \<lparr>rt_ctx = (if a_timeout a > 0 then al_with_timeout lib (a_timeout a) ctx else ctx), rt_world = w\<rparr>;
          mo = session_memory a s
      in case mem_add (mo_ops mo) [text_message RoleUser input] r (mo_state mo) of
           (Err e, r, m) \<Rightarrow> Some (Err e, rt_world r, after_run s (run_vars a s m) a)
         | (Panic p, r, m) \<Rightarrow> Some (Panic p, rt_world r, after_run s (run_vars a s m) a)
         | (Ok _, r, m) \<Rightarrow>
             (case runLoop fuel (run_env lib a s stream) r (run_vars a s m) of
                None \<Rightarrow> None
              | Some (x, r, v) \<Rightarrow>
                  Some ((case x of
                           Ok res \<Rightarrow> Ok (res\<lparr>ar_session_id := se_id s\<rparr>)
                         | Err e \<Rightarrow> Err e
                         | Panic p \<Rightarrow> Panic p), rt_world r, after_run s v a)))"

text \<open>\<open>Agent.Run\<close> and \<open>Agent.RunStream\<close>\<close>

definition Run ::
    "nat \<Rightarrow> 'w agent_lib \<Rightarrow> bool \<Rightarrow> ctx \<Rightarrow> string \<Rightarrow> nat list \<Rightarrow> string option \<Rightarrow> 'w \<Rightarrow>
     ('w, 'm, 'c, 'k, 'v) agent \<Rightarrow> (agent_result res \<times> 'w \<times> ('w, 'm, 'c, 'k, 'v) agent) option" where
  "Run fuel lib stream ctx input bytes sessionID w a =
     (case resolveSession bytes sessionID a of (s, a) \<Rightarrow> Session_Run fuel lib stream ctx input s w a)"

definition Session_RunStream ::
    "nat \<Rightarrow> 'w agent_lib \<Rightarrow> ctx \<Rightarrow> string \<Rightarrow> ('w, 'm, 'c, 'k) session \<Rightarrow> 'w \<Rightarrow>
     ('w, 'm, 'c, 'k, 'v) agent \<Rightarrow> (agent_result res \<times> 'w \<times> ('w, 'm, 'c, 'k, 'v) agent) option" where
  "Session_RunStream fuel lib ctx input s w a = Session_Run fuel lib True ctx input s w a"

definition RunStream ::
    "nat \<Rightarrow> 'w agent_lib \<Rightarrow> ctx \<Rightarrow> string \<Rightarrow> nat list \<Rightarrow> string option \<Rightarrow> 'w \<Rightarrow>
     ('w, 'm, 'c, 'k, 'v) agent \<Rightarrow> (agent_result res \<times> 'w \<times> ('w, 'm, 'c, 'k, 'v) agent) option" where
  "RunStream fuel lib ctx input bytes sessionID w a =
     (case resolveSession bytes sessionID a of (s, a) \<Rightarrow> Session_RunStream fuel lib ctx input s w a)"

definition Session_Messages ::
    "('w, 'm, 'c, 'k, 'v) agent \<Rightarrow> ('w, 'm, 'c, 'k) session \<Rightarrow> 'w rt \<Rightarrow> chat_message list res" where
  "Session_Messages a s r =
     (let mo = session_memory a s in fst (mem_messages (mo_ops mo) r (mo_state mo)))"

section \<open>Checkpoints\<close>

text \<open>These work on the state of the checkpoint store, which the application keeps.\<close>

definition SaveCheckpoint ::
    "agent_snapshot option \<Rightarrow> ('w, 'm, 'c, 'k) session \<Rightarrow> ('w, 'k, unit) op" where
  "SaveCheckpoint snapshot s =
     (case (if isCheckpointEnabled s then se_checkpoint s else None) of
        Some c \<Rightarrow>
          (case (scp_store c, snapshot) of
             (Some store, Some snap) \<Rightarrow>
               let snap = (if as_run_id snap = [] then snap\<lparr>as_run_id := getRunID s\<rparr> else snap)
               in cp_save store (as_run_id snap) (Some snap)
           | _ \<Rightarrow> go_return ())
      | None \<Rightarrow> go_return ())"

definition LoadCheckpoint ::
    "string \<Rightarrow> ('w, 'm, 'c, 'k) session \<Rightarrow> ('w, 'k, agent_snapshot option) op" where
  "LoadCheckpoint runID s =
     (case (if isCheckpointEnabled s then se_checkpoint s else None) of
        Some c \<Rightarrow> (case scp_store c of Some store \<Rightarrow> cp_load store runID | None \<Rightarrow> go_return None)
      | None \<Rightarrow> go_return None)"

definition Session_Suspend ::
    "agent_snapshot option \<Rightarrow> ('w, 'm, 'c, 'k) session \<Rightarrow> ('w, 'k, unit) op" where
  "Session_Suspend snapshot s = SaveCheckpoint snapshot s"

definition Session_Resume ::
    "string \<Rightarrow> ('w, 'm, 'c, 'k) session \<Rightarrow> ('w, 'k, agent_snapshot option) op" where
  "Session_Resume runID s = LoadCheckpoint runID s"

definition Suspend ::
    "string \<Rightarrow> agent_snapshot option \<Rightarrow> ('w, 'm, 'c, 'k, 'v) agent \<Rightarrow> ('w, 'k, unit) op" where
  "Suspend sessionID snapshot a =
     (case a_sessions a sessionID of
        None \<Rightarrow> go_fail (ErrNew (''session not found: '' @ sessionID))
      | Some s \<Rightarrow> SaveCheckpoint snapshot s)"

definition Resume ::
    "string \<Rightarrow> string \<Rightarrow> ('w, 'm, 'c, 'k, 'v) agent \<Rightarrow> ('w, 'k, agent_snapshot option) op" where
  "Resume sessionID runID a =
     (case a_sessions a sessionID of
        None \<Rightarrow> go_fail (ErrNew (''session not found: '' @ sessionID))
      | Some s \<Rightarrow> LoadCheckpoint runID s)"

text \<open>The session is not looked at.\<close>

definition GetState ::
    "string \<Rightarrow> string \<Rightarrow> ('w, 'm, 'c, 'k, 'v) agent \<Rightarrow> ('w, 'k, agent_snapshot option) op" where
  "GetState sessionID runID a =
     (case a_checkpoint_store a of
        None \<Rightarrow> go_fail (ErrNew ''checkpoint store not configured'')
      | Some store \<Rightarrow> cp_load store runID)"

definition DeleteCheckpoint :: "string \<Rightarrow> ('w, 'm, 'c, 'k, 'v) agent \<Rightarrow> ('w, 'k, unit) op" where
  "DeleteCheckpoint runID a =
     (case a_checkpoint_store a of
        None \<Rightarrow> go_fail (ErrNew ''checkpoint store not configured'')
      | Some store \<Rightarrow> cp_delete store runID)"

end
