(* ===== verification/AgentProofs.thy ===== *)
theory AgentProofs
  imports LoopFrame Session
begin

text \<open>
  What holds of an agent after any options and any sequence of calls: it is well formed, what it shows
  the model is up to date, and each run comes back.
\<close>

section \<open>The registry of an agent's tools\<close>

interpretation agent_tools: registry_laws agent_tool_name "\<lambda>t. reg_put (agent_tool_name t) t" reg_delete
    "\<lambda>n r. reg_items r n" "\<lambda>r. List.map_filter (reg_items r) (reg_order r)" "\<lparr>reg_items = Map.empty, reg_order = []\<rparr>"
    reg_entries reg_wf
  by unfold_locales (simp_all add: reg_facts, simp_all add: reg_wf_def reg_entries_def)

text \<open>A registry as \<open>Add\<close> makes it: every item is kept under its name.\<close>

definition named :: "('x \<Rightarrow> string) \<Rightarrow> 'x registry \<Rightarrow> bool" where
  "named key r \<longleftrightarrow> reg_wf r \<and> (\<forall>n x. reg_items r n = Some x \<longrightarrow> key x = n)"

lemma reg_put_items [simp]: "reg_items (reg_put n x r) = (reg_items r)(n \<mapsto> x)"
  by (simp add: reg_put_def Let_def)

lemma named_put: "named key r \<Longrightarrow> named key (reg_put (key x) x r)"
  by (simp add: named_def reg_put_wf)

lemma named_puts: "named key r \<Longrightarrow> named key (fold (\<lambda>x. reg_put (key x) x) xs r)"
  by (induction xs arbitrary: r) (simp_all add: named_put)

lemma named_delete: "named key r \<Longrightarrow> named key (reg_delete n r)"
proof -
  assume r: "named key r"
  then have "reg_wf (reg_delete n r)" by (simp add: named_def reg_delete_wf)
  with r show "named key (reg_delete n r)" by (auto simp: named_def reg_delete_def)
qed

lemma named_Add [simp]:
  "named rule_name r \<Longrightarrow> named rule_name (rule_Add xs r)" "named skill_name s \<Longrightarrow> named skill_name (skill_Add ys s)"
  "named rule_name r \<Longrightarrow> named rule_name (rule_Remove n r)" "named skill_name s \<Longrightarrow> named skill_name (skill_Remove n s)"
  by (simp_all add: rule_Add_put skill_Add_put Remove_delete named_puts named_delete
      del: rule_Add.simps skill_Add.simps)

lemma map_filter_set: "x \<in> set (List.map_filter f ns) \<longleftrightarrow> (\<exists>n \<in> set ns. f n = Some x)"
  by (induction ns) (auto simp: List.map_filter_simps split: option.split)

lemma named_list:
  assumes "named key r"
  shows "x \<in> set (List.map_filter (reg_items r) (reg_order r)) \<longleftrightarrow> reg_items r (key x) = Some x"
  using assms unfolding map_filter_set named_def reg_wf_def by (metis domI)

section \<open>Options\<close>

text \<open>The options there are, and how they may be used: a registry that is given is well formed.\<close>

inductive is_option :: "('w, 'm, 'c, 'k, 'v) agent_option \<Rightarrow> bool" where
  "is_option (WithModel m)"
| "is_option (WithPlanner p)"
| "is_option (WithEvaluator e)"
| "is_option (WithMemory mem)"
| "is_option (WithMemoryFactory mf)"
| "is_option (WithContentStore cs)"
| "is_option (WithContentStoreFactory cf)"
| "is_option (agent_WithTools ts)"
| "(case reg of None \<Rightarrow> True | Some r \<Rightarrow> named tool_name r) \<Longrightarrow> is_option (WithToolRegistry reg)"
| "is_option (agent_WithRules rs)"
| "is_option (WithRulePaths rps)"
| "is_option (agent_WithSkills ss)"
| "is_option (WithSkillPaths sps)"
| "is_option (WithHITL ir)"
| "is_option (WithHook h)"
| "is_option (WithHooks hs)"
| "is_option (WithExecutionMode mode)"
| "is_option (WithMaxIterations n)"
| "is_option (WithTimeout d)"
| "is_option (WithSystemPrompt s)"
| "is_option (WithOutputSchema sch k)"
| "is_option (WithStreamEnabled b)"
| "is_option (WithName s)"
| "is_option (WithLoopDetectionThreshold n)"
| "is_option (WithToolResultMaxLen n)"
| "is_option (WithRecentToolResultTokens n)"
| "is_option (WithMaxContextRatio q1)"
| "is_option (WithModelMaxTokens n)"
| "is_option (WithCompressAgent cc)"
| "is_option (WithCheckpointStore st)"
| "is_option (WithMetricsHandler wrap)"

definition settled :: "('w, 'm, 'c, 'k, 'v) agent \<Rightarrow> bool" where
  "settled a \<longleftrightarrow>
     1 \<le> a_threshold a \<and> 0 \<le> a_result_max_len a \<and>
     named agent_tool_name (a_tools a) \<and> named rule_name (a_rules a) \<and> named skill_name (a_skills a)"

text \<open>Before \<open>init\<close>.\<close>

definition raw :: "('w, 'm, 'c, 'k, 'v) agent \<Rightarrow> bool" where
  "raw a \<longleftrightarrow> settled a \<and> a_pas_planner a = None \<and> a_sessions a = Map.empty \<and>
     \<not> a_rule_view a \<and> \<not> a_skill_call a \<and> \<not> a_fetch a"

lemma raw_fold: "(\<And>x a. raw a \<Longrightarrow> raw (f x a)) \<Longrightarrow> raw a \<Longrightarrow> raw (fold f xs a)"
  by (induction xs arbitrary: a) simp_all

lemmas option_defs =
  WithModel_def WithPlanner_def WithEvaluator_def WithMemory_def WithMemoryFactory_def
  WithContentStore_def WithContentStoreFactory_def agent_WithRules_def agent_WithSkills_def WithHITL_def
  WithHook_def WithExecutionMode_def WithMaxIterations_def WithTimeout_def WithSystemPrompt_def
  WithOutputSchema_def WithStreamEnabled_def WithName_def WithLoopDetectionThreshold_def
  WithToolResultMaxLen_def WithRecentToolResultTokens_def WithMaxContextRatio_def WithModelMaxTokens_def
  WithCompressAgent_def WithCheckpointStore_def WithMetricsHandler_def Let_def

lemma raw_base: "raw base_agent"
  by (simp add: raw_def settled_def base_agent_def DefaultLoopThreshold_def DefaultToolResultMaxLen_def)
    (simp add: named_def reg_wf_def rule_NewRegistry_def skill_NewRegistry_def)

lemma raw_add_tool: "raw a \<Longrightarrow> raw (add_tool t a)"
  by (simp add: raw_def settled_def add_tool_def named_put)

lemma option_raw:
  assumes "is_option f" and "raw a"
  shows "raw (f a)"
  using assms
proof cases
  case (8 ts)
  show ?thesis unfolding 8 agent_WithTools_def
    by (rule raw_fold [OF _ assms(2)]) (simp add: raw_add_tool split: option.split)
next
  case (9 reg)
  with assms(2) show ?thesis
    by (auto simp: WithToolRegistry_def raw_def settled_def named_def reg_wf_def agent_tool_name_def dom_def
        split: option.split)
next
  case (11 rps)
  show ?thesis unfolding 11 WithRulePaths_def
    by (rule raw_fold [OF _ assms(2)]) (simp add: raw_def settled_def split: prod.split sum.split)
next
  case (13 sps)
  show ?thesis unfolding 13 WithSkillPaths_def
    by (rule raw_fold [OF _ assms(2)]) (simp add: raw_def settled_def split: prod.split sum.split)
next
  case (16 hs)
  show ?thesis unfolding 16 WithHooks_def
    by (rule raw_fold [OF _ assms(2)]) (simp add: raw_def settled_def WithHook_def)
qed (simp_all add: option_defs raw_def settled_def split: option.split)

lemma options_raw: "\<forall>f \<in> set opts. is_option f \<Longrightarrow> raw a \<Longrightarrow> raw (fold (\<lambda>f a. f a) opts a)"
  by (induction opts arbitrary: a) (simp_all add: option_raw)

section \<open>Components that behave\<close>

definition answers :: "'w chat_model \<Rightarrow> bool" where
  "answers m \<longleftrightarrow> (\<forall>r ms os r'. cm_generate m r ms os \<noteq> (Inr None, r'))"

definition safe_memory :: "('w, 'm) memory_ops \<Rightarrow> bool" where
  "safe_memory ops \<longleftrightarrow>
     (\<forall>r m p r' m'. mem_messages ops r m \<noteq> (Panic p, r', m')) \<and>
     (\<forall>xs r m p r' m'. mem_add ops xs r m \<noteq> (Panic p, r', m')) \<and>
     (\<forall>r m p r' m'. mem_clear ops r m \<noteq> (Panic p, r', m'))"

definition safe_contents :: "('w, 'c) content_store_ops \<Rightarrow> bool" where
  "safe_contents ops \<longleftrightarrow>
     (\<forall>k x r c p r' c'. cs_store ops k x r c \<noteq> (Panic p, r', c')) \<and>
     (\<forall>k r c p r' c'. cs_load ops k r c \<noteq> (Panic p, r', c'))"

definition safe_planner :: "'w planner_fn \<Rightarrow> bool" where
  "safe_planner f \<longleftrightarrow> (\<forall>ps r r'. f ps r \<noteq> (Ok None, r') \<and> (\<forall>p. f ps r \<noteq> (Panic p, r')))"

definition safe_evaluator :: "'w evaluator \<Rightarrow> bool" where
  "safe_evaluator e \<longleftrightarrow> (\<forall>st r r'. e st r \<noteq> (Ok None, r') \<and> (\<forall>p. e st r \<noteq> (Panic p, r')))"

definition accepts_plans :: "'w interrupter \<Rightarrow> bool" where
  "accepts_plans ir \<longleftrightarrow>
     (\<forall>act r hr r'. in_wait ir \<lparr>ie_type = InterruptAfterPlan, ie_action = act\<rparr> r = (Inr hr, r') \<longrightarrow> \<not> rejected hr)"

lemma either_op_safe:
  assumes "\<And>r s p r' s'. f r s \<noteq> (Panic p, r', s')" and "\<And>r s p r' s'. g r s \<noteq> (Panic p, r', s')"
  shows "either_op f g r s \<noteq> (Panic p, r', s')"
  using assms by (auto simp: either_op_def split: sum.split prod.split)

lemma safe_either_memory:
  assumes "safe_memory ops"
  shows "safe_memory (either_memory ops)"
  unfolding safe_memory_def either_memory_def Let_def buffer_ops_def memory_ops.simps
  using assms unfolding safe_memory_def
  by (intro conjI allI either_op_safe demo_memory_safe; blast)

lemma content_load_safe: "content_load k r c \<noteq> (Panic p, r', c')"
  by (auto simp: content_load_def go_bind_def go_check_ctx_def go_get_def go_return_def go_fail_def
      split: prod.split option.split res.split)

lemma content_store_safe: "content_store k x r c \<noteq> (Panic p, r', c')"
  using content.store_safe by (simp add: content_map_ops_def)

lemma safe_either_contents:
  assumes "safe_contents ops"
  shows "safe_contents (either_contents ops)"
  unfolding safe_contents_def either_contents_def content_store_ops.simps content_map_ops_def
  using assms unfolding safe_contents_def
  by (intro conjI allI either_op_safe content_load_safe content_store_safe; blast)

lemma safe_nothing: "safe_memory no_memory" "safe_contents no_contents"
  by (auto simp: safe_memory_def safe_contents_def no_memory_def no_contents_def go_return_def)

lemma safe_defaults:
  "safe_memory (mo_ops default_memory)" "safe_contents (co_ops default_contents)"
proof -
  show "safe_memory (mo_ops default_memory)" "safe_contents (co_ops default_contents)"
    by (simp_all add: default_memory_def default_contents_def safe_either_memory safe_either_contents safe_nothing)
qed

section \<open>The tools of a run do not panic\<close>

definition quiet :: "(('w, 's) tool_world rt \<Rightarrow> 'a \<times> ('w, 's) tool_world rt) \<Rightarrow> bool" where
  "quiet f \<longleftrightarrow> (\<forall>r. tw_panic (rt_world (snd (f r))) = tw_panic (rt_world r))"

lemma quiet_on_world: "quiet (on_world f)"
  by (simp add: quiet_def on_world_def split: prod.split)

lemma quiet_error: "quiet (\<lambda>r. (x, r))"
  by (simp add: quiet_def)

lemma quiet_view_rule: "quiet (view_rule a name)"
  using quiet_on_world [of "\<lambda>r. ((rule_content ru, None), with_background (tell_hooks a (EventRuleView name)) r)" for ru]
  by (auto simp: view_rule_def quiet_def split: option.split)

lemma run_skill_safe:
  assumes "a_model a = Some m" and "answers m"
  shows "fst (run_skill a s name userInput r) \<noteq> Panic p"
proof -
  have "fst (skill_Run sc m r) \<noteq> Panic p" for sc :: "'a skill_context" and r
  proof -
    have "fst (cm_generate m r ms os) \<noteq> Inr None" for r ms os
      using assms(2) unfolding answers_def by (metis prod.collapse)
    from skill_loop_returns [OF this, of "sc_tools sc" "nat (sc_max_iter sc)" "sc_messages sc" 0 0 r]
    show ?thesis by (auto simp: skill_Run_def)
  qed
  then show ?thesis
    using assms(1) by (auto simp: run_skill_def Let_def split: prod.split res.split) (metis fst_conv)
qed

lemma quiet_call_skill:
  assumes "a_model a = Some m" and "answers m"
  shows "quiet (call_skill a name userInput)"
  unfolding quiet_def
proof
  fix r :: "('a, 'f) tool_world rt"
  have p: "fst (on_world (run_skill a s name userInput) r) \<noteq> Panic q1" for s q1
    using run_skill_safe [OF assms, of s name userInput "\<lparr>rt_ctx = rt_ctx r, rt_world = tw_world (rt_world r)\<rparr>" q1]
    by (auto simp: on_world_def split: prod.split)
  show "tw_panic (rt_world (snd (call_skill a name userInput r))) = tw_panic (rt_world r)"
  proof (cases "skill_Get name (a_skills a)")
    case (Some s)
    obtain x r' where x: "on_world (run_skill a s name userInput) r = (x, r')" by force
    then have "tw_panic (rt_world r') = tw_panic (rt_world r)"
      using quiet_on_world [of "run_skill a s name userInput"] unfolding quiet_def by (metis snd_conv)
    moreover have "x \<noteq> Panic q1" for q1 using p [of s q1] x by simp
    ultimately show ?thesis using Some x by (cases x) (auto simp: call_skill_def)
  qed (simp add: call_skill_def)
qed

lemma quiet_fetch_content:
  assumes "safe_contents ops"
  shows "quiet (fetch_content ops cid)"
  unfolding quiet_def
proof
  fix r :: "('a, 'b) tool_world rt"
  show "tw_panic (rt_world (snd (fetch_content ops cid r))) = tw_panic (rt_world r)"
    using assms by (auto simp: fetch_content_def Let_def safe_contents_def split: option.split prod.split res.split)
qed

lemma tool_quiet:
  assumes "a_model a = Some m" and "answers m" and "safe_contents ops"
  shows "quiet (tool_execute (agent_tool_of ops a t) input)"
proof (cases t)
  case (GivenTool x)
  then show ?thesis by (simp add: agent_tool_of_def given_tool_def quiet_on_world)
next
  case RuleViewTool
  then show ?thesis
    by (simp add: agent_tool_of_def NewRuleViewTool_def rule_view_Execute_def Let_def quiet_def
        quiet_view_rule [unfolded quiet_def, rule_format])
next
  case SkillCallTool
  then show ?thesis
    by (simp add: agent_tool_of_def NewSkillCallTool_def skill_call_Execute_def Let_def quiet_def
        quiet_call_skill [OF assms(1,2), unfolded quiet_def, rule_format] split: option.split)
next
  case FetchFullResultTool
  have "tw_panic (rt_world (snd (fetch_Execute (Some (fetch_content ops)) input r))) = tw_panic (rt_world r)" for r
    using quiet_fetch_content [OF assms(3), of "string_input input ''id''", unfolded quiet_def, rule_format, of r]
    by (cases "fetch_content ops (string_input input ''id'') r")
      (auto simp: fetch_Execute_def Let_def split: option.split)
  with FetchFullResultTool show ?thesis
    by (simp add: agent_tool_of_def NewFetchFullResultTool_def quiet_def)
qed

lemma executor_safe:
  assumes "a_model a = Some m" and "answers m" and "safe_contents ops"
  shows "execute_tools (parallel_Execute (NewParallel (run_registry ops a) n)) act r s \<noteq> (Ok None, r', s')"
    and "execute_tools (parallel_Execute (NewParallel (run_registry ops a) n)) act r s \<noteq> (Panic p, r', s')"
proof -
  let ?r = "\<lparr>rt_ctx = rt_ctx r, rt_world = \<lparr>tw_world = rt_world r, tw_contents = s, tw_panic = None\<rparr>\<rparr>"
  let ?x = "parallel_Execute (NewParallel (run_registry ops a) n) act ?r"
  have "\<exists>y. fst ?x = Inr (Some y)"
    by (simp add: parallel_Execute_def split: prod.split)
  moreover have "tw_panic (rt_world (snd ?x)) = None"
    using tool_quiet [OF assms, unfolded quiet_def, rule_format, of _ "act_tool_input act" ?r]
    by (auto simp: parallel_Execute_def registry_Execute_def NewParallel_def run_registry_def
        split: prod.split option.split) (metis snd_conv)
  ultimately show "execute_tools (parallel_Execute (NewParallel (run_registry ops a) n)) act r s \<noteq> (Ok None, r', s')"
      "execute_tools (parallel_Execute (NewParallel (run_registry ops a) n)) act r s \<noteq> (Panic p, r', s')"
    by (auto simp: execute_tools_def split: prod.split)
qed

section \<open>Agents that are well\<close>

definition factory_ok :: "('x \<Rightarrow> bool) \<Rightarrow> 'x factory option \<Rightarrow> bool" where
  "factory_ok ok f =
     (case f of None \<Rightarrow> True | Some (PerSession g) \<Rightarrow> (\<forall>sid. ok (g sid)) | Some (Shared x) \<Rightarrow> ok x)"

definition resource_ok :: "('x \<Rightarrow> bool) \<Rightarrow> 'x factory option \<Rightarrow> 'x resource \<Rightarrow> bool" where
  "resource_ok ok f x = (case x of Own y \<Rightarrow> ok y | OfAgent \<Rightarrow> (\<exists>y. f = Some (Shared y)))"

abbreviation memory_ok :: "('w, 'm) memory_object \<Rightarrow> bool" where
  "memory_ok x \<equiv> safe_memory (mo_ops x)"

abbreviation contents_ok :: "('w, 'c) contents_object \<Rightarrow> bool" where
  "contents_ok x \<equiv> safe_contents (co_ops x)"

text \<open>What the application gave.\<close>

definition given_ok :: "('w, 'm, 'c, 'k, 'v) agent \<Rightarrow> bool" where
  "given_ok a \<longleftrightarrow>
     (\<exists>m. a_model a = Some m \<and> answers m) \<and>
     (\<forall>f. a_react_planner a = Some f \<longrightarrow> safe_planner f) \<and>
     (\<forall>e. a_evaluator a = Some e \<longrightarrow> safe_evaluator e) \<and>
     (\<forall>ir. a_interrupter a = Some ir \<longrightarrow> accepts_plans ir) \<and>
     (\<forall>cc m. a_compress a = Some cc \<longrightarrow> ca_model cc = Some m \<longrightarrow> answers m) \<and>
     factory_ok memory_ok (a_memory_factory a) \<and> factory_ok contents_ok (a_contents_factory a)"

definition session_ok :: "('w, 'm, 'c, 'k, 'v) agent \<Rightarrow> ('w, 'm, 'c, 'k) session \<Rightarrow> bool" where
  "session_ok a s \<longleftrightarrow>
     resource_ok memory_ok (a_memory_factory a) (se_memory s) \<and>
     resource_ok contents_ok (a_contents_factory a) (se_contents s) \<and>
     ld_threshold (se_detector s) = a_threshold a \<and>
     (\<exists>m. cc_model (se_compressor s) = Some m \<and> answers m)"

definition agent_ok :: "('w, 'm, 'c, 'k, 'v) agent \<Rightarrow> bool" where
  "agent_ok a \<longleftrightarrow> given_ok a \<and> settled a \<and>
     a_react_planner a \<noteq> None \<and> (\<exists>p. a_pas_planner a = Some p \<and> pas_model p \<noteq> None) \<and>
     a_planner a = (if a_mode a = ModePlanAndSolve then PlanAndSolveRef else ReActRef) \<and>
     (\<forall>sid s. a_sessions a sid = Some s \<longrightarrow> se_id s = sid \<and> session_ok a s)"

lemma resource_of_ok: "factory_ok ok f \<Longrightarrow> resource_ok ok f x \<Longrightarrow> ok (resource_of f d x)"
  by (auto simp: resource_of_def factory_ok_def resource_ok_def split: resource.splits)

lemma make_ok: "factory_ok ok f \<Longrightarrow> ok d \<Longrightarrow> resource_ok ok f (make_resource f sid d)"
  by (auto simp: make_resource_def factory_ok_def resource_ok_def split: option.splits factory.splits)

lemma react_fn_safe: "safe_planner (react_fn p)"
proof -
  have "\<nexists>s r' p'. react_Plan ps r p = (Panic s, r', p')" for ps r
    by (auto simp: react_Plan_def planner_generate_def go_bind_def go_return_def Let_def
        split: option.splits prod.splits sum.splits res.splits)
  then show ?thesis
    by (auto simp: safe_planner_def react_fn_def split: prod.splits res.splits)
qed

text \<open>With components that behave the loop has an environment that behaves.\<close>

lemma run_env_well_behaved:
  assumes "agent_ok a" and "session_ok a s"
  shows "well_behaved (run_env lib a s stream)"
proof -
  have g: "given_ok a" using assms(1) by (simp add: agent_ok_def)
  then obtain m where m: "a_model a = Some m" "answers m" by (auto simp: given_ok_def)
  have f: "factory_ok memory_ok (a_memory_factory a)" "factory_ok contents_ok (a_contents_factory a)"
    "resource_ok memory_ok (a_memory_factory a) (se_memory s)"
    "resource_ok contents_ok (a_contents_factory a) (se_contents s)"
    using g assms(2) by (simp_all add: given_ok_def session_ok_def)
  have mem: "memory_ok (session_memory a s)"
    unfolding session_memory_def by (rule resource_of_ok [OF f(1,3)])
  have con: "contents_ok (session_contents a s)"
    unfolding session_contents_def by (rule resource_of_ok [OF f(2,4)])
  note ex = executor_safe [OF m con]
  show ?thesis
    unfolding well_behaved_def run_env_def Let_def loop_env.simps
    using assms g mem con ex
    by (intro conjI)
      (auto simp: agent_ok_def given_ok_def settled_def session_ok_def safe_planner_def safe_evaluator_def
        safe_memory_def safe_contents_def answers_def split: planner_ref.splits if_splits)
qed

section \<open>Every operation keeps an agent well\<close>

lemma agent_ok_frame [simp]:
  "agent_ok (a\<lparr>a_prompt_builder := pb\<rparr>) = agent_ok a" "agent_ok (a\<lparr>a_rule_view := b\<rparr>) = agent_ok a"
  "agent_ok (a\<lparr>a_skill_call := b\<rparr>) = agent_ok a" "agent_ok (a\<lparr>a_fetch := b\<rparr>) = agent_ok a"
  by (simp_all add: agent_ok_def given_ok_def settled_def session_ok_def)

lemma agent_ok_rebuild [simp]: "agent_ok (rebuildPromptBuilder a) = agent_ok a"
  by (simp add: rebuildPromptBuilder_def Let_def split: prod.split)

lemma agent_ok_registries:
  "agent_ok a \<Longrightarrow> named rule_name rs \<Longrightarrow> agent_ok (a\<lparr>a_rules := rs\<rparr>)"
  "agent_ok a \<Longrightarrow> named skill_name ss \<Longrightarrow> agent_ok (a\<lparr>a_skills := ss\<rparr>)"
  "agent_ok a \<Longrightarrow> named agent_tool_name ts \<Longrightarrow> agent_ok (a\<lparr>a_tools := ts\<rparr>)"
  by (simp_all add: agent_ok_def given_ok_def settled_def session_ok_def)

lemma agent_ok_wf: "agent_ok a \<Longrightarrow> named agent_tool_name (a_tools a) \<and> named rule_name (a_rules a) \<and> named skill_name (a_skills a)"
  by (simp add: agent_ok_def settled_def)

lemma agent_ok_add_tool: "agent_ok a \<Longrightarrow> agent_ok (add_tool t a)"
  unfolding add_tool_def by (rule agent_ok_registries(3)) (simp_all add: agent_ok_wf named_put)

lemma agent_ok_ensure: "agent_ok a \<Longrightarrow> agent_ok (ensureBuiltinToolsUnlocked a)"
  by (auto simp: ensureBuiltinToolsUnlocked_def Let_def agent_ok_add_tool)

lemma agent_ok_changed:
  assumes "agent_ok a"
  shows "agent_ok (ensureBuiltinToolsUnlocked (rebuildPromptBuilder (a\<lparr>a_rules := rule_Add rs (a_rules a)\<rparr>)))"
    and "agent_ok (ensureBuiltinToolsUnlocked (rebuildPromptBuilder (a\<lparr>a_skills := skill_Add ss (a_skills a)\<rparr>)))"
    and "agent_ok (rebuildPromptBuilder (a\<lparr>a_rules := rule_Remove n (a_rules a)\<rparr>))"
    and "agent_ok (rebuildPromptBuilder (a\<lparr>a_skills := skill_Remove n (a_skills a)\<rparr>))"
  unfolding agent_ok_rebuild
  by (intro agent_ok_ensure agent_ok_rebuild [THEN iffD2] agent_ok_registries assms;
      simp add: agent_ok_wf [OF assms] del: rule_Add.simps skill_Add.simps)+

lemma agent_ok_rules:
  assumes "agent_ok a"
  shows "agent_ok (AddRule ru a)" "agent_ok (RemoveRule n a)" "agent_ok (AddSkill sk a)" "agent_ok (RemoveSkill n a)"
    "agent_ok (snd (InjectRules d node a))" "agent_ok (snd (InjectSkills d node a))"
  unfolding AddRule_def RemoveRule_def AddSkill_def RemoveSkill_def InjectRules_def InjectSkills_def
  using agent_ok_changed [OF assms] assms by (simp_all split: sum.split del: rule_Add.simps skill_Add.simps)

lemma agent_ok_mode:
  assumes "agent_ok a"
  shows "agent_ok (SetExecutionMode mode a)"
proof -
  have "agent_ok (a\<lparr>a_mode := mode, a_planner := p\<rparr>)"
    if "p = (if mode = ModePlanAndSolve then PlanAndSolveRef else ReActRef)" for p
    using assms that by (simp add: agent_ok_def given_ok_def settled_def session_ok_def)
  then show ?thesis by (simp add: SetExecutionMode_def Let_def syncPlannerRef_def)
qed

lemma agent_ok_evaluator:
  "agent_ok a \<Longrightarrow> (\<And>e. ev = Some e \<Longrightarrow> safe_evaluator e) \<Longrightarrow> agent_ok (EnableEvaluator ev a)"
  "agent_ok a \<Longrightarrow> agent_ok (DisableEvaluator a)"
  by (auto simp: EnableEvaluator_def DisableEvaluator_def agent_ok_def given_ok_def settled_def session_ok_def)

text \<open>A new session. The only option there is for one is \<open>WithCheckpoint\<close>.\<close>

type_synonym ('w, 'k) checkpoint_choice = "(('w, 'k) checkpoint_store option \<times> nat list) option"

definition session_options :: "('w, 'k) checkpoint_choice \<Rightarrow> ('w, 'm, 'c, 'k) session_option list" where
  "session_options x = (case x of None \<Rightarrow> [] | Some (store, bytes) \<Rightarrow> [WithCheckpoint store bytes])"

lemma new_session_ok:
  assumes "agent_ok a"
  shows "session_ok a (newSessionInternal sid (session_options x) a)"
    and "se_id (newSessionInternal sid (session_options x) a) = sid"
proof -
  have f: "factory_ok memory_ok (a_memory_factory a)" "factory_ok contents_ok (a_contents_factory a)"
    "1 \<le> a_threshold a" and m: "\<exists>m. a_model a = Some m \<and> answers m"
    and c: "\<forall>cc m. a_compress a = Some cc \<longrightarrow> ca_model cc = Some m \<longrightarrow> answers m"
    using assms by (simp_all add: agent_ok_def given_ok_def settled_def)
  show "session_ok a (newSessionInternal sid (session_options x) a)"
    using f m c
    by (auto simp: session_ok_def newSessionInternal_def session_options_def WithCheckpoint_def Let_def
        NewLoopDetector_def NewContextCompressor_def make_ok safe_defaults split: option.split)
  show "se_id (newSessionInternal sid (session_options x) a) = sid"
    by (simp add: newSessionInternal_def session_options_def WithCheckpoint_def Let_def split: option.split prod.split)
qed

lemma Session_ok:
  assumes "agent_ok a" and "Session sid (session_options x) a = (s, a')"
  shows "agent_ok a'" and "se_id s = sid" and "a_sessions a' sid = Some s" and "session_ok a' s"
    and "a_threshold a' = a_threshold a" and "a_max_iterations a' = a_max_iterations a"
    and "\<And>t. t \<noteq> sid \<Longrightarrow> a_sessions a' t = a_sessions a t"
proof -
  have upd: "session_ok (a\<lparr>a_sessions := ss\<rparr>) s = session_ok a s" for ss and s :: "('a, 'b, 'c, 'd) session"
    by (simp add: session_ok_def)
  have ok: "agent_ok a'"
    using assms new_session_ok [OF assms(1), of sid x]
    by (auto simp: Session_def Let_def agent_ok_def given_ok_def settled_def upd split: option.splits if_splits)
  show "agent_ok a'" by (rule ok)
  show "se_id s = sid" "a_sessions a' sid = Some s" "session_ok a' s" "a_threshold a' = a_threshold a"
      "a_max_iterations a' = a_max_iterations a" "\<And>t. t \<noteq> sid \<Longrightarrow> a_sessions a' t = a_sessions a t"
    using assms new_session_ok [OF assms(1), of sid x]
    by (auto simp: Session_def Let_def upd agent_ok_def split: option.splits)
qed

section \<open>Runs\<close>

lemma after_run_sel:
  "a_model (after_run s v a) = a_model a" "a_react_planner (after_run s v a) = a_react_planner a"
  "a_evaluator (after_run s v a) = a_evaluator a" "a_interrupter (after_run s v a) = a_interrupter a"
  "a_compress (after_run s v a) = a_compress a" "a_threshold (after_run s v a) = a_threshold a"
  "a_result_max_len (after_run s v a) = a_result_max_len a" "a_tools (after_run s v a) = a_tools a"
  "a_rules (after_run s v a) = a_rules a" "a_skills (after_run s v a) = a_skills a"
  "a_planner (after_run s v a) = a_planner a" "a_mode (after_run s v a) = a_mode a"
  "a_max_iterations (after_run s v a) = a_max_iterations a" "a_system_prompt (after_run s v a) = a_system_prompt a"
  "a_prompt_builder (after_run s v a) = a_prompt_builder a" "a_rule_view (after_run s v a) = a_rule_view a"
  "a_skill_call (after_run s v a) = a_skill_call a" "a_fetch (after_run s v a) = a_fetch a"
  by (simp_all add: after_run_def Let_def)

lemma after_run_ok:
  assumes "agent_ok a" and "a_sessions a (se_id s) = Some s" and "lasting (a_threshold a) v"
  shows "agent_ok (after_run s v a)"
proof -
  let ?a = "after_run s v a"
  have ok: "session_ok a s" and g: "given_ok a" using assms(1,2) by (auto simp: agent_ok_def)
  have f: "factory_ok memory_ok (a_memory_factory a)" "factory_ok contents_ok (a_contents_factory a)"
    "resource_ok memory_ok (a_memory_factory a) (se_memory s)"
    "resource_ok contents_ok (a_contents_factory a) (se_contents s)"
    using g ok by (simp_all add: given_ok_def session_ok_def)
  have mem: "memory_ok (session_memory a s)" "contents_ok (session_contents a s)"
    unfolding session_memory_def session_contents_def by (rule resource_of_ok [OF f(1,3)], rule resource_of_ok [OF f(2,4)])
  have fac: "factory_ok memory_ok (a_memory_factory ?a)" "factory_ok contents_ok (a_contents_factory ?a)"
    using f(1,2) mem by (auto simp: after_run_def Let_def keep_shared_def factory_ok_def
        split: option.splits factory.splits resource.splits)
  have keep: "resource_ok ok f x \<Longrightarrow> resource_ok ok (keep_shared y z f) x"
    "ok y \<Longrightarrow> resource_ok ok f z \<Longrightarrow> resource_ok ok (keep_shared y z f) (keep_resource y z)" for ok f x y z
    by (auto simp: resource_ok_def keep_shared_def keep_resource_def split: option.splits factory.splits resource.splits)
  have "session_ok ?a s2" if "session_ok a s2" for s2
    using that by (simp add: session_ok_def after_run_def Let_def keep(1))
  moreover have "session_ok ?a s2" if "a_sessions ?a (se_id s) = Some s2" for s2
    using that ok assms(3) mem f(3,4)
    by (auto simp: session_ok_def after_run_def Let_def lasting_def keep(2))
  moreover have "a_sessions ?a t = (if t = se_id s then a_sessions ?a (se_id s) else a_sessions a t)"
      and "\<And>s2. a_sessions ?a (se_id s) = Some s2 \<Longrightarrow> se_id s2 = se_id s" for t
    by (auto simp: after_run_def Let_def)
  ultimately have "\<forall>t s2. a_sessions ?a t = Some s2 \<longrightarrow> se_id s2 = t \<and> session_ok ?a s2"
    using assms(1) by (metis agent_ok_def)
  moreover have "given_ok ?a" "settled ?a"
    using g assms(1) fac by (simp_all add: given_ok_def agent_ok_def settled_def after_run_sel)
  moreover have "\<exists>p. a_pas_planner ?a = Some p \<and> pas_model p \<noteq> None"
    using assms(3) by (simp add: lasting_def after_run_def Let_def)
  ultimately show ?thesis
    using assms(1) by (simp add: agent_ok_def after_run_sel)
qed

text \<open>Turns that are enough for every run.\<close>

definition agent_fuel :: "('w, 'm, 'c, 'k, 'v) agent \<Rightarrow> nat" where
  "agent_fuel a = nat (a_max_iterations a) * (2 * nat (a_threshold a) + 6) + 4"

lemma Session_Run_returns:
  assumes "agent_ok a" and "a_sessions a (se_id s) = Some s"
  shows "\<exists>x w' a'. Session_Run (agent_fuel a) lib stream ctx input s w a = Some (x, w', a') \<and>
    (\<forall>p. x \<noteq> Panic p) \<and> agent_ok a' \<and> (\<forall>t. t \<noteq> se_id s \<longrightarrow> a_sessions a' t = a_sessions a t) \<and>
    (\<forall>res. x = Ok res \<longrightarrow> ar_session_id res = se_id s)"
proof -
  have ok: "session_ok a s" using assms by (auto simp: agent_ok_def)
  let ?env = "run_env lib a s stream" and ?vars = "run_vars a s"
  let ?r = "\<lparr>rt_ctx = (if a_timeout a > 0 then al_with_timeout lib (a_timeout a) ctx else ctx), rt_world = w\<rparr>"
  note wb = run_env_well_behaved [OF assms(1) ok, of lib stream]
  have last: "lasting (a_threshold a) (?vars m)" for m
    using assms(1) ok by (auto simp: lasting_def run_vars_def agent_ok_def session_ok_def)
  have other: "t \<noteq> se_id s \<Longrightarrow> a_sessions (after_run s v a) t = a_sessions a t" for t v
    by (simp add: after_run_def Let_def)
  have ready: "ready ?env (?vars m)" for m
    using assms(1) by (auto simp: ready_def run_vars_def agent_ok_def)
  have plans: "\<not> plan_rejecting ?env"
  proof -
    have "accepts_plans ir" if "a_interrupter a = Some ir" for ir
      using assms(1) that by (simp add: agent_ok_def given_ok_def)
    then show ?thesis
      by (fastforce simp: plan_rejecting_def run_env_def Let_def accepts_plans_def)
  qed
  have thr: "ld_threshold (lv_detector (?vars m)) = a_threshold a" for m
    using last [of m] by (simp add: lasting_def)
  have fuel: "enough_fuel ?env (?vars m) = agent_fuel a" for m
    by (simp add: enough_fuel_def agent_fuel_def thr) (simp add: run_env_def Let_def)
  have one: "1 \<le> ld_threshold (lv_detector (?vars m))" for m
    using assms(1) by (simp add: thr agent_ok_def settled_def)
  obtain y r1 m1 where add: "mem_add (mo_ops (session_memory a s)) [text_message RoleUser input] ?r
      (mo_state (session_memory a s)) = (y, r1, m1)" by (rule prod_cases3)
  have np: "y \<noteq> Panic p" for p
    using wb add by (auto simp: well_behaved_def run_env_def Let_def)
  show ?thesis
  proof (cases y)
    case (Ok u)
    have "runLoop (agent_fuel a) ?env r1 (?vars m1) \<noteq> None"
      using runLoop_returns [OF plans ready one, of m1 r1] fuel by simp
    then obtain x r2 v2 where run: "runLoop (agent_fuel a) ?env r1 (?vars m1) = Some (x, r2, v2)" by auto
    have "x \<noteq> Panic p" for p
      using runLoop_safe [OF wb ready, of "agent_fuel a" r1 m1 p r2 v2] run by auto
    moreover have "agent_ok (after_run s v2 a)"
      by (rule after_run_ok [OF assms runLoop_lasting [OF run last]])
    ultimately show ?thesis
      using add run Ok other by (cases x) (auto simp: Session_Run_def Let_def)
  next
    case (Err e)
    have "agent_ok (after_run s (?vars m1) a)" by (rule after_run_ok [OF assms last])
    with Err add other show ?thesis by (auto simp: Session_Run_def Let_def)
  qed (use np in auto)
qed

end
