(* ===== verification/AgentCalls.thy ===== *)
theory AgentCalls
  imports AgentProofs "HOL-Library.Sublist"
begin

text \<open>
  An agent in the hands of an application: it is made from options and then called, in any order. What
  holds after every such sequence of calls.
\<close>

section \<open>Sequences of calls\<close>

datatype ('w, 'k) agent_call =
    CallSetExecutionMode execution_mode
  | CallEnableEvaluator "'w evaluator option"
  | CallDisableEvaluator
  | CallAddRule "rule option"
  | CallRemoveRule string
  | CallAddSkill "'w skill option"
  | CallRemoveSkill string
  | CallInjectRules string "goerr + fs_node"
  | CallInjectSkills string "goerr + fs_node"
  | CallShowSystemPrompt
  | CallSession string "('w, 'k) checkpoint_choice"
  | CallRun bool ctx string "nat list" "string option"

text \<open>A run that needed more turns than it is given would leave things as they are; there is none.\<close>

fun do_call ::
    "'w agent_lib \<Rightarrow> ('w, 'k) agent_call \<Rightarrow> 'w \<times> ('w, 'm, 'c, 'k, 'v) agent \<Rightarrow> 'w \<times> ('w, 'm, 'c, 'k, 'v) agent" where
  "do_call lib (CallSetExecutionMode mode) (w, a) = (w, SetExecutionMode mode a)"
| "do_call lib (CallEnableEvaluator ev) (w, a) = (w, EnableEvaluator ev a)"
| "do_call lib CallDisableEvaluator (w, a) = (w, DisableEvaluator a)"
| "do_call lib (CallAddRule ru) (w, a) = (w, AddRule ru a)"
| "do_call lib (CallRemoveRule n) (w, a) = (w, RemoveRule n a)"
| "do_call lib (CallAddSkill sk) (w, a) = (w, AddSkill sk a)"
| "do_call lib (CallRemoveSkill n) (w, a) = (w, RemoveSkill n a)"
| "do_call lib (CallInjectRules d node) (w, a) = (w, snd (InjectRules d node a))"
| "do_call lib (CallInjectSkills d node) (w, a) = (w, snd (InjectSkills d node a))"
| "do_call lib CallShowSystemPrompt (w, a) = (w, snd (ShowSystemPrompt a))"
| "do_call lib (CallSession sid x) (w, a) = (w, snd (Session sid (session_options x) a))"
| "do_call lib (CallRun stream ctx input bytes sid) (w, a) =
     (case Run (agent_fuel a) lib stream ctx input bytes sid w a of
        None \<Rightarrow> (w, a) | Some (_, w', a') \<Rightarrow> (w', a'))"

definition after_calls ::
    "'w agent_lib \<Rightarrow> ('w, 'k) agent_call list \<Rightarrow> 'w \<Rightarrow> ('w, 'm, 'c, 'k, 'v) agent \<Rightarrow>
     'w \<times> ('w, 'm, 'c, 'k, 'v) agent" where
  "after_calls lib calls w a = fold (do_call lib) calls (w, a)"

lemma after_calls_inv:
  assumes "P a" and "\<And>c w a. c \<in> set calls \<Longrightarrow> P a \<Longrightarrow> P (snd (do_call lib c (w, a)))"
  shows "P (snd (after_calls lib calls w a))"
proof -
  have "P (snd (fold (do_call lib) cs x))" if "P (snd x)" "set cs \<subseteq> set calls" for cs x
    using that
  proof (induction cs arbitrary: x)
    case (Cons c cs)
    have "P (snd (do_call lib c (fst x, snd x)))" using Cons.prems by (intro assms(2)) auto
    with Cons show ?case by simp
  qed simp
  from this [of "(w, a)" calls] assms(1) show ?thesis by (simp add: after_calls_def)
qed

section \<open>Every run comes back\<close>

lemma ensure_planner:
  "ensureBuiltinToolsUnlocked (a\<lparr>a_planner := p\<rparr>) = (ensureBuiltinToolsUnlocked a)\<lparr>a_planner := p\<rparr>"
  by (auto simp: ensureBuiltinToolsUnlocked_def Let_def add_tool_def)

lemma rebuild_planner: "rebuildPromptBuilder (a\<lparr>a_planner := p\<rparr>) = (rebuildPromptBuilder a)\<lparr>a_planner := p\<rparr>"
  by (simp add: rebuildPromptBuilder_def buildPromptSummaries_def defaultSystemPrompt_def Let_def)

lemma mode_kept: "a_mode (ensureBuiltinToolsUnlocked (rebuildPromptBuilder a)) = a_mode a"
  by (simp add: ensureBuiltinToolsUnlocked_def rebuildPromptBuilder_def Let_def add_tool_def split: prod.split)

text \<open>\<open>init\<close> could as well set the planner first.\<close>

lemma init_order:
  "syncPlannerRef (ensureBuiltinToolsUnlocked (rebuildPromptBuilder a)) =
   ensureBuiltinToolsUnlocked (rebuildPromptBuilder (syncPlannerRef a))"
  by (simp add: syncPlannerRef_def ensure_planner rebuild_planner mode_kept)

lemma defaults_ok:
  assumes "raw a" and "given_ok a"
  shows "agent_ok (syncPlannerRef (default_planners (default_factories a)))"
proof -
  obtain m where m: "a_model a = Some m" "answers m" using assms(2) by (auto simp: given_ok_def)
  have f: "factory_ok memory_ok (a_memory_factory (default_factories a))"
    "factory_ok contents_ok (a_contents_factory (default_factories a))"
    using assms(2) safe_defaults by (auto simp: default_factories_def given_ok_def factory_ok_def split: option.splits)
  show ?thesis
    using assms m f
    by (auto simp: syncPlannerRef_def default_planners_def default_factories_def Let_def agent_ok_def
        given_ok_def settled_def raw_def NewPlanAndSolve_def react_fn_safe)
qed

lemma init_ok:
  assumes "raw a" and "given_ok a"
  shows "agent_ok (agent_init a)"
proof -
  let ?a = "default_planners (default_factories a)"
  have "agent_ok (syncPlannerRef (if a_evaluator ?a \<noteq> None then ?a\<lparr>a_eval_enabled := True\<rparr> else ?a))"
    using defaults_ok [OF assms]
    by (simp add: syncPlannerRef_def agent_ok_def given_ok_def settled_def session_ok_def)
  then show ?thesis
    by (simp add: agent_init_def Let_def init_order agent_ok_ensure)
qed

text \<open>The only component that a call brings in is an evaluator.\<close>

fun good_call :: "('w, 'k) agent_call \<Rightarrow> bool" where
  "good_call (CallEnableEvaluator ev) = (case ev of None \<Rightarrow> True | Some e \<Rightarrow> safe_evaluator e)"
| "good_call _ = True"

lemma resolve_ok:
  assumes "agent_ok a" and "resolveSession bytes sid a = (s, a')"
  shows "agent_ok a'" and "a_sessions a' (se_id s) = Some s" and "agent_fuel a' = agent_fuel a"
    and "\<And>t. t \<noteq> se_id s \<Longrightarrow> a_sessions a' t = a_sessions a t"
    and "case sid of None \<Rightarrow> True | Some n \<Rightarrow> n = [] \<or> se_id s = n"
proof -
  obtain n where n: "Session n (session_options None) a = (s, a')"
    and sid: "case sid of None \<Rightarrow> True | Some k \<Rightarrow> k = [] \<or> n = k"
    using assms(2)
    by (auto simp: resolveSession_def NewSession_def session_options_def split: option.splits if_splits)
  note ok = Session_ok [OF assms(1) n]
  show "agent_ok a'" "a_sessions a' (se_id s) = Some s" "agent_fuel a' = agent_fuel a"
      "\<And>t. t \<noteq> se_id s \<Longrightarrow> a_sessions a' t = a_sessions a t"
      "case sid of None \<Rightarrow> True | Some n \<Rightarrow> n = [] \<or> se_id s = n"
    using ok sid by (auto simp: agent_fuel_def split: option.splits)
qed

lemma Run_returns:
  assumes "agent_ok a"
  shows "\<exists>x w' a' n. Run (agent_fuel a) lib stream ctx input bytes sid w a = Some (x, w', a') \<and>
    (\<forall>p. x \<noteq> Panic p) \<and> agent_ok a' \<and> (\<forall>t. t \<noteq> n \<longrightarrow> a_sessions a' t = a_sessions a t) \<and>
    (case sid of None \<Rightarrow> True | Some k \<Rightarrow> k = [] \<or> n = k) \<and>
    (\<forall>res. x = Ok res \<longrightarrow> ar_session_id res = n)"
proof -
  obtain s a1 where r: "resolveSession bytes sid a = (s, a1)" by force
  note ok = resolve_ok [OF assms r]
  from Session_Run_returns [OF ok(1,2), of lib stream ctx input w] obtain x w' a'
    where run: "Session_Run (agent_fuel a1) lib stream ctx input s w a1 = Some (x, w', a')"
      and "\<forall>p. x \<noteq> Panic p" "agent_ok a'" "\<forall>t. t \<noteq> se_id s \<longrightarrow> a_sessions a' t = a_sessions a1 t"
        "\<forall>res. x = Ok res \<longrightarrow> ar_session_id res = se_id s" by blast
  with ok r show ?thesis
    by (intro exI [of _ x] exI [of _ w'] exI [of _ a'] exI [of _ "se_id s"]) (simp add: Run_def)
qed

lemma show_prompt_ok: "agent_ok a \<Longrightarrow> agent_ok (snd (ShowSystemPrompt a))"
  by (auto simp: ShowSystemPrompt_def Let_def split: option.split prod.split)

lemma call_ok:
  assumes "good_call c" and "agent_ok a"
  shows "agent_ok (snd (do_call lib c (w, a)))"
proof (cases c)
  case (CallEnableEvaluator ev)
  with assms show ?thesis by (auto intro!: agent_ok_evaluator split: option.splits)
next
  case (CallSession sid x)
  obtain s a' where "Session sid (session_options x) a = (s, a')" by force
  with Session_ok(1) [OF assms(2) this] CallSession show ?thesis by simp
next
  case (CallRun stream ctx input bytes sid)
  with Run_returns [OF assms(2), of lib stream ctx input bytes sid w] show ?thesis by auto
qed (simp_all add: assms agent_ok_mode agent_ok_evaluator agent_ok_rules show_prompt_ok)

lemma agent_after_calls:
  assumes "\<forall>f \<in> set opts. is_option f" and "given_ok (fold (\<lambda>f a. f a) opts base_agent)"
    and "\<forall>c \<in> set calls. good_call c"
  shows "agent_ok (snd (after_calls lib calls w (New opts)))"
proof (rule after_calls_inv)
  show "agent_ok (New opts)"
    unfolding New_def by (rule init_ok [OF options_raw [OF assms(1) raw_base] assms(2)])
next
  fix c w and a :: "('a, 'b, 'c, 'd, 'e) agent"
  assume "c \<in> set calls" and "agent_ok a"
  with assms(3) show "agent_ok (snd (do_call lib c (w, a)))" by (intro call_ok) simp_all
qed


section \<open>The model is shown what there is\<close>

text \<open>The prompt of the agent as it is now.\<close>

definition current_prompt :: "('w, 'm, 'c, 'k, 'v) agent \<Rightarrow> string" where
  "current_prompt a =
     fst (Build (WithSkills (snd (buildPromptSummaries a)) (WithRules (fst (buildPromptSummaries a))
       (NewBuilder (if a_system_prompt a = [] then defaultSystemPrompt a else a_system_prompt a)))))"

definition has_builtins :: "('w, 'm, 'c, 'k, 'v) agent \<Rightarrow> bool" where
  "has_builtins a \<longleftrightarrow> settled a \<and>
     (a_rule_view a \<longrightarrow> reg_items (a_tools a) ''rule_view'' = Some RuleViewTool) \<and>
     (a_skill_call a \<longrightarrow> reg_items (a_tools a) ''skill_call'' = Some SkillCallTool) \<and>
     (a_fetch a \<longrightarrow> reg_items (a_tools a) ''fetch_full_result'' = Some FetchFullResultTool)"

definition in_sync :: "('w, 'm, 'c, 'k, 'v) agent \<Rightarrow> bool" where
  "in_sync a \<longleftrightarrow> has_builtins a \<and> a_fetch a \<and>
     (rule_List (a_rules a) \<noteq> [] \<longrightarrow> a_rule_view a) \<and> (skill_List (a_skills a) \<noteq> [] \<longrightarrow> a_skill_call a) \<and>
     a_prompt_builder a = a_prompt_builder (rebuildPromptBuilder a)"

lemma rebuild_sel [simp]:
  "a_rules (rebuildPromptBuilder a) = a_rules a" "a_skills (rebuildPromptBuilder a) = a_skills a"
  "a_tools (rebuildPromptBuilder a) = a_tools a" "a_fetch (rebuildPromptBuilder a) = a_fetch a"
  "a_rule_view (rebuildPromptBuilder a) = a_rule_view a" "a_skill_call (rebuildPromptBuilder a) = a_skill_call a"
  "a_threshold (rebuildPromptBuilder a) = a_threshold a"
  "a_result_max_len (rebuildPromptBuilder a) = a_result_max_len a"
  "a_system_prompt (rebuildPromptBuilder a) = a_system_prompt a" "a_mode (rebuildPromptBuilder a) = a_mode a"
  by (simp_all add: rebuildPromptBuilder_def Let_def split: prod.split)

text \<open>The prompt depends on four fields.\<close>

lemma builder_depends:
  assumes "a_rules a = a_rules b" "a_skills a = a_skills b" "a_system_prompt a = a_system_prompt b"
    and "a_system_prompt b = [] \<Longrightarrow> a_mode a = a_mode b"
  shows "a_prompt_builder (rebuildPromptBuilder a) = a_prompt_builder (rebuildPromptBuilder b)"
  using assms by (simp add: rebuildPromptBuilder_def buildPromptSummaries_def defaultSystemPrompt_def Let_def)

lemma builtins_rebuild [simp]: "has_builtins (rebuildPromptBuilder a) = has_builtins a"
  by (simp add: has_builtins_def settled_def)

text \<open>A built-in tool is in the registry under its own name.\<close>

lemma named_builtin [simp]:
  assumes "named agent_tool_name r"
  shows "named agent_tool_name (reg_put ''rule_view'' RuleViewTool r)"
    and "named agent_tool_name (reg_put ''skill_call'' SkillCallTool r)"
    and "named agent_tool_name (reg_put ''fetch_full_result'' FetchFullResultTool r)"
  using named_put [OF assms, of RuleViewTool] named_put [OF assms, of SkillCallTool]
    named_put [OF assms, of FetchFullResultTool]
  by (simp_all add: agent_tool_name_def)

definition has_tool :: "'w agent_tool \<Rightarrow> ('w, 'm, 'c, 'k, 'v) agent \<Rightarrow> bool" where
  "has_tool t a \<longleftrightarrow> reg_items (a_tools a) (agent_tool_name t) = Some t"

lemma add_builtin:
  assumes "has_builtins a"
  shows "has_builtins ((add_tool RuleViewTool a)\<lparr>a_rule_view := True\<rparr>)"
    and "has_builtins ((add_tool SkillCallTool a)\<lparr>a_skill_call := True\<rparr>)"
    and "has_builtins ((add_tool FetchFullResultTool a)\<lparr>a_fetch := True\<rparr>)"
  using assms by (simp_all add: has_builtins_def settled_def add_tool_def agent_tool_name_def)

lemma ensure_builtins: "has_builtins a \<Longrightarrow> has_builtins (ensureBuiltinToolsUnlocked a)"
  by (simp add: ensureBuiltinToolsUnlocked_def Let_def add_builtin)

lemma ensure_sel:
  "a_prompt_builder (ensureBuiltinToolsUnlocked a) = a_prompt_builder a"
  "a_rules (ensureBuiltinToolsUnlocked a) = a_rules a" "a_skills (ensureBuiltinToolsUnlocked a) = a_skills a"
  "a_system_prompt (ensureBuiltinToolsUnlocked a) = a_system_prompt a"
  "a_mode (ensureBuiltinToolsUnlocked a) = a_mode a" "a_fetch (ensureBuiltinToolsUnlocked a)"
  "rule_List (a_rules a) \<noteq> [] \<Longrightarrow> a_rule_view (ensureBuiltinToolsUnlocked a)"
  "skill_List (a_skills a) \<noteq> [] \<Longrightarrow> a_skill_call (ensureBuiltinToolsUnlocked a)"
  by (simp_all add: ensureBuiltinToolsUnlocked_def Let_def add_tool_def)

lemma ensure_sync:
  assumes "has_builtins a" and "a_prompt_builder a = a_prompt_builder (rebuildPromptBuilder a)"
  shows "in_sync (ensureBuiltinToolsUnlocked a)"
  using assms ensure_builtins builder_depends [of "ensureBuiltinToolsUnlocked a" a]
  by (simp add: in_sync_def ensure_sel)

lemma rebuilt_builder [simp]:
  "a_prompt_builder (rebuildPromptBuilder (rebuildPromptBuilder a)) = a_prompt_builder (rebuildPromptBuilder a)"
  by (rule builder_depends) simp_all

lemma rebuilt_sync: "has_builtins a \<Longrightarrow> in_sync (ensureBuiltinToolsUnlocked (rebuildPromptBuilder a))"
  by (rule ensure_sync) simp_all

text \<open>Removing leaves nothing that was not there.\<close>

lemma removed_empty:
  "named rule_name r \<Longrightarrow> rule_List r = [] \<Longrightarrow> rule_List (rule_Remove n r) = []"
  "named skill_name s \<Longrightarrow> skill_List s = [] \<Longrightarrow> skill_List (skill_Remove n s) = []"
proof -
  show "rule_List (rule_Remove n r) = []" if "named rule_name r" "rule_List r = []"
  proof -
    have wf: "reg_wf r" using that(1) by (simp add: named_def)
    with that(2) show ?thesis
      by (simp only: rules.listing_entries rules.wf_remove rules.entries_remove) simp
  qed
  show "skill_List (skill_Remove n s) = []" if "named skill_name s" "skill_List s = []"
  proof -
    have wf: "reg_wf s" using that(1) by (simp add: named_def)
    with that(2) show ?thesis
      by (simp only: skills.listing_entries skills.wf_remove skills.entries_remove) simp
  qed
qed

lemma in_sync_frame:
  assumes "in_sync a" "a_tools b = a_tools a" "a_rules b = a_rules a" "a_skills b = a_skills a"
    "a_fetch b = a_fetch a" "a_rule_view b = a_rule_view a" "a_skill_call b = a_skill_call a"
    "a_threshold b = a_threshold a" "a_result_max_len b = a_result_max_len a"
    "a_system_prompt b = a_system_prompt a" "a_system_prompt a = [] \<Longrightarrow> a_mode b = a_mode a"
    "a_prompt_builder b = a_prompt_builder a"
  shows "in_sync b"
  using assms builder_depends [of b a] by (simp add: in_sync_def has_builtins_def settled_def)

lemma shown_prompt:
  assumes "in_sync a"
  shows "ShowSystemPrompt a = (current_prompt a, a)"
proof -
  let ?b = "if a_system_prompt a = [] then defaultSystemPrompt a else a_system_prompt a"
  have "a_prompt_builder a = Some (WithSkills (snd (buildPromptSummaries a))
      (WithRules (fst (buildPromptSummaries a)) (NewBuilder ?b)))" (is "_ = Some ?pb")
    using assms by (simp add: in_sync_def rebuildPromptBuilder_def Let_def split: prod.split)
  moreover have "snd (Build ?pb) = ?pb"
    by (simp add: Build_def Let_def WithSkills_def WithRules_def NewBuilder_def sort_sections_def)
  ultimately show ?thesis
    by (auto simp: ShowSystemPrompt_def Let_def current_prompt_def split: prod.splits)
qed

lemma sync_changed:
  assumes "in_sync a"
  shows "in_sync (ensureBuiltinToolsUnlocked (rebuildPromptBuilder (a\<lparr>a_rules := rule_Add rs (a_rules a)\<rparr>)))"
    and "in_sync (ensureBuiltinToolsUnlocked (rebuildPromptBuilder (a\<lparr>a_skills := skill_Add ss (a_skills a)\<rparr>)))"
    and "in_sync (rebuildPromptBuilder (a\<lparr>a_rules := rule_Remove n (a_rules a)\<rparr>))"
    and "in_sync (rebuildPromptBuilder (a\<lparr>a_skills := skill_Remove n (a_skills a)\<rparr>))"
proof -
  have b: "has_builtins a" using assms by (simp add: in_sync_def)
  then have n: "named rule_name (a_rules a)" "named skill_name (a_skills a)"
    by (simp_all add: has_builtins_def settled_def)
  have "has_builtins (a\<lparr>a_rules := rs\<rparr>)" if "named rule_name rs" for rs
    using b that by (simp add: has_builtins_def settled_def)
  note hr = this
  have "has_builtins (a\<lparr>a_skills := ss\<rparr>)" if "named skill_name ss" for ss
    using b that by (simp add: has_builtins_def settled_def)
  note hs = this
  show "in_sync (ensureBuiltinToolsUnlocked (rebuildPromptBuilder (a\<lparr>a_rules := rule_Add rs (a_rules a)\<rparr>)))"
    by (rule rebuilt_sync [OF hr [OF named_Add(1) [OF n(1)]]])
  show "in_sync (ensureBuiltinToolsUnlocked (rebuildPromptBuilder (a\<lparr>a_skills := skill_Add ss (a_skills a)\<rparr>)))"
    by (rule rebuilt_sync [OF hs [OF named_Add(2) [OF n(2)]]])
  show "in_sync (rebuildPromptBuilder (a\<lparr>a_rules := rule_Remove n (a_rules a)\<rparr>))"
    using assms hr [OF named_Add(3) [OF n(1), of n]] removed_empty(1) [OF n(1), of n] by (auto simp: in_sync_def)
  show "in_sync (rebuildPromptBuilder (a\<lparr>a_skills := skill_Remove n (a_skills a)\<rparr>))"
    using assms hs [OF named_Add(4) [OF n(2), of n]] removed_empty(2) [OF n(2), of n] by (auto simp: in_sync_def)
qed

lemma sync_rules:
  assumes "in_sync a"
  shows "in_sync (AddRule ru a)" "in_sync (RemoveRule n a)" "in_sync (AddSkill sk a)" "in_sync (RemoveSkill n a)"
    "in_sync (snd (InjectRules d node a))" "in_sync (snd (InjectSkills d node a))"
  unfolding AddRule_def RemoveRule_def AddSkill_def RemoveSkill_def InjectRules_def InjectSkills_def
  using sync_changed [OF assms] assms by (simp_all split: sum.split del: rule_Add.simps skill_Add.simps)

lemma sync_mode:
  assumes "in_sync a"
  shows "in_sync (SetExecutionMode mode a)"
proof -
  let ?a = "syncPlannerRef (a\<lparr>a_mode := mode\<rparr>)"
  have "has_builtins ?a" "a_fetch ?a" "rule_List (a_rules ?a) \<noteq> [] \<longrightarrow> a_rule_view ?a"
    "skill_List (a_skills ?a) \<noteq> [] \<longrightarrow> a_skill_call ?a"
    using assms by (simp_all add: in_sync_def has_builtins_def settled_def syncPlannerRef_def)
  then have "in_sync (rebuildPromptBuilder ?a)" by (simp add: in_sync_def)
  moreover have "in_sync ?a" if "a_system_prompt a \<noteq> []"
    by (rule in_sync_frame [OF assms]) (simp_all add: syncPlannerRef_def that)
  ultimately show ?thesis by (auto simp: SetExecutionMode_def Let_def syncPlannerRef_def)
qed

lemma sync_session:
  assumes "in_sync a" and "Session sid opts a = (s, a')"
  shows "in_sync a'"
  using assms by (auto simp: Session_def Let_def intro: in_sync_frame split: option.splits)

lemma sync_after_run: "in_sync a \<Longrightarrow> in_sync (after_run s v a)"
  by (erule in_sync_frame) (simp_all add: after_run_sel)

lemma sync_run:
  assumes "in_sync a" and "Run fuel lib stream ctx input bytes sid w a = Some (x, w', a')"
  shows "in_sync a'"
proof -
  obtain s a1 where s: "resolveSession bytes sid a = (s, a1)" by force
  then have "in_sync a1"
    using sync_session [OF assms(1)] by (auto simp: resolveSession_def NewSession_def split: option.splits if_splits)
  with assms(2) s show ?thesis
    by (auto simp: Run_def Session_Run_def Let_def sync_after_run split: prod.splits res.splits option.splits)
qed

lemma sync_call:
  assumes "in_sync a"
  shows "in_sync (snd (do_call lib c (w, a)))"
proof (cases c)
  case (CallSession sid x)
  obtain s a' where "Session sid (session_options x) a = (s, a')" by force
  with sync_session [OF assms this] CallSession show ?thesis by simp
next
  case (CallRun stream ctx input bytes sid)
  with assms show ?thesis by (auto intro: sync_run split: option.split)
next
  case (CallEnableEvaluator ev)
  with assms show ?thesis by (auto simp: EnableEvaluator_def intro: in_sync_frame)
next
  case CallDisableEvaluator
  with assms show ?thesis by (auto simp: DisableEvaluator_def intro: in_sync_frame)
qed (simp_all add: assms sync_rules sync_mode shown_prompt)

lemma sync_init:
  assumes "raw a"
  shows "in_sync (agent_init a)"
proof -
  have "has_builtins (syncPlannerRef b)" if "has_builtins b" for b :: "('a, 'b, 'c, 'd, 'e) agent"
    using that by (simp add: has_builtins_def settled_def syncPlannerRef_def)
  moreover have "has_builtins (let b = default_planners (default_factories a) in
      if a_evaluator b \<noteq> None then b\<lparr>a_eval_enabled := True\<rparr> else b)"
    using assms by (simp add: has_builtins_def settled_def raw_def default_planners_def default_factories_def Let_def
        split: option.split)
  ultimately show ?thesis
    unfolding agent_init_def Let_def init_order by (intro rebuilt_sync) simp
qed

text \<open>The line of a rule or of a skill, whether its content follows or not.\<close>

definition rule_tag :: "string \<Rightarrow> string" where
  "rule_tag n = ''<rule name='' @ go_quote n @ ''>''"

definition skill_tag :: "string \<Rightarrow> string" where
  "skill_tag n = ''<skill name='' @ go_quote n @ ''>''"

lemma sublist_pre: "sublist x y \<Longrightarrow> sublist x (as @ y)"
  by (rule sublist_order.order.trans [OF _ sublist_append_leftI])

lemma sublist_post: "sublist x y \<Longrightarrow> sublist x (y @ as)"
  by (rule sublist_order.order.trans [OF _ sublist_append_rightI])

lemma sublist_concat: "sublist x (f y) \<Longrightarrow> y \<in> set ys \<Longrightarrow> sublist x (concat (map f ys))"
  by (induction ys) (auto intro: sublist_pre sublist_post)

lemma sublist_join: "sublist x y \<Longrightarrow> y \<in> set ys \<Longrightarrow> sublist x (join sep ys)"
  by (induction sep ys rule: join.induct) (auto intro: sublist_pre sublist_post)

lemma rule_listed:
  assumes "x \<in> set xs"
  shows "rs_always_apply x \<Longrightarrow> sublist (rule_tag (rs_name x)) (BuildAlwaysOnRules xs)"
    and "\<not> rs_always_apply x \<Longrightarrow> sublist (rule_tag (rs_name x)) (BuildRuleCatalog xs)"
proof -
  have tag: "sublist (rule_tag n) (bs @ ''<rule name='' @ go_quote n @ ''>'' @ as)" for n bs as
    using sublist_appendI [of "rule_tag n" bs as] by (simp add: rule_tag_def)
  have tags: "sublist (rule_tag (rs_name x)) (bs @ concat (map (\<lambda>r. ds @ ''<rule name='' @ go_quote (rs_name r) @ ''>'' @ f r) ys) @ as)"
    if "x \<in> set ys" for ys bs as ds and f :: "rule_summary \<Rightarrow> string"
    by (intro sublist_pre sublist_post sublist_concat [OF tag that])
  show "sublist (rule_tag (rs_name x)) (BuildAlwaysOnRules xs)" if on: "rs_always_apply x"
  proof -
    have m: "x \<in> set (filter rs_always_apply xs)" using assms on by simp
    then show ?thesis
      using tags [OF m, of "''<rules>'' @ newline" "[]" "\<lambda>r. newline @ rs_content r @ newline @ ''</rule>'' @ newline" "''</rules>''"]
      by (auto simp: BuildAlwaysOnRules_def Let_def filter_empty_conv)
  qed
  show "sublist (rule_tag (rs_name x)) (BuildRuleCatalog xs)" if off: "\<not> rs_always_apply x"
  proof -
    have m: "x \<in> set (filter (\<lambda>r. \<not> rs_always_apply r) xs)" using assms off by simp
    then show ?thesis
      using tags [OF m, of "''<available_rules>'' @ newline @
          ''Use the rule_view tool to read the full content of a rule when needed.'' @ newline" "''  ''"
          "\<lambda>r. rs_description r @ ''</rule>'' @ newline" "''</available_rules>''"]
      by (auto simp: BuildRuleCatalog_def Let_def filter_empty_conv)
  qed
qed

lemma skill_listed:
  assumes "x \<in> set xs"
  shows "ss_always_apply x \<Longrightarrow> sublist (skill_tag (ss_name x)) (BuildAlwaysOnSkills xs)"
    and "\<not> ss_always_apply x \<Longrightarrow> sublist (skill_tag (ss_name x)) (BuildSkillCatalog xs)"
proof -
  have tag: "sublist (skill_tag n) (bs @ ''<skill name='' @ go_quote n @ ''>'' @ as)" for n bs as
    using sublist_appendI [of "skill_tag n" bs as] by (simp add: skill_tag_def)
  have tags: "sublist (skill_tag (ss_name x)) (bs @ concat (map (\<lambda>s. ds @ ''<skill name='' @ go_quote (ss_name s) @ ''>'' @ f s) ys) @ as)"
    if "x \<in> set ys" for ys bs as ds and f :: "skill_summary \<Rightarrow> string"
    by (intro sublist_pre sublist_post sublist_concat [OF tag that])
  show "sublist (skill_tag (ss_name x)) (BuildAlwaysOnSkills xs)" if on: "ss_always_apply x"
  proof -
    have m: "x \<in> set (filter ss_always_apply xs)" using assms on by simp
    then show ?thesis
      using tags [OF m, of "''<skills>'' @ newline" "[]" "\<lambda>s. newline @ ss_content s @ newline @ ''</skill>'' @ newline" "''</skills>''"]
      by (auto simp: BuildAlwaysOnSkills_def Let_def filter_empty_conv)
  qed
  show "sublist (skill_tag (ss_name x)) (BuildSkillCatalog xs)" if off: "\<not> ss_always_apply x"
  proof -
    have m: "x \<in> set (filter (\<lambda>s. \<not> ss_always_apply s) xs)" using assms off by simp
    then show ?thesis
      using tags [OF m, of "''<available_skills>'' @ newline @
          ''Use the skill_call tool to invoke a skill when needed.'' @ newline" "''  ''"
          "\<lambda>s. ss_description s @ ''</skill>'' @ newline" "''</available_skills>''"]
      by (auto simp: BuildSkillCatalog_def Let_def filter_empty_conv)
  qed
qed

lemma prompt_lists:
  "ru \<in> set (rule_List (a_rules a)) \<Longrightarrow> sublist (rule_tag (rule_name ru)) (current_prompt a)"
  "sk \<in> set (skill_List (a_skills a)) \<Longrightarrow> sublist (skill_tag (skill_name sk)) (current_prompt a)"
proof -
  have member: "x \<noteq> [] \<Longrightarrow> x \<in> set (nonempty x)" for x by (simp add: nonempty_def)
  have some: "rule_tag n \<noteq> []" "skill_tag n \<noteq> []" for n by (simp_all add: rule_tag_def skill_tag_def)
  let ?rs = "fst (buildPromptSummaries a)" and ?ss = "snd (buildPromptSummaries a)"
  note prompt = current_prompt_def Build_def Let_def WithSkills_def WithRules_def NewBuilder_def
  show "sublist (rule_tag (rule_name ru)) (current_prompt a)" if "ru \<in> set (rule_List (a_rules a))"
  proof -
    have "rule_name ru \<in> rs_name ` set ?rs" using that by (force simp: buildPromptSummaries_def)
    then obtain x where x: "x \<in> set ?rs" "rs_name x = rule_name ru" by auto
    obtain b where b: "b \<in> {BuildAlwaysOnRules ?rs, BuildRuleCatalog ?rs}" "sublist (rule_tag (rule_name ru)) b"
      using rule_listed [OF x(1)] x(2) by (cases "rs_always_apply x") auto
    then have "b \<noteq> []" using some by auto
    with b(1) member [of b] show ?thesis
      unfolding prompt by (auto intro!: sublist_join [OF b(2)])
  qed
  show "sublist (skill_tag (skill_name sk)) (current_prompt a)" if "sk \<in> set (skill_List (a_skills a))"
  proof -
    have "skill_name sk \<in> ss_name ` set ?ss" using that by (force simp: buildPromptSummaries_def)
    then obtain x where x: "x \<in> set ?ss" "ss_name x = skill_name sk" by auto
    obtain b where b: "b \<in> {BuildAlwaysOnSkills ?ss, BuildSkillCatalog ?ss}" "sublist (skill_tag (skill_name sk)) b"
      using skill_listed [OF x(1)] x(2) by (cases "ss_always_apply x") auto
    then have "b \<noteq> []" using some by auto
    with b(1) member [of b] show ?thesis
      unfolding prompt by (auto intro!: sublist_join [OF b(2)])
  qed
qed

text \<open>Every tool that is listed can be called.\<close>

lemma tools_found:
  assumes "named agent_tool_name (a_tools a)" and "t \<in> set (toolInfos (run_registry ops a))"
  shows "tools_Get (ti_name t) (run_registry ops a) \<noteq> None"
proof -
  obtain n x where n: "n \<in> set (reg_order (a_tools a))" "reg_items (a_tools a) n = Some x"
    and t: "ti_name t = tool_name (agent_tool_of ops a x)"
    using assms(2) by (fastforce simp: toolInfos_def Tools_def run_registry_def map_filter_set dest: sym)
  then have "ti_name t = n" using assms(1) by (simp add: agent_tool_of_name named_def)
  with n show ?thesis by (simp add: tools_Get_def run_registry_def)
qed

lemma rule_viewed:
  assumes "in_sync a" and "ru \<in> set (rule_List (a_rules a))" and "string_input input ''name'' = rule_name ru"
    and "rule_name ru \<noteq> []"
  shows "fst (registry_Execute (run_registry ops a) ''rule_view'' input r) = (rule_content ru, None)"
proof -
  have "rule_List (a_rules a) \<noteq> []" using assms(2) by auto
  then have "reg_items (a_tools a) ''rule_view'' = Some RuleViewTool"
    using assms(1) by (simp add: in_sync_def has_builtins_def)
  moreover have "rule_Get (rule_name ru) (a_rules a) = Some ru"
    using assms(1,2) named_list [of rule_name "a_rules a" ru]
    by (simp add: in_sync_def has_builtins_def settled_def rule_Get_def rule_List_def)
  ultimately show ?thesis
    using assms(3,4)
    by (simp add: registry_Execute_def run_registry_def agent_tool_of_def NewRuleViewTool_def rule_view_Execute_def
        view_rule_def on_world_def Let_def)
qed

lemma skill_called:
  assumes "in_sync a" and "sk \<in> set (skill_List (a_skills a))" and "string_input input ''name'' = skill_name sk"
    and "skill_name sk \<noteq> []" and "params_string input ''input'' = Some task"
  shows "registry_Execute (run_registry ops a) ''skill_call'' input r = call_skill a (skill_name sk) task r"
    and "skill_Get (skill_name sk) (a_skills a) = Some sk"
proof -
  have "skill_List (a_skills a) \<noteq> []" using assms(2) by auto
  then have "reg_items (a_tools a) ''skill_call'' = Some SkillCallTool"
    using assms(1) by (simp add: in_sync_def has_builtins_def)
  then show "registry_Execute (run_registry ops a) ''skill_call'' input r = call_skill a (skill_name sk) task r"
    using assms(3,4,5)
    by (simp add: registry_Execute_def run_registry_def agent_tool_of_def NewSkillCallTool_def skill_call_Execute_def
        Let_def)
  show "skill_Get (skill_name sk) (a_skills a) = Some sk"
    using assms(1,2) named_list [of skill_name "a_skills a" sk]
    by (simp add: in_sync_def has_builtins_def settled_def skill_Get_def skill_List_def)
qed

text \<open>
  C8. What the model is told is what there is. Whatever options an agent was made with and whatever was
  done with it since, its system prompt is that of its present rules, skills, mode and custom prompt and
  names every rule and every skill it has; every tool that is listed for the model can be called by its
  name; and for a rule that it has, \<open>rule_view\<close> answers with the content of that rule, for a skill
  \<open>skill_call\<close> runs that skill.
\<close>

theorem agent_tells_what_there_is:
  assumes "\<forall>f \<in> set opts. is_option f"
  shows "case after_calls lib calls w (New opts) of (w', a) \<Rightarrow>
    fst (ShowSystemPrompt a) = current_prompt a \<and>
    (\<forall>ru \<in> set (rule_List (a_rules a)). sublist (rule_tag (rule_name ru)) (fst (ShowSystemPrompt a))) \<and>
    (\<forall>sk \<in> set (skill_List (a_skills a)). sublist (skill_tag (skill_name sk)) (fst (ShowSystemPrompt a))) \<and>
    (\<forall>t \<in> set (toolInfos (run_registry ops a)). tools_Get (ti_name t) (run_registry ops a) \<noteq> None) \<and>
    (\<forall>ru input r. ru \<in> set (rule_List (a_rules a)) \<and> string_input input ''name'' = rule_name ru \<and> rule_name ru \<noteq> [] \<longrightarrow>
       fst (registry_Execute (run_registry ops a) ''rule_view'' input r) = (rule_content ru, None)) \<and>
    (\<forall>sk task input r. sk \<in> set (skill_List (a_skills a)) \<and> string_input input ''name'' = skill_name sk \<and>
         skill_name sk \<noteq> [] \<and> params_string input ''input'' = Some task \<longrightarrow>
       registry_Execute (run_registry ops a) ''skill_call'' input r = call_skill a (skill_name sk) task r \<and>
       skill_Get (skill_name sk) (a_skills a) = Some sk)"
proof -
  obtain w' a where a: "after_calls lib calls w (New opts) = (w', a)" by force
  have "in_sync (snd (after_calls lib calls w (New opts)))"
  proof (rule after_calls_inv)
    show "in_sync (New opts)"
      unfolding New_def by (rule sync_init [OF options_raw [OF assms raw_base]])
  qed (rule sync_call)
  then have sync: "in_sync a" by (simp add: a)
  then have tools: "named agent_tool_name (a_tools a)" by (simp add: in_sync_def has_builtins_def settled_def)
  show ?thesis
    unfolding a prod.case shown_prompt [OF sync] fst_conv
    by (intro conjI ballI allI impI refl prompt_lists tools_found [OF tools])
      (auto intro: rule_viewed [OF sync] skill_called [OF sync])
qed

section \<open>Witnesses\<close>

definition demo_rule :: rule where
  "demo_rule = NewFileRule ''tone'' ''How to write'' ''Be brief.'' False"

definition echo_model :: "unit chat_model" where
  "echo_model =
     \<lparr>cm_generate = (\<lambda>r ms _. (Inr (Some \<lparr>resp_message = text_message RoleAssistant ''ok'',
        resp_usage = \<lparr>prompt_tokens = 1, completion_tokens = 1, total_tokens = 2\<rparr>\<rparr>), r)),
      cm_stream = (\<lambda>r _ _. (Inr ([], None), r))\<rparr>"

definition demo_opts :: "(unit, unit, unit, unit, unit) agent_option list" where
  "demo_opts = [WithModel (Some echo_model), WithMaxIterations 3, WithLoopDetectionThreshold (- 1),
     agent_WithTools [Some (NewRuleViewTool None)]]"

definition demo_lib :: "unit agent_lib" where
  "demo_lib = \<lparr>al_with_timeout = (\<lambda>_ c. c), al_digest = (\<lambda>x. x), al_clock = (\<lambda>w. (0, w)), al_not_a_struct = ''not a struct''\<rparr>"

definition demo_calls :: "(unit, unit) agent_call list" where
  "demo_calls = [CallAddRule (Some demo_rule), CallSetExecutionMode ModePlanAndSolve,
     CallRun False Background ''write'' [] (Some ''s1''), CallRemoveRule ''other'']"

lemma demo_opts_ok: "\<forall>f \<in> set demo_opts. is_option f" 
  by (simp add: demo_opts_def is_option.intros)

lemma demo_given_ok: "given_ok (fold (\<lambda>f a. f a) demo_opts base_agent)"
  by (simp add: given_ok_def answers_def echo_model_def demo_opts_def base_agent_def WithModel_def
      WithMaxIterations_def WithLoopDetectionThreshold_def agent_WithTools_def add_tool_def factory_ok_def)

lemma demo_calls_ok: "\<forall>c \<in> set demo_calls. good_call c"
  by (simp add: demo_calls_def)


lemma agent_tells_what_there_is_witness:
  "case after_calls demo_lib [CallAddRule (Some demo_rule)] () (New demo_opts) of (w', a) \<Rightarrow>
     sublist (rule_tag ''tone'') (fst (ShowSystemPrompt a)) \<and>
     fst (registry_Execute (run_registry content_map_ops a) ''rule_view'' (Some [(''name'', VStr ''tone'')])
       \<lparr>rt_ctx = Background, rt_world = \<lparr>tw_world = (), tw_contents = None, tw_panic = None\<rparr>\<rparr>) = (''Be brief.'', None)"
proof -
  obtain a where a: "after_calls demo_lib [CallAddRule (Some demo_rule)] () (New demo_opts) = ((), a)"
    by (metis (full_types) old.unit.exhaust surj_pair)
  have "a_rules (New demo_opts) = rule_NewRegistry"
    by (simp add: New_def agent_init_def Let_def syncPlannerRef_def ensure_sel default_planners_def default_factories_def
        demo_opts_def base_agent_def WithModel_def WithMaxIterations_def WithLoopDetectionThreshold_def
        agent_WithTools_def add_tool_def)
  then have "a_rules a = rule_Add [Some demo_rule] rule_NewRegistry"
    using a by (auto simp: after_calls_def AddRule_def ensure_sel)
  then have m: "demo_rule \<in> set (rule_List (a_rules a))"
    by (simp add: rule_List_def rule_NewRegistry_def List.map_filter_simps Let_def)
  have n: "rule_name demo_rule = ''tone''" "rule_content demo_rule = ''Be brief.''"
      "string_input (Some [(''name'', VStr ''tone'')]) ''name'' = ''tone''"
    by (simp_all add: demo_rule_def NewFileRule_def string_input_def params_string_def params_get_def zero_string_def)
  note told = agent_tells_what_there_is [OF demo_opts_ok, where lib = demo_lib and w = "()"
      and calls = "[CallAddRule (Some demo_rule)]" and ops = content_map_ops, unfolded a prod.case]
  have "sublist (rule_tag (rule_name demo_rule)) (fst (ShowSystemPrompt a))"
    by (rule bspec [OF told [THEN conjunct2, THEN conjunct1] m])
  moreover note told [THEN conjunct2, THEN conjunct2, THEN conjunct2, THEN conjunct2, THEN conjunct1,
      THEN spec, THEN spec, THEN spec, THEN mp, of demo_rule "Some [(''name'', VStr ''tone'')]"]
  ultimately show ?thesis using m n unfolding a by simp
qed

end
