(* ===== verification/Approval.thy ===== *)
theory Approval
  imports LoopProofs
begin

text \<open>
  Who let a tool call through, and when: every call that the loop executes was granted earlier in the
  same run, in a turn of the state \<open>StateInterrupt\<close>, by what the interrupter answered there and then;
  and what that means when the interrupter is the human in the loop of \<open>interrupter/hitl.go\<close>.
\<close>

section \<open>The turn that grants a call\<close>

text \<open>
  \<open>granted env r asked act\<close>: asked about the call \<open>asked\<close> with the runtime \<open>r\<close>, the interrupter lets \<open>act\<close>
  through.
\<close>

definition granted :: "('w, 'm, 'c) loop_env \<Rightarrow> 'w rt \<Rightarrow> action \<Rightarrow> action \<Rightarrow> bool" where
  "granted env r asked act \<longleftrightarrow> act_type asked \<noteq> ActionAskHuman \<and>
     (case le_interrupter env of
        None \<Rightarrow> act = asked
      | Some ir \<Rightarrow>
          let ev = \<lparr>ie_type = InterruptBeforeToolCall, ie_action = asked\<rparr> in
          (case in_should ir ev r of
             (Inl _, _) \<Rightarrow> False
           | (Inr False, _) \<Rightarrow> act = asked
           | (Inr True, r') \<Rightarrow>
               (case in_wait ir ev r' of
                  (Inr (Some hr), _) \<Rightarrow> hr_approved hr \<and> act = apply_input (hr_modified_input hr) asked
                | _ \<Rightarrow> False)))"

lemma go_try_outside:
  "go_try (go_outside f) h k r v =
     (case f r of (Inl e, r') \<Rightarrow> h e r' v | (Inr x, r') \<Rightarrow> k x r' v)"
  by (simp add: go_try_def go_attempt_def go_outside_def go_bind_def split: prod.split sum.split)

lemma bind_goto:
  "go_bind m (\<lambda>_. goto st) r v = (Ok x, r', v') \<Longrightarrow> lv_state v' = st \<and> x = None"
  by (auto simp: go_bind_def goto_def go_modify_def go_return_def split: prod.splits res.splits)

lemma answer_question_state: "answer_question env act ans r v = (Ok x, r', v') \<Longrightarrow> lv_state v' = StatePlanning"
  unfolding answer_question_def by (drule bind_goto) simp

lemma report_error_result: "report_error env p e r v \<noteq> (Ok None, r', v')"
  by (simp add: report_error_def emit_def give_error_def go_bind_def go_return_def split: prod.split)

lemma unless_cancelled_result:
  "\<forall>r v r' v'. k r v \<noteq> (Ok None, r', v') \<Longrightarrow> unless_cancelled k r v \<noteq> (Ok None, r', v')"
  by (simp add: unless_cancelled_def go_bind_def go_poll_def go_fail_def split: prod.split option.split)

lemma add_messages_frame:
  "add_messages env msgs r v = (x, r', v') \<Longrightarrow> \<exists>m. v' = v\<lparr>lv_memory := m\<rparr>"
  by (auto simp: add_messages_def go_ignore_def go_attempt_def on_memory_def go_zoom_def go_bind_def go_return_def
      split: prod.splits res.splits)

lemma announce_call_pending:
  assumes "announce_call env act r v = (Ok x, r', v')"
  shows "lv_pending_action v' = lv_pending_action v"
  using assms
  by (auto simp: announce_call_def go_bind_def go_call_def go_modify_def go_get_def go_return_def goto_def
      dest!: add_messages_frame split: prod.splits res.splits)

lemma without_human_granted:
  assumes "without_human env act note r v = (Ok x, r', v')" and "lv_state v' = StateExecuting"
  shows "act_type act \<noteq> ActionAskHuman \<and> lv_pending_action v' = lv_pending_action v"
  using assms answer_question_state announce_call_pending
  by (fastforce simp: without_human_def split: if_splits)

lemma interrupt_for_granted:
  assumes "interrupt_for env act r v = (Ok None, r', v')" and "lv_state v' = StateExecuting"
    and "lv_pending_action v = Some act"
  shows "\<exists>act'. lv_pending_action v' = Some act' \<and> granted env r act act'"
proof (cases "le_interrupter env")
  case None
  with assms show ?thesis
    by (auto simp: interrupt_for_def granted_def dest: without_human_granted)
next
  case (Some ir)
  define ev where "ev = \<lparr>ie_type = (if act_type act = ActionAskHuman then InterruptOnEscalate else InterruptBeforeToolCall),
      ie_action = act\<rparr>"
  note run = assms(1) [unfolded interrupt_for_def Let_def Some option.case go_try_outside, folded ev_def]
  have ev: "ev = \<lparr>ie_type = InterruptBeforeToolCall, ie_action = act\<rparr>" if "act_type act \<noteq> ActionAskHuman"
    using that by (simp add: ev_def)
  obtain should r1 where s: "in_should ir ev r = (Inr should, r1)"
    using run report_error_result by (fastforce split: prod.splits sum.splits)
  show ?thesis
  proof (cases should)
    case False
    with run s assms(2) have "act_type act \<noteq> ActionAskHuman \<and> lv_pending_action v' = lv_pending_action v"
      by (auto dest: without_human_granted)
    with s False Some assms(3) show ?thesis by (simp add: granted_def ev)
  next
    case True
    have give: "\<forall>r v r' v'. go_bind (emit env (EventError e p)) (\<lambda>_. give_error e') r v \<noteq> (Ok None, r', v')" for e p e'
      by (simp add: emit_def give_error_def go_bind_def go_return_def split: prod.split)
    obtain hr r2 where w: "in_wait ir ev r1 = (Inr hr, r2)"
      using run s True unless_cancelled_result [OF give] by (fastforce split: prod.splits sum.splits)
    have "(\<not> should) = False" using True by simp
    note run = run [unfolded s prod.case sum.case this if_False w]
    have ok: "\<not> rejected hr"
      using run assms(2) by (auto dest!: bind_goto)
    then obtain h where h: "hr = Some h" "hr_approved h" by (auto simp: rejected_def split: option.splits)
    let ?act = "apply_input (hr_modified_input h) act"
    have tool: "act_type act \<noteq> ActionAskHuman"
      using run ok h assms(2) answer_question_state
      by (fastforce simp: go_bind_def go_modify_def)
    have "lv_pending_action v' = Some ?act"
      using run ok h tool announce_call_pending [of env ?act r2 "v\<lparr>lv_pending_action := Some ?act\<rparr>" None r' v']
      by (simp add: go_bind_def go_modify_def)
    with s w tool h True Some show ?thesis by (simp add: granted_def ev)
  qed
qed

lemma escalation_over:
  "go_bind (go_modify f) (\<lambda>_. goto StatePlanning) r v = (Ok x, r', v') \<Longrightarrow> lv_state v' = StatePlanning"
  by (drule bind_goto) simp

lemma give_error_result: "give_error e r v \<noteq> (Ok None, r', v')"
  by (simp add: give_error_def go_return_def)

lemma escalate_state:
  assumes "escalate env act r v = (Ok None, r', v')"
  shows "lv_state v' = StatePlanning"
proof (cases "le_interrupter env")
  case None
  with assms show ?thesis by (auto simp: escalate_def Let_def dest: escalation_over)
next
  case (Some ir)
  let ?ev = "\<lparr>ie_type = InterruptOnEscalate, ie_action = act\<rparr>"
  note run = assms [unfolded escalate_def Let_def Some option.case go_try_outside]
  obtain should r1 where s: "in_should ir ?ev r = (Inr should, r1)"
    using run give_error_result by (fastforce split: prod.splits sum.splits)
  show ?thesis
  proof (cases should)
    case False
    with run s show ?thesis by (auto dest: escalation_over)
  next
    case True
    then have "(\<not> should) = False" by simp
    note run = run [unfolded s prod.case sum.case this if_False]
    have "\<forall>r v r' v'. give_error (ErrSentinel ErrHITLTimeout) r v \<noteq> (Ok None, r', v')"
      using give_error_result by blast
    from unless_cancelled_result [OF this] obtain hr r2 where w: "in_wait ir ?ev r1 = (Inr hr, r2)"
      using run by (fastforce split: prod.splits sum.splits)
    have "go_bind m (\<lambda>_. go_bind (go_modify f) (\<lambda>_. goto StatePlanning)) r v = (Ok x, r', v') \<Longrightarrow>
        lv_state v' = StatePlanning" for m and f :: "('a, 'b, 'c) loop_vars \<Rightarrow> ('a, 'b, 'c) loop_vars" and r v x
      by (subst (asm) go_bind_def) (auto dest: escalation_over split: prod.splits res.splits)
    with run w show ?thesis by (auto dest: escalation_over split: if_splits)
  qed
qed

lemma turn_interrupt_granted:
  assumes "turn_interrupt env r v = (Ok None, r', v')" and "lv_state v' = StateExecuting"
  shows "\<not> lv_eval_escalate v \<and>
    (\<exists>asked act. lv_pending_action v = Some asked \<and> lv_pending_action v' = Some act \<and> granted env r asked act)"
proof -
  obtain asked where asked: "lv_pending_action v = Some asked"
    using assms(1) by (cases "lv_pending_action v")
      (auto simp: turn_interrupt_def go_bind_def go_get_def go_deref_def)
  obtain v1 where save: "maybeSaveCheckpoint env (Some (pending_result v asked)) r v = (Ok (), r, v1)"
    and same: "lv_pending_action v1 = Some asked"
    by (cases "le_checkpoint env") (auto simp: maybeSaveCheckpoint_def go_return_def go_modify_def asked)
  have run: "(if lv_eval_escalate v then escalate env asked else interrupt_for env asked) r v1 = (Ok None, r', v')"
    using assms(1) save by (simp add: turn_interrupt_def go_bind_def go_get_def go_deref_def go_return_def asked)
  have "lv_state v' = StatePlanning" if "escalate env asked r v1 = (Ok None, r', v')"
    using that escalate_state by blast
  with run assms(2) interrupt_for_granted [OF _ assms(2) same] asked show ?thesis
    by (auto split: if_splits)
qed

section \<open>The grants of a run\<close>

text \<open>
  \<open>granted_before env r v r' v' act\<close>: on the way from \<open>(r, v)\<close> to \<open>(r', v')\<close> there was a turn of the state
  \<open>StateInterrupt\<close> with a tool call pending, and the interrupter, asked in that turn, let \<open>act\<close> through.
\<close>

definition granted_before ::
    "('w, 'm, 'c) loop_env \<Rightarrow> 'w rt \<Rightarrow> ('w, 'm, 'c) loop_vars \<Rightarrow> 'w rt \<Rightarrow> ('w, 'm, 'c) loop_vars \<Rightarrow> action \<Rightarrow> bool" where
  "granted_before env r v r' v' act \<longleftrightarrow>
     (\<exists>r1 v1 asked. passes env r v r1 v1 \<and> passes env r1 v1 r' v' \<and>
        lv_state v1 = StateInterrupt \<and> \<not> lv_eval_escalate v1 \<and> lv_pending_action v1 = Some asked \<and>
        act_type asked = ActionToolCall \<and> granted env (snd (poll r1)) asked act)"

lemma granted_later:
  "granted_before env r v r1 v1 act \<Longrightarrow> loop_turn env r1 v1 = (Ok None, r2, v2) \<Longrightarrow> granted_before env r v r2 v2 act"
  unfolding granted_before_def by (blast intro: passes_turn)

lemma step_sources:
  "ctl_step env c c' \<Longrightarrow>
   (ct_state c' = StateExecuting \<longrightarrow> ct_state c = StateInterrupt \<or>
      (\<exists>te. ct_last c = Some te \<and> ct_pending c' = Some (te_action te))) \<and>
   (ct_last c' = ct_last c \<and> ct_history c' = ct_history c \<or>
      (\<exists>act te h. ct_state c = StateExecuting \<and> ct_pending c = Some act \<and> ct_last c' = Some te \<and>
         te_action te = act \<and> ct_history c' = ct_history c @ [h] \<and> sr_action h = act)) \<and>
   (ct_state c' = StateInterrupt \<and> \<not> ct_escalate c' \<longrightarrow>
      (\<exists>act. ct_pending c' = Some act \<and> act_type act \<noteq> ActionFinalAnswer))"
  by (induction rule: ctl_step.induct) (auto simp: taken_def split: action_type.splits)

lemma loop_turn_granted:
  assumes "loop_turn env r v = (Ok None, r', v')" and "lv_state v = StateInterrupt" and "lv_state v' = StateExecuting"
  shows "\<not> lv_eval_escalate v \<and>
    (\<exists>asked act. lv_pending_action v = Some asked \<and> lv_pending_action v' = Some act \<and> granted env (snd (poll r)) asked act)"
proof -
  obtain e r1 where p: "poll r = (e, r1)" by force
  have "turn_interrupt env r1 v = (Ok None, r', v')"
    using assms(1,2) p
    by (auto simp: loop_turn_def go_bind_def go_poll_def go_get_def go_fail_def turn_of_def
        split: option.splits prod.splits res.splits)
  from turn_interrupt_granted [OF this assms(3)] show ?thesis by (simp add: p)
qed

lemma passes_granted:
  assumes "passes env r v r' v'" and "ready env v" and "ctl_ok env (ctrl v)"
    and "lv_state v = StateInit" and "lv_last_exec v = None" and "lv_history v = []"
  shows "ready env v' \<and> ctl_ok env (ctrl v') \<and>
    (lv_state v' = StateExecuting \<longrightarrow> (\<exists>act. lv_pending_action v' = Some act \<and> granted_before env r v r' v' act)) \<and>
    (\<forall>te. lv_last_exec v' = Some te \<longrightarrow> granted_before env r v r' v' (te_action te)) \<and>
    (\<forall>h \<in> set (lv_history v'). granted_before env r v r' v' (sr_action h)) \<and>
    (lv_state v' = StateInterrupt \<and> \<not> lv_eval_escalate v' \<longrightarrow>
      (\<exists>act. lv_pending_action v' = Some act \<and> act_type act \<noteq> ActionFinalAnswer))"
  using assms(1)
proof induction
  case passes_start
  then show ?case using assms(2-) by simp
next
  case (passes_turn r1 v1 r2 v2)
  note turn = passes_turn(2) and IH = passes_turn(3)
  note step = loop_turn_step [OF turn]
  have ok: "ready env v2" "ctl_ok env (ctrl v2)" "ctl_step env (ctrl v1) (ctrl v2)"
    using step IH ctl_ok_step by blast+
  note src = step_sources [OF ok(3), simplified]
  note later = granted_later [OF _ turn]
  have exec: "\<exists>act. lv_pending_action v2 = Some act \<and> granted_before env r v r2 v2 act"
    if st: "lv_state v2 = StateExecuting"
  proof (cases "lv_state v1 = StateInterrupt")
    case True
    from loop_turn_granted [OF turn True st] obtain asked act where g: "\<not> lv_eval_escalate v1"
      "lv_pending_action v1 = Some asked" "lv_pending_action v2 = Some act" "granted env (snd (poll r1)) asked act"
      by blast
    have "act_type asked = ActionToolCall"
      using g IH True by (cases "act_type asked") (auto simp: granted_def)
    moreover have "passes env r1 v1 r2 v2" using turn by (blast intro: passes.intros)
    ultimately show ?thesis using g True passes_turn(1) unfolding granted_before_def by blast
  next
    case False
    with src IH st later show ?thesis by blast
  qed
  show ?case
  proof (cases "lv_last_exec v2 = lv_last_exec v1 \<and> lv_history v2 = lv_history v1")
    case True
    with ok exec src IH later show ?thesis by auto
  next
    case False
    with src [THEN conjunct2, THEN conjunct1] obtain te h where new: "lv_state v1 = StateExecuting"
      "lv_pending_action v1 = Some (te_action te)" "lv_last_exec v2 = Some te" "lv_history v2 = lv_history v1 @ [h]"
      "sr_action h = te_action te"
      by auto
    with IH have "granted_before env r v r2 v2 (te_action te)" by (auto intro: later)
    with new ok exec src IH later show ?thesis by auto
  qed
qed

lemma fresh_start:
  "lv_state (fresh_vars env v) = StateInit" "lv_last_exec (fresh_vars env v) = None" "lv_history (fresh_vars env v) = []"
  by (simp_all add: fresh_vars_def)

lemma run_granted:
  assumes "passes env r (fresh_vars env v) r' v'" and "ready env v"
  shows "(lv_state v' = StateExecuting \<longrightarrow>
           (\<exists>act. lv_pending_action v' = Some act \<and> granted_before env r (fresh_vars env v) r' v' act)) \<and>
         (\<forall>te. lv_last_exec v' = Some te \<longrightarrow> granted_before env r (fresh_vars env v) r' v' (te_action te)) \<and>
         (\<forall>h \<in> set (lv_history v'). granted_before env r (fresh_vars env v) r' v' (sr_action h))"
  using passes_granted [OF assms(1) _ ctl_ok_fresh fresh_start] assms(2) by (simp add: fresh_ctrl(2))

text \<open>
  C2. No tool runs without leave. Whenever the loop is about to execute an action, then earlier in the
  same run there was a turn in which this call was pending and the interrupter was asked about it,
  with the world as it was then; and it answered that it need not be asked, or it was asked and
  approved, and what runs is the call with the input it gave, if it gave one. Without an interrupter
  every tool call passes through that turn as it is. The same holds of every call in the history, and of
  a repeated call (\<open>DecisionRetry\<close>): it is not asked for again, the leave it got the first time is enough.
\<close>

theorem executed_calls_were_granted:
  assumes "passes env r (fresh_vars env v) r' v'" and "ready env v"
  shows "(lv_state v' = StateExecuting \<longrightarrow>
           (\<exists>act. lv_pending_action v' = Some act \<and> granted_before env r (fresh_vars env v) r' v' act)) \<and>
         (\<forall>te. lv_last_exec v' = Some te \<longrightarrow> granted_before env r (fresh_vars env v) r' v' (te_action te)) \<and>
         (\<forall>h \<in> set (lv_history v'). granted_before env r (fresh_vars env v) r' v' (sr_action h))"
  by (rule run_granted [OF assms])

lemma executed_calls_were_granted_witness:
  "\<exists>v' act. after_turns 3 demo_asking demo_rt (fresh_vars demo_asking demo_vars) = Some (demo_rt, v') \<and>
     lv_state v' = StateExecuting \<and> lv_pending_action v' = Some act \<and>
     act_tool_input act = Some [(''host'', VStr ''localhost'')] \<and>
     granted_before demo_asking demo_rt (fresh_vars demo_asking demo_vars) demo_rt v' act"
proof -
  have "case after_turns 3 demo_asking demo_rt (fresh_vars demo_asking demo_vars) of
      Some (r', v') \<Rightarrow> r' = demo_rt \<and> lv_state v' = StateExecuting \<and>
        map_option act_tool_input (lv_pending_action v') = Some (Some [(''host'', VStr ''localhost'')])
    | None \<Rightarrow> False"
    by code_simp
  then obtain v' act where at3: "after_turns 3 demo_asking demo_rt (fresh_vars demo_asking demo_vars) = Some (demo_rt, v')"
    and st: "lv_state v' = StateExecuting" "lv_pending_action v' = Some act"
      "act_tool_input act = Some [(''host'', VStr ''localhost'')]"
    by (auto split: option.splits)
  have "ready demo_asking demo_vars" by (simp add: ready_def demo_asking_def demo_env_def)
  from executed_calls_were_granted [OF after_turns_passes [OF at3] this] st at3
  show ?thesis by auto
qed

section \<open>The human in the loop\<close>

text \<open>
  An interrupter that behaves as the handler \<open>h\<close>: whichever branch of its \<open>select\<close> is taken, each time.
\<close>

definition is_hitl :: "'w hitl \<Rightarrow> 'w interrupter \<Rightarrow> bool" where
  "is_hitl h ir \<longleftrightarrow>
     (\<forall>ev r. in_should ir ev r = (Inr (ShouldInterrupt h ev), r) \<and>
        WaitForHuman h ev r (fst (in_wait ir ev r)) (snd (in_wait ir ev r)))"

text \<open>One such interrupter: the answer always comes in time.\<close>

definition prompt_hitl :: "'w hitl \<Rightarrow> 'w interrupter" where
  "prompt_hitl h =
     \<lparr>in_should = (\<lambda>ev r. (Inr (ShouldInterrupt h ev), r)),
      in_wait = (\<lambda>ev r. case hitl_approval_fn h of
          None \<Rightarrow> (Inl (ErrNew ''interrupter: approval function is nil''), r)
        | Some fn \<Rightarrow> (case fn ev (rt_world r) of (x, w) \<Rightarrow> (x, r\<lparr>rt_world := w\<rparr>)))\<rparr>"

lemma prompt_is_hitl: "is_hitl h (prompt_hitl h)"
  by (auto simp: is_hitl_def prompt_hitl_def split: option.split prod.split intro: WaitForHuman.intros)

text \<open>The names that the handler lets pass without a human.\<close>

definition exempt :: "'w hitl \<Rightarrow> string \<Rightarrow> bool" where
  "exempt h name \<longleftrightarrow> hitl_auto_approve_read h \<and> isReadClassTool name \<or>
     hitl_require_approval h \<noteq> [] \<and> name \<notin> set (hitl_require_approval h)"

text \<open>
  \<open>human_approved\<close>: before \<open>(r', v')\<close> the callback was called with the pending call \<open>asked\<close>, in the world as it
  was in that turn, and approved it; \<open>act\<close> is that call with the input of the human's answer, if any.
\<close>

definition human_approved ::
    "'w hitl \<Rightarrow> ('w, 'm, 'c) loop_env \<Rightarrow> 'w rt \<Rightarrow> ('w, 'm, 'c) loop_vars \<Rightarrow> 'w rt \<Rightarrow> ('w, 'm, 'c) loop_vars \<Rightarrow>
     action \<Rightarrow> bool" where
  "human_approved h env r v r' v' act \<longleftrightarrow>
     (\<exists>r1 v1 asked fn hr w. passes env r v r1 v1 \<and> passes env r1 v1 r' v' \<and>
        lv_state v1 = StateInterrupt \<and> lv_pending_action v1 = Some asked \<and> hitl_approval_fn h = Some fn \<and>
        fn \<lparr>ie_type = InterruptBeforeToolCall, ie_action = asked\<rparr> (rt_world r1) = (Inr (Some hr), w) \<and>
        hr_approved hr \<and> act = apply_input (hr_modified_input hr) asked)"

lemma poll_world [simp]: "rt_world (snd (poll r)) = rt_world r"
  by (simp add: poll_def split: prod.split)

lemma apply_input_name [simp]: "act_tool_name (apply_input m act) = act_tool_name act"
  by (simp add: apply_input_def)

lemma hitl_granted:
  assumes "is_hitl h ir" and "le_interrupter env = Some ir" and "granted env r asked act" and "act_type asked = ActionToolCall"
  shows "act_tool_name act = act_tool_name asked \<and>
    (exempt h (act_tool_name act) \<or>
      (\<exists>fn hr w. hitl_approval_fn h = Some fn \<and>
        fn \<lparr>ie_type = InterruptBeforeToolCall, ie_action = asked\<rparr> (rt_world r) = (Inr (Some hr), w) \<and>
        hr_approved hr \<and> act = apply_input (hr_modified_input hr) asked))"
proof -
  let ?ev = "\<lparr>ie_type = InterruptBeforeToolCall, ie_action = asked\<rparr>"
  have should: "in_should ir ?ev r = (Inr (shouldInterruptForTool h asked), r)"
    and waits: "WaitForHuman h ?ev r (fst (in_wait ir ?ev r)) (snd (in_wait ir ?ev r))"
    using assms(1) by (simp_all add: is_hitl_def ShouldInterrupt_def)
  show ?thesis
  proof (cases "shouldInterruptForTool h asked")
    case False
    with assms(2-4) should show ?thesis
      by (auto simp: granted_def shouldInterruptForTool_def exempt_def toolInList_def split: if_splits)
  next
    case True
    with assms(2,3) should obtain hr r2 where w: "in_wait ir ?ev r = (Inr (Some hr), r2)"
      "hr_approved hr" "act = apply_input (hr_modified_input hr) asked"
      by (auto simp: granted_def Let_def split: prod.splits sum.splits option.splits)
    from waits w(1) show ?thesis using w(2,3) by (auto elim!: WaitForHumanE)
  qed
qed

lemma hitl_before:
  assumes "is_hitl h ir" and "le_interrupter env = Some ir" and "granted_before env r v r' v' act"
  shows "exempt h (act_tool_name act) \<or> human_approved h env r v r' v' act"
  using assms(3) hitl_granted [OF assms(1,2)] unfolding granted_before_def human_approved_def
  by (metis poll_world)

text \<open>
  C3. With the human in the loop of \<open>interrupter/hitl.go\<close> no tool runs unless its name is exempt - it is
  not on a list of names that need approval, or reading is approved automatically and the name looks
  like reading - or the approval function was called about this call earlier in the same run and its answer
  approved it, in time; a handler without a function, a timeout or a cancelled context approve nothing.
\<close>

theorem hitl_runs_need_a_human:
  assumes "passes env r (fresh_vars env v) r' v'" and "ready env v"
    and "is_hitl h ir" and "le_interrupter env = Some ir"
  shows "(lv_state v' = StateExecuting \<longrightarrow>
           (\<exists>act. lv_pending_action v' = Some act \<and>
              (exempt h (act_tool_name act) \<or> human_approved h env r (fresh_vars env v) r' v' act))) \<and>
         (\<forall>s \<in> set (lv_history v').
            exempt h (act_tool_name (sr_action s)) \<or> human_approved h env r (fresh_vars env v) r' v' (sr_action s))"
  using run_granted [OF assms(1,2)] hitl_before [OF assms(3,4)] by blast

text \<open>A handler that must ask about \<open>ping\<close>; the human sets the host.\<close>

definition demo_hitl :: "unit hitl" where
  "demo_hitl =
     NewHITL (Some (\<lambda>ev w. (Inr (Some \<lparr>hr_approved = True, hr_message = [],
       hr_modified_input = Some [(''host'', VStr ''localhost'')]\<rparr>), w)))
       [WithRequireApproval [''ping'']]"

definition demo_hitl_env :: "(unit, inmem_store buffer_memory, content_map) loop_env" where
  "demo_hitl_env = (demo_env 1 None)\<lparr>le_interrupter := Some (prompt_hitl demo_hitl)\<rparr>"

lemma hitl_runs_need_a_human_witness:
  "\<exists>v' act. after_turns 3 demo_hitl_env demo_rt (fresh_vars demo_hitl_env demo_vars) = Some (demo_rt, v') \<and>
     lv_state v' = StateExecuting \<and> lv_pending_action v' = Some act \<and> act_tool_name act = ''ping'' \<and>
     human_approved demo_hitl demo_hitl_env demo_rt (fresh_vars demo_hitl_env demo_vars) demo_rt v' act"
proof -
  have "case after_turns 3 demo_hitl_env demo_rt (fresh_vars demo_hitl_env demo_vars) of
      Some (r', v') \<Rightarrow> r' = demo_rt \<and> lv_state v' = StateExecuting \<and>
        map_option act_tool_name (lv_pending_action v') = Some ''ping''
    | None \<Rightarrow> False"
    by code_simp
  then obtain v' act where run: "after_turns 3 demo_hitl_env demo_rt (fresh_vars demo_hitl_env demo_vars) = Some (demo_rt, v')"
    and st: "lv_state v' = StateExecuting" "lv_pending_action v' = Some act" "act_tool_name act = ''ping''"
    by (auto split: option.splits)
  have ready: "ready demo_hitl_env demo_vars" by (simp add: ready_def demo_hitl_env_def demo_env_def)
  have "le_interrupter demo_hitl_env = Some (prompt_hitl demo_hitl)" by (simp add: demo_hitl_env_def)
  moreover have "\<not> exempt demo_hitl ''ping''"
    by (simp add: exempt_def demo_hitl_def NewHITL_def WithRequireApproval_def)
  ultimately show ?thesis
    using hitl_runs_need_a_human [OF after_turns_passes [OF run] ready prompt_is_hitl] run st by auto
qed

end
