(* ===== verification/Wire.thy ===== *)
theory Wire
  imports Registry
begin

text \<open>
  What the model providers and the embedder share: JSON documents with the members of a struct in the
  order in which they are declared, JSON arrays read into slices, HTTP calls, and \<open>bufio.Scanner\<close> over
  the body of a response. The HTTP client is foreign code, a parameter.
\<close>

section \<open>Documents\<close>

text \<open>Objects and arrays of texts that are JSON already. \<^const>\<open>None\<close>: the field is left out.\<close>

definition json_obj :: "(string \<times> string option) list \<Rightarrow> string" where
  "json_obj ms =
     ''{'' @ join '',''
       (List.map_filter (\<lambda>(k, v). map_option (\<lambda>t. json_string k @ '':'' @ t) v) ms) @ ''}''"

definition json_arr :: "string list \<Rightarrow> string" where
  "json_arr ts = ''['' @ join '','' ts @ '']''"

definition omit_empty :: "string \<Rightarrow> string option" where
  "omit_empty s = (if s = [] then None else Some (json_string s))"

definition omit_nil :: "string list \<Rightarrow> string option" where
  "omit_nil ts = (if ts = [] then None else Some (json_arr ts))"

definition omit_false :: "bool \<Rightarrow> string option" where
  "omit_false b = (if b then Some ''true'' else None)"

text \<open>A value of type \<open>any\<close> that holds a schema.\<close>

definition any_schema_text :: "any_schema \<Rightarrow> string" where
  "any_schema_text s =
     (case s of
        SchemaNil \<Rightarrow> ''null''
      | SchemaEmptyMap \<Rightarrow> ''{}''
      | SchemaOf None \<Rightarrow> ''null''
      | SchemaOf (Some p) \<Rightarrow> schema_text p)"

section \<open>Reading\<close>

fun decode_all :: "(gval \<Rightarrow> 'b option) \<Rightarrow> gval list \<Rightarrow> 'b list option" where
  "decode_all f [] = Some []"
| "decode_all f (v # vs) =
     (case f v of
        None \<Rightarrow> None
      | Some x \<Rightarrow> (case decode_all f vs of None \<Rightarrow> None | Some xs \<Rightarrow> Some (x # xs)))"

fun decode_list :: "(gval \<Rightarrow> 'b option) \<Rightarrow> ('b list \<Rightarrow> 'a \<Rightarrow> 'a) \<Rightarrow> gval \<Rightarrow> 'a \<Rightarrow> 'a option" where
  "decode_list f put (VList vs) x = map_option (\<lambda>ys. put ys x) (decode_all f vs)"
| "decode_list f put VNil x = Some (put [] x)"
| "decode_list f put _ x = None"

text \<open>A field that is itself a struct, and one that is a pointer to a struct.\<close>

definition decode_inner :: "(string \<Rightarrow> gval \<Rightarrow> 'b \<Rightarrow> 'b option) \<Rightarrow> 'b \<Rightarrow> ('b \<Rightarrow> 'a \<Rightarrow> 'a) \<Rightarrow> gval \<Rightarrow> 'a \<Rightarrow> 'a option" where
  "decode_inner field old put v x = map_option (\<lambda>y. put y x) (decode_struct field old v)"

definition decode_pointer ::
    "(string \<Rightarrow> gval \<Rightarrow> 'b \<Rightarrow> 'b option) \<Rightarrow> 'b \<Rightarrow> ('b option \<Rightarrow> 'a \<Rightarrow> 'a) \<Rightarrow> gval \<Rightarrow> 'a \<Rightarrow> 'a option" where
  "decode_pointer field zero put v x =
     (if v = VNil then Some (put None x) else map_option (\<lambda>y. put (Some y) x) (decode_struct field zero v))"

text \<open>
  The arguments of a tool call: a text that must be empty, \<open>null\<close> or an object. A nil map is replaced
  by an empty one.
\<close>

definition read_arguments :: "string \<Rightarrow> (string \<times> gval) list option" where
  "read_arguments s =
     (if s = [] then Some []
      else case json_parse s of
        Some (VMap m) \<Rightarrow> Some m
      | Some VNil \<Rightarrow> Some []
      | _ \<Rightarrow> None)"

section \<open>HTTP\<close>

text \<open>The body of a response: what can be read of it, and the error that ends the reading, if not its end.\<close>

record http_response =
  hr_status :: int
  hr_body :: string
  hr_read_error :: "goerr option"

text \<open>A POST of a body to a URL with headers; the request itself may be refused.\<close>

record 'w http_api =
  ha_new_request :: "string \<Rightarrow> goerr option"
  ha_do :: "string \<Rightarrow> (string \<times> string) list \<Rightarrow> string \<Rightarrow> 'w rt \<Rightarrow> (goerr + http_response) \<times> 'w rt"

text \<open>\<open>strings.TrimRight(s, "/")\<close> and \<open>strings.TrimSuffix(s, "/")\<close>.\<close>

definition trim_slashes :: "string \<Rightarrow> string" where
  "trim_slashes s = rev (dropWhile (\<lambda>c. c = CHR ''/'') (rev s))"

definition trim_slash :: "string \<Rightarrow> string" where
  "trim_slash s = (if s \<noteq> [] \<and> last s = CHR ''/'' then butlast s else s)"

definition bad_status :: "int \<Rightarrow> bool" where
  "bad_status code \<longleftrightarrow> code < 200 \<or> code \<ge> 300"

section \<open>Lines\<close>

text \<open>
  \<open>bufio.Scanner\<close> with a buffer of 1 MiB: lines without their ends, the last one also when it has no
  end. A line that does not fit ends the scan with an error.
\<close>

definition max_line :: int where
  "max_line = 1024 * 1024"

definition drop_cr :: "string \<Rightarrow> string" where
  "drop_cr s = (if s \<noteq> [] \<and> last s = CHR 0x0D then butlast s else s)"

fun scan_lines :: "string list \<Rightarrow> goerr option \<Rightarrow> string list \<times> goerr option" where
  "scan_lines [] err = ([], err)"
| "scan_lines (l # ls) err =
     (if int (length l) \<ge> max_line then ([], Some (ErrNew ''bufio.Scanner: token too long''))
      else if ls = [] \<and> l = [] then ([], err)
      else case scan_lines ls err of (rest, e) \<Rightarrow> (drop_cr l # rest, e))"

definition scan :: "http_response \<Rightarrow> string list \<times> goerr option" where
  "scan resp = scan_lines (split_on (CHR 0x0A) (hr_body resp)) (hr_read_error resp)"

definition wrap_error :: "string \<Rightarrow> goerr \<Rightarrow> goerr" where
  "wrap_error p e = ErrWrapf p e []"

end
