(* ===== verification/OpenAI.thy ===== *)
theory OpenAI
  imports Wire
begin

text \<open>
  \<open>model/provider/openai/openai.go\<close> and \<open>model/provider/deepseek/deepseek.go\<close>: a chat model behind the
  chat-completions interface. Requests are built as JSON texts, answers are read from JSON, streams
  line by line. The decoder's error values are one error.
\<close>

section \<open>Clients\<close>

record 'w openai_client =
  oa_model_name :: string
  oa_api_key :: string
  oa_base_url :: string
  oa_http :: "'w http_api"

type_synonym 'w openai_option = "'w openai_client \<Rightarrow> 'w openai_client"

definition oa_WithBaseURL :: "string \<Rightarrow> 'w openai_option" where
  "oa_WithBaseURL url c = c\<lparr>oa_base_url := trim_slashes (trim_space url)\<rparr>"

definition oa_WithHTTPClient :: "'w http_api option \<Rightarrow> 'w openai_option" where
  "oa_WithHTTPClient h c = (case h of None \<Rightarrow> c | Some x \<Rightarrow> c\<lparr>oa_http := x\<rparr>)"

text \<open>\<open>new_http d\<close> is a new client of the library with the timeout \<open>d\<close>.\<close>

definition oa_WithTimeout :: "(int \<Rightarrow> 'w http_api) \<Rightarrow> int \<Rightarrow> 'w openai_option" where
  "oa_WithTimeout new_http d c = c\<lparr>oa_http := new_http d\<rparr>"

definition openai_New :: "(int \<Rightarrow> 'w http_api) \<Rightarrow> string \<Rightarrow> string \<Rightarrow> 'w openai_option list \<Rightarrow> 'w openai_client" where
  "openai_New new_http modelName apiKey opts =
     fold (\<lambda>f c. f c) opts
       \<lparr>oa_model_name = modelName, oa_api_key = apiKey, oa_base_url = ''https://api.openai.com/v1'',
        oa_http = new_http (60 * 1000000000)\<rparr>"

definition deepseek_New :: "(int \<Rightarrow> 'w http_api) \<Rightarrow> string \<Rightarrow> string \<Rightarrow> 'w openai_option list \<Rightarrow> 'w openai_client" where
  "deepseek_New new_http modelName apiKey opts =
     openai_New new_http modelName apiKey (oa_WithBaseURL ''https://api.deepseek.com/v1'' # opts)"

definition chatCompletionsURL :: "'w openai_client \<Rightarrow> string" where
  "chatCompletionsURL c = trim_slash (oa_base_url c) @ ''/chat/completions''"

section \<open>Requests\<close>

definition chat_tool_call_text :: "tool_call \<Rightarrow> string" where
  "chat_tool_call_text tc =
     json_obj [(''id'', Some (json_string (tc_id tc))), (''type'', Some (json_string ''function'')),
       (''function'', Some (json_obj
          [(''name'', Some (json_string (tc_name tc))),
           (''arguments'', Some (json_string (marshal_params (tc_arguments tc))))]))]"

definition chat_message_text :: "chat_message \<Rightarrow> string" where
  "chat_message_text m =
     json_obj [(''role'', Some (json_string (msg_role m))), (''content'', omit_empty (msg_content m)),
       (''tool_calls'', omit_nil (map chat_tool_call_text (msg_tool_calls m))),
       (''tool_call_id'', omit_empty (msg_tool_call_id m)), (''name'', omit_empty (msg_name m))]"

definition chat_tool_text :: "tool_def \<Rightarrow> string" where
  "chat_tool_text t =
     json_obj [(''type'', Some (json_string ''function'')),
       (''function'', Some (json_obj
          [(''name'', Some (json_string (td_name t))), (''description'', omit_empty (td_description t)),
           (''parameters'', Some (any_schema_text (td_parameters t)))]))]"

definition buildChatRequest :: "string \<Rightarrow> chat_message list \<Rightarrow> call_options \<Rightarrow> bool \<Rightarrow> string" where
  "buildChatRequest modelName messages call stream =
     json_obj [(''model'', Some (json_string modelName)),
       (''messages'', Some (json_arr (map chat_message_text messages))),
       (''temperature'', opt_temperature call),
       (''max_tokens'', map_option int_text (opt_max_tokens call)),
       (''top_p'', opt_top_p call),
       (''stop'', omit_nil (map json_string (opt_stop_words call))),
       (''tools'', omit_nil (map chat_tool_text (opt_tools call))),
       (''stream'', omit_false stream)]"

definition openai_headers :: "'w openai_client \<Rightarrow> bool \<Rightarrow> (string \<times> string) list" where
  "openai_headers c stream =
     [(''Content-Type'', ''application/json'')] @
     (if stream then [(''Accept'', ''text/event-stream''), (''Cache-Control'', ''no-cache''),
                      (''Connection'', ''keep-alive'')] else []) @
     (if oa_api_key c \<noteq> [] then [(''Authorization'', ''Bearer '' @ oa_api_key c)] else [])"

section \<open>Answers\<close>

record chat_usage =
  cu_prompt :: int
  cu_completion :: int
  cu_total :: int

definition zero_usage :: chat_usage where
  "zero_usage = \<lparr>cu_prompt = 0, cu_completion = 0, cu_total = 0\<rparr>"

definition usage_field :: "string \<Rightarrow> gval \<Rightarrow> chat_usage \<Rightarrow> chat_usage option" where
  "usage_field k v u =
     (if field_is ''prompt_tokens'' k then decode_int (\<lambda>i u. u\<lparr>cu_prompt := i\<rparr>) v u
      else if field_is ''completion_tokens'' k then decode_int (\<lambda>i u. u\<lparr>cu_completion := i\<rparr>) v u
      else if field_is ''total_tokens'' k then decode_int (\<lambda>i u. u\<lparr>cu_total := i\<rparr>) v u
      else Some u)"

definition model_usage :: "chat_usage \<Rightarrow> usage" where
  "model_usage u =
     \<lparr>prompt_tokens = cu_prompt u, completion_tokens = cu_completion u, total_tokens = cu_total u\<rparr>"

record function_call_resp =
  fc_name :: string
  fc_arguments :: string

definition function_field :: "string \<Rightarrow> gval \<Rightarrow> function_call_resp \<Rightarrow> function_call_resp option" where
  "function_field k v f =
     (if field_is ''name'' k then decode_string (\<lambda>s f. f\<lparr>fc_name := s\<rparr>) v f
      else if field_is ''arguments'' k then decode_string (\<lambda>s f. f\<lparr>fc_arguments := s\<rparr>) v f
      else Some f)"

definition zero_function :: function_call_resp where
  "zero_function = \<lparr>fc_name = [], fc_arguments = []\<rparr>"

record tool_call_resp =
  tr_id :: string
  tr_type :: string
  tr_function :: function_call_resp

definition tool_call_field :: "string \<Rightarrow> gval \<Rightarrow> tool_call_resp \<Rightarrow> tool_call_resp option" where
  "tool_call_field k v t =
     (if field_is ''id'' k then decode_string (\<lambda>s t. t\<lparr>tr_id := s\<rparr>) v t
      else if field_is ''type'' k then decode_string (\<lambda>s t. t\<lparr>tr_type := s\<rparr>) v t
      else if field_is ''function'' k then
        decode_inner function_field (tr_function t) (\<lambda>f t. t\<lparr>tr_function := f\<rparr>) v t
      else Some t)"

record chat_message_resp =
  mr_role :: string
  mr_content :: string
  mr_tool_calls :: "tool_call_resp list"

definition message_resp_field :: "string \<Rightarrow> gval \<Rightarrow> chat_message_resp \<Rightarrow> chat_message_resp option" where
  "message_resp_field k v m =
     (if field_is ''role'' k then decode_string (\<lambda>s m. m\<lparr>mr_role := s\<rparr>) v m
      else if field_is ''content'' k then decode_string (\<lambda>s m. m\<lparr>mr_content := s\<rparr>) v m
      else if field_is ''tool_calls'' k then
        decode_list (decode_struct tool_call_field \<lparr>tr_id = [], tr_type = [], tr_function = zero_function\<rparr>)
          (\<lambda>ts m. m\<lparr>mr_tool_calls := ts\<rparr>) v m
      else Some m)"

definition zero_message_resp :: chat_message_resp where
  "zero_message_resp = \<lparr>mr_role = [], mr_content = [], mr_tool_calls = []\<rparr>"

text \<open>A choice is a struct with one field.\<close>

definition choice_field :: "string \<Rightarrow> gval \<Rightarrow> chat_message_resp \<Rightarrow> chat_message_resp option" where
  "choice_field k v m =
     (if field_is ''message'' k then decode_struct message_resp_field m v else Some m)"

definition response_field ::
    "string \<Rightarrow> gval \<Rightarrow> chat_message_resp list \<times> chat_usage \<Rightarrow> (chat_message_resp list \<times> chat_usage) option" where
  "response_field k v x =
     (if field_is ''choices'' k then
        decode_list (decode_struct choice_field zero_message_resp) (\<lambda>cs (_, u). (cs, u)) v x
      else if field_is ''usage'' k then decode_inner usage_field (snd x) (\<lambda>u (cs, _). (cs, u)) v x
      else Some x)"

text \<open>The tool calls of a message, up to the first whose arguments cannot be read.\<close>

fun response_calls :: "tool_call_resp list \<Rightarrow> goerr + tool_call list" where
  "response_calls [] = Inr []"
| "response_calls (t # ts) =
     (case read_arguments (fc_arguments (tr_function t)) of
        None \<Rightarrow> Inl (wrap_error (''openai: tool '' @ go_quote (fc_name (tr_function t)) @ '' arguments: '') json_error)
      | Some args \<Rightarrow>
          (case response_calls ts of
             Inl e \<Rightarrow> Inl e
           | Inr tcs \<Rightarrow>
               Inr (\<lparr>tc_id = tr_id t, tc_name = fc_name (tr_function t), tc_arguments = Some args\<rparr> # tcs)))"

definition chatMessageRespToModel :: "chat_message_resp \<Rightarrow> goerr + chat_message" where
  "chatMessageRespToModel m =
     (case response_calls (mr_tool_calls m) of
        Inl e \<Rightarrow> Inl e
      | Inr tcs \<Rightarrow> Inr ((text_message (mr_role m) (mr_content m))\<lparr>msg_tool_calls := tcs\<rparr>))"

definition parse_response :: "string \<Rightarrow> goerr + chat_response" where
  "parse_response body =
     (case unmarshal response_field ([], zero_usage) body of
        None \<Rightarrow> Inl (wrap_error ''openai: decode response: '' json_error)
      | Some ([], u) \<Rightarrow> Inl (ErrNew ''openai: empty choices'')
      | Some (m # _, u) \<Rightarrow>
          (case chatMessageRespToModel m of
             Inl e \<Rightarrow> Inl e
           | Inr msg \<Rightarrow> Inr \<lparr>resp_message = msg, resp_usage = model_usage u\<rparr>))"

text \<open>Sending the request; the prefix of the error tells a stream from an answer.\<close>

definition openai_send ::
    "'w openai_client \<Rightarrow> string \<Rightarrow> bool \<Rightarrow> chat_message list \<Rightarrow> model_option list \<Rightarrow> 'w rt \<Rightarrow>
     (goerr + http_response) \<times> 'w rt" where
  "openai_send c prefix stream messages opts r =
     (case ha_new_request (oa_http c) (chatCompletionsURL c) of
        Some e \<Rightarrow> (Inl e, r)
      | None \<Rightarrow>
          (case ha_do (oa_http c) (chatCompletionsURL c) (openai_headers c stream)
                  (buildChatRequest (oa_model_name c) messages (ApplyOptions opts) stream) r of
             (Inl e, r) \<Rightarrow> (Inl (wrap_error prefix e), r)
           | (Inr resp, r) \<Rightarrow> (Inr resp, r)))"

definition status_error :: "string \<Rightarrow> http_response \<Rightarrow> goerr" where
  "status_error provider resp =
     ErrNew (provider @ '': status '' @ int_text (hr_status resp) @ '': '' @ hr_body resp)"

definition openai_Generate ::
    "'w openai_client \<Rightarrow> 'w rt \<Rightarrow> chat_message list \<Rightarrow> model_option list \<Rightarrow>
     (goerr + chat_response option) \<times> 'w rt" where
  "openai_Generate c r messages opts =
     (case openai_send c ''openai: request: '' False messages opts r of
        (Inl e, r) \<Rightarrow> (Inl e, r)
      | (Inr resp, r) \<Rightarrow>
          (case hr_read_error resp of
             Some e \<Rightarrow> Inl (wrap_error ''openai: read body: '' e)
           | None \<Rightarrow>
               if bad_status (hr_status resp) then Inl (status_error ''openai'' resp)
               else (case parse_response (hr_body resp) of Inl e \<Rightarrow> Inl e | Inr x \<Rightarrow> Inr (Some x)), r))"

section \<open>Streams\<close>

record tool_delta =
  dl_index :: int
  dl_id :: string
  dl_type :: string
  dl_function :: "function_call_resp option"

definition delta_call_field :: "string \<Rightarrow> gval \<Rightarrow> tool_delta \<Rightarrow> tool_delta option" where
  "delta_call_field k v d =
     (if field_is ''index'' k then decode_int (\<lambda>i d. d\<lparr>dl_index := i\<rparr>) v d
      else if field_is ''id'' k then decode_string (\<lambda>s d. d\<lparr>dl_id := s\<rparr>) v d
      else if field_is ''type'' k then decode_string (\<lambda>s d. d\<lparr>dl_type := s\<rparr>) v d
      else if field_is ''function'' k then
        decode_pointer function_field zero_function (\<lambda>f d. d\<lparr>dl_function := f\<rparr>) v d
      else Some d)"

text \<open>A choice of a chunk: its delta's role is read and not used, like its index and finish reason.\<close>

record stream_delta =
  sd_role :: string
  sd_content :: string
  sd_tool_calls :: "tool_delta list"

definition delta_field :: "string \<Rightarrow> gval \<Rightarrow> stream_delta \<Rightarrow> stream_delta option" where
  "delta_field k v d =
     (if field_is ''role'' k then decode_string (\<lambda>s d. d\<lparr>sd_role := s\<rparr>) v d
      else if field_is ''content'' k then decode_string (\<lambda>s d. d\<lparr>sd_content := s\<rparr>) v d
      else if field_is ''tool_calls'' k then
        decode_list (decode_struct delta_call_field \<lparr>dl_index = 0, dl_id = [], dl_type = [], dl_function = None\<rparr>)
          (\<lambda>ts d. d\<lparr>sd_tool_calls := ts\<rparr>) v d
      else Some d)"

definition stream_choice_field :: "string \<Rightarrow> gval \<Rightarrow> stream_delta \<Rightarrow> stream_delta option" where
  "stream_choice_field k v d =
     (if field_is ''index'' k then decode_int (\<lambda>i d. d) v d
      else if field_is ''delta'' k then decode_struct delta_field d v
      else if field_is ''finish_reason'' k then decode_string (\<lambda>s d. d) v d
      else Some d)"

record stream_resp =
  sr_choices :: "stream_delta list"
  sr_usage :: "chat_usage option"

definition stream_resp_field :: "string \<Rightarrow> gval \<Rightarrow> stream_resp \<Rightarrow> stream_resp option" where
  "stream_resp_field k v x =
     (if field_is ''choices'' k then
        decode_list (decode_struct stream_choice_field \<lparr>sd_role = [], sd_content = [], sd_tool_calls = []\<rparr>)
          (\<lambda>cs x. x\<lparr>sr_choices := cs\<rparr>) v x
      else if field_is ''usage'' k then
        decode_pointer usage_field zero_usage (\<lambda>u x. x\<lparr>sr_usage := u\<rparr>) v x
      else Some x)"

record call_accumulator =
  ac_id :: string
  ac_name :: string
  ac_chunks :: "string list"

definition new_accumulator :: call_accumulator where
  "new_accumulator = \<lparr>ac_id = [], ac_name = [], ac_chunks = []\<rparr>"

definition addDelta :: "tool_delta \<Rightarrow> call_accumulator \<Rightarrow> call_accumulator" where
  "addDelta d a0 =
     (let a = (if dl_id d \<noteq> [] then a0\<lparr>ac_id := dl_id d\<rparr> else a0) in
      case dl_function d of
        None \<Rightarrow> a
      | Some f \<Rightarrow>
          let a = (if fc_name f \<noteq> [] then a\<lparr>ac_name := fc_name f\<rparr> else a)
          in if fc_arguments f \<noteq> [] then a\<lparr>ac_chunks := ac_chunks a @ [fc_arguments f]\<rparr> else a)"

definition toModel :: "call_accumulator \<Rightarrow> tool_call option" where
  "toModel a =
     (case read_arguments (concat (ac_chunks a)) of
        None \<Rightarrow> None
      | Some args \<Rightarrow> Some \<lparr>tc_id = ac_id a, tc_name = ac_name a, tc_arguments = Some args\<rparr>)"

text \<open>The state of the goroutine; \<open>os_sent\<close> is what it has put into the channel of chunks.\<close>

record openai_stream =
  os_accum :: "(int \<times> call_accumulator) list"
  os_usage :: "chat_usage option"
  os_sent :: "stream_chunk list"

definition text_chunk :: "string \<Rightarrow> stream_chunk" where
  "text_chunk t = \<lparr>chunk_delta = t, chunk_tool_calls = [], chunk_done = False, chunk_usage = None\<rparr>"

definition accumulate :: "tool_delta \<Rightarrow> (int \<times> call_accumulator) list \<Rightarrow> (int \<times> call_accumulator) list" where
  "accumulate d accum =
     map_put (dl_index d)
       (addDelta d (case map_of accum (dl_index d) of None \<Rightarrow> new_accumulator | Some a \<Rightarrow> a)) accum"

definition take_chunk :: "stream_resp \<Rightarrow> openai_stream \<Rightarrow> openai_stream" where
  "take_chunk chunk s0 =
     (let s = (if sr_usage chunk \<noteq> None then s0\<lparr>os_usage := sr_usage chunk\<rparr> else s0) in
      case sr_choices chunk of
        [] \<Rightarrow> s
      | ch # _ \<Rightarrow>
          s\<lparr>os_sent := os_sent s @ (if sd_content ch \<noteq> [] then [text_chunk (sd_content ch)] else []),
            os_accum := fold accumulate (sd_tool_calls ch) (os_accum s)\<rparr>)"

text \<open>The loop over the lines; the error that it ends with, if any.\<close>

fun openai_lines ::
    "string list \<Rightarrow> goerr option \<Rightarrow> openai_stream \<Rightarrow> 'w rt \<Rightarrow> (goerr option \<times> openai_stream) \<times> 'w rt" where
  "openai_lines [] err s r = ((map_option (wrap_error ''openai: stream read: '') err, s), r)"
| "openai_lines (line # ls) err s r =
     (case poll r of
        (Some e, r) \<Rightarrow> ((Some e, s), r)
      | (None, r) \<Rightarrow>
          if \<not> has_prefix ''data: '' line then openai_lines ls err s r
          else
            let payload = drop 6 line in
            if trim_space payload = ''[DONE]'' then ((None, s), r)
            else case unmarshal stream_resp_field \<lparr>sr_choices = [], sr_usage = None\<rparr> payload of
                None \<Rightarrow> openai_lines ls err s r
              | Some chunk \<Rightarrow> openai_lines ls err (take_chunk chunk s) r)"

fun finalize_calls :: "(int \<times> call_accumulator) list \<Rightarrow> goerr + tool_call list" where
  "finalize_calls [] = Inr []"
| "finalize_calls ((idx, a) # rest) =
     (case toModel a of
        None \<Rightarrow> Inl (wrap_error (''openai: finalize tool call '' @ int_text idx @ '': '') json_error)
      | Some tc \<Rightarrow> (case finalize_calls rest of Inl e \<Rightarrow> Inl e | Inr tcs \<Rightarrow> Inr (tc # tcs)))"

text \<open>What the goroutine has put into its two channels when it ends: chunks and errors.\<close>

definition openai_read :: "http_response \<Rightarrow> 'w rt \<Rightarrow> (stream_chunk list \<times> goerr list) \<times> 'w rt" where
  "openai_read resp r =
     (let (ls, err) = scan resp in
      case openai_lines ls err \<lparr>os_accum = [], os_usage = None, os_sent = []\<rparr> r of
        ((Some e, s), r) \<Rightarrow> ((os_sent s, [e]), r)
      | ((None, s), r) \<Rightarrow>
          ((case finalize_calls (sort_key fst (os_accum s)) of
             Inl e \<Rightarrow> (os_sent s, [e])
           | Inr tcs \<Rightarrow>
               (os_sent s @ [\<lparr>chunk_delta = [], chunk_tool_calls = tcs, chunk_done = True,
                              chunk_usage = map_option model_usage (os_usage s)\<rparr>], [])), r))"

definition openai_Stream ::
    "'w openai_client \<Rightarrow> 'w rt \<Rightarrow> chat_message list \<Rightarrow> model_option list \<Rightarrow>
     (goerr + stream_chunk list \<times> goerr list) \<times> 'w rt" where
  "openai_Stream c r messages opts =
     (case openai_send c ''openai: stream request: '' True messages opts r of
        (Inl e, r) \<Rightarrow> (Inl e, r)
      | (Inr resp, r) \<Rightarrow>
          if bad_status (hr_status resp) then (Inl (status_error ''openai'' resp), r)
          else (case openai_read resp r of (out, r) \<Rightarrow> (Inr out, r)))"

section \<open>A stream says what the whole answer says\<close>

text \<open>What a delta adds to the arguments of its call, and the deltas of one call.\<close>

definition delta_arguments :: "tool_delta \<Rightarrow> string" where
  "delta_arguments d = (case dl_function d of None \<Rightarrow> [] | Some f \<Rightarrow> fc_arguments f)"

definition delta_name :: "tool_delta \<Rightarrow> string" where
  "delta_name d = (case dl_function d of None \<Rightarrow> [] | Some f \<Rightarrow> fc_name f)"

definition delivers :: "tool_call_resp \<Rightarrow> tool_delta list \<Rightarrow> bool" where
  "delivers t ds \<longleftrightarrow>
     (\<forall>d \<in> set ds. dl_id d = [] \<or> dl_id d = tr_id t) \<and> (\<exists>d \<in> set ds. dl_id d = tr_id t) \<and>
     (\<forall>d \<in> set ds. delta_name d = [] \<or> delta_name d = fc_name (tr_function t)) \<and>
     (\<exists>d \<in> set ds. delta_name d = fc_name (tr_function t)) \<and>
     concat (map delta_arguments ds) = fc_arguments (tr_function t)"

text \<open>
  The tool calls \<open>ts\<close> cut into the deltas \<open>ds\<close>: the deltas of each call bring its ID, its name and the
  pieces of its arguments in order. Deltas of different calls may come in any order.
\<close>

definition cut_of :: "tool_call_resp list \<Rightarrow> tool_delta list \<Rightarrow> bool" where
  "cut_of ts ds \<longleftrightarrow>
     (\<forall>d \<in> set ds. 0 \<le> dl_index d \<and> dl_index d < int (length ts)) \<and>
     (\<forall>i < length ts. delivers (ts ! i) (filter (\<lambda>d. dl_index d = int i) ds))"

lemma addDelta_sel:
  "ac_id (addDelta d a) = (if dl_id d \<noteq> [] then dl_id d else ac_id a)"
  "ac_name (addDelta d a) = (if delta_name d \<noteq> [] then delta_name d else ac_name a)"
  "concat (ac_chunks (addDelta d a)) = concat (ac_chunks a) @ delta_arguments d"
  by (auto simp: addDelta_def delta_name_def delta_arguments_def Let_def split: option.splits)

lemma fold_addDelta_arguments:
  "concat (ac_chunks (fold addDelta ds a)) = concat (ac_chunks a) @ concat (map delta_arguments ds)"
  by (induction ds arbitrary: a) (simp_all add: addDelta_sel)

lemma fold_last_nonempty:
  assumes "\<And>d a. sel (f d a) = (if g d \<noteq> [] then g d else sel a)" and "\<forall>d \<in> set ds. g d = [] \<or> g d = x"
  shows "sel (fold f ds a) = (if \<forall>d \<in> set ds. g d = [] then sel a else x)"
  using assms(2) by (induction ds arbitrary: a) (auto simp: assms(1))

lemma delivers_accumulator:
  assumes "delivers t ds"
  shows "toModel (fold addDelta ds new_accumulator) =
    map_option (\<lambda>args. \<lparr>tc_id = tr_id t, tc_name = fc_name (tr_function t), tc_arguments = Some args\<rparr>)
      (read_arguments (fc_arguments (tr_function t)))"
proof -
  let ?a = "fold addDelta ds new_accumulator"
  have i: "\<forall>d \<in> set ds. dl_id d = [] \<or> dl_id d = tr_id t" "\<exists>d \<in> set ds. dl_id d = tr_id t"
    and n: "\<forall>d \<in> set ds. delta_name d = [] \<or> delta_name d = fc_name (tr_function t)"
    "\<exists>d \<in> set ds. delta_name d = fc_name (tr_function t)"
    using assms unfolding delivers_def by blast+
  have "ac_id ?a = tr_id t"
    using fold_last_nonempty [of ac_id addDelta dl_id, OF addDelta_sel(1) i(1), of new_accumulator] i(2)
    unfolding new_accumulator_def by (metis call_accumulator.select_convs(1))
  moreover have "ac_name ?a = fc_name (tr_function t)"
    using fold_last_nonempty [of ac_name addDelta delta_name, OF addDelta_sel(2) n(1), of new_accumulator] n(2)
    unfolding new_accumulator_def by (metis call_accumulator.select_convs(2))
  moreover have "concat (ac_chunks ?a) = fc_arguments (tr_function t)"
    using assms unfolding delivers_def by (simp add: fold_addDelta_arguments new_accumulator_def)
  ultimately show ?thesis
    by (simp add: toModel_def split: option.split)
qed

lemma fold_accumulate:
  "distinct (map fst accum) \<Longrightarrow>
   distinct (map fst (fold accumulate ds accum)) \<and>
   fst ` set (fold accumulate ds accum) = fst ` set accum \<union> dl_index ` set ds \<and>
   (\<forall>i. map_of (fold accumulate ds accum) i =
      (if filter (\<lambda>d. dl_index d = i) ds = [] then map_of accum i
       else Some (fold addDelta (filter (\<lambda>d. dl_index d = i) ds)
              (case map_of accum i of None \<Rightarrow> new_accumulator | Some a \<Rightarrow> a))))"
proof (induction ds arbitrary: accum)
  case (Cons d ds)
  have "distinct (map fst (accumulate d accum))"
    using Cons.prems by (simp add: accumulate_def distinct_map_put)
  note IH = Cons.IH [OF this]
  have "fst ` set (accumulate d accum) = insert (dl_index d) (fst ` set accum)"
    by (simp add: accumulate_def)
  moreover have "map_of (accumulate d accum) i =
      (if dl_index d = i then Some (addDelta d (case map_of accum i of None \<Rightarrow> new_accumulator | Some a \<Rightarrow> a))
       else map_of accum i)" for i
    by (simp add: accumulate_def)
  ultimately show ?case
    using IH by (simp add: image_Un Un_commute)
qed simp

lemma sort_key_indices:
  assumes "distinct (map fst xs)" and "fst ` set xs = int ` {0..<n}"
  shows "sort_key fst xs = map (\<lambda>i. (int i, the (map_of xs (int i)))) [0..<n]"
proof -
  let ?ys = "sort_key fst xs"
  have k: "map fst ?ys = map int [0..<n]"
  proof (rule sorted_distinct_set_unique)
    show "sorted (map int [0..<n])" by (simp add: sorted_map sorted_wrt_mono_rel [OF _ sorted_wrt_upt])
    show "distinct (map int [0..<n])" by (simp add: distinct_map)
    show "distinct (map fst ?ys)" using assms(1) by (simp add: distinct_map)
  qed (use assms(2) in auto)
  show ?thesis
  proof (rule nth_equalityI)
    show len: "length ?ys = length (map (\<lambda>i. (int i, the (map_of xs (int i)))) [0..<n])"
      using arg_cong [OF k, of length] by simp
    fix i assume i: "i < length ?ys"
    with len have "i < n" by simp
    have f: "fst (?ys ! i) = int i"
      using arg_cong [OF k, of "\<lambda>zs. zs ! i"] i \<open>i < n\<close> by simp
    have "?ys ! i \<in> set xs" using i by (metis nth_mem set_sort)
    with assms(1) f have "map_of xs (int i) = Some (snd (?ys ! i))"
      by (metis map_of_is_SomeI prod.collapse)
    with f \<open>i < n\<close> show "?ys ! i = map (\<lambda>i. (int i, the (map_of xs (int i)))) [0..<n] ! i"
      by (metis (no_types, lifting) add_0 diff_zero length_upt nth_map nth_upt option.sel prod.collapse)
  qed
qed

lemma finalize_cut:
  assumes "\<And>i. i < length ts \<Longrightarrow> delivers (ts ! i) (dss i)"
  shows "case response_calls ts of
      Inr tcs \<Rightarrow> finalize_calls (map (\<lambda>i. (f i, fold addDelta (dss i) new_accumulator)) [0..<length ts]) = Inr tcs
    | Inl _ \<Rightarrow> \<exists>e. finalize_calls (map (\<lambda>i. (f i, fold addDelta (dss i) new_accumulator)) [0..<length ts]) = Inl e"
  using assms
proof (induction ts arbitrary: dss f)
  case (Cons t ts)
  have t: "delivers t (dss 0)" using Cons.prems [of 0] by simp
  have "\<And>i. i < length ts \<Longrightarrow> delivers (ts ! i) (dss (Suc i))"
    using Cons.prems [of "Suc _"] by simp
  note IH = Cons.IH [OF this, of "f \<circ> Suc"]
  have m: "map (\<lambda>i. (f i, fold addDelta (dss i) new_accumulator)) [0..<length (t # ts)] =
      (f 0, fold addDelta (dss 0) new_accumulator) #
      map (\<lambda>i. ((f \<circ> Suc) i, fold addDelta (dss (Suc i)) new_accumulator)) [0..<length ts]"
    by (simp add: upt_conv_Cons map_Suc_upt [symmetric] del: upt_Suc)
  show ?case
    unfolding m using IH delivers_accumulator [OF t] by (auto split: sum.splits option.splits)
qed simp

text \<open>The chunks a body of lines holds, up to the line that ends it.\<close>

fun chunks_of :: "string list \<Rightarrow> stream_resp list" where
  "chunks_of [] = []"
| "chunks_of (line # ls) =
     (if \<not> has_prefix ''data: '' line then chunks_of ls
      else if trim_space (drop 6 line) = ''[DONE]'' then []
      else case unmarshal stream_resp_field \<lparr>sr_choices = [], sr_usage = None\<rparr> (drop 6 line) of
          None \<Rightarrow> chunks_of ls
        | Some chunk \<Rightarrow> chunk # chunks_of ls)"

lemma openai_lines_chunks:
  "rt_ctx r = Background \<Longrightarrow> openai_lines ls None s r = ((None, fold take_chunk (chunks_of ls) s), r)"
proof (induction ls arbitrary: s)
  case (Cons line ls)
  have "poll r = (None, r)" using Cons.prems by (simp add: poll_def)
  with Cons show ?case by (simp add: Let_def split: option.split)
qed simp

definition first_delta :: "stream_resp \<Rightarrow> stream_delta" where
  "first_delta x = (case sr_choices x of [] \<Rightarrow> \<lparr>sd_role = [], sd_content = [], sd_tool_calls = []\<rparr> | d # _ \<Rightarrow> d)"

definition text_pieces :: "stream_resp list \<Rightarrow> string list" where
  "text_pieces xs = filter (\<lambda>s. s \<noteq> []) (map (\<lambda>x. sd_content (first_delta x)) xs)"

lemma fold_take_chunk:
  "os_accum (fold take_chunk xs s) = fold accumulate (concat (map (\<lambda>x. sd_tool_calls (first_delta x)) xs)) (os_accum s)"
  "os_sent (fold take_chunk xs s) = os_sent s @ map text_chunk (text_pieces xs)"
proof (induction xs arbitrary: s)
  case (Cons x xs)
  case 1
  have a: "os_accum (take_chunk x s) = fold accumulate (sd_tool_calls (first_delta x)) (os_accum s)"
    by (auto simp: take_chunk_def first_delta_def Let_def split: list.splits)
  then show ?case by (simp add: Cons.IH)
  case 2
  have "os_sent (take_chunk x s) = os_sent s @ map text_chunk (text_pieces [x])"
    by (auto simp: take_chunk_def first_delta_def text_pieces_def Let_def split: list.splits)
  then show ?case by (simp add: Cons.IH text_pieces_def)
qed (simp_all add: text_pieces_def)

lemma concat_text_pieces: "concat (text_pieces xs) = concat (map (\<lambda>x. sd_content (first_delta x)) xs)"
  by (induction xs) (auto simp: text_pieces_def)

text \<open>
  C36. A stream of the OpenAI provider says what the whole answer would have said. When the deltas in
  the body are a cut of the message \<open>m\<close>, however its text and the arguments of its tool calls are cut
  and the calls interleaved, then the chunks' texts join to the content of \<open>m\<close> and the last chunk has
  the tool calls that \<open>Generate\<close> reads from \<open>m\<close>, in their order; when \<open>Generate\<close> would fail on
  their arguments, so does the stream. The end of the body is the end of the answer, with or
  without \<open>[DONE]\<close>: an answer that is cut off between two lines passes for complete.
\<close>

theorem openai_stream_is_answer:
  assumes ctx: "rt_ctx r = Background" and lines: "scan resp = (ls, None)"
    and content: "concat (map (\<lambda>x. sd_content (first_delta x)) (chunks_of ls)) = mr_content m"
    and calls: "cut_of (mr_tool_calls m) (concat (map (\<lambda>x. sd_tool_calls (first_delta x)) (chunks_of ls)))"
  shows "\<exists>pieces. concat pieces = mr_content m \<and>
    (case chatMessageRespToModel m of
       Inr msg \<Rightarrow> \<exists>u. openai_read resp r =
         ((map text_chunk pieces @ [\<lparr>chunk_delta = [], chunk_tool_calls = msg_tool_calls msg, chunk_done = True,
                                     chunk_usage = u\<rparr>], []), r)
     | Inl _ \<Rightarrow> \<exists>e. openai_read resp r = ((map text_chunk pieces, [e]), r))"
proof -
  define ds where "ds = concat (map (\<lambda>x. sd_tool_calls (first_delta x)) (chunks_of ls))"
  let ?ts = "mr_tool_calls m" and ?init = "\<lparr>os_accum = [], os_usage = None, os_sent = []\<rparr>"
  let ?final = "fold take_chunk (chunks_of ls) ?init"
  let ?dss = "\<lambda>i. filter (\<lambda>d. dl_index d = int i) ds"
  note ds = calls [folded ds_def]
  have pieces: "concat (text_pieces (chunks_of ls)) = mr_content m"
    unfolding content [symmetric] by (rule concat_text_pieces)
  have run: "openai_lines ls None ?init r = ((None, ?final), r)"
    by (rule openai_lines_chunks [OF ctx])
  have sent: "os_sent ?final = map text_chunk (text_pieces (chunks_of ls))"
    by (simp add: fold_take_chunk)
  have accum: "os_accum ?final = fold accumulate ds []"
    by (simp add: fold_take_chunk ds_def)
  note acc = fold_accumulate [of "[]" ds, simplified]
  have delivered: "delivers (?ts ! i) (?dss i)" if "i < length ?ts" for i
    using ds that unfolding cut_of_def by blast
  have nonempty: "?dss i \<noteq> []" if "i < length ?ts" for i
    using delivered [OF that] unfolding delivers_def by fastforce
  have "dl_index ` set ds = int ` {0..<length ?ts}"
  proof
    show "dl_index ` set ds \<subseteq> int ` {0..<length ?ts}"
      using ds unfolding cut_of_def by (auto simp: image_int_atLeastLessThan)
    show "int ` {0..<length ?ts} \<subseteq> dl_index ` set ds"
    proof
      fix x assume "x \<in> int ` {0..<length ?ts}"
      then obtain i where i: "x = int i" "i < length ?ts" by auto
      then obtain d where "d \<in> set ds" "dl_index d = x"
        using nonempty [OF i(2)] by (auto simp: filter_empty_conv)
      then show "x \<in> dl_index ` set ds" by blast
    qed
  qed
  with acc have "sort_key fst (os_accum ?final) =
      map (\<lambda>i. (int i, the (map_of (fold accumulate ds []) (int i)))) [0..<length ?ts]"
    unfolding accum by (intro sort_key_indices) auto
  also have "\<dots> = map (\<lambda>i. (int i, fold addDelta (?dss i) new_accumulator)) [0..<length ?ts]"
    using acc nonempty by auto
  finally have sorted: "sort_key fst (os_accum ?final) = \<dots>" .
  have read: "openai_read resp r =
      ((case finalize_calls (sort_key fst (os_accum ?final)) of
          Inl e \<Rightarrow> (os_sent ?final, [e])
        | Inr tcs \<Rightarrow> (os_sent ?final @ [\<lparr>chunk_delta = [], chunk_tool_calls = tcs, chunk_done = True,
                        chunk_usage = map_option model_usage (os_usage ?final)\<rparr>], [])), r)"
    unfolding openai_read_def lines by (simp add: run)
  from finalize_cut [OF delivered, of int] show ?thesis
    unfolding read sorted sent
    by (intro exI [of _ "text_pieces (chunks_of ls)"])
       (auto simp: pieces chatMessageRespToModel_def split: sum.splits)
qed

text \<open>A small body: a text, then a tool call in two pieces; it ends without \<open>[DONE]\<close>.\<close>

definition demo_lines :: "string list" where
  "demo_lines =
     [''data: {\"choices\":[{\"delta\":{\"content\":\"hi\"}}]}'', [],
      ''data: {\"choices\":[{\"delta\":{\"tool_calls\":[{\"id\":\"c\",\"function\":{\"name\":\"f\",\"arguments\":\"{\"}}]}}]}'',
      ''data: {\"choices\":[{\"delta\":{\"tool_calls\":[{\"function\":{\"arguments\":\"}\"}}]}}]}'']"

definition demo_response :: http_response where
  "demo_response = \<lparr>hr_status = 200, hr_body = join [CHR 0x0A] demo_lines, hr_read_error = None\<rparr>"

definition demo_message :: chat_message_resp where
  "demo_message =
     \<lparr>mr_role = ''assistant'', mr_content = ''hi'',
      mr_tool_calls = [\<lparr>tr_id = ''c'', tr_type = ''function'', tr_function = \<lparr>fc_name = ''f'', fc_arguments = ''{}''\<rparr>\<rparr>]\<rparr>"

definition demo_chunk :: "string \<Rightarrow> tool_delta list \<Rightarrow> stream_resp" where
  "demo_chunk t ds = \<lparr>sr_choices = [\<lparr>sd_role = [], sd_content = t, sd_tool_calls = ds\<rparr>], sr_usage = None\<rparr>"

lemma demo_scan: "scan demo_response = (demo_lines, None)"
  by code_simp

lemma demo_chunks:
  "chunks_of demo_lines =
     [demo_chunk ''hi'' [],
      demo_chunk [] [\<lparr>dl_index = 0, dl_id = ''c'', dl_type = [], dl_function = Some \<lparr>fc_name = ''f'', fc_arguments = ''{''\<rparr>\<rparr>],
      demo_chunk [] [\<lparr>dl_index = 0, dl_id = [], dl_type = [], dl_function = Some \<lparr>fc_name = [], fc_arguments = ''}''\<rparr>\<rparr>]]"
  by code_simp

lemma openai_stream_is_answer_witness:
  "\<exists>pieces u. concat pieces = ''hi'' \<and>
     openai_read demo_response \<lparr>rt_ctx = Background, rt_world = ()\<rparr> =
       ((map text_chunk pieces @
         [\<lparr>chunk_delta = [], chunk_tool_calls = [\<lparr>tc_id = ''c'', tc_name = ''f'', tc_arguments = Some []\<rparr>],
           chunk_done = True, chunk_usage = u\<rparr>], []), \<lparr>rt_ctx = Background, rt_world = ()\<rparr>)"
proof -
  let ?r = "\<lparr>rt_ctx = Background, rt_world = ()\<rparr>"
  have args: "read_arguments ''{}'' = Some []" by code_simp
  have 1: "concat (map (\<lambda>x. sd_content (first_delta x)) (chunks_of demo_lines)) = mr_content demo_message"
    by (simp add: demo_chunks demo_chunk_def first_delta_def demo_message_def)
  have 2: "cut_of (mr_tool_calls demo_message)
      (concat (map (\<lambda>x. sd_tool_calls (first_delta x)) (chunks_of demo_lines)))"
    by (simp add: demo_chunks demo_chunk_def first_delta_def demo_message_def cut_of_def delivers_def
        delta_name_def delta_arguments_def)
  have 3: "chatMessageRespToModel demo_message =
      Inr ((text_message ''assistant'' ''hi'')\<lparr>msg_tool_calls := [\<lparr>tc_id = ''c'', tc_name = ''f'', tc_arguments = Some []\<rparr>]\<rparr>)"
    by (simp add: chatMessageRespToModel_def demo_message_def args)
  from openai_stream_is_answer [of ?r demo_response demo_lines demo_message] demo_scan 1 2 3
  show ?thesis by (fastforce simp: demo_message_def)
qed

end
