(* ===== verification/StreamedPlan.thy ===== *)
theory StreamedPlan
  imports Loop OpenAI
begin

text \<open>
  Planning in ReAct mode has two ways to ask the model: \<open>streamReActPlan\<close> of \<open>agent/loop.go\<close> and
  \<open>ReActPlanner.Plan\<close> of \<open>planner/react.go\<close>. They come to the same plan.
\<close>

section \<open>The helpers of both packages are the same\<close>

lemma toolDefs_same: "toolInfosToModelToolDefs tools = toolInfosToToolDefs tools"
  by (auto simp: toolInfosToModelToolDefs_def toolInfosToToolDefs_def split: any_schema.split)

lemma nested_value_same: "nested_value x = normalize_value x"
  by (auto simp: nested_value_def normalize_value_def Let_def split: gval.split option.split)

lemma normalizeToolInput_same: "stream_normalizeToolInput v = normalizeToolInput v"
  by (cases v) (simp_all add: stream_normalizeToolInput_def normalizeToolInput_def nested_value_same)

section \<open>Chunks and the message they make up\<close>

definition last_chunk :: "tool_call list \<Rightarrow> usage option \<Rightarrow> stream_chunk" where
  "last_chunk tcs u = \<lparr>chunk_delta = [], chunk_tool_calls = tcs, chunk_done = True, chunk_usage = u\<rparr>"

lemma last_calls_pieces: "last_calls [] (map text_chunk pieces @ [last_chunk tcs u]) = tcs"
proof -
  have "last_calls acc (map text_chunk pieces @ cs) = last_calls acc cs" for acc cs
    by (induction pieces) (simp_all add: text_chunk_def)
  then show ?thesis by (simp add: last_chunk_def)
qed

lemma deltas_pieces: "concat (map chunk_delta (map text_chunk pieces @ [last_chunk tcs u])) = concat pieces"
  by (induction pieces) (simp_all add: text_chunk_def last_chunk_def)

lemma stream_answer_whole:
  "concat pieces = msg_content msg \<Longrightarrow>
   stream_answer (map text_chunk pieces @ [last_chunk (msg_tool_calls msg) u]) = react_answer msg"
  unfolding stream_answer_def react_answer_def last_calls_pieces deltas_pieces normalizeToolInput_same Let_def
  by (cases "msg_tool_calls msg") simp_all

lemma chunk_events_pieces:
  "chunk_events (map text_chunk pieces @ [last_chunk tcs u]) = map EventStreamChunk (filter (\<lambda>t. t \<noteq> []) pieces)"
  by (induction pieces) (simp_all add: chunk_events_def text_chunk_def last_chunk_def)

lemma emit_all_result:
  "\<exists>r'. emit_all env evs r v = (Ok (), r', v\<lparr>lv_events := lv_events v @ evs\<rparr>)"
proof (induction evs arbitrary: r v)
  case Nil
  then show ?case by (simp add: go_return_def)
next
  case (Cons ev evs)
  obtain e r1 where e: "Emit (le_hooks env) ev r = (e, r1)" by force
  from Cons.IH [of r1 "v\<lparr>lv_events := lv_events v @ [ev]\<rparr>"] show ?case
    by (auto simp: go_bind_def emit_def e)
qed

text \<open>
  C9. In ReAct mode the plan does not depend on streaming. When the model streams a message in pieces
  and would have answered the same message as a whole, then the loop makes of the stream the very plan that the
  planner makes of the whole: the same call with the same input, or the same answer, and the same reasoning.
  The hooks are shown each piece that is not empty, in order, and nothing else of the session changes.
\<close>

theorem streamed_plan_is_plan:
  fixes ps :: plan_state
  defines "opts \<equiv> (if ps_tools ps = [] then [] else [WithTools (toolInfosToToolDefs (ps_tools ps))])"
  assumes "cm_stream m r (ps_messages ps) opts =
      (Inr (map text_chunk pieces @ [last_chunk (msg_tool_calls msg) u], None), r1)"
    and "cm_generate m r (ps_messages ps) opts = (Inr (Some \<lparr>resp_message = msg, resp_usage = u'\<rparr>), r2)"
    and "concat pieces = msg_content msg" and "ps_messages ps \<noteq> []"
  shows "\<exists>p r'. streamReActPlan env m ps r v =
        (Ok p, r', v\<lparr>lv_events := lv_events v @ map EventStreamChunk (filter (\<lambda>t. t \<noteq> []) pieces)\<rparr>) \<and>
      fst (react_Plan ps r \<lparr>re_model = Some m, re_system_prompt = sp\<rparr>) = Ok p"
proof -
  have opts: "(if length (toolInfosToToolDefs (ps_tools ps)) > 0 then [WithTools (toolInfosToToolDefs (ps_tools ps))] else []) = opts"
    by (simp add: opts_def toolInfosToToolDefs_def)
  obtain r' where events: "emit_all env (map EventStreamChunk (filter (\<lambda>t. t \<noteq> []) pieces)) r1 v =
      (Ok (), r', v\<lparr>lv_events := lv_events v @ map EventStreamChunk (filter (\<lambda>t. t \<noteq> []) pieces)\<rparr>)"
    using emit_all_result by blast
  have "streamReActPlan env m ps r v =
      (Ok (react_answer msg), r', v\<lparr>lv_events := lv_events v @ map EventStreamChunk (filter (\<lambda>t. t \<noteq> []) pieces)\<rparr>)"
    unfolding streamReActPlan_def Let_def toolDefs_same opts
    by (simp add: go_bind_def go_outside_def assms(2) chunk_events_pieces events stream_answer_whole [OF assms(4)] go_return_def)
  moreover have "fst (react_Plan ps r \<lparr>re_model = Some m, re_system_prompt = sp\<rparr>) = Ok (react_answer msg)"
    by (simp add: react_Plan_def Let_def buildReActMessages_def assms(5) planner_generate_def go_bind_def go_return_def
        assms(3) opts [simplified] del: if_split)
  ultimately show ?thesis by blast
qed

text \<open>A model that says ''hello'' and calls \<open>f\<close>, at once or in two pieces.\<close>

definition demo_call_message :: chat_message where
  "demo_call_message =
     (text_message RoleAssistant ''hello'')\<lparr>msg_tool_calls := [\<lparr>tc_id = ''c'', tc_name = '' f '', tc_arguments = None\<rparr>]\<rparr>"

definition demo_streaming :: "unit chat_model" where
  "demo_streaming =
     \<lparr>cm_generate = (\<lambda>r ms opts. (Inr (Some \<lparr>resp_message = demo_call_message,
         resp_usage = \<lparr>prompt_tokens = 0, completion_tokens = 0, total_tokens = 0\<rparr>\<rparr>), r)),
      cm_stream = (\<lambda>r ms opts. (Inr (map text_chunk [''hel'', ''lo''] @
         [last_chunk (msg_tool_calls demo_call_message) None], None), r))\<rparr>"

lemma streamed_plan_is_plan_witness:
  "\<forall>env v. \<exists>p r'. streamReActPlan env demo_streaming \<lparr>ps_messages = [text_message RoleUser ''hi''], ps_tools = [], ps_history = []\<rparr>
      \<lparr>rt_ctx = Background, rt_world = ()\<rparr> v =
        (Ok p, r', v\<lparr>lv_events := lv_events v @ [EventStreamChunk ''hel'', EventStreamChunk ''lo'']\<rparr>) \<and>
    pr_reasoning p = ''hello'' \<and> act_tool_name (pr_action p) = ''f''"
proof (intro allI)
  fix env and v :: "(unit, 'm, 'c) loop_vars"
  let ?ps = "\<lparr>ps_messages = [text_message RoleUser ''hi''], ps_tools = [], ps_history = []\<rparr>"
  let ?r = "\<lparr>rt_ctx = Background, rt_world = ()\<rparr>"
  let ?p = "\<lparr>re_model = Some demo_streaming, re_system_prompt = []\<rparr>"
  have plan: "case fst (react_Plan ?ps ?r ?p) of
      Ok p \<Rightarrow> pr_reasoning p = ''hello'' \<and> act_tool_name (pr_action p) = ''f'' | _ \<Rightarrow> False"
    by code_simp
  have "concat [''hel'', ''lo''] = msg_content demo_call_message" by (simp add: demo_call_message_def)
  with plan streamed_plan_is_plan [where m = demo_streaming and ps = ?ps and r = ?r and sp = "[]"
      and msg = demo_call_message and pieces = "[''hel'', ''lo'']" and u = None and env = env and v = v]
  show "\<exists>p r'. streamReActPlan env demo_streaming ?ps ?r v =
        (Ok p, r', v\<lparr>lv_events := lv_events v @ [EventStreamChunk ''hel'', EventStreamChunk ''lo'']\<rparr>) \<and>
      pr_reasoning p = ''hello'' \<and> act_tool_name (pr_action p) = ''f''"
    by (auto simp: demo_streaming_def)
qed

end
