(* ===== verification/GoFormat.thy ===== *)
theory GoFormat
  imports Complex_Main Json
begin

text \<open>
  The verbs of package \<open>fmt\<close> that print numbers with a fraction, and \<open>time.Duration.String\<close>.
  \<open>float64\<close> is modelled by exact rationals.
\<close>

text \<open>The decimal digits of a number, padded with zeros on the left.\<close>

fun digits_text :: "nat \<Rightarrow> nat \<Rightarrow> string" where
  "digits_text 0 n = []"
| "digits_text (Suc k) n = digits_text k (n div 10) @ [char_of (48 + n mod 10)]"

text \<open>The nearest integer, the even one of two that are equally near.\<close>

definition round_even :: "rat \<Rightarrow> int" where
  "round_even x =
     (let lo = \<lfloor>x\<rfloor>; rest = x - of_int lo in
      if rest < 1 / 2 then lo
      else if rest > 1 / 2 then lo + 1
      else if even lo then lo else lo + 1)"

text \<open>\<open>%.<k>f\<close>\<close>

definition fixed_text :: "nat \<Rightarrow> rat \<Rightarrow> string" where
  "fixed_text k x =
     (let n = nat (round_even (\<bar>x\<bar> * 10 ^ k)) in
      (if x < 0 then ''-'' else []) @ nat_text (n div 10 ^ k) @
      (if k = 0 then [] else ''.'' @ digits_text k (n mod 10 ^ k)))"

text \<open>\<open>fmtFrac\<close>: the fraction of \<open>v / 10^prec\<close>, without zeros at its end.\<close>

definition frac_text :: "nat \<Rightarrow> nat \<Rightarrow> string" where
  "frac_text v prec =
     (let ds = rev (dropWhile (\<lambda>c. c = CHR ''0'') (rev (digits_text prec (v mod 10 ^ prec))))
      in if ds = [] then [] else ''.'' @ ds)"

definition duration_text :: "int \<Rightarrow> string" where
  "duration_text d =
     (let u = nat \<bar>d\<bar>; secs = u div 1000000000; mins = secs div 60; hours = mins div 60 in
      (if d < 0 then ''-'' else []) @
      (if u = 0 then ''0s''
       else if u < 1000 then nat_text u @ ''ns''
       else if u < 1000000 then nat_text (u div 1000) @ frac_text u 3 @ [CHR 0xC2, CHR 0xB5] @ ''s''
       else if u < 1000000000 then nat_text (u div 1000000) @ frac_text u 6 @ ''ms''
       else (if hours > 0 then nat_text hours @ ''h'' else []) @
            (if mins > 0 then nat_text (mins mod 60) @ ''m'' else []) @
            nat_text (secs mod 60) @ frac_text u 9 @ ''s''))"

end
