(* ===== verification/Retriever.thy ===== *)
theory Retriever
  imports GoFormat Registry
begin

text \<open>
  Package \<open>retriever\<close>: what a retriever is asked and answers, the semantic and the keyword retriever
  over their indexes, the reciprocal rank fusion of two result lists, the hybrid retriever and the
  tool that lets a model search. Embedders, vector stores and keyword indexes are foreign code. Scores
  are exact rationals.
\<close>

section \<open>Documents and options (\<open>retriever.go\<close>)\<close>

record document =
  doc_id :: string
  doc_content :: string
  doc_score :: rat
  doc_metadata :: "(string \<times> string) list option"
  doc_source :: string

record search_options =
  so_top_k :: int
  so_min_score :: rat
  so_filters :: "(string \<times> string) list option"
  so_collection :: string

type_synonym search_option = "search_options \<Rightarrow> search_options"

definition WithTopK :: "int \<Rightarrow> search_option" where
  "WithTopK k o' = o'\<lparr>so_top_k := k\<rparr>"

definition WithMinScore :: "rat \<Rightarrow> search_option" where
  "WithMinScore s o' = o'\<lparr>so_min_score := s\<rparr>"

definition WithFilters :: "(string \<times> string) list option \<Rightarrow> search_option" where
  "WithFilters f o' = o'\<lparr>so_filters := f\<rparr>"

definition WithCollection :: "string \<Rightarrow> search_option" where
  "WithCollection c o' = o'\<lparr>so_collection := c\<rparr>"

definition ApplySearchOptions :: "search_option list \<Rightarrow> search_options" where
  "ApplySearchOptions opts =
     fold (\<lambda>f o'. f o') opts
       \<lparr>so_top_k = 5, so_min_score = 0, so_filters = None, so_collection = []\<rparr>"

type_synonym 'w retriever =
  "string \<Rightarrow> search_option list \<Rightarrow> 'w rt \<Rightarrow> (goerr + document list) \<times> 'w rt"

section \<open>Keyword and semantic retrieval\<close>

definition at_least :: "rat \<Rightarrow> document list \<Rightarrow> document list" where
  "at_least minScore docs =
     (if minScore \<le> 0 then docs else filter (\<lambda>d. doc_score d \<ge> minScore) docs)"

text \<open>\<open>search\<close> is the index: a query and how many results are wanted.\<close>

definition keyword_Retrieve ::
    "(string \<Rightarrow> int \<Rightarrow> 'w rt \<Rightarrow> (goerr + document list) \<times> 'w rt) \<Rightarrow> 'w retriever" where
  "keyword_Retrieve search query opts r =
     (let o' = ApplySearchOptions opts in
      case search query (so_top_k o') r of
        (Inl e, r) \<Rightarrow> (Inl e, r)
      | (Inr docs, r) \<Rightarrow> (Inr (at_least (so_min_score o') docs), r))"

definition semantic_Retrieve ::
    "(string list \<Rightarrow> 'w rt \<Rightarrow> (goerr + rat list list) \<times> 'w rt) \<Rightarrow>
     (rat list \<Rightarrow> int \<Rightarrow> 'w rt \<Rightarrow> (goerr + document list) \<times> 'w rt) \<Rightarrow> 'w retriever" where
  "semantic_Retrieve vectors search query opts r =
     (let o' = ApplySearchOptions opts in
      case vectors [query] r of
        (Inl e, r) \<Rightarrow> (Inl e, r)
      | (Inr [], r) \<Rightarrow> (Inr [], r)
      | (Inr (v # vs), r) \<Rightarrow>
          if v = [] then (Inr [], r)
          else (case search v (so_top_k o') r of
              (Inl e, r) \<Rightarrow> (Inl e, r)
            | (Inr docs, r) \<Rightarrow> (Inr (at_least (so_min_score o') docs), r)))"

section \<open>Reciprocal rank fusion (\<open>hybrid.go\<close>)\<close>

record rrf_merger =
  rrf_k :: int
  rrf_semantic_weight :: rat
  rrf_keyword_weight :: rat

definition merged_id :: "string \<Rightarrow> nat \<Rightarrow> document \<Rightarrow> string" where
  "merged_id prefix i d = (if doc_id d = [] then prefix @ nat_text i else doc_id d)"

text \<open>
  The closure \<open>add\<close> and the body of its loop: \<open>byID\<close> is the list of its entries in the
  order in which they were made.
\<close>

definition rrf_put :: "string \<Rightarrow> document \<Rightarrow> rat \<Rightarrow> (string \<times> document \<times> rat) list \<Rightarrow> (string \<times> document \<times> rat) list" where
  "rrf_put key d contrib byID =
     (case map_of byID key of
        Some _ \<Rightarrow> map (\<lambda>(x, doc, score). (x, doc, if x = key then score + contrib else score)) byID
      | None \<Rightarrow> byID @ [(key, d\<lparr>doc_id := key\<rparr>, contrib)])"

fun rrf_add ::
    "int \<Rightarrow> rat \<Rightarrow> string \<Rightarrow> nat \<Rightarrow> document list \<Rightarrow> (string \<times> document \<times> rat) list \<Rightarrow>
     (string \<times> document \<times> rat) list" where
  "rrf_add k weight prefix i [] byID = byID"
| "rrf_add k weight prefix i (d # ds) byID =
     rrf_add k weight prefix (Suc i) ds
       (rrf_put (merged_id prefix i d) d (weight / of_int (k + int i + 1)) byID)"

text \<open>The order of the result: by score downwards, then by ID.\<close>

definition doc_before :: "document \<Rightarrow> document \<Rightarrow> bool" where
  "doc_before a b \<longleftrightarrow>
     (if doc_score a = doc_score b then string_less (doc_id a) (doc_id b) else doc_score a > doc_score b)"

text \<open>
  \<open>sort.Slice\<close>, and the map is read in no order: the IDs differ, so there is one result only, and the
  insertion sort below finds it.
\<close>

fun insert_doc :: "document \<Rightarrow> document list \<Rightarrow> document list" where
  "insert_doc d [] = [d]"
| "insert_doc d (x # xs) = (if doc_before x d then x # insert_doc d xs else d # x # xs)"

definition rrf_rank_constant :: "rrf_merger \<Rightarrow> int" where
  "rrf_rank_constant m = (if rrf_k m \<le> 0 then 60 else rrf_k m)"

definition rrf_weights :: "rrf_merger \<Rightarrow> rat \<times> rat" where
  "rrf_weights m =
     (if rrf_semantic_weight m = 0 \<and> rrf_keyword_weight m = 0 then (1, 1)
      else (rrf_semantic_weight m, rrf_keyword_weight m))"

definition Merge :: "rrf_merger \<Rightarrow> document list \<Rightarrow> document list \<Rightarrow> document list" where
  "Merge m semantic keyword =
     (let k = rrf_rank_constant m; (sw, kw) = rrf_weights m;
          byID = rrf_add k kw ''kw:'' 0 keyword (rrf_add k sw ''sem:'' 0 semantic [])
      in foldr insert_doc (map (\<lambda>(x, doc, score). doc\<lparr>doc_score := score\<rparr>) byID) [])"

text \<open>
  \<open>HybridRetriever\<close> asks both retrievers at the same time. Each call is one step; \<open>keyword_first\<close>
  says which came first.
\<close>

definition hybrid_Retrieve ::
    "bool \<Rightarrow> 'w retriever \<Rightarrow> 'w retriever \<Rightarrow> (document list \<Rightarrow> document list \<Rightarrow> document list) option \<Rightarrow>
     'w retriever" where
  "hybrid_Retrieve keyword_first semantic keyword merger query opts r =
     (let (sem, kw, r) =
        (if keyword_first then (case keyword query opts r of (k, r) \<Rightarrow> case semantic query opts r of (s, r) \<Rightarrow> (s, k, r))
         else (case semantic query opts r of (s, r) \<Rightarrow> case keyword query opts r of (k, r) \<Rightarrow> (s, k, r)))
      in (case (sem, kw) of
            (Inl e, Inl f) \<Rightarrow> Inl (ErrNew (''hybrid: semantic: '' @ err_text e @ ''; keyword: '' @ err_text f))
          | (Inl e, Inr _) \<Rightarrow> Inl e
          | (Inr _, Inl f) \<Rightarrow> Inl f
          | (Inr s, Inr k) \<Rightarrow> Inr (case merger of None \<Rightarrow> s @ k | Some g \<Rightarrow> g s k), r))"

section \<open>The tool (\<open>rag_tool.go\<close>)\<close>

definition format_source :: "document \<Rightarrow> string" where
  "format_source d =
     (if doc_source d = []
      then (case doc_metadata d of None \<Rightarrow> [] | Some m \<Rightarrow> zero_string (map_of m ''source''))
      else doc_source d)"

fun format_docs :: "nat \<Rightarrow> document list \<Rightarrow> string" where
  "format_docs i [] = []"
| "format_docs i (d # ds) =
     ''['' @ nat_text (i + 1) @ ''] (score: '' @ fixed_text 4 (doc_score d) @ '', source: '' @ format_source d @
     '')'' @ newline @ doc_content d @ newline @ (if ds \<noteq> [] then newline else []) @ format_docs (Suc i) ds"

definition DefaultFormatter :: "document list \<Rightarrow> string" where
  "DefaultFormatter docs = rev (dropWhile (\<lambda>c. c = CHR 0x0A) (rev (format_docs 0 docs)))"

definition rag_Execute ::
    "'w retriever \<Rightarrow> (document list \<Rightarrow> string) option \<Rightarrow> params \<Rightarrow> 'w rt \<Rightarrow> tool_result \<times> 'w rt" where
  "rag_Execute retrieve formatter input r =
     (case params_get input ''query'' of
        None \<Rightarrow> (([], Some (ErrNew ''missing query'')), r)
      | Some (VStr q) \<Rightarrow>
          (case retrieve q [] r of
             (Inl e, r) \<Rightarrow> (([], Some e), r)
           | (Inr docs, r) \<Rightarrow>
               ((case formatter of None \<Rightarrow> DefaultFormatter docs | Some f \<Rightarrow> f docs, None), r))
      | Some _ \<Rightarrow> (([], Some (ErrNew ''query must be a string'')), r))"


record 'w rag_tool =
  rag_name :: string
  rag_description :: string
  rag_retriever :: "'w retriever"
  rag_formatter :: "(document list \<Rightarrow> string) option"

type_synonym 'w rag_tool_option = "'w rag_tool \<Rightarrow> 'w rag_tool"

definition WithFormatter :: "(document list \<Rightarrow> string) option \<Rightarrow> 'w rag_tool_option" where
  "WithFormatter f t = t\<lparr>rag_formatter := f\<rparr>"

definition rag_Schema :: schema_property where
  "rag_Schema =
     SchemaProperty ''object'' [] []
       (Some [(''query'', SchemaProperty ''string'' ''Natural language search query for the knowledge base'' [] None [] None)])
       [''query''] None"

definition NewRAGTool :: "string \<Rightarrow> string \<Rightarrow> 'w retriever \<Rightarrow> 'w rag_tool_option list \<Rightarrow> 'w tool" where
  "NewRAGTool name desc retrieve opts =
     (let t = fold (\<lambda>f t. f t) opts
        \<lparr>rag_name = name, rag_description = desc, rag_retriever = retrieve, rag_formatter = Some DefaultFormatter\<rparr>
      in \<lparr>tool_name = rag_name t, tool_description = rag_description t, tool_schema = Some rag_Schema,
          tool_execute = rag_Execute (rag_retriever t) (rag_formatter t)\<rparr>)"

section \<open>What the fusion computes\<close>

text \<open>The contribution of one ranked list to a document.\<close>

fun rank_score :: "int \<Rightarrow> rat \<Rightarrow> string \<Rightarrow> nat \<Rightarrow> document list \<Rightarrow> string \<Rightarrow> rat" where
  "rank_score k weight prefix i [] x = 0"
| "rank_score k weight prefix i (d # ds) x =
     (if merged_id prefix i d = x then weight / of_int (k + int i + 1) else 0) +
     rank_score k weight prefix (Suc i) ds x"

fun merged_ids :: "string \<Rightarrow> nat \<Rightarrow> document list \<Rightarrow> string list" where
  "merged_ids prefix i [] = []"
| "merged_ids prefix i (d # ds) = merged_id prefix i d # merged_ids prefix (Suc i) ds"

definition score_in :: "(string \<times> document \<times> rat) list \<Rightarrow> string \<Rightarrow> rat" where
  "score_in byID x = (case map_of byID x of None \<Rightarrow> 0 | Some (d, s) \<Rightarrow> s)"

definition fusion_table :: "(string \<times> document \<times> rat) list \<Rightarrow> bool" where
  "fusion_table byID \<longleftrightarrow> distinct (map fst byID) \<and> (\<forall>(x, d, s) \<in> set byID. doc_id d = x)"

lemma map_of_add_score:
  "map_of (map (\<lambda>(x, doc, score). (x, doc, if x = key then score + c else score)) byID) x =
   map_option (\<lambda>(doc, score). (doc, if x = key then score + c else score)) (map_of byID x)"
  by (induction byID) auto

lemma fst_add_score:
  "map fst (map (\<lambda>(x, doc, score). (x, doc, if x = key then score + c else score)) byID) = map fst byID"
  by (induction byID) auto

lemma rrf_put_table:
  assumes "fusion_table byID"
  shows "fusion_table (rrf_put key d c byID)"
proof (cases "map_of byID key")
  case None
  then have "key \<notin> fst ` set byID"
    by (simp add: map_of_eq_None_iff)
  with None assms show ?thesis
    by (auto simp: fusion_table_def rrf_put_def)
next
  case (Some e)
  then have "rrf_put key d c byID = map (\<lambda>(x, doc, score). (x, doc, if x = key then score + c else score)) byID"
    by (simp add: rrf_put_def)
  then show ?thesis
    using assms unfolding fusion_table_def by (simp only: fst_add_score) (auto split: prod.splits)
qed

lemma rrf_put_keys: "fst ` set (rrf_put key d c byID) = insert key (fst ` set byID)"
proof (cases "map_of byID key")
  case None
  then show ?thesis by (simp add: rrf_put_def)
next
  case (Some e)
  then have "key \<in> fst ` set byID"
    by (metis domI dom_map_of_conv_image_fst)
  moreover have "map fst (rrf_put key d c byID) = map fst byID"
    using Some by (simp only: rrf_put_def option.case fst_add_score)
  ultimately show ?thesis
    by (metis insert_absorb list.set_map)
qed

lemma rrf_put_score: "score_in (rrf_put key d c byID) x = score_in byID x + (if key = x then c else 0)"
proof (cases "map_of byID key")
  case None
  then show ?thesis
    by (auto simp: rrf_put_def score_in_def map_add_def split: option.splits)
next
  case (Some e)
  then have "rrf_put key d c byID = map (\<lambda>(x, doc, score). (x, doc, if x = key then score + c else score)) byID"
    by (simp add: rrf_put_def)
  then show ?thesis
    using Some by (simp only: score_in_def map_of_add_score) (auto split: option.splits prod.splits)
qed

lemma rrf_add_table: "fusion_table byID \<Longrightarrow> fusion_table (rrf_add k w p i ds byID)"
  by (induction ds arbitrary: i byID) (auto intro: rrf_put_table)

lemma rrf_add_keys: "fst ` set (rrf_add k w p i ds byID) = fst ` set byID \<union> set (merged_ids p i ds)"
  by (induction ds arbitrary: i byID) (auto simp: rrf_put_keys)

lemma rrf_add_score:
  "score_in (rrf_add k w p i ds byID) x = score_in byID x + rank_score k w p i ds x"
  by (induction ds arbitrary: i byID) (auto simp: rrf_put_score)

lemma string_less_trans: "string_less a b \<Longrightarrow> string_less b c \<Longrightarrow> string_less a c"
proof (induction a b arbitrary: c rule: string_less.induct)
  case (3 a as b bs)
  then show ?case by (cases c) auto
next
  case (2 b bs)
  then show ?case by (cases c) auto
qed auto

lemma string_less_total: "a \<noteq> b \<Longrightarrow> string_less a b \<or> string_less b a"
proof (induction a b rule: string_less.induct)
  case (1 a)
  then show ?case by (cases a) auto
next
  case (3 a as b bs)
  have "char_code a = char_code b \<longleftrightarrow> a = b"
    by (simp add: char_code_def)
  with 3 show ?case by (cases "a = b") (auto simp: not_less_iff_gr_or_eq)
qed auto

lemma doc_before_trans: "doc_before a b \<Longrightarrow> doc_before b c \<Longrightarrow> doc_before a c"
  by (auto simp: doc_before_def split: if_splits intro: string_less_trans)

lemma doc_before_total: "doc_id a \<noteq> doc_id b \<Longrightarrow> doc_before a b \<or> doc_before b a"
  using string_less_total by (auto simp: doc_before_def)

lemma set_insert_doc [simp]: "set (insert_doc d xs) = insert d (set xs)"
  by (induction xs) auto

lemma insert_doc_sorted:
  "sorted_wrt doc_before xs \<Longrightarrow> doc_id d \<notin> doc_id ` set xs \<Longrightarrow> sorted_wrt doc_before (insert_doc d xs)"
proof (induction xs)
  case (Cons x xs)
  show ?case
  proof (cases "doc_before x d")
    case True
    with Cons show ?thesis by auto
  next
    case False
    then have "doc_before d x"
      using Cons.prems doc_before_total [of d x] by auto
    with False Cons.prems show ?thesis
      by (auto intro: doc_before_trans)
  qed
qed simp

lemma distinct_insert_doc:
  "distinct (map doc_id xs) \<Longrightarrow> doc_id d \<notin> doc_id ` set xs \<Longrightarrow> distinct (map doc_id (insert_doc d xs))"
  by (induction xs) auto

lemma sort_docs:
  "distinct (map doc_id xs) \<Longrightarrow>
   sorted_wrt doc_before (foldr insert_doc xs []) \<and> set (foldr insert_doc xs []) = set xs \<and>
   distinct (map doc_id (foldr insert_doc xs []))"
  by (induction xs) (auto intro!: insert_doc_sorted distinct_insert_doc)
text \<open>
  C31. Reciprocal rank fusion: the result holds each document of either list once, under its ID or,
  when it has none, under a name made of its list and rank. A document's score is the sum over the two
  lists of \<open>weight / (k + rank)\<close>, ranks counted from 1, and the result is strictly ordered by
  score downwards, then by ID: so it does not depend on the order in which Go reads the map.
\<close>

theorem rrf_fuses_ranks:
  "let out = Merge m semantic keyword; k = rrf_rank_constant m; (sw, kw) = rrf_weights m in
   distinct (map doc_id out) \<and>
   set (map doc_id out) = set (merged_ids ''sem:'' 0 semantic) \<union> set (merged_ids ''kw:'' 0 keyword) \<and>
   sorted_wrt doc_before out \<and>
   map doc_score out =
     map (\<lambda>d. rank_score k sw ''sem:'' 0 semantic (doc_id d) + rank_score k kw ''kw:'' 0 keyword (doc_id d)) out"
proof -
  define out where "out = Merge m semantic keyword"
  define k where "k = rrf_rank_constant m"
  obtain sw kw where w: "rrf_weights m = (sw, kw)" by force
  define byID where "byID = rrf_add k kw ''kw:'' 0 keyword (rrf_add k sw ''sem:'' 0 semantic [])"
  define docs where "docs = map (\<lambda>(x, doc, score). doc\<lparr>doc_score := score\<rparr>) byID"
  have out: "out = foldr insert_doc docs []"
    unfolding out_def Merge_def docs_def byID_def k_def w Let_def by simp
  have t: "fusion_table byID"
    unfolding byID_def by (intro rrf_add_table) (simp add: fusion_table_def)
  have ids: "map doc_id docs = map fst byID"
    using t unfolding docs_def fusion_table_def by (auto split: prod.splits)
  have d: "distinct (map doc_id docs)"
    using t unfolding ids fusion_table_def by blast
  have keys: "fst ` set byID = set (merged_ids ''sem:'' 0 semantic) \<union> set (merged_ids ''kw:'' 0 keyword)"
    unfolding byID_def by (simp add: rrf_add_keys)
  have score: "doc_score d = score_in byID (doc_id d)" if "d \<in> set docs" for d
  proof -
    from that obtain x doc s where e: "(x, doc, s) \<in> set byID" "d = doc\<lparr>doc_score := s\<rparr>"
      unfolding docs_def by auto
    with t have "map_of byID x = Some (doc, s)" "doc_id doc = x"
      unfolding fusion_table_def by auto
    with e show ?thesis by (simp add: score_in_def)
  qed
  note s = sort_docs [OF d, folded out]
  have "set (map doc_id out) = fst ` set byID"
    using s ids by (metis list.set_map)
  moreover have "score_in byID x = rank_score k sw ''sem:'' 0 semantic x + rank_score k kw ''kw:'' 0 keyword x" for x
    unfolding byID_def by (simp add: rrf_add_score) (simp add: score_in_def)
  ultimately show ?thesis
    using s score keys unfolding w out_def [symmetric] k_def [symmetric] Let_def by simp
qed

end
