(* ===== verification/FileStore.thy ===== *)
theory FileStore
  imports Compressor Paths
begin

text \<open>
  \<open>FileContentStore\<close> of \<open>memory/content_store.go\<close>: the store that keeps each text in a file of one
  directory, named after its key in base64. The directory is the state; how the operating system fails is
  a parameter.
\<close>

section \<open>\<open>base64.RawURLEncoding\<close>\<close>

definition url_char :: "nat \<Rightarrow> char" where
  "url_char n =
     char_of (if n < 26 then 65 + n else if n < 52 then 71 + n else if n < 62 then n - 4
              else if n = 62 then 45 else (95 :: nat))"

fun sextets :: "nat list \<Rightarrow> nat list" where
  "sextets (a # b # c # s) =
     [a div 4, a mod 4 * 16 + b div 16, b mod 16 * 4 + c div 64, c mod 64] @ sextets s"
| "sextets [a, b] = [a div 4, a mod 4 * 16 + b div 16, b mod 16 * 4]"
| "sextets [a] = [a div 4, a mod 4 * 16]"
| "sextets [] = []"

definition EncodeToString :: "string \<Rightarrow> string" where
  "EncodeToString s = map url_char (sextets (map char_code s))"

section \<open>The store\<close>

type_synonym files = "string \<rightharpoonup> string"

text \<open>
  Writing a file may fail and then leaves what it leaves of it; reading one may fail too, and a file that
  is not there is an error of its own.
\<close>

record 'w disk_faults =
  df_write :: "string \<Rightarrow> string \<Rightarrow> 'w rt \<Rightarrow> (goerr \<times> string option) option \<times> 'w rt"
  df_read :: "string \<Rightarrow> 'w rt \<Rightarrow> goerr option \<times> 'w rt"
  df_missing :: "string \<Rightarrow> goerr"

text \<open>\<open>mkdir\<close> is \<open>os.MkdirAll\<close>, \<open>getwd\<close> what \<open>filepath.Abs\<close> asks for a path that is not absolute.\<close>

definition Abs :: "(goerr + string) \<Rightarrow> string \<Rightarrow> goerr + string" where
  "Abs getwd p =
     (if IsAbs p then Inr (Clean p)
      else case getwd of Inl e \<Rightarrow> Inl e | Inr wd \<Rightarrow> Inr (Join [wd, p]))"

definition NewFileContentStore ::
    "(string \<Rightarrow> 'w rt \<Rightarrow> goerr option \<times> 'w rt) \<Rightarrow> (goerr + string) \<Rightarrow> string \<Rightarrow> 'w rt \<Rightarrow> (goerr + string) \<times> 'w rt" where
  "NewFileContentStore mkdir getwd dir r =
     (case mkdir dir r of
        (Some e, r) \<Rightarrow> (Inl e, r)
      | (None, r) \<Rightarrow> (Abs getwd dir, r))"

definition pathForKey :: "string \<Rightarrow> string \<Rightarrow> string" where
  "pathForKey dir key = Join [dir, EncodeToString key @ ''.txt'']"

definition file_store_Store :: "'w disk_faults \<Rightarrow> string \<Rightarrow> string \<Rightarrow> string \<Rightarrow> ('w, files, unit) op" where
  "file_store_Store disk dir key content =
     go_bind go_check_ctx (\<lambda>_ r files.
       case df_write disk (pathForKey dir key) content r of
         (None, r) \<Rightarrow> (Ok (), r, files(pathForKey dir key \<mapsto> content))
       | (Some (e, left), r) \<Rightarrow> (Err e, r, files(pathForKey dir key := left)))"

definition file_store_Load :: "'w disk_faults \<Rightarrow> string \<Rightarrow> string \<Rightarrow> ('w, files, string) op" where
  "file_store_Load disk dir key =
     go_bind go_check_ctx (\<lambda>_ r files.
       case df_read disk (pathForKey dir key) r of
         (Some e, r) \<Rightarrow> (Err e, r, files)
       | (None, r) \<Rightarrow>
           (case files (pathForKey dir key) of
              None \<Rightarrow> Err (df_missing disk (pathForKey dir key))
            | Some content \<Rightarrow> Ok content, r, files))"

definition file_store_ops :: "'w disk_faults \<Rightarrow> string \<Rightarrow> ('w, files) content_store_ops" where
  "file_store_ops disk dir = \<lparr>cs_store = file_store_Store disk dir, cs_load = file_store_Load disk dir\<rparr>"

section \<open>Names of files\<close>

fun octets :: "nat list \<Rightarrow> nat list" where
  "octets (w # x # y # z # s) = (4 * w + x div 16) # (x mod 16 * 16 + y div 4) # (y mod 4 * 64 + z) # octets s"
| "octets [w, x, y] = [4 * w + x div 16, x mod 16 * 16 + y div 4]"
| "octets [w, x] = [4 * w + x div 16]"
| "octets _ = []"

lemma byte_parts:
  fixes b :: nat
  assumes "b < 256"
  shows "b div 4 < 64" "b div 16 < 16" "b div 64 < 4"
    "(m * 16 + b div 16) div 16 = m" "(m * 16 + b div 16) mod 16 = b div 16"
    "(m * 4 + b div 64) div 4 = m" "(m * 4 + b div 64) mod 4 = b div 64"
proof -
  show d: "b div 4 < 64" "b div 16 < 16" "b div 64 < 4" using assms by (simp_all add: less_mult_imp_div_less)
  show "(m * 16 + b div 16) div 16 = m" "(m * 16 + b div 16) mod 16 = b div 16"
      "(m * 4 + b div 64) div 4 = m" "(m * 4 + b div 64) mod 4 = b div 64"
    using d by simp_all
qed

lemma octets_sextets: "\<forall>b \<in> set bs. b < 256 \<Longrightarrow> octets (sextets bs) = bs"
proof (induction bs rule: sextets.induct)
  case (1 a b c s)
  then have "octets (sextets s) = s" "b < 256" "c < 256" by simp_all
  then show ?case by (simp add: byte_parts)
qed (simp_all add: byte_parts)

lemma sextets_less: "\<forall>b \<in> set bs. b < 256 \<Longrightarrow> \<forall>x \<in> set (sextets bs). x < 64"
proof (induction bs rule: sextets.induct)
  case (1 a b c s)
  then have "a div 4 < 64" "b div 16 < 16" "c div 64 < 4" by (simp_all add: byte_parts)
  moreover have "a mod 4 < 4" "b mod 16 < 16" "c mod 64 < 64" by simp_all
  ultimately have "a mod 4 * 16 + b div 16 < 64" "b mod 16 * 4 + c div 64 < 64" by linarith+
  with 1 show ?case by (simp add: byte_parts)
next
  case (2 a b)
  then have "a div 4 < 64" "b div 16 < 16" by (simp_all add: byte_parts)
  moreover have "a mod 4 < 4" "b mod 16 < 16" by simp_all
  ultimately have "a mod 4 * 16 + b div 16 < 64" "b mod 16 * 4 < 64" by linarith+
  with \<open>a div 4 < 64\<close> show ?case by simp
next
  case (3 a)
  then have "a div 4 < 64" by (simp add: byte_parts)
  moreover have "a mod 4 < 4" by simp
  then have "a mod 4 * 16 < 64" by linarith
  ultimately show ?case by simp
qed simp

lemma url_char_code: "n < 64 \<Longrightarrow> char_code (url_char n) =
    (if n < 26 then 65 + n else if n < 52 then 71 + n else if n < 62 then n - 4 else if n = 62 then 45 else 95)"
  by (simp add: url_char_def char_code_def)

lemma url_char_inj: "inj_on url_char {..<64}"
proof (rule inj_onI)
  fix m n assume "m \<in> {..<64}" "n \<in> {..<64}" "url_char m = url_char n"
  then have "m < 64" "n < 64" "char_code (url_char m) = char_code (url_char n)" by simp_all
  then show "m = n" by (simp add: url_char_code split: if_splits)
qed

lemma EncodeToString_inj: "EncodeToString a = EncodeToString b \<Longrightarrow> a = b"
proof -
  have less: "\<forall>x \<in> set (map char_code s). x < 256" for s by simp
  have sub: "set (sextets (map char_code s)) \<subseteq> {..<64}" for s
    using sextets_less [OF less] by auto
  assume "EncodeToString a = EncodeToString b"
  then have eq: "map url_char (sextets (map char_code a)) = map url_char (sextets (map char_code b))"
    by (simp add: EncodeToString_def)
  have "inj_on url_char (set (sextets (map char_code a)) \<union> set (sextets (map char_code b)))"
    by (rule inj_on_subset [OF url_char_inj]) (use sub in auto)
  from inj_on_map_eq_map [OF this] eq have "sextets (map char_code a) = sextets (map char_code b)" by simp
  then have "octets (sextets (map char_code a)) = octets (sextets (map char_code b))" by simp
  then have "map char_code a = map char_code b" by (simp only: octets_sextets [OF less])
  then have "map char_of (map char_code a) = (map char_of (map char_code b) :: string)" by simp
  then show "a = b" by (simp add: comp_def)
qed

lemma EncodeToString_chars: "c \<in> set (EncodeToString s) \<Longrightarrow> c \<noteq> slash"
proof -
  assume "c \<in> set (EncodeToString s)"
  then obtain n where n: "n \<in> set (sextets (map char_code s))" "c = url_char n" by (auto simp: EncodeToString_def)
  have "n < 64" using sextets_less [of "map char_code s"] n(1) by simp
  then have "char_code c \<noteq> 47" unfolding n(2) url_char_code [OF \<open>n < 64\<close>] by presburger
  then show "c \<noteq> slash" by (auto simp: slash_def char_code_def)
qed

text \<open>Whatever the key, its file is an entry of the directory itself.\<close>

definition file_name :: "string \<Rightarrow> string" where
  "file_name key = EncodeToString key @ ''.txt''"

lemma file_name_element: "element (file_name key)" "file_name key \<noteq> ''..''" "slash \<notin> set (file_name key)"
proof -
  show "slash \<notin> set (file_name key)" using EncodeToString_chars by (auto simp: file_name_def slash_def)
  moreover have "length (file_name key) \<ge> 4" by (simp add: file_name_def)
  then have "file_name key \<noteq> []" "file_name key \<noteq> ''.''" by auto
  ultimately show "element (file_name key)" by (simp add: element_def)
  have "last (file_name key) = CHR ''t''" by (simp add: file_name_def)
  then show "file_name key \<noteq> ''..''" by auto
qed

lemma elements_name: "elements (file_name key) = [file_name key]"
  using file_name_element [of key] by (simp add: elements_def split_on_plain element_def)

lemma pathForKey_elements:
  assumes "dir \<noteq> []"
  shows "elements (pathForKey dir key) = clean_elements (IsAbs dir) (elements dir) @ [file_name key]"
    and "IsAbs (pathForKey dir key) = IsAbs dir"
proof -
  let ?cs = "clean_elements (IsAbs dir) (elements dir) @ [file_name key]"
  have "pathForKey dir key = Clean (dir @ slash # file_name key)"
    using Join_two [OF assms] by (simp add: pathForKey_def file_name_def)
  also have "\<dots> = render_path (IsAbs dir) ?cs"
    using file_name_element(2) [of key]
    by (simp add: Clean_def IsAbs_append [OF assms] elements_slash elements_name clean_elements_def clean_push_def)
  finally have p: "pathForKey dir key = render_path (IsAbs dir) ?cs" .
  have e: "\<forall>c \<in> set ?cs. element c"
    using file_name_element(1) clean_elements_element [OF elements_element] by auto
  show "elements (pathForKey dir key) = ?cs" "IsAbs (pathForKey dir key) = IsAbs dir"
    by (simp_all add: p elements_render [OF e] IsAbs_render [OF e])
qed

lemma pathForKey_inj: "dir \<noteq> [] \<Longrightarrow> pathForKey dir a = pathForKey dir b \<Longrightarrow> a = b"
  using pathForKey_elements(1) [of dir a] pathForKey_elements(1) [of dir b] EncodeToString_inj
  by (auto simp: file_name_def)

section \<open>A store of files is a store\<close>

definition no_faults :: "'w disk_faults" where
  "no_faults = \<lparr>df_write = (\<lambda>_ _ r. (None, r)), df_read = (\<lambda>_ r. (None, r)), df_missing = (\<lambda>_. ErrSentinel ErrNotExist)\<rparr>"

text \<open>The directory as a map from keys.\<close>

definition stored :: "string \<Rightarrow> files \<Rightarrow> string \<Rightarrow> string option" where
  "stored dir files key = files (pathForKey (slash # dir) key)"

lemma stored_update:
  "stored dir (files(pathForKey (slash # dir) key := x)) = (stored dir files)(key := x)"
  using pathForKey_inj [of "slash # dir"] by (auto simp: stored_def fun_eq_iff)

interpretation file_store: content_store_laws "file_store_ops no_faults (slash # dir)" "stored dir"
  by unfold_locales
    (auto simp: file_store_ops_def file_store_Store_def file_store_Load_def no_faults_def go_bind_def
      go_check_ctx_def poll_def go_return_def go_fail_def stored_update fun_upd_def [symmetric]
      stored_def [symmetric] split: prod.splits option.splits)

text \<open>
  C39. The store of files, over a disk that may fail in any way, touches no file but that of the key: one
  directly in its directory, whatever the key is, and another one for every other key. What was stored is
  loaded again, and a store that fails does no harm to any other text.
\<close>

theorem file_store_correct:
  assumes "dir \<noteq> []" and "file_store_Store disk dir key content r files = (x, r', files')"
  shows "elements (pathForKey dir key) = clean_elements (IsAbs dir) (elements dir) @ [file_name key] \<and>
    slash \<notin> set (file_name key) \<and>
    (\<forall>p. p \<noteq> pathForKey dir key \<longrightarrow> files' p = files p) \<and>
    (\<forall>k. k \<noteq> key \<longrightarrow> files' (pathForKey dir k) = files (pathForKey dir k)) \<and>
    (\<forall>p. x \<noteq> Panic p) \<and>
    (x = Ok () \<longrightarrow>
      (\<forall>r2. fst (poll r2) = None \<longrightarrow> fst (df_read disk (pathForKey dir key) (snd (poll r2))) = None \<longrightarrow>
        (\<exists>r3. file_store_Load disk dir key r2 files' = (Ok content, r3, files'))))"
proof -
  have eff: "files' = files \<or> (\<exists>v. files' = files(pathForKey dir key := v))" and ok: "x = Ok () \<Longrightarrow> files' = files(pathForKey dir key \<mapsto> content)"
    and safe: "\<forall>p. x \<noteq> Panic p"
    using assms(2)
    by (auto simp: file_store_Store_def go_bind_def go_check_ctx_def split: prod.splits option.splits)
  have "k \<noteq> key \<Longrightarrow> pathForKey dir k \<noteq> pathForKey dir key" for k
    using pathForKey_inj [OF assms(1)] by auto
  moreover have "\<exists>r3. file_store_Load disk dir key r2 files' = (Ok content, r3, files')"
    if "x = Ok ()" "fst (poll r2) = None" "fst (df_read disk (pathForKey dir key) (snd (poll r2))) = None" for r2
    using that ok
    by (auto simp: file_store_Load_def go_bind_def go_check_ctx_def split: prod.splits option.splits)
  ultimately show ?thesis
    using eff safe pathForKey_elements(1) [OF assms(1)] file_name_element(3) by auto
qed

lemma file_store_correct_witness:
  "\<exists>files'. file_store_Store no_faults ''/tmp'' ''../etc'' ''text'' \<lparr>rt_ctx = Background, rt_world = ()\<rparr> Map.empty =
      (Ok (), \<lparr>rt_ctx = Background, rt_world = ()\<rparr>, files') \<and>
    elements (pathForKey ''/tmp'' ''../etc'') = [''tmp'', file_name ''../etc''] \<and>
    (\<exists>r. file_store_Load no_faults ''/tmp'' ''../etc'' \<lparr>rt_ctx = Background, rt_world = ()\<rparr> files' = (Ok ''text'', r, files'))"
proof -
  let ?r = "\<lparr>rt_ctx = Background, rt_world = ()\<rparr>"
  have st: "file_store_Store no_faults ''/tmp'' ''../etc'' ''text'' ?r Map.empty =
      (Ok (), ?r, [pathForKey ''/tmp'' ''../etc'' \<mapsto> ''text''])"
    by (simp add: file_store_Store_def go_bind_def go_check_ctx_def poll_def no_faults_def)
  have "clean_elements (IsAbs ''/tmp'') (elements ''/tmp'') = [''tmp'']" by code_simp
  with file_store_correct [OF _ st] st show ?thesis
    by (fastforce simp: poll_def no_faults_def)
qed

end
