(* ===== verification/Examples.thy ===== *)
theory Examples
  imports AgentCalls Approval OpenAI Retriever FileStore
begin

text \<open>
  The programs under \<open>examples/\<close>: the tools they register, the agents they build, what they do with
  answers, and the parts they bring along (a counting hook, evaluators, humans at a terminal, indexes for
  retrieval). Printing is left out. Text is in UTF-8, as in the sources.
\<close>

section \<open>Tools\<close>

text \<open>A struct with one field, with the tags of the examples.\<close>

definition required_field :: "string \<Rightarrow> string \<Rightarrow> string \<Rightarrow> go_field" where
  "required_field name tag desc =
     GoField name True False (TBasic KString) [(''json'', tag), (''description'', desc), (''required'', ''true'')]"

text \<open>A handler that answers a text and leaves the world alone.\<close>

definition text_handler :: "(params \<Rightarrow> string) \<Rightarrow> params \<Rightarrow> 'w \<Rightarrow> tool_result \<times> 'w" where
  "text_handler f input w = ((f input, None), w)"

definition degrees_c :: string where
  "degrees_c = [CHR 0xC2, CHR 0xB0] @ ''C''"

definition get_weather :: "params \<Rightarrow> string" where
  "get_weather input =
     (let city = string_input input ''city'';
          weathers =
            [(''shanghai'', ''Shanghai: Sunny, 26'' @ degrees_c @ '', humidity 55%''),
             (''tokyo'', ''Tokyo: Cloudy, 22'' @ degrees_c @ '', humidity 70%''),
             (''beijing'', ''Beijing: Clear, 30'' @ degrees_c @ '', humidity 35%'')]
      in case map_of weathers (to_lower city) of
           Some w \<Rightarrow> w
         | None \<Rightarrow> city @ '': Partly cloudy, 20'' @ degrees_c @ '', humidity 60%'')"

definition search_web :: "params \<Rightarrow> string" where
  "search_web input =
     ''Search results for '' @ [CHR 0x27] @ string_input input ''query'' @ [CHR 0x27] @ '':'' @ newline @
     ''1. Go 1.24 released Feb 2025 with improved performance'' @ newline @
     ''2. Go modules are the standard dependency management'' @ newline @
     ''3. Go 1.24 adds weak pointers and finalizer improvements''"

definition calculate :: "params \<Rightarrow> string" where
  "calculate input =
     (let expr = string_input input ''expression'' in
      case map_of [(''26 - 22'', ''4''), (''1.22 * 100'', ''122'')] expr of
        Some x \<Rightarrow> x
      | None \<Rightarrow> ''Result of '' @ [CHR 0x27] @ expr @ [CHR 0x27] @ '' = 42 (mock)'')"

definition run_build :: "params \<Rightarrow> string" where
  "run_build input = ''Build '' @ string_input input ''version'' @ '' succeeded (12s)''"

definition deploy_app :: "params \<Rightarrow> string" where
  "deploy_app input = ''Deployed '' @ string_input input ''version'' @ '' to production successfully''"

definition buildToolRegistry :: "'w tool_registry" where
  "buildToolRegistry =
     Register ''deploy_app'' ''Deploy the application to production''
       (TStruct [required_field ''Version'' ''version'' ''Version to deploy'']) (text_handler deploy_app)
     (Register ''run_build'' ''Build the application''
       (TStruct [required_field ''Version'' ''version'' ''Target version'']) (text_handler run_build)
     (Register ''check_version'' ''Check current deployed version'' (TStruct []) (text_handler (\<lambda>_. ''v2.0.9''))
     (Register ''calculate'' ''Evaluate a math expression''
       (TStruct [required_field ''Expression'' ''expression'' ''Math expression'']) (text_handler calculate)
     (Register ''search'' ''Search the web for information''
       (TStruct [required_field ''Query'' ''query'' ''Search query'']) (text_handler search_web)
     (Register ''get_weather'' ''Get current weather for a city''
       (TStruct [required_field ''City'' ''city'' ''City name'']) (text_handler get_weather)
     NewToolRegistry)))))"

section \<open>What the demos do with answers\<close>

definition lastMsgRole :: "chat_message list \<Rightarrow> string" where
  "lastMsgRole msgs = (if msgs = [] then ''<none>'' else msg_role (last msgs))"

definition demo_truncate :: "string \<Rightarrow> nat \<Rightarrow> string" where
  "demo_truncate s n =
     (let s = map (\<lambda>c. if c = CHR 0x0A then CHR '' '' else c) s in
      if length s > n then take n s @ ''...'' else s)"

definition sessionIDOrEmpty :: "agent_result option \<Rightarrow> string option" where
  "sessionIDOrEmpty r =
     (case r of None \<Rightarrow> None | Some x \<Rightarrow> if ar_session_id x = [] then None else Some (ar_session_id x))"

fun requirePromptContains :: "string \<Rightarrow> string list \<Rightarrow> goerr option" where
  "requirePromptContains prompt [] = None"
| "requirePromptContains prompt (needle # ns) =
     (if \<not> contains prompt needle then Some (ErrNew (''system prompt missing expected fragment '' @ go_quote needle))
      else requirePromptContains prompt ns)"

fun requirePromptNotContains :: "string \<Rightarrow> string list \<Rightarrow> goerr option" where
  "requirePromptNotContains prompt [] = None"
| "requirePromptNotContains prompt (needle # ns) =
     (if contains prompt needle then Some (ErrNew (''system prompt still contains fragment '' @ go_quote needle))
      else requirePromptNotContains prompt ns)"

definition seen_tools :: "chat_message list \<Rightarrow> string list" where
  "seen_tools msgs =
     concat (map (\<lambda>m. map tc_name (msg_tool_calls m) @
       (if msg_role m = RoleTool \<and> msg_name m \<noteq> [] then [msg_name m] else [])) msgs)"

definition usedAllTools :: "chat_message list \<Rightarrow> string list \<Rightarrow> bool" where
  "usedAllTools msgs names \<longleftrightarrow> (\<forall>n \<in> set names. n \<in> set (seen_tools msgs))"

definition usedTool :: "chat_message list \<Rightarrow> string \<Rightarrow> bool" where
  "usedTool msgs name = usedAllTools msgs [name]"

text \<open>
  \<open>a.Run(ctx, prompt, ids...)\<close> of an example; \<open>bytes\<close> is what \<open>crypto/rand\<close> gives for the ID of a new session.
\<close>

definition demo_Run ::
    "'w agent_lib \<Rightarrow> ctx \<Rightarrow> string \<Rightarrow> nat list \<Rightarrow> string option \<Rightarrow> 'w \<Rightarrow> ('w, 'm, 'c, 'k, 'v) agent \<Rightarrow>
     (agent_result res \<times> 'w \<times> ('w, 'm, 'c, 'k, 'v) agent) option" where
  "demo_Run lib ctx prompt bytes sid w a = Run (agent_fuel a) lib False ctx prompt bytes sid w a"

definition weather_prompt :: string where
  "weather_prompt = ''Use the get_weather tool for both Shanghai and Tokyo, then use the calculate tool to compute the temperature difference between them. After both tool calls complete, summarize which city is warmer.''"

definition weather_retry_prompt :: string where
  "weather_retry_prompt = ''You must call get_weather for Shanghai and Tokyo and must call calculate for the temperature difference before answering. Do not ask follow-up questions and do not answer from memory.''"

definition runWeatherDemo ::
    "'w agent_lib \<Rightarrow> ctx \<Rightarrow> nat list \<Rightarrow> nat list \<Rightarrow> 'w \<Rightarrow> ('w, 'm, 'c, 'k, 'v) agent \<Rightarrow>
     (agent_result res \<times> 'w \<times> ('w, 'm, 'c, 'k, 'v) agent) option" where
  "runWeatherDemo lib ctx b1 b2 w a =
     (case demo_Run lib ctx weather_prompt b1 None w a of
        Some (Ok r, w, a) \<Rightarrow>
          if usedAllTools (ar_messages r) [''get_weather'', ''calculate''] then Some (Ok r, w, a)
          else (case demo_Run lib ctx weather_retry_prompt b2 (Some (ar_session_id r)) w a of
              Some (Ok r, w, a) \<Rightarrow>
                if \<not> usedAllTools (ar_messages r) [''get_weather'', ''calculate'']
                then Some (Err (ErrNew ''weather demo did not trigger both get_weather and calculate''), w, a)
                else Some (Ok r, w, a)
            | x \<Rightarrow> x)
      | x \<Rightarrow> x)"

text \<open>The loop of \<open>runToolForcedDemo\<close> over its prompts; \<open>prev\<close> is the result of the attempt before.\<close>

fun forced_attempts ::
    "'w agent_lib \<Rightarrow> ctx \<Rightarrow> string \<Rightarrow> nat \<Rightarrow> (string \<times> nat list) list \<Rightarrow> agent_result option \<Rightarrow> 'w \<Rightarrow>
     ('w, 'm, 'c, 'k, 'v) agent \<Rightarrow> (agent_result res \<times> 'w \<times> ('w, 'm, 'c, 'k, 'v) agent) option" where
  "forced_attempts lib ctx toolName n [] prev w a =
     Some (Err (ErrNew (toolName @ '' was not called after '' @ nat_text n @ '' attempts'')), w, a)"
| "forced_attempts lib ctx toolName n ((p, bytes) # ps) prev w a =
     (case demo_Run lib ctx p bytes (sessionIDOrEmpty prev) w a of
        Some (Ok r, w, a) \<Rightarrow>
          if usedTool (ar_messages r) toolName then Some (Ok r, w, a)
          else forced_attempts lib ctx toolName n ps (Some r) w a
      | x \<Rightarrow> x)"

definition runToolForcedDemo ::
    "'w agent_lib \<Rightarrow> ctx \<Rightarrow> string \<Rightarrow> string \<Rightarrow> string \<Rightarrow> nat list \<Rightarrow> nat list \<Rightarrow> nat list \<Rightarrow> 'w \<Rightarrow>
     ('w, 'm, 'c, 'k, 'v) agent \<Rightarrow> (agent_result res \<times> 'w \<times> ('w, 'm, 'c, 'k, 'v) agent) option" where
  "runToolForcedDemo lib ctx toolName prompt retryPrompt b1 b2 b3 w a =
     (let prompts = [(prompt, b1), (retryPrompt, b2), (retryPrompt, b3)]
      in forced_attempts lib ctx toolName (length prompts) prompts None w a)"

section \<open>Hooks that count\<close>

record event_counter =
  ec_total :: nat
  ec_plan_start :: nat
  ec_plan_done :: nat
  ec_tool_start :: nat
  ec_tool_done :: nat
  ec_eval_start :: nat
  ec_eval_done :: nat
  ec_loop_complete :: nat
  ec_rule_view :: nat
  ec_skill_call_start :: nat
  ec_skill_call_done :: nat
  ec_skill_context_log :: nat
  ec_stream_chunk :: nat
  ec_errors :: nat

definition new_counter :: event_counter where
  "new_counter =
     \<lparr>ec_total = 0, ec_plan_start = 0, ec_plan_done = 0, ec_tool_start = 0, ec_tool_done = 0, ec_eval_start = 0,
      ec_eval_done = 0, ec_loop_complete = 0, ec_rule_view = 0, ec_skill_call_start = 0, ec_skill_call_done = 0,
      ec_skill_context_log = 0, ec_stream_chunk = 0, ec_errors = 0\<rparr>"

definition counter_OnEvent :: "event \<Rightarrow> event_counter \<Rightarrow> goerr option \<times> event_counter" where
  "counter_OnEvent e c0 =
     (let c = c0\<lparr>ec_total := ec_total c0 + 1\<rparr> in
      (None, case e of
         EventPlanStart _ \<Rightarrow> c\<lparr>ec_plan_start := ec_plan_start c + 1\<rparr>
       | EventPlanDone _ _ _ \<Rightarrow> c\<lparr>ec_plan_done := ec_plan_done c + 1\<rparr>
       | EventToolCallStart _ _ \<Rightarrow> c\<lparr>ec_tool_start := ec_tool_start c + 1\<rparr>
       | EventToolCallDone _ _ _ \<Rightarrow> c\<lparr>ec_tool_done := ec_tool_done c + 1\<rparr>
       | EventEvalStart _ _ \<Rightarrow> c\<lparr>ec_eval_start := ec_eval_start c + 1\<rparr>
       | EventEvalDone _ _ _ _ \<Rightarrow> c\<lparr>ec_eval_done := ec_eval_done c + 1\<rparr>
       | EventLoopComplete \<Rightarrow> c\<lparr>ec_loop_complete := ec_loop_complete c + 1\<rparr>
       | EventRuleView _ \<Rightarrow> c\<lparr>ec_rule_view := ec_rule_view c + 1\<rparr>
       | EventSkillCallStart _ _ \<Rightarrow> c\<lparr>ec_skill_call_start := ec_skill_call_start c + 1\<rparr>
       | EventSkillCallDone _ _ \<Rightarrow> c\<lparr>ec_skill_call_done := ec_skill_call_done c + 1\<rparr>
       | EventSkillContextLog _ _ _ _ _ _ \<Rightarrow> c\<lparr>ec_skill_context_log := ec_skill_context_log c + 1\<rparr>
       | EventStreamChunk _ \<Rightarrow> c\<lparr>ec_stream_chunk := ec_stream_chunk c + 1\<rparr>
       | EventError _ _ \<Rightarrow> c\<lparr>ec_errors := ec_errors c + 1\<rparr>))"

definition printer_OnEvent :: "event \<Rightarrow> nat \<Rightarrow> goerr option \<times> nat" where
  "printer_OnEvent e chunks = (None, case e of EventStreamChunk _ \<Rightarrow> chunks + 1 | _ \<Rightarrow> chunks)"

section \<open>Indexes for retrieval\<close>

text \<open>\<open>strings.Fields\<close>: the text up to the next white space, and what is after it.\<close>

fun next_word :: "string \<Rightarrow> string \<times> string" where
  "next_word [] = ([], [])"
| "next_word (c # s) =
     (if \<exists>p \<in> set space_runes. has_prefix p (c # s) then ([], c # s)
      else (case next_word s of (w, rest) \<Rightarrow> (c # w, rest)))"

lemma next_word_length: "next_word s = (w, rest) \<Longrightarrow> length rest + length w = length s"
  by (induction s arbitrary: w) (auto split: if_splits prod.splits)

function text_fields :: "string \<Rightarrow> string list" where
  "text_fields s =
     (case next_word (trim_left s) of
        ([], _) \<Rightarrow> []
      | (c # w, rest) \<Rightarrow> (c # w) # text_fields rest)"
  by pat_completeness auto

lemma strip_length: "length (strip ps s) \<le> length s"
proof (induction ps s rule: strip.induct)
  case (1 ps s)
  show ?case
  proof (cases "find (\<lambda>p. p \<noteq> [] \<and> has_prefix p s) ps")
    case None
    then show ?thesis by (simp add: strip.simps)
  next
    case (Some p)
    with 1 [OF Some] show ?thesis by (simp add: strip.simps [of ps s])
  qed
qed

termination text_fields
proof (relation "measure length", goal_cases)
  case (2 s x rest c w)
  then have "next_word (trim_left s) = (c # w, rest)" by simp
  from next_word_length [OF this] have "length rest < length (trim_left s)" by simp
  then show ?case using strip_length [of space_runes s] by (simp add: trim_left_def)
qed simp

declare text_fields.simps [simp del]

text \<open>The first \<open>topK\<close>, which is not negative.\<close>

definition first_docs :: "int \<Rightarrow> document list \<Rightarrow> document list" where
  "first_docs topK docs = (if int (length docs) > topK then take (nat topK) docs else docs)"

definition key_score :: "string \<Rightarrow> document \<Rightarrow> rat" where
  "key_score query d =
     (let content = to_lower (doc_content d @ '' '' @ doc_source d)
      in fold (\<lambda>token score. if contains content token then score + 4 / 10 else score) (text_fields query) (2 / 10))"

definition mockKeyIdx_Search :: "document list \<Rightarrow> string \<Rightarrow> int \<Rightarrow> document list" where
  "mockKeyIdx_Search corpus query topK =
     (let lower = to_lower query
      in first_docs topK
           (map (\<lambda>d. d\<lparr>doc_score := key_score lower d\<rparr>) (filter (\<lambda>d. \<not> key_score lower d \<le> 2 / 10) corpus)))"

definition mockKeyIdx_Index :: "document list \<Rightarrow> document list \<Rightarrow> document list" where
  "mockKeyIdx_Index docs corpus = corpus @ docs"

definition boolToFloat :: "bool \<Rightarrow> rat" where
  "boolToFloat v = (if v then 1 else 0)"

definition mock_Embed :: "string list \<Rightarrow> rat list list" where
  "mock_Embed texts =
     map (\<lambda>text. let lower = to_lower text in
       [of_nat (length lower), boolToFloat (contains lower ''go''), boolToFloat (contains lower ''module''),
        boolToFloat (contains lower ''generic'')]) texts"

definition vec_score :: "rat list \<Rightarrow> document \<Rightarrow> rat" where
  "vec_score vector d =
     (let content = to_lower (doc_content d @ '' '' @ doc_source d);
          part = (\<lambda>i word. if length vector > i \<and> vector ! i > 0 \<and> contains content word then 3 / 10 else 0)
      in 3 / 10 + part 1 ''go'' + part 2 ''module'' + part 3 ''generic'')"

definition mockVecStore_Search :: "document list \<Rightarrow> rat list \<Rightarrow> int \<Rightarrow> document list" where
  "mockVecStore_Search docs vector topK =
     first_docs topK (map (\<lambda>d. d\<lparr>doc_score := vec_score vector d\<rparr>) docs)"

section \<open>Humans at a terminal\<close>

text \<open>
  The standard input is what further reads of it will return, one text for each read; a line may come in several
  reads and a read may bring several lines. \<open>tm_buffer\<close> is what a \<open>bufio.Reader\<close> has read and not yet
  given away; \<open>tm_rest\<close> is the world besides.
\<close>

record 'h terminal =
  tm_reads :: "string list"
  tm_buffer :: string
  tm_rest :: 'h

text \<open>\<open>ReadString('\n')\<close>: the line with its end, the buffer and the reads that are left.\<close>

fun read_string :: "string \<Rightarrow> string list \<Rightarrow> string \<times> string \<times> string list" where
  "read_string buffer reads =
     (case index_of newline buffer of
        Some i \<Rightarrow> (take (Suc i) buffer, drop (Suc i) buffer, reads)
      | None \<Rightarrow> (case reads of
            [] \<Rightarrow> (buffer, [], [])
          | x # xs \<Rightarrow> read_string (buffer @ x) xs))"

declare read_string.simps [simp del]

text \<open>
  \<open>examples/hitl\<close>: a new reader for each question. What it has read beyond the line is gone with it.
\<close>

definition hitl_answer :: "string \<Rightarrow> human_response" where
  "hitl_answer answer =
     \<lparr>hr_approved = (trim_space (to_lower answer) = ''y''), hr_message = answer, hr_modified_input = None\<rparr>"

definition hitl_approve :: "interrupt_event \<Rightarrow> 'h terminal \<Rightarrow> (goerr + human_response option) \<times> 'h terminal" where
  "hitl_approve event w =
     (case read_string [] (tm_reads w) of
        (answer, _, reads) \<Rightarrow>
          (Inr (Some (hitl_answer answer)), w\<lparr>tm_reads := reads\<rparr>))"

text \<open>The review of \<open>examples/comprehensive\<close>, with one reader for all questions.\<close>

definition review_answer :: "string \<Rightarrow> human_response" where
  "review_answer line =
     (let input = trim_space line in
      if to_lower input \<in> {''y'', ''yes''} then
        \<lparr>hr_approved = True, hr_message = ''human approved'', hr_modified_input = None\<rparr>
      else if to_lower input \<in> {''n'', ''no''} then
        \<lparr>hr_approved = False, hr_message = ''human rejected the action'', hr_modified_input = None\<rparr>
      else
        \<lparr>hr_approved = True, hr_message = ''approved with version override to '' @ input,
         hr_modified_input = Some [(''version'', VStr input)]\<rparr>)"

definition review_approve :: "interrupt_event \<Rightarrow> 'h terminal \<Rightarrow> (goerr + human_response option) \<times> 'h terminal" where
  "review_approve event w =
     (case read_string (tm_buffer w) (tm_reads w) of
        (line, buffer, reads) \<Rightarrow> (Inr (Some (review_answer line)), w\<lparr>tm_buffer := buffer, tm_reads := reads\<rparr>))"

definition auto_approve :: "interrupt_event \<Rightarrow> 'w \<Rightarrow> (goerr + human_response option) \<times> 'w" where
  "auto_approve event w = (Inr (Some \<lparr>hr_approved = True, hr_message = ''auto-approved'', hr_modified_input = None\<rparr>), w)"

definition hitl_handler :: "'h terminal hitl" where
  "hitl_handler = NewHITL (Some hitl_approve) [WithRequireApproval [''write_file''], WithAutoApproveRead True]"

definition review_handler :: "'h terminal hitl" where
  "review_handler = NewHITL (Some review_approve) [WithRequireApproval [''deploy_app''], WithAutoApproveRead True]"

definition auto_handler :: "'w hitl" where
  "auto_handler = NewHITL (Some auto_approve) [WithRequireApproval [''deploy_app''], WithAutoApproveRead True]"

section \<open>The agents of \<open>examples/hitl\<close> and \<open>examples/react\<close>\<close>

text \<open>
  A client of a provider as a chat model whose streams are read to their end. \<open>new_http\<close> makes an HTTP client with a
  timeout, \<open>logger\<close> is \<open>hook.NewLogger(os.Stdout)\<close>, \<open>ir\<close> the handler as its \<open>select\<close> goes.
\<close>

definition openai_model :: "'w openai_client \<Rightarrow> 'w chat_model" where
  "openai_model c =
     \<lparr>cm_generate = openai_Generate c,
      cm_stream = (\<lambda>r ms opts. case openai_Stream c r ms opts of
          (Inl e, r) \<Rightarrow> (Inl e, r)
        | (Inr (chunks, errs), r) \<Rightarrow> (Inr (chunks, case errs of [] \<Rightarrow> None | e # _ \<Rightarrow> Some e), r))\<rparr>"

definition hitl_registry :: "'w tool_registry" where
  "hitl_registry =
     Register ''read_file'' ''Read the content of a file.'' (TStruct [required_field ''Path'' ''path'' ''File path''])
       (text_handler (\<lambda>_. ''file content: Hello World''))
     (Register ''write_file'' ''Write content to a file.''
       (TStruct [required_field ''Path'' ''path'' ''File path'', required_field ''Content'' ''content'' ''File content''])
       (text_handler (\<lambda>_. ''file written successfully''))
     NewToolRegistry)"

definition hitl_agent_on ::
    "'h terminal chat_model \<Rightarrow> 'h terminal hook \<Rightarrow> 'h terminal interrupter \<Rightarrow> ('h terminal, 'm, 'c, 'k, 'v) agent" where
  "hitl_agent_on model logger ir =
     New [WithModel (Some model), WithToolRegistry (Some hitl_registry), WithHITL (Some ir), WithHook (Some logger),
          WithMaxIterations 5]"

definition hitl_agent ::
    "(int \<Rightarrow> 'h terminal http_api) \<Rightarrow> string \<Rightarrow> 'h terminal hook \<Rightarrow> 'h terminal interrupter \<Rightarrow>
     ('h terminal, 'm, 'c, 'k, 'v) agent" where
  "hitl_agent new_http apiKey = hitl_agent_on (openai_model (openai_New new_http ''gpt-4o'' apiKey []))"

text \<open>\<open>%v\<close> of the query is its text when it is one.\<close>

definition react_registry :: "(gval option \<Rightarrow> string) \<Rightarrow> 'w tool_registry" where
  "react_registry show_value =
     Register ''calculator'' ''Evaluate a math expression.''
       (TStruct [required_field ''Expression'' ''expression'' ''Math expression'']) (text_handler (\<lambda>_. ''42''))
     (Register ''search'' ''Search for information.'' (TStruct [required_field ''Query'' ''query'' ''Search keywords''])
       (text_handler (\<lambda>input. ''Search results for '' @ show_value (params_get input ''query'') @ '': ...''))
     NewToolRegistry)"

definition react_rule :: rule where
  "react_rule =
     NewFileRule ''safety'' ''Safety guardrails''
       ''Do not execute dangerous operations such as rm -rf, format, or destructive sudo commands.'' True"

definition enough_iterations :: "'w evaluator" where
  "enough_iterations st r =
     (Ok (Some (if ev_iteration st \<ge> 3
        then \<lparr>er_decision = DecisionComplete, er_feedback = ''Enough iterations reached.''\<rparr>
        else \<lparr>er_decision = DecisionContinue, er_feedback = []\<rparr>)), r)"

definition react_options ::
    "(int \<Rightarrow> 'w http_api) \<Rightarrow> string \<Rightarrow> 'w hook \<Rightarrow> (gval option \<Rightarrow> string) \<Rightarrow> ('w, 'm, 'c, 'k, 'v) agent_option list" where
  "react_options new_http apiKey logger show_value =
     [WithModel (Some (openai_model (openai_New new_http ''gpt-4o'' apiKey []))),
      WithToolRegistry (Some (react_registry show_value)),
      WithEvaluator (Some (rule_based_Evaluate [enough_iterations])), agent_WithRules [Some react_rule],
      WithHook (Some logger), WithMaxIterations 10]"

definition react_agent ::
    "(int \<Rightarrow> 'w http_api) \<Rightarrow> string \<Rightarrow> 'w hook \<Rightarrow> (gval option \<Rightarrow> string) \<Rightarrow> ('w, 'm, 'c, 'k, 'v) agent" where
  "react_agent new_http apiKey logger show_value = New (react_options new_http apiKey logger show_value)"

section \<open>Evaluators of \<open>examples/comprehensive\<close>\<close>

definition primary_rule :: "'w evaluator" where
  "primary_rule st r =
     (Ok (Some \<lparr>er_decision = (if ev_iteration st \<ge> 1 \<and> length (ev_step_results st) \<ge> 1
        then DecisionComplete else DecisionContinue), er_feedback = []\<rparr>), r)"

definition guardrail_rule :: "'w evaluator" where
  "guardrail_rule st r =
     (Ok (Some (if ev_iteration st > 8
        then \<lparr>er_decision = DecisionEscalate, er_feedback = ''guardrail: iteration limit exceeded''\<rparr>
        else \<lparr>er_decision = DecisionContinue, er_feedback = []\<rparr>)), r)"

definition summary_rule :: "'w evaluator" where
  "summary_rule st r =
     (Ok (Some \<lparr>er_decision = (if length (ev_step_results st) \<ge> 1 then DecisionComplete else DecisionContinue),
                er_feedback = []\<rparr>), r)"

section \<open>Demos that need no model\<close>

definition kb_docs :: "document list" where
  "kb_docs =
     [\<lparr>doc_id = ''doc-1'', doc_content = ''Go 1.24 adds weak pointers and improved finalizers.'', doc_score = 0,
       doc_metadata = None, doc_source = ''go-blog''\<rparr>,
      \<lparr>doc_id = ''doc-2'', doc_content = ''Go modules enable reproducible builds via go.mod and go.sum.'', doc_score = 0,
       doc_metadata = None, doc_source = ''go-docs''\<rparr>,
      \<lparr>doc_id = ''doc-3'', doc_content = ''Go generics were introduced in Go 1.18 with type parameters.'', doc_score = 0,
       doc_metadata = None, doc_source = ''go-spec''\<rparr>,
      \<lparr>doc_id = ''doc-4'', doc_content = ''The Go standard library includes net/http for HTTP servers.'', doc_score = 0,
       doc_metadata = None, doc_source = ''go-pkg''\<rparr>]"

text \<open>Demo 14: the three retrievers, what the two of them find and what their fusion finds.\<close>

definition kw_retriever :: "unit Retriever.retriever" where
  "kw_retriever = keyword_Retrieve (\<lambda>query topK r. (Inr (mockKeyIdx_Search kb_docs query topK), r))"

definition sem_retriever :: "unit Retriever.retriever" where
  "sem_retriever =
     semantic_Retrieve (\<lambda>texts r. (Inr (mock_Embed texts), r)) (\<lambda>vector topK r. (Inr (mockVecStore_Search kb_docs vector topK), r))"

definition retriever_demo :: "bool \<Rightarrow> unit rt \<Rightarrow> (goerr + document list) \<times> (goerr + document list) \<times> (goerr + document list)" where
  "retriever_demo keyword_first r =
     (let (kw, r) = kw_retriever ''go modules'' [WithTopK 2] r;
          (sem, r) = sem_retriever ''generics type parameters'' [WithTopK 2, WithMinScore (5 / 10)] r;
          merger = \<lparr>rrf_k = 60, rrf_semantic_weight = 1, rrf_keyword_weight = 1\<rparr>;
          (hybrid, r) = hybrid_Retrieve keyword_first sem_retriever kw_retriever (Some (Merge merger)) ''go generics'' [WithTopK 3] r
      in (kw, sem, hybrid))"

text \<open>Demo 18: pruning, compaction, truncation and what the store has afterwards.\<close>

definition go_search_call :: "string \<Rightarrow> chat_message" where
  "go_search_call i =
     (text_message RoleAssistant [])\<lparr>msg_tool_calls := [\<lparr>tc_id = i, tc_name = ''search'', tc_arguments = Some [(''query'', VStr ''go'')]\<rparr>]\<rparr>"

definition rate_limit_result :: "string \<Rightarrow> chat_message" where
  "rate_limit_result i =
     (text_message RoleTool ''error: rate limit exceeded'')\<lparr>msg_tool_call_id := i, msg_name := ''search''\<rparr>"

definition fail_msgs :: "chat_message list" where
  "fail_msgs =
     [go_search_call ''c1'', rate_limit_result ''c1'', go_search_call ''c2'', rate_limit_result ''c2'',
      text_message RoleAssistant ''I encountered errors. Let me try differently.'']"

definition tool_msgs :: "chat_message list" where
  "tool_msgs =
     [(text_message RoleTool (concat (replicate 50 ''old result data. '')))\<lparr>msg_name := ''tool_a''\<rparr>,
      (text_message RoleTool (concat (replicate 50 ''old result data. '')))\<lparr>msg_name := ''tool_b''\<rparr>,
      (text_message RoleTool ''recent short result'')\<lparr>msg_name := ''tool_c''\<rparr>]"

definition count_cleared :: "chat_message list \<Rightarrow> nat" where
  "count_cleared ms = length (filter (\<lambda>m. msg_content m = ''[Old tool result content cleared]'') ms)"

definition large_result :: string where
  "large_result = concat (replicate 100 ''line of data. '')"

definition memory_demo :: "unit rt \<Rightarrow> (nat \<times> nat) \<times> (nat \<times> nat) \<times> string res \<times> string res" where
  "memory_demo r =
     (let pruned = PruneConsecutiveFailures fail_msgs;
          compacted = CompactStaleToolResults tool_msgs 100;
          (truncated, r, store) = TruncateToolResult content_map_ops large_result 200 ''call-xyz-001'' r (Some NewInMemoryContentStore);
          (full, r, store) = cs_load content_map_ops ''call-xyz-001'' r (the store)
      in ((length fail_msgs, length pruned), (length compacted, count_cleared compacted), truncated, full))"

text \<open>Demo 11: a snapshot is saved, loaded, deleted, and cannot be loaded any more.\<close>

definition run_snapshot :: agent_snapshot where
  "run_snapshot = \<lparr>as_run_id = ''run-demo-001'', as_plan = None, as_step_results = [], as_iteration = 3, as_state = 0\<rparr>"

definition checkpoint_demo ::
    "unit rt \<Rightarrow> unit res \<times> agent_snapshot option res \<times> unit res \<times> agent_snapshot option res" where
  "checkpoint_demo r =
     (let (saved, r, m) = memstore_Save (as_run_id run_snapshot) (Some run_snapshot) r NewMemoryStore;
          (loaded, r, m) = memstore_Load (as_run_id run_snapshot) r m;
          (deleted, r, m) = memstore_Delete (as_run_id run_snapshot) r m;
          (again, r, m) = memstore_Load (as_run_id run_snapshot) r m
      in (saved, loaded, deleted, again))"

section \<open>The agents of \<open>examples/comprehensive\<close>\<close>

text \<open>
  \<open>m\<close> is the model, \<open>deepseek.New(\"deepseek-chat\", apiKey)\<close>; the paths come with what the file system has there. The
  factory of the main agent also prints the first eight bytes of a session's ID, and panics when there are less.
\<close>

definition inline_rule :: rule where
  "inline_rule =
     NewFileRule ''response_format'' ''Respond in English with bullet points; keep answers under 200 words.''
       ''Use bullet points for lists. Keep answers under 200 words when possible.'' True"

definition seconds :: "int \<Rightarrow> int" where
  "seconds n = n * 1000000000"

definition buffer_object :: "int \<Rightarrow> ('w, inmem_store buffer_memory) memory_object" where
  "buffer_object n = \<lparr>mo_ops = buffer_ops inmem_ops, mo_state = NewBuffer NewInMemoryMessageStore n\<rparr>"

definition contents_object :: "('w, content_map) contents_object" where
  "contents_object = \<lparr>co_ops = content_map_ops, co_state = Some NewInMemoryContentStore\<rparr>"

type_synonym ('w, 'k, 'v) demo_options = "('w, inmem_store buffer_memory, content_map, 'k, 'v) agent_option list"

definition main_options ::
    "'w chat_model \<Rightarrow> (string \<times> (goerr + fs_node)) list \<Rightarrow> (string \<times> (goerr + fs_node)) list \<Rightarrow> 'w hook \<Rightarrow> 'w hook \<Rightarrow>
     'w interrupter \<Rightarrow> ('w, 'k, 'v) demo_options" where
  "main_options m rules skills logger counter ir =
     [WithName ''comprehensive-demo'', WithModel (Some m), WithToolRegistry (Some buildToolRegistry),
      agent_WithRules [Some inline_rule], WithRulePaths rules, WithSkillPaths skills, WithHook (Some logger),
      WithHook (Some counter), WithHITL (Some ir), WithMaxIterations 15, WithTimeout (seconds 120),
      WithLoopDetectionThreshold 3, WithToolResultMaxLen 5000, WithRecentToolResultTokens 2000,
      WithMemoryFactory (Some (\<lambda>_. buffer_object 50)), WithContentStoreFactory (Some (\<lambda>_. contents_object))]"

text \<open>Demo 7; the output controller is that of the struct \<open>WeatherReport\<close>.\<close>

definition schema_options :: "'w chat_model \<Rightarrow> 'v output_controller \<Rightarrow> ('w, 'k, 'v) demo_options" where
  "schema_options m weather_report =
     [WithModel (Some m), WithToolRegistry (Some buildToolRegistry),
      WithSystemPrompt (''You are a weather assistant. When asked about weather, respond ONLY with a valid JSON object '' @
        ''matching this schema exactly: {\"city\":\"string\",\"temperature\":number,\"condition\":\"string\"}. '' @
        ''No markdown, no extra text '' @ [CHR 0xE2, CHR 0x80, CHR 0x94] @ '' raw JSON only.''),
      WithOutputSchema (Some weather_report) 2, WithMaxIterations 5, WithTimeout (seconds 60)]"

text \<open>Demo 12.\<close>

definition stream_options :: "'w chat_model \<Rightarrow> 'w hook \<Rightarrow> 'w hook \<Rightarrow> ('w, 'k, 'v) demo_options" where
  "stream_options m sp counter =
     [WithName ''stream-demo'', WithModel (Some m), WithStreamEnabled True, WithHooks [Some sp, Some counter],
      WithMaxIterations 5, WithTimeout (seconds 60)]"

text \<open>Demo 13.\<close>

definition compress_options :: "'w chat_model \<Rightarrow> ('w, 'k, 'v) demo_options" where
  "compress_options m =
     [WithName ''compress-demo'', WithModel (Some m), WithToolRegistry (Some buildToolRegistry), WithMaxIterations 8,
      WithTimeout (seconds 90), WithMaxContextRatio (85 / 100),
      WithCompressAgent
        \<lparr>ca_model = Some m,
         ca_prompt = ''Summarize the conversation. Keep: goals, findings, completed steps, key identifiers.'',
         ca_max_ratio = 80 / 100\<rparr>,
      WithMemoryFactory (Some (\<lambda>_. buffer_object 200))]"

text \<open>Demo 14: the knowledge base as a tool.\<close>

definition rag_options :: "'w chat_model \<Rightarrow> 'w Retriever.retriever \<Rightarrow> ('w, 'k, 'v) demo_options" where
  "rag_options m hybrid =
     (let ragTool = NewRAGTool ''search_knowledge_base''
            ''Search the internal Go knowledge base for relevant documentation.'' hybrid
            [WithFormatter (Some DefaultFormatter)]
      in [WithName ''rag-demo'', WithModel (Some m), WithToolRegistry (Some (AddTool ragTool buildToolRegistry)),
          WithMaxIterations 6, WithTimeout (seconds 90)])"

text \<open>Demo 20: the mode is given to the constructor.\<close>

definition ctor_options :: "'w chat_model \<Rightarrow> ('w, 'k, 'v) demo_options" where
  "ctor_options m =
     [WithName ''plan-and-solve-ctor'', WithModel (Some m), WithToolRegistry (Some buildToolRegistry),
      WithExecutionMode ModePlanAndSolve, WithMaxIterations 8, WithTimeout (seconds 60)]"

text \<open>Demo 20: a snapshot with all its fields, stored and loaded.\<close>

definition check_version_action :: action where
  "check_version_action = (tool_action ''check_version'' (Some []))"

definition full_snapshot :: agent_snapshot where
  "full_snapshot =
     \<lparr>as_run_id = ''run-full-demo'',
      as_plan = Some \<lparr>pr_action = check_version_action, pr_reasoning = []\<rparr>,
      as_step_results = [\<lparr>sr_action = check_version_action, sr_output = ''v2.9.1'', sr_error = None\<rparr>],
      as_iteration = 2, as_state = 0\<rparr>"

definition full_snapshot_demo :: "unit rt \<Rightarrow> agent_snapshot option res" where
  "full_snapshot_demo r =
     (let (saved, r, m) = memstore_Save (as_run_id full_snapshot) (Some full_snapshot) r NewMemoryStore;
          (loaded, r, m) = memstore_Load (as_run_id full_snapshot) r m
      in loaded)"

end
