(* ===== verification/ExampleRuns.thy ===== *)
theory ExampleRuns
  imports Examples
begin

text \<open>
  What holds of the example programs: that files are written with the consent of the human only, that they come to an
  end whatever the model service answers, how terminal input becomes answers, what the demos find.
\<close>

section \<open>What initialising an agent leaves alone\<close>

lemma step_sel:
  "a_interrupter (syncPlannerRef a) = a_interrupter a" "a_mode (syncPlannerRef a) = a_mode a"
  "a_interrupter (add_tool t a) = a_interrupter a" "a_mode (add_tool t a) = a_mode a"
  "a_interrupter (rebuildPromptBuilder a) = a_interrupter a" "a_mode (rebuildPromptBuilder a) = a_mode a"
  "a_interrupter (default_factories a) = a_interrupter a" "a_mode (default_factories a) = a_mode a"
  by (simp_all add: syncPlannerRef_def add_tool_def rebuildPromptBuilder_def Let_def default_factories_def
      split: prod.split)

lemma planners_sel: "a_interrupter (default_planners a) = a_interrupter a" "a_mode (default_planners a) = a_mode a"
  by (simp_all add: default_planners_def Let_def split: option.split)

lemma ensure_kept:
  "a_interrupter (ensureBuiltinToolsUnlocked a) = a_interrupter a" "a_mode (ensureBuiltinToolsUnlocked a) = a_mode a"
  by (simp_all add: ensureBuiltinToolsUnlocked_def Let_def add_tool_def)

lemma init_sel:
  "a_interrupter (agent_init a) = a_interrupter a" "a_mode (agent_init a) = a_mode a"
  by (simp_all add: agent_init_def Let_def step_sel planners_sel ensure_kept)

lemma resolve_sel:
  "resolveSession bytes sid a = (s, a') \<Longrightarrow> a_interrupter a' = a_interrupter a \<and> a_mode a' = a_mode a"
  by (auto simp: resolveSession_def NewSession_def Session_def Let_def split: option.splits if_splits)

lemma hitl_agent_sel:
  "a_interrupter (hitl_agent_on model logger ir) = Some ir" "a_mode (hitl_agent_on model logger ir) = ModeReAct"
  by (simp_all add: hitl_agent_on_def New_def init_sel base_agent_def WithModel_def WithToolRegistry_def WithHITL_def
      WithHook_def WithMaxIterations_def)

section \<open>Nothing is written without a y\<close>

text \<open>
  \<open>said_y\<close>: earlier in the run the call \<open>act\<close> was pending, and what could be read from the terminal up to the
  end of the line was a \<open>y\<close>.
\<close>

definition said_y ::
    "('h terminal, 'm, 'c) loop_env \<Rightarrow> 'h terminal rt \<Rightarrow> ('h terminal, 'm, 'c) loop_vars \<Rightarrow>
     'h terminal rt \<Rightarrow> ('h terminal, 'm, 'c) loop_vars \<Rightarrow> action \<Rightarrow> bool" where
  "said_y env r v r' v' act \<longleftrightarrow>
     (\<exists>r1 v1. passes env r v r1 v1 \<and> passes env r1 v1 r' v' \<and> lv_state v1 = StateInterrupt \<and>
        lv_pending_action v1 = Some act \<and>
        trim_space (to_lower (fst (read_string [] (tm_reads (rt_world r1))))) = ''y'')"

lemma apply_no_input [simp]: "apply_input None act = act"
  by (simp add: apply_input_def)

lemma human_said_y: "human_approved hitl_handler env r v r' v' act \<Longrightarrow> said_y env r v r' v' act"
proof -
  assume "human_approved hitl_handler env r v r' v' act"
  then obtain r1 v1 asked hr w where w: "passes env r v r1 v1" "passes env r1 v1 r' v'" "lv_state v1 = StateInterrupt"
      "lv_pending_action v1 = Some asked" "hr_approved hr" "act = apply_input (hr_modified_input hr) asked"
      "hitl_approve \<lparr>ie_type = InterruptBeforeToolCall, ie_action = asked\<rparr> (rt_world r1) = (Inr (Some hr), w)"
    by (auto simp: human_approved_def hitl_handler_def NewHITL_def WithRequireApproval_def WithAutoApproveRead_def)
  from w(7) have "hr_modified_input hr = None"
    and "hr_approved hr = (trim_space (to_lower (fst (read_string [] (tm_reads (rt_world r1))))) = ''y'')"
    by (auto simp: hitl_approve_def hitl_answer_def split: prod.splits)
  with w(1-6) show ?thesis unfolding said_y_def by auto
qed

lemma not_exempt: "\<not> exempt hitl_handler ''write_file''" "exempt hitl_handler ''read_file''"
proof -
  have "\<not> isReadClassTool ''write_file''" "isReadClassTool ''read_file''" by code_simp+
  then show "\<not> exempt hitl_handler ''write_file''" "exempt hitl_handler ''read_file''"
    by (simp_all add: exempt_def hitl_handler_def NewHITL_def WithRequireApproval_def WithAutoApproveRead_def)
qed

text \<open>
  Whatever the model, what \<open>write_file\<close> is called with was shown to the human earlier in the same run, who typed
  a \<open>y\<close>, in time.
\<close>

theorem hitl_example_writes_with_consent:
  assumes "is_hitl hitl_handler ir" and "resolveSession bytes sid (hitl_agent_on model logger ir) = (s, a)"
    and env: "env = run_env lib a s stream" and "passes env r (fresh_vars env v) r' v'"
  shows "(\<forall>act. lv_state v' = StateExecuting \<and> lv_pending_action v' = Some act \<and> act_tool_name act = ''write_file'' \<longrightarrow>
            said_y env r (fresh_vars env v) r' v' act) \<and>
         (\<forall>h \<in> set (lv_history v'). act_tool_name (sr_action h) = ''write_file'' \<longrightarrow>
            said_y env r (fresh_vars env v) r' v' (sr_action h))"
proof -
  have "le_interrupter env = Some ir" "le_mode env = ModeReAct"
    using resolve_sel [OF assms(2)] by (simp_all add: env run_env_def Let_def hitl_agent_sel)
  moreover have "ready env v" using calculation(2) by (simp add: ready_def)
  moreover note run_granted [OF assms(4) this]
  ultimately show ?thesis
    using hitl_before [OF assms(1)] human_said_y not_exempt(1) by (metis option.inject)
qed

section \<open>They come to an end\<close>

lemma openai_answers: "answers (openai_model c)"
  by (auto simp: answers_def openai_model_def openai_Generate_def split: sum.splits prod.splits option.splits if_splits)

lemma enough_safe: "safe_evaluator (rule_based_Evaluate [enough_iterations])"
  by (simp add: safe_evaluator_def enough_iterations_def)

lemma named_new: "named tool_name NewToolRegistry"
  by (simp add: named_def reg_wf_def NewToolRegistry_def)

lemma named_register: "named tool_name reg \<Longrightarrow> named tool_name (Register n d i h reg)"
  using named_put [of tool_name reg "funcTool n d (GenerateSchema i) h"]
  by (simp add: Register_def AddTool_def reg_put_def Let_def)

lemma example_registries:
  "named tool_name hitl_registry" "named tool_name (react_registry show_value)" "named tool_name buildToolRegistry"
  by (simp_all add: hitl_registry_def react_registry_def buildToolRegistry_def named_register named_new)

lemma forced_attempts_return:
  assumes "agent_ok a"
  shows "\<exists>x w' a'. forced_attempts lib ctx toolName n ps prev w a = Some (x, w', a') \<and> (\<forall>p. x \<noteq> Panic p) \<and>
    (\<forall>res. x = Ok res \<longrightarrow> usedTool (ar_messages res) toolName)"
  using assms
proof (induction ps arbitrary: prev w a)
  case Nil
  then show ?case by simp
next
  case (Cons p ps)
  obtain q1 bytes where p: "p = (q1, bytes)" by force
  from Run_returns [OF Cons.prems, of lib False ctx q1 bytes "sessionIDOrEmpty prev" w] obtain x w' a'
    where run: "demo_Run lib ctx q1 bytes (sessionIDOrEmpty prev) w a = Some (x, w', a')"
      and "\<forall>p. x \<noteq> Panic p" and ok: "agent_ok a'"
    unfolding demo_Run_def by blast
  with Cons.IH [OF ok, of _ w'] show ?case by (cases x) (simp_all add: p run)
qed

text \<open>
  The demos that force a tool come to an end: after three runs at most there is a result, whose messages show that
  the tool was called, or an error. No panic comes out.
\<close>

theorem forced_demo_ends:
  assumes "\<forall>f \<in> set opts. is_option f" and "given_ok (fold (\<lambda>f a. f a) opts base_agent)"
  shows "\<exists>x w' a'. runToolForcedDemo lib ctx toolName prompt retryPrompt b1 b2 b3 w (New opts) = Some (x, w', a') \<and>
    (\<forall>p. x \<noteq> Panic p) \<and> (\<forall>res. x = Ok res \<longrightarrow> usedTool (ar_messages res) toolName)"
proof -
  have "agent_ok (New opts)"
    unfolding New_def by (rule init_ok [OF options_raw [OF assms(1) raw_base] assms(2)])
  from forced_attempts_return [OF this] show ?thesis unfolding runToolForcedDemo_def Let_def .
qed

lemma react_ok:
  "\<forall>f \<in> set (react_options new_http key logger show_value). is_option f"
  "given_ok (fold (\<lambda>f a. f a) (react_options new_http key logger show_value) base_agent)"
  by (simp_all add: react_options_def is_option.intros example_registries given_ok_def openai_answers enough_safe
      base_agent_def option_defs factory_ok_def WithToolRegistry_def agent_WithRules_def)

lemma react_example_answers:
  "\<exists>x w' a'. demo_Run lib ctx prompt bytes None w (react_agent new_http key logger show_value) = Some (x, w', a') \<and>
     (\<forall>p. x \<noteq> Panic p)"
proof -
  have "agent_ok (react_agent new_http key logger show_value)"
    unfolding react_agent_def New_def by (rule init_ok [OF options_raw [OF react_ok(1) raw_base] react_ok(2)])
  from Run_returns [OF this, of lib False ctx prompt bytes None w] show ?thesis
    unfolding demo_Run_def by blast
qed

lemma forced_demo_ends_witness:
  "\<forall>lib ctx w new_http logger show_value.
    \<exists>x w' a'. runToolForcedDemo lib ctx ''calculator'' ''What is 6 * 7?'' ''Use the calculator.'' [1] [2] [3] w
      (react_agent new_http ''key'' logger show_value) = Some (x, w', a') \<and>
    (\<forall>p. x \<noteq> Panic p) \<and> (\<forall>res. x = Ok res \<longrightarrow> usedTool (ar_messages res) ''calculator'')"
  unfolding react_agent_def by (intro allI, rule forced_demo_ends [OF react_ok])

section \<open>What is typed and what is answered\<close>

definition line_of :: "string \<Rightarrow> string \<times> string" where
  "line_of s = (case index_of newline s of Some i \<Rightarrow> (take (Suc i) s, drop (Suc i) s) | None \<Rightarrow> (s, []))"

lemma index_append: "index_of newline b = Some i \<Longrightarrow> index_of newline (b @ s) = Some i"
  by (induction b arbitrary: i) (auto simp: newline_def)

lemma index_bound: "index_of newline b = Some i \<Longrightarrow> i < length b"
  by (induction b arbitrary: i) (auto simp: newline_def split: if_splits)

lemma read_string_line:
  "read_string b rs = (l, b', rs') \<Longrightarrow> (l, b' @ concat rs') = line_of (b @ concat rs)"
proof (induction b rs rule: read_string.induct)
  case (1 b rs)
  show ?case
  proof (cases "index_of newline b")
    case (Some i)
    with 1(2) index_append [OF Some, of "concat rs"] index_bound [OF Some] show ?thesis
      by (auto simp: read_string.simps [of b rs] line_of_def)
  next
    case None
    with 1 show ?thesis
      by (cases rs)
        (auto simp: read_string.simps [of b "[]"] read_string.simps [of b "x # xs" for x xs] line_of_def)
  qed
qed

text \<open>The questions of a run, one after the other.\<close>

fun asked_in_turn :: "(interrupt_event \<Rightarrow> 'w \<Rightarrow> 'a \<times> 'w) \<Rightarrow> interrupt_event list \<Rightarrow> 'w \<Rightarrow> 'a list" where
  "asked_in_turn ask [] w = []"
| "asked_in_turn ask (e # es) w = (case ask e w of (x, w') \<Rightarrow> x # asked_in_turn ask es w')"

fun typed_lines :: "nat \<Rightarrow> string \<Rightarrow> string list" where
  "typed_lines 0 s = []"
| "typed_lines (Suc n) s = (case line_of s of (l, rest) \<Rightarrow> l # typed_lines n rest)"

lemma review_reads_lines:
  "asked_in_turn review_approve es w =
     map (\<lambda>l. Inr (Some (review_answer l))) (typed_lines (length es) (tm_buffer w @ concat (tm_reads w)))"
proof (induction es arbitrary: w)
  case Nil
  then show ?case by simp
next
  case (Cons e es)
  obtain l b rs where rd: "read_string (tm_buffer w) (tm_reads w) = (l, b, rs)" by (metis prod_cases3)
  from read_string_line [OF rd, symmetric] Cons.IH [of "w\<lparr>tm_buffer := b, tm_reads := rs\<rparr>"] show ?case
    by (simp add: review_approve_def rd)
qed

lemma nothing_typed:
  "asked_in_turn hitl_approve es (w\<lparr>tm_reads := []\<rparr>) = replicate (length es) (Inr (Some (hitl_answer [])))"
  by (induction es) (simp_all add: hitl_approve_def read_string.simps newline_def)

lemma index_in_line: "index_of newline (l @ newline @ s) \<noteq> None"
  by (induction l) (auto simp: newline_def)

lemma read_first_line:
  "read_string [] [l @ newline @ s] = (fst (line_of (l @ newline @ s)), snd (line_of (l @ newline @ s)), [])"
proof -
  obtain i where i: "index_of newline (l @ newline @ s) = Some i" using index_in_line [of l s] by blast
  have "index_of newline [] = None" by (simp add: newline_def)
  with i show ?thesis
    by (simp add: read_string.simps [of "[]"] read_string.simps [of "l @ newline @ s"] line_of_def del: append_assoc)
qed

lemma no_answer:
  "\<not> hr_approved (hitl_answer [])" "hr_approved (review_answer [])"
  "hr_modified_input (review_answer []) = Some [(''version'', VStr [])]"
  by code_simp+

text \<open>
  With one reader for all questions, the answers are those to the lines typed, in whatever pieces they arrive. With a
  new reader for each question, lines that arrive together with the first are lost, and the later questions get no
  answer. No answer rejects in one example; in the other it approves and deploys the version without a name.
\<close>

theorem terminal_answers:
  "asked_in_turn review_approve es w =
     map (\<lambda>l. Inr (Some (review_answer l))) (typed_lines (length es) (tm_buffer w @ concat (tm_reads w))) \<and>
   asked_in_turn hitl_approve (e # es) (w\<lparr>tm_reads := [l @ newline @ s]\<rparr>) =
     Inr (Some (hitl_answer (fst (line_of (l @ newline @ s))))) # replicate (length es) (Inr (Some (hitl_answer []))) \<and>
   \<not> hr_approved (hitl_answer []) \<and>
   hr_approved (review_answer []) \<and> hr_modified_input (review_answer []) = Some [(''version'', VStr [])]"
  by (simp add: review_reads_lines hitl_approve_def [of e] read_first_line nothing_typed no_answer)

section \<open>Counting events\<close>

definition counted :: "event list \<Rightarrow> event_counter" where
  "counted es = fold (\<lambda>e c. snd (counter_OnEvent e c)) es new_counter"

definition kinds_sum :: "event_counter \<Rightarrow> nat" where
  "kinds_sum c =
     ec_plan_start c + ec_plan_done c + ec_tool_start c + ec_tool_done c + ec_eval_start c + ec_eval_done c +
     ec_loop_complete c + ec_rule_view c + ec_skill_call_start c + ec_skill_call_done c + ec_skill_context_log c +
     ec_stream_chunk c + ec_errors c"

lemma count_one:
  "ec_total (snd (counter_OnEvent e c)) = Suc (ec_total c)" "kinds_sum (snd (counter_OnEvent e c)) = Suc (kinds_sum c)"
  by (cases e; simp add: counter_OnEvent_def kinds_sum_def Let_def)+

text \<open>Each event is counted once in the total and once under its kind.\<close>

lemma counter_totals: "ec_total (counted es) = length es \<and> kinds_sum (counted es) = length es"
proof -
  have "ec_total (fold (\<lambda>e c. snd (counter_OnEvent e c)) es c) = ec_total c + length es \<and>
      kinds_sum (fold (\<lambda>e c. snd (counter_OnEvent e c)) es c) = kinds_sum c + length es" for c
    by (induction es arbitrary: c) (simp_all add: count_one)
  then show ?thesis by (simp add: counted_def new_counter_def kinds_sum_def)
qed

section \<open>What the demos find\<close>

lemma checkpoint_demo_result:
  "case checkpoint_demo \<lparr>rt_ctx = Background, rt_world = ()\<rparr> of
     (saved, loaded, deleted, again) \<Rightarrow>
       saved = Ok () \<and> map_res (map_option as_iteration) loaded = Ok (Some 3) \<and> deleted = Ok () \<and>
       again = Err (ErrNew (''checkpoint: not found for run_id '' @ go_quote ''run-demo-001''))"
  by code_simp

lemma memory_demo_lengths:
  "(length fail_msgs, length (PruneConsecutiveFailures fail_msgs)) = (5, 3)"
  "count_cleared (CompactStaleToolResults tool_msgs 100) = 2"
  by code_simp+

lemma keyword_demo_finds: "map doc_id (mockKeyIdx_Search kb_docs ''go modules'' 2) = [''doc-1'', ''doc-2'']"
  by code_simp

lemma semantic_demo_scores:
  "map doc_score (mockVecStore_Search kb_docs (hd (mock_Embed [''go generics''])) 4) = [6 / 10, 6 / 10, 9 / 10, 6 / 10]"
  by code_simp

lemma full_snapshot_comes_back:
  "full_snapshot_demo \<lparr>rt_ctx = Background, rt_world = ()\<rparr> = Ok (Some full_snapshot)"
  by code_simp

section \<open>Every agent of \<open>examples/comprehensive\<close> answers\<close>

lemma ops_safe: "safe_memory (buffer_ops inmem_ops)" "safe_contents content_map_ops"
proof -
  show "safe_memory (buffer_ops inmem_ops)"
    unfolding safe_memory_def buffer_ops_def memory_ops.simps by (intro conjI allI demo_memory_safe)
  show "safe_contents content_map_ops"
    unfolding safe_contents_def content_map_ops_def content_store_ops.simps
    by (intro conjI allI content_load_safe content_store_safe)
qed

lemma objects_safe:
  "safe_memory (mo_ops (given_memory (buffer_object n)))" "safe_contents (co_ops (given_contents contents_object))"
  by (simp_all add: given_memory_def buffer_object_def safe_either_memory given_contents_def contents_object_def
      safe_either_contents ops_safe)

lemma auto_accepts:
  assumes "is_hitl auto_handler ir"
  shows "accepts_plans ir"
  unfolding accepts_plans_def
proof (intro allI impI)
  fix act r hr r'
  assume "in_wait ir \<lparr>ie_type = InterruptAfterPlan, ie_action = act\<rparr> r = (Inr hr, r')"
  with assms have "WaitForHuman auto_handler \<lparr>ie_type = InterruptAfterPlan, ie_action = act\<rparr> r (Inr hr) r'"
    unfolding is_hitl_def by (metis fst_conv snd_conv)
  then show "\<not> rejected hr"
    by (cases rule: WaitForHuman.cases)
      (auto simp: auto_handler_def NewHITL_def WithRequireApproval_def WithAutoApproveRead_def auto_approve_def rejected_def)
qed

definition fit :: "('w, 'm, 'c, 'k, 'v) agent_option list \<Rightarrow> bool" where
  "fit opts \<longleftrightarrow> (\<forall>f \<in> set opts. is_option f) \<and> given_ok (fold (\<lambda>f a. f a) opts base_agent)"

lemmas fit_defs = fit_def is_option.intros example_registries given_ok_def base_agent_def option_defs factory_ok_def
  WithToolRegistry_def WithHooks_def objects_safe

lemma named_add: "named tool_name reg \<Longrightarrow> named tool_name (AddTool t reg)"
  using named_put [of tool_name reg t] by (simp add: AddTool_def reg_put_def Let_def)

lemma demo_options_fit:
  assumes "answers m"
  shows "fit (schema_options m weather_report)" "fit (stream_options m sp counter)" "fit (compress_options m)"
    "fit (rag_options m hybrid)" "fit (ctor_options m)"
  using assms
  by (simp_all add: fit_defs schema_options_def stream_options_def compress_options_def rag_options_def ctor_options_def
      Let_def named_add)

lemma given_fold: "(\<And>x a. given_ok a \<Longrightarrow> given_ok (f x a)) \<Longrightarrow> given_ok a \<Longrightarrow> given_ok (fold f xs a)"
  by (induction xs arbitrary: a) simp_all

lemma paths_kept:
  assumes "given_ok a"
  shows "given_ok (WithRulePaths rules a)" "given_ok (WithSkillPaths skills a)"
  unfolding WithRulePaths_def WithSkillPaths_def
  by (rule given_fold [OF _ assms]; simp add: given_ok_def split: sum.split prod.split)+

lemma given_kept:
  "given_ok a \<Longrightarrow> given_ok (WithHook h a)" "given_ok a \<Longrightarrow> accepts_plans ir \<Longrightarrow> given_ok (WithHITL (Some ir) a)"
  "given_ok a \<Longrightarrow> given_ok (WithMaxIterations n a)" "given_ok a \<Longrightarrow> given_ok (WithTimeout n a)"
  "given_ok a \<Longrightarrow> given_ok (WithLoopDetectionThreshold n a)" "given_ok a \<Longrightarrow> given_ok (WithToolResultMaxLen n a)"
  "given_ok a \<Longrightarrow> given_ok (WithRecentToolResultTokens n a)" "given_ok a \<Longrightarrow> given_ok (agent_WithRules rs a)"
  "given_ok a \<Longrightarrow> given_ok (WithToolRegistry reg a)"
  by (simp_all add: given_ok_def option_defs WithToolRegistry_def split: option.splits)

lemma stores_kept:
  "given_ok a \<Longrightarrow> given_ok (WithMemoryFactory (Some (\<lambda>_. buffer_object k)) a)"
  "given_ok b \<Longrightarrow> given_ok (WithContentStoreFactory (Some (\<lambda>_. contents_object)) b)"
  by (simp_all add: given_ok_def option_defs factory_ok_def objects_safe)

lemma given_model: "answers m \<Longrightarrow> given_ok (WithModel (Some m) (WithName name base_agent))"
  by (simp add: given_ok_def base_agent_def option_defs factory_ok_def)

lemma main_options_fit:
  assumes "answers m" and "is_hitl auto_handler ir"
  shows "fit (main_options m rules skills logger counter ir)"
  using assms auto_accepts [OF assms(2)]
  by (simp add: fit_def main_options_def is_option.intros example_registries given_kept stores_kept paths_kept given_model)

text \<open>
  Each agent of the example comes back from every run with a result or an error, with the weather demo as with the
  demos that force a tool, whatever the model answers.
\<close>

definition example_agents ::
    "'w chat_model \<Rightarrow> (string \<times> (goerr + fs_node)) list \<Rightarrow> (string \<times> (goerr + fs_node)) list \<Rightarrow> 'w hook \<Rightarrow> 'w hook \<Rightarrow>
     'w interrupter \<Rightarrow> 'v output_controller \<Rightarrow> 'w Retriever.retriever \<Rightarrow> ('w, 'k, 'v) demo_options list" where
  "example_agents m rules skills h1 h2 ir weather_report hybrid =
     [main_options m rules skills h1 h2 ir, schema_options m weather_report, stream_options m h1 h2, compress_options m,
      rag_options m hybrid, ctor_options m]"

theorem example_agents_answer:
  assumes "is_hitl auto_handler ir"
    and "opts \<in> set (example_agents (openai_model (deepseek_New new_http ''deepseek-chat'' key [])) rules skills h1 h2 ir
           weather_report hybrid)"
  shows "(\<exists>x w' a'. demo_Run lib ctx prompt bytes sid w (New opts) = Some (x, w', a') \<and> (\<forall>p. x \<noteq> Panic p)) \<and>
    (\<exists>x w' a'. runToolForcedDemo lib ctx toolName prompt retryPrompt b1 b2 b3 w (New opts) = Some (x, w', a') \<and>
       (\<forall>p. x \<noteq> Panic p) \<and> (\<forall>res. x = Ok res \<longrightarrow> usedTool (ar_messages res) toolName))"
proof -
  have "fit opts"
    using assms(2) main_options_fit [OF openai_answers assms(1)] demo_options_fit [OF openai_answers]
    by (auto simp: example_agents_def)
  then have opts: "\<forall>f \<in> set opts. is_option f" "given_ok (fold (\<lambda>f a. f a) opts base_agent)" by (simp_all add: fit_def)
  then have "agent_ok (New opts)"
    unfolding New_def by (intro init_ok options_raw raw_base)
  from Run_returns [OF this, of lib False ctx prompt bytes sid w] show ?thesis
    unfolding demo_Run_def using forced_demo_ends [OF opts] by blast
qed

end
