(* ===== verification/Window.thy ===== *)
theory Window
  imports ChatModel
begin

text \<open>
  The two sliding windows: \<open>SlidingWindow\<close> of \<open>model/rate_limiter.go\<close>, which limits calls, and
  \<open>SlidingWindowCounter\<close> of \<open>metrics/metrics.go\<close>, which counts them. Both keep time stamps in a ring
  buffer; the interface below is what the ring promises. Times are nanoseconds.
\<close>

section \<open>Rings\<close>

text \<open>The entries of a ring that starts at \<open>h\<close> and holds \<open>n\<close> of them.\<close>

definition ring :: "'a list \<Rightarrow> nat \<Rightarrow> nat \<Rightarrow> 'a list" where
  "ring xs h n = map (\<lambda>i. xs ! ((h + i) mod length xs)) [0..<n]"

text \<open>The loops of \<open>cleanup\<close>: how many entries at the front have expired, and clearing them.\<close>

fun expired_from :: "int list \<Rightarrow> nat \<Rightarrow> int \<Rightarrow> nat \<Rightarrow> nat \<Rightarrow> nat" where
  "expired_from xs h cutoff i 0 = 0"
| "expired_from xs h cutoff i (Suc n) =
     (if xs ! ((h + i) mod length xs) > cutoff then 0
      else Suc (expired_from xs h cutoff (Suc i) n))"

definition clear_from :: "'a \<Rightarrow> nat \<Rightarrow> nat \<Rightarrow> 'a list \<Rightarrow> 'a list" where
  "clear_from z h k xs = fold (\<lambda>i ys. ys[(h + i) mod length ys := z]) [0..<k] xs"

lemma length_ring [simp]: "length (ring xs h n) = n"
  by (simp add: ring_def)

lemma length_clear_from [simp]: "length (clear_from z h k xs) = length xs"
  by (induction k) (auto simp: clear_from_def)

lemma clear_from_Suc:
  "clear_from z h (Suc k) xs = (clear_from z h k xs)[(h + k) mod length xs := z]"
  using length_clear_from [of z h k xs] by (simp add: clear_from_def)

lemma mod_add_inj:
  assumes "(h + i) mod n = (h + j) mod n" and "i < n" and "j < n"
  shows "i = (j :: nat)"
proof -
  have "i = j" if "(h + i) mod n = (h + j) mod n" "i \<le> j" "j < n" for i j :: nat
  proof -
    from that(1,2) have "n dvd j - i"
      using mod_eq_dvd_iff_nat [of "h + i" "h + j" n] by auto
    with that(3) have "j - i = 0" using nat_dvd_not_less by (metis gr0I less_imp_diff_less)
    with that(2) show ?thesis by simp
  qed
  with assms show ?thesis by (cases "i \<le> j") (metis, metis nat_le_linear)
qed

lemma nth_clear_from:
  assumes "k \<le> i" and "i < length xs"
  shows "clear_from z h k xs ! ((h + i) mod length xs) = xs ! ((h + i) mod length xs)"
  using assms
proof (induction k)
  case 0
  then show ?case by (simp add: clear_from_def)
next
  case (Suc k)
  have "(h + k) mod length xs \<noteq> (h + i) mod length xs"
    using mod_add_inj [of h k "length xs" i] Suc.prems by auto
  with Suc show ?case by (simp add: clear_from_Suc)
qed

lemma ring_drop:
  assumes "k \<le> n" and "n \<le> length xs"
  shows "ring (clear_from z h k xs) ((h + k) mod length xs) (n - k) = drop k (ring xs h n)"
proof (rule nth_equalityI)
  fix i assume "i < length (ring (clear_from z h k xs) ((h + k) mod length xs) (n - k))"
  then have i: "k + i < n" by simp
  have "((h + k) mod length xs + i) mod length xs = (h + (k + i)) mod length xs"
    by (simp add: mod_add_left_eq add.assoc)
  with i assms show "ring (clear_from z h k xs) ((h + k) mod length xs) (n - k) ! i = drop k (ring xs h n) ! i"
    using nth_clear_from [of k "k + i" xs z h] by (simp add: ring_def)
qed simp

lemma ring_push:
  assumes "n < length xs"
  shows "ring (xs[(h + n) mod length xs := t]) h (Suc n) = ring xs h n @ [t]"
proof (rule nth_equalityI)
  fix i assume "i < length (ring (xs[(h + n) mod length xs := t]) h (Suc n))"
  then have i: "i \<le> n" by simp
  show "ring (xs[(h + n) mod length xs := t]) h (Suc n) ! i = (ring xs h n @ [t]) ! i"
  proof (cases "i = n")
    case True
    moreover have "(h + n) mod length xs < length xs" using assms by (intro mod_less_divisor) linarith
    ultimately show ?thesis by (simp add: ring_def nth_append del: upt_Suc)
  next
    case False
    then have "(h + n) mod length xs \<noteq> (h + i) mod length xs"
      using mod_add_inj [of h n "length xs" i] assms i by auto
    with False i show ?thesis by (simp add: ring_def nth_append del: upt_Suc)
  qed
qed simp

lemma ring_push_full:
  assumes "0 < length xs"
  shows "ring (xs[(h + length xs) mod length xs := t]) ((h + 1) mod length xs) (length xs) =
    tl (ring xs h (length xs)) @ [t]"
proof (rule nth_equalityI)
  fix i assume "i < length (ring (xs[(h + length xs) mod length xs := t]) ((h + 1) mod length xs) (length xs))"
  then have i: "i < length xs" by simp
  have idx: "((h + 1) mod length xs + i) mod length xs = (h + Suc i) mod length xs"
    by (simp add: mod_Suc_eq mod_add_left_eq flip: add_Suc_right) (simp add: mod_simps)
  show "ring (xs[(h + length xs) mod length xs := t]) ((h + 1) mod length xs) (length xs) ! i =
      (tl (ring xs h (length xs)) @ [t]) ! i"
  proof (cases "Suc i = length xs")
    case True
    have last: "(h + Suc i) mod length xs = h mod length xs" unfolding True by simp
    have "h mod length xs < length xs" using assms by (intro mod_less_divisor)
    then have "ring (xs[(h + length xs) mod length xs := t]) ((h + 1) mod length xs) (length xs) ! i = t"
      using idx i last by (simp add: ring_def)
    with True show ?thesis by (auto simp: nth_append)
  next
    case False
    have "(h + 0) mod length xs \<noteq> (h + Suc i) mod length xs"
      using mod_add_inj [of h 0 "length xs" "Suc i"] False i assms by auto
    moreover have "i < length xs - Suc 0" "[0..<length xs] ! Suc i = Suc i" using False i by simp_all
    ultimately show ?thesis using idx i by (simp add: ring_def nth_append nth_tl)
  qed
qed (use assms in simp)

lemma expired_from_ring:
  "expired_from xs h cutoff i n =
     length (takeWhile (\<lambda>t. t \<le> cutoff) (map (\<lambda>j. xs ! ((h + j) mod length xs)) [i..<i + n]))"
proof (induction n arbitrary: i)
  case (Suc n)
  have "[i..<i + Suc n] = i # [Suc i..<Suc i + n]" by (simp add: upt_conv_Cons)
  with Suc show ?case by (simp del: upt_Suc)
qed simp

lemma expired_from_takeWhile:
  "expired_from xs h cutoff 0 n = length (takeWhile (\<lambda>t. t \<le> cutoff) (ring xs h n))"
  by (simp add: expired_from_ring ring_def)

lemma expired_from_le: "expired_from xs h cutoff i n \<le> n"
  by (induction n arbitrary: i) auto

lemma ring_zip: "length xs = length ys \<Longrightarrow> n \<le> length xs \<Longrightarrow>
  ring (zip xs ys) h n = zip (ring xs h n) (ring ys h n)"
proof -
  assume len: "length xs = length ys" "n \<le> length xs"
  have "zip xs ys ! ((h + i) mod length xs) = (xs ! ((h + i) mod length xs), ys ! ((h + i) mod length xs))"
    if "i < n" for i
    using len that by (intro nth_zip) (auto intro!: mod_less_divisor)
  with len show ?thesis by (auto simp: ring_def zip_map_map zip_same_conv_map intro!: map_cong)
qed

lemma clear_from_zip:
  "length xs = length ys \<Longrightarrow> clear_from (a, b) h k (zip xs ys) = zip (clear_from a h k xs) (clear_from b h k ys)"
  by (induction k) (simp_all add: clear_from_Suc zip_update, simp add: clear_from_def)

text \<open>The last entries of a list.\<close>

definition latest :: "nat \<Rightarrow> 'a list \<Rightarrow> 'a list" where
  "latest n xs = drop (length xs - n) xs"

lemma dropWhile_twice: "(a :: int) \<le> b \<Longrightarrow>
  dropWhile (\<lambda>x. f x \<le> b) (dropWhile (\<lambda>x. f x \<le> a) xs) = dropWhile (\<lambda>x. f x \<le> b) xs"
  by (induction xs) auto

lemma dropWhile_snoc: "\<not> P x \<Longrightarrow> dropWhile P (xs @ [x]) = dropWhile P xs @ [x]"
  by (induction xs) auto

section \<open>The interface\<close>

text \<open>
  What the ring promises: a queue of time-stamped entries, of bounded length. \<open>expire\<close> takes the old
  entries off its front; \<open>push\<close> puts one at its end and drops the oldest when there is no room.
\<close>

locale window_queue =
  fixes entries :: "'s \<Rightarrow> 'i list"
    and stamp :: "'i \<Rightarrow> int"
    and good :: "'s \<Rightarrow> bool"
    and room :: "'s \<Rightarrow> nat"
    and expire :: "int \<Rightarrow> 's \<Rightarrow> 's"
    and push :: "'i \<Rightarrow> 's \<Rightarrow> 's"
  assumes expire_entries: "good s \<Longrightarrow> entries (expire cutoff s) = dropWhile (\<lambda>x. stamp x \<le> cutoff) (entries s)"
    and expire_good: "good s \<Longrightarrow> good (expire cutoff s) \<and> room (expire cutoff s) = room s"
    and push_entries: "good s \<Longrightarrow> 0 < room s \<Longrightarrow>
      entries (push x s) = (if length (entries s) < room s then entries s else tl (entries s)) @ [x]"
    and push_good: "good s \<Longrightarrow> 0 < room s \<Longrightarrow> good (push x s) \<and> room (push x s) = room s"
    and bounded: "good s \<Longrightarrow> length (entries s) \<le> room s"
begin

text \<open>What expires at \<open>now\<close> lies in no window that ends later.\<close>

lemma expire_keeps_window:
  assumes "good s" and "now \<le> t"
  shows "filter (\<lambda>x. t - w < stamp x \<and> P x) (entries (expire (now - w) s)) =
    filter (\<lambda>x. t - w < stamp x \<and> P x) (entries s)"
proof -
  have "filter (\<lambda>x. t - w < stamp x \<and> P x) (takeWhile (\<lambda>x. stamp x \<le> now - w) xs) = []" for xs
    using assms(2) by (auto simp: filter_empty_conv dest: set_takeWhileD)
  then show ?thesis
    unfolding expire_entries [OF assms(1)]
    by (metis append_Nil filter_append takeWhile_dropWhile_id)
qed

text \<open>One step of a queue that is fed in the order of time.\<close>

lemma push_latest:
  assumes "good s" and "0 < room s" and "entries s = dropWhile (\<lambda>x. stamp x \<le> old) (latest (room s) xs)"
    and "sorted (map stamp (xs @ [x]))" and "old \<le> stamp x - w" and "0 < w"
  shows "entries (push x (expire (stamp x - w) s)) =
    dropWhile (\<lambda>y. stamp y \<le> stamp x - w) (latest (room s) (xs @ [x]))"
proof -
  let ?n = "room s"
  let ?gone = "\<lambda>y. stamp y \<le> stamp x - w"
  let ?L = "latest ?n xs"
  have E: "entries (expire (stamp x - w) s) = dropWhile ?gone ?L"
    using expire_entries [OF assms(1)] assms(3,5) by (simp add: dropWhile_twice)
  have live: "\<not> ?gone x" using assms(6) by simp
  have push: "entries (push x (expire (stamp x - w) s)) =
      (if length (dropWhile ?gone ?L) < ?n then dropWhile ?gone ?L else tl (dropWhile ?gone ?L)) @ [x]"
    using push_entries [of "expire (stamp x - w) s" x] expire_good [OF assms(1), of "stamp x - w"] assms(2) E
    by simp
  show ?thesis
  proof (cases "length xs < ?n")
    case True
    then have "?L = xs" "latest ?n (xs @ [x]) = xs @ [x]" by (simp_all add: latest_def)
    moreover have "length (dropWhile ?gone xs) < ?n"
      using True length_dropWhile_le [of ?gone xs] by linarith
    ultimately show ?thesis using push live by (simp add: dropWhile_snoc)
  next
    case False
    then have long: "latest ?n (xs @ [x]) = tl ?L @ [x]" "length ?L = ?n"
      using assms(2) by (simp_all add: latest_def Suc_diff_le) (simp add: drop_Suc tl_drop)
    then obtain y ys where L: "?L = y # ys" using assms(2) by (cases ?L) auto
    show ?thesis
    proof (cases "?gone y")
      case True
      then have "length (dropWhile ?gone ?L) < ?n"
        using L long(2) length_dropWhile_le [of ?gone ys] by simp
      with True show ?thesis using push live long L by (simp add: dropWhile_snoc)
    next
      case False
      have "sorted (map stamp ?L)"
        using assms(4) by (auto simp: latest_def sorted_append drop_map [symmetric] intro: sorted_wrt_drop)
      with L have "\<forall>z \<in> set ys. stamp y \<le> stamp z" by simp
      with False have all: "\<forall>z \<in> set ys. \<not> ?gone z" by force
      have "dropWhile ?gone (ys @ [x]) = ys @ [x]"
        using all live by (cases ys) auto
      then show ?thesis using False push long L by simp
    qed
  qed
qed

end

end
