(* ===== verification/RateLimit.thy ===== *)
theory RateLimit
  imports Complex_Main Window
begin

text \<open>
  \<open>model/rate_limiter.go\<close>: the token bucket, the sliding window and their combination. Clock readings are arguments, in nanoseconds;
  \<open>float64\<close> is modelled by exact rationals. What a mutex protects is one operation. A loop that waits
  is a function of what it meets in each round: the context's state at the top of the loop, the clock,
  and which of the two channels it waits on is ready first.
\<close>

section \<open>Token bucket\<close>

record token_bucket =
  tb_capacity :: rat
  tb_tokens :: rat
  tb_rate :: rat
  tb_last :: int

definition NewTokenBucket :: "int \<Rightarrow> rat \<Rightarrow> int \<Rightarrow> token_bucket" where
  "NewTokenBucket capacity refillRate now =
     \<lparr>tb_capacity = of_int capacity, tb_tokens = of_int capacity, tb_rate = refillRate, tb_last = now\<rparr>"

definition seconds :: "int \<Rightarrow> rat" where
  "seconds d = of_int d / 1000000000"

definition tb_refill :: "int \<Rightarrow> token_bucket \<Rightarrow> token_bucket" where
  "tb_refill now t =
     (let tokens = tb_tokens t + seconds (now - tb_last t) * tb_rate t
      in t\<lparr>tb_tokens := (if tokens > tb_capacity t then tb_capacity t else tokens), tb_last := now\<rparr>)"

definition tb_Allow :: "int \<Rightarrow> token_bucket \<Rightarrow> bool \<times> token_bucket" where
  "tb_Allow now t0 =
     (let t = tb_refill now t0
      in if tb_tokens t \<ge> 1 then (True, t\<lparr>tb_tokens := tb_tokens t - 1\<rparr>) else (False, t))"

definition Tokens :: "token_bucket \<Rightarrow> rat" where
  "Tokens t = tb_tokens t"

text \<open>
  One round of a waiting loop: \<open>wt_done\<close> is the answer of \<open>ctx.Done()\<close> at its top, \<open>wt_now\<close> and
  \<open>wt_later\<close> the readings of the clock, \<open>wt_cancel\<close> the context's error when it ends the wait before
  the timer does.
\<close>

record wait_round =
  wt_done :: "goerr option"
  wt_now :: int
  wt_later :: int
  wt_cancel :: "goerr option"

text \<open>\<^const>\<open>None\<close>: the loop is still waiting after these rounds.\<close>

fun tb_Wait :: "wait_round list \<Rightarrow> token_bucket \<Rightarrow> (unit res \<times> token_bucket) option" where
  "tb_Wait [] t = None"
| "tb_Wait (w # ws) t =
     (case wt_done w of
        Some e \<Rightarrow> Some (Err e, t)
      | None \<Rightarrow>
          (case tb_Allow (wt_now w) t of
             (True, t') \<Rightarrow> Some (Ok (), t')
           | (False, t') \<Rightarrow>
               (case wt_cancel w of Some e \<Rightarrow> Some (Err e, t') | None \<Rightarrow> tb_Wait ws t')))"

section \<open>Sliding window\<close>

record sliding_window =
  sw_size :: int
  sw_max :: int
  sw_requests :: "int list"
  sw_head :: nat
  sw_count :: nat

text \<open>\<open>time.Time{}\<close> in a slot that is not in use; it is never read.\<close>

definition zero_time :: int where
  "zero_time = 0"

text \<open>\<open>make\<close> panics on a negative length.\<close>

definition NewSlidingWindow :: "int \<Rightarrow> int \<Rightarrow> sliding_window option" where
  "NewSlidingWindow windowSize maxReqs =
     (if maxReqs < 0 then None
      else Some \<lparr>sw_size = windowSize, sw_max = maxReqs, sw_requests = replicate (nat maxReqs) zero_time,
                 sw_head = 0, sw_count = 0\<rparr>)"

definition sw_expire :: "int \<Rightarrow> sliding_window \<Rightarrow> sliding_window" where
  "sw_expire cutoff s =
     (let k = expired_from (sw_requests s) (sw_head s) cutoff 0 (sw_count s)
      in if k > 0 then s\<lparr>sw_requests := clear_from zero_time (sw_head s) k (sw_requests s),
                         sw_head := (sw_head s + k) mod length (sw_requests s),
                         sw_count := sw_count s - k\<rparr>
         else s)"

definition sw_cleanup :: "int \<Rightarrow> sliding_window \<Rightarrow> sliding_window" where
  "sw_cleanup now s = sw_expire (now - sw_size s) s"

definition addRequest :: "int \<Rightarrow> sliding_window \<Rightarrow> sliding_window" where
  "addRequest t s =
     (let s' = s\<lparr>sw_requests := (sw_requests s)[(sw_head s + sw_count s) mod length (sw_requests s) := t]\<rparr>
      in if sw_count s < length (sw_requests s) then s'\<lparr>sw_count := sw_count s + 1\<rparr>
         else s'\<lparr>sw_head := (sw_head s + 1) mod length (sw_requests s)\<rparr>)"

text \<open>\<open>now\<close> is the clock in \<open>cleanup\<close>, \<open>later\<close> the clock when the request is recorded.\<close>

definition sw_Allow :: "int \<Rightarrow> int \<Rightarrow> sliding_window \<Rightarrow> bool \<times> sliding_window" where
  "sw_Allow now later s0 =
     (let s = sw_cleanup now s0
      in if int (sw_count s) < sw_max s then (True, addRequest later s) else (False, s))"

definition Count :: "int \<Rightarrow> sliding_window \<Rightarrow> nat \<times> sliding_window" where
  "Count now s0 = (let s = sw_cleanup now s0 in (sw_count s, s))"

text \<open>The oldest request is read by its index: with no slots at all this panics.\<close>

fun sw_Wait :: "wait_round list \<Rightarrow> sliding_window \<Rightarrow> (unit res \<times> sliding_window) option" where
  "sw_Wait [] s = None"
| "sw_Wait (w # ws) s =
     (case wt_done w of
        Some e \<Rightarrow> Some (Err e, s)
      | None \<Rightarrow>
          (case sw_Allow (wt_now w) (wt_later w) s of
             (True, s') \<Rightarrow> Some (Ok (), s')
           | (False, s') \<Rightarrow>
               if sw_head s' \<ge> length (sw_requests s') then Some (Panic ''index out of range'', s')
               else (case wt_cancel w of Some e \<Rightarrow> Some (Err e, s') | None \<Rightarrow> sw_Wait ws s')))"

section \<open>Both\<close>

record rate_limiter =
  rl_bucket :: token_bucket
  rl_window :: sliding_window

definition NewRateLimiter :: "int \<Rightarrow> rat \<Rightarrow> int \<Rightarrow> int \<Rightarrow> int \<Rightarrow> rate_limiter option" where
  "NewRateLimiter tokenCapacity tokensPerSecond windowSize maxInWindow now =
     map_option (\<lambda>w. \<lparr>rl_bucket = NewTokenBucket tokenCapacity tokensPerSecond now, rl_window = w\<rparr>)
       (NewSlidingWindow windowSize maxInWindow)"

definition rl_Allow :: "int \<Rightarrow> int \<Rightarrow> int \<Rightarrow> rate_limiter \<Rightarrow> bool \<times> rate_limiter" where
  "rl_Allow t1 t2 t3 l =
     (case tb_Allow t1 (rl_bucket l) of
        (False, b) \<Rightarrow> (False, l\<lparr>rl_bucket := b\<rparr>)
      | (True, b) \<Rightarrow>
          (case sw_Allow t2 t3 (rl_window l) of (ok, w) \<Rightarrow> (ok, l\<lparr>rl_bucket := b, rl_window := w\<rparr>)))"

definition rl_Wait :: "wait_round list \<Rightarrow> wait_round list \<Rightarrow> rate_limiter \<Rightarrow> (unit res \<times> rate_limiter) option" where
  "rl_Wait bs ws l =
     (case tb_Wait bs (rl_bucket l) of
        None \<Rightarrow> None
      | Some (Ok _, b) \<Rightarrow>
          map_option (\<lambda>(x, w). (x, l\<lparr>rl_bucket := b, rl_window := w\<rparr>)) (sw_Wait ws (rl_window l))
      | Some (x, b) \<Rightarrow> Some (x, l\<lparr>rl_bucket := b\<rparr>))"

section \<open>The sliding window is a queue\<close>

definition sw_good :: "sliding_window \<Rightarrow> bool" where
  "sw_good s \<longleftrightarrow> sw_count s \<le> length (sw_requests s) \<and> int (length (sw_requests s)) = sw_max s"

definition sw_entries :: "sliding_window \<Rightarrow> int list" where
  "sw_entries s = ring (sw_requests s) (sw_head s) (sw_count s)"

lemma dropWhile_drop: "dropWhile P xs = drop (length (takeWhile P xs)) xs"
  by (induction xs) auto

lemma sw_expire_entries:
  assumes "sw_good s"
  shows "sw_entries (sw_expire c s) = dropWhile (\<lambda>t. t \<le> c) (sw_entries s)"
    "sw_good (sw_expire c s)" "sw_size (sw_expire c s) = sw_size s" "sw_max (sw_expire c s) = sw_max s"
proof -
  let ?k = "expired_from (sw_requests s) (sw_head s) c 0 (sw_count s)"
  have k: "?k \<le> sw_count s" by (rule expired_from_le)
  show "sw_entries (sw_expire c s) = dropWhile (\<lambda>t. t \<le> c) (sw_entries s)"
  proof (cases "?k = 0")
    case True
    then show ?thesis
      using expired_from_takeWhile [of "sw_requests s" "sw_head s" c "sw_count s"]
      by (simp add: sw_expire_def dropWhile_drop sw_entries_def)
  next
    case False
    then show ?thesis
      using ring_drop [OF k, of "sw_requests s" zero_time "sw_head s"] assms
        expired_from_takeWhile [of "sw_requests s" "sw_head s" c "sw_count s"]
      by (simp add: sw_expire_def dropWhile_drop sw_entries_def sw_good_def Let_def)
  qed
qed (use assms in \<open>auto simp: sw_expire_def sw_good_def Let_def\<close>)

lemma addRequest_entries:
  assumes "sw_good s" and "0 < sw_max s"
  shows "sw_entries (addRequest t s) =
      (if length (sw_entries s) < nat (sw_max s) then sw_entries s else tl (sw_entries s)) @ [t]"
    "sw_good (addRequest t s)" "sw_size (addRequest t s) = sw_size s" "sw_max (addRequest t s) = sw_max s"
proof -
  have len: "nat (sw_max s) = length (sw_requests s)" "0 < length (sw_requests s)"
    using assms by (auto simp: sw_good_def)
  show "sw_entries (addRequest t s) =
      (if length (sw_entries s) < nat (sw_max s) then sw_entries s else tl (sw_entries s)) @ [t]"
  proof (cases "sw_count s < length (sw_requests s)")
    case True
    then show ?thesis
      using ring_push [OF True, of "sw_head s" t] len by (simp add: addRequest_def sw_entries_def Let_def)
  next
    case False
    then have full: "sw_count s = length (sw_requests s)" using assms by (simp add: sw_good_def)
    with False show ?thesis
      using ring_push_full [OF len(2), of "sw_head s" t] len
      by (simp add: addRequest_def sw_entries_def Let_def)
  qed
qed (use assms in \<open>auto simp: addRequest_def sw_good_def Let_def\<close>)

lemma sw_entries_bound: "sw_good s \<Longrightarrow> length (sw_entries s) \<le> nat (sw_max s)"
  by (auto simp: sw_good_def sw_entries_def)

interpretation sw: window_queue sw_entries "\<lambda>t. t" sw_good "\<lambda>s. nat (sw_max s)" sw_expire addRequest
  by unfold_locales (auto simp: sw_expire_entries addRequest_entries sw_entries_bound)

section \<open>What the limits limit\<close>

text \<open>The times at which a window let requests pass, over a sequence of attempts by any goroutines.\<close>

fun sw_grants :: "(int \<times> int) list \<Rightarrow> sliding_window \<Rightarrow> int list" where
  "sw_grants [] s = []"
| "sw_grants ((now, later) # ts) s =
     (case sw_Allow now later s of
        (True, s') \<Rightarrow> later # sw_grants ts s'
      | (False, s') \<Rightarrow> sw_grants ts s')"

fun times_up :: "int \<Rightarrow> (int \<times> int) list \<Rightarrow> bool" where
  "times_up t [] = True"
| "times_up t ((now, later) # ts) \<longleftrightarrow> t \<le> now \<and> now \<le> later \<and> times_up later ts"

lemma times_up_mono: "times_up t ts \<Longrightarrow> t' \<le> t \<Longrightarrow> times_up t' ts"
  by (cases ts) auto

lemma sw_grants_after: "times_up t ts \<Longrightarrow> g \<in> set (sw_grants ts s) \<Longrightarrow> t \<le> g"
proof (induction ts s arbitrary: t rule: sw_grants.induct)
  case (2 now later ts s)
  then show ?case
    using times_up_mono [of later ts t] by (fastforce split: prod.splits bool.splits)
qed simp

lemma sw_grants_window:
  assumes "times_up b ts" and "sw_good s"
  shows "length (filter (\<lambda>g. t - sw_size s < g \<and> g \<le> t) (sw_entries s @ sw_grants ts s)) \<le> nat (sw_max s)"
  using assms
proof (induction ts arbitrary: s b)
  case Nil
  have "length (sw_entries s) \<le> nat (sw_max s)" using sw.bounded [OF Nil(2)] .
  then show ?case by (simp add: le_trans [OF length_filter_le])
next
  case (Cons p ts)
  obtain now later where p: "p = (now, later)" by (cases p)
  let ?W = "\<lambda>g. t - sw_size s < g \<and> g \<le> t"
  let ?s = "sw_cleanup now s"
  have up: "now \<le> later" "times_up later ts" "times_up now ts"
    using Cons.prems(1) p times_up_mono [of later ts now] by auto
  note good = sw_expire_entries [OF Cons.prems(2), of "now - sw_size s", folded sw_cleanup_def]
  show ?case
  proof (cases "now \<le> t")
    case False
    then have "filter ?W (sw_grants ((now, later) # ts) s) = []"
      using sw_grants_after [of now "(now, later) # ts"] up by (fastforce simp: filter_empty_conv)
    moreover have "length (filter ?W (sw_entries s)) \<le> nat (sw_max s)"
      using sw.bounded [OF Cons.prems(2)] by (meson le_trans length_filter_le)
    ultimately show ?thesis by (simp add: p)
  next
    case True
    then have same: "filter ?W (sw_entries s) = filter ?W (sw_entries ?s)"
      using sw.expire_keeps_window [OF Cons.prems(2) True, of "sw_size s" "\<lambda>g. g \<le> t"] by (simp add: sw_cleanup_def)
    show ?thesis
    proof (cases "int (sw_count ?s) < sw_max ?s")
      case grant: True
      have room: "0 < sw_max ?s" using grant by simp
      note new = addRequest_entries [OF good(2) room, of later]
      have "length (sw_entries ?s) < nat (sw_max ?s)" using grant by (simp add: sw_entries_def)
      then have "sw_entries (addRequest later ?s) = sw_entries ?s @ [later]" using new(1) by simp
      with Cons.IH [OF up(2), of "addRequest later ?s"] grant new good same p show ?thesis
        by (simp add: sw_Allow_def Let_def)
    next
      case deny: False
      with Cons.IH [OF up(3), of ?s] good same p show ?thesis by (simp add: sw_Allow_def Let_def)
    qed
  qed
qed

text \<open>
  C27. The sliding window limits: however many goroutines call \<open>Allow\<close> and \<open>Wait\<close>, and in whatever
  order their critical sections come, no window of the configured length contains more granted
  requests than the maximum. The ring buffer never overwrites a request that still counts.
\<close>

theorem sliding_window_limits:
  assumes "NewSlidingWindow width most = Some s" and "times_up start ts"
  shows "length (filter (\<lambda>g. t - width < g \<and> g \<le> t) (sw_grants ts s)) \<le> nat most"
proof -
  have s: "sw_good s" "sw_size s = width" "sw_max s = most" "sw_entries s = []"
    using assms(1) by (auto simp: NewSlidingWindow_def sw_good_def sw_entries_def ring_def split: if_splits)
  with sw_grants_window [OF assms(2) s(1), of t] show ?thesis by simp
qed

lemma sliding_window_limits_witness:
  "sw_grants [(0, 0), (1, 1), (2, 2), (12, 12), (13, 13)] (the (NewSlidingWindow 10 2)) = [0, 1, 12, 13] \<and>
   length (filter (\<lambda>g. 13 - 10 < g \<and> g \<le> 13) (sw_grants [(0, 0), (1, 1), (2, 2), (12, 12), (13, 13)]
     (the (NewSlidingWindow 10 2)))) \<le> 2"
proof -
  let ?ts = "[(0, 0), (1, 1), (2, 2), (12, 12), (13, 13)] :: (int \<times> int) list"
  have new: "NewSlidingWindow 10 2 = Some (the (NewSlidingWindow 10 2))" by (simp add: NewSlidingWindow_def)
  have "sw_grants ?ts (the (NewSlidingWindow 10 2)) = [0, 1, 12, 13]" by code_simp
  moreover have "times_up 0 ?ts" by simp
  ultimately show ?thesis using sliding_window_limits [OF new, of 0 ?ts 13] by simp
qed

text \<open>How many of the attempts at the given times a bucket lets pass.\<close>

fun tb_grants :: "int list \<Rightarrow> token_bucket \<Rightarrow> nat" where
  "tb_grants [] t = 0"
| "tb_grants (now # ts) t =
     (case tb_Allow now t of (True, t') \<Rightarrow> Suc (tb_grants ts t') | (False, t') \<Rightarrow> tb_grants ts t')"

lemma tb_refill_le:
  "tb_tokens (tb_refill now t) \<le> tb_tokens t + seconds (now - tb_last t) * tb_rate t"
  "tb_tokens (tb_refill now t) \<le> tb_capacity t"
  "tb_rate (tb_refill now t) = tb_rate t" "tb_last (tb_refill now t) = now"
  "tb_capacity (tb_refill now t) = tb_capacity t"
  by (auto simp: tb_refill_def Let_def)

lemma seconds_add: "seconds (b - a) + seconds (c - b) = seconds (c - a)"
  by (simp add: seconds_def diff_divide_distrib)

lemma tb_grants_bound:
  assumes "sorted (tb_last t # ts @ [stop])" and "0 \<le> tb_rate t" and "0 \<le> tb_tokens t" and "0 \<le> tb_capacity t"
  shows "of_nat (tb_grants ts t) \<le> tb_tokens t + tb_rate t * seconds (stop - tb_last t)"
  using assms
proof (induction ts arbitrary: t)
  case Nil
  then show ?case by (simp add: seconds_def)
next
  case (Cons now ts)
  let ?t = "tb_refill now t"
  note r = tb_refill_le [of now t]
  have up: "sorted (now # ts @ [stop])" "tb_last t \<le> now" using Cons.prems(1) by simp_all
  have pos: "0 \<le> tb_tokens ?t"
    using Cons.prems up(2) by (auto simp: tb_refill_def Let_def seconds_def)
  have time: "tb_tokens ?t + tb_rate t * seconds (stop - now) \<le>
      tb_tokens t + tb_rate t * seconds (stop - tb_last t)"
    using r(1) arg_cong [OF seconds_add [of now "tb_last t" stop], of "(*) (tb_rate t)"]
    by (simp add: distrib_left mult.commute)
  show ?case
  proof (cases "1 \<le> tb_tokens ?t")
    case True
    let ?u = "?t\<lparr>tb_tokens := tb_tokens ?t - 1\<rparr>"
    have "of_nat (tb_grants ts ?u) \<le> tb_tokens ?u + tb_rate ?u * seconds (stop - tb_last ?u)"
      by (rule Cons.IH) (use True up Cons.prems r in auto)
    with True time r show ?thesis by (simp add: tb_Allow_def Let_def)
  next
    case False
    have "of_nat (tb_grants ts ?t) \<le> tb_tokens ?t + tb_rate ?t * seconds (stop - tb_last ?t)"
      by (rule Cons.IH) (use pos up Cons.prems r in auto)
    with False time r show ?thesis by (simp add: tb_Allow_def Let_def)
  qed
qed



end
