(* ===== verification/Metrics.thy ===== *)
theory Metrics
  imports Complex_Main RateLimit
begin

text \<open>
  \<open>metrics/metrics.go\<close>, \<open>model/metrics_model.go\<close> and the adapters \<open>model/wrap.go\<close> and
  \<open>model/stream_handler.go\<close>: counting the calls of a model and wrapping one model as another.
\<close>

section \<open>The counter\<close>

record window_counter =
  wc_size :: int
  wc_calls :: "int list"
  wc_tokens :: "int list"
  wc_head :: nat
  wc_count :: nat

definition NewSlidingWindowCounter :: "int \<Rightarrow> int \<Rightarrow> window_counter option" where
  "NewSlidingWindowCounter windowSize maxSamples =
     (if maxSamples < 0 then None
      else Some \<lparr>wc_size = windowSize, wc_calls = replicate (nat maxSamples) zero_time,
                 wc_tokens = replicate (nat maxSamples) 0, wc_head = 0, wc_count = 0\<rparr>)"

definition wc_expire :: "int \<Rightarrow> window_counter \<Rightarrow> window_counter" where
  "wc_expire cutoff s =
     (let k = expired_from (wc_calls s) (wc_head s) cutoff 0 (wc_count s)
      in if k > 0 then s\<lparr>wc_calls := clear_from zero_time (wc_head s) k (wc_calls s),
                         wc_tokens := clear_from 0 (wc_head s) k (wc_tokens s),
                         wc_head := (wc_head s + k) mod length (wc_calls s),
                         wc_count := wc_count s - k\<rparr>
         else s)"

definition wc_cleanup :: "int \<Rightarrow> window_counter \<Rightarrow> window_counter" where
  "wc_cleanup now s = wc_expire (now - wc_size s) s"

definition wc_push :: "int \<times> int \<Rightarrow> window_counter \<Rightarrow> window_counter" where
  "wc_push x s =
     (let idx = (wc_head s + wc_count s) mod length (wc_calls s);
          s' = s\<lparr>wc_calls := (wc_calls s)[idx := fst x], wc_tokens := (wc_tokens s)[idx := snd x]\<rparr>
      in if wc_count s < length (wc_calls s) then s'\<lparr>wc_count := wc_count s + 1\<rparr>
         else s'\<lparr>wc_head := (wc_head s + 1) mod length (wc_calls s)\<rparr>)"

text \<open>Without any samples the index is a division by zero: a panic.\<close>

definition wc_Add :: "int \<Rightarrow> int \<Rightarrow> window_counter \<Rightarrow> window_counter option" where
  "wc_Add now tokenCount s0 =
     (let s = wc_cleanup now s0 in if wc_calls s = [] then None else Some (wc_push (now, tokenCount) s))"

definition RPM :: "int \<Rightarrow> window_counter \<Rightarrow> rat \<times> window_counter" where
  "RPM now s0 =
     (let s = wc_cleanup now s0 in
      if wc_count s = 0 then (0, s)
      else let windowSeconds = seconds (wc_size s)
        in if windowSeconds \<le> 0 then (0, s)
           else (of_nat (wc_count s) / windowSeconds * 60, s))"

definition TPM :: "int \<Rightarrow> window_counter \<Rightarrow> rat \<times> window_counter" where
  "TPM now s0 =
     (let s = wc_cleanup now s0 in
      if wc_count s = 0 then (0, s)
      else let totalTokens = sum_list (ring (wc_tokens s) (wc_head s) (wc_count s));
               windowSeconds = seconds (wc_size s)
        in if windowSeconds \<le> 0 then (0, s) else (of_int totalTokens / windowSeconds * 60, s))"

section \<open>The metering model\<close>

record call_metric =
  mt_timestamp :: int
  mt_model_name :: string
  mt_usage :: usage
  mt_duration :: int
  mt_rpm :: rat
  mt_tpm :: rat

text \<open>The handler is foreign code; \<open>mm_clock\<close> is \<open>time.Now()\<close>.\<close>

record 'w metrics_model =
  mm_model :: "'w chat_model"
  mm_name :: string
  mm_handler :: "(call_metric \<Rightarrow> 'w \<Rightarrow> 'w) option"
  mm_counter :: window_counter
  mm_clock :: "'w \<Rightarrow> int \<times> 'w"

definition WrapWithMetricsAndWindow ::
    "'w chat_model \<Rightarrow> string \<Rightarrow> (call_metric \<Rightarrow> 'w \<Rightarrow> 'w) option \<Rightarrow> int \<Rightarrow> int \<Rightarrow> ('w \<Rightarrow> int \<times> 'w) \<Rightarrow>
     'w metrics_model option" where
  "WrapWithMetricsAndWindow m name handler windowSize maxSamples clock =
     map_option (\<lambda>c. \<lparr>mm_model = m, mm_name = name, mm_handler = handler, mm_counter = c, mm_clock = clock\<rparr>)
       (NewSlidingWindowCounter windowSize maxSamples)"

definition WrapWithMetrics ::
    "'w chat_model \<Rightarrow> string \<Rightarrow> (call_metric \<Rightarrow> 'w \<Rightarrow> 'w) option \<Rightarrow> ('w \<Rightarrow> int \<times> 'w) \<Rightarrow> 'w metrics_model option" where
  "WrapWithMetrics m name handler clock =
     WrapWithMetricsAndWindow m name handler (60 * 1000000000) 1000 clock"

definition read_clock :: "'w metrics_model \<Rightarrow> 'w rt \<Rightarrow> int \<times> 'w rt" where
  "read_clock m r = (case mm_clock m (rt_world r) of (t, w) \<Rightarrow> (t, r\<lparr>rt_world := w\<rparr>))"

definition reportMetrics :: "int \<Rightarrow> usage \<Rightarrow> int \<Rightarrow> 'w rt \<Rightarrow> 'w metrics_model \<Rightarrow> 'w rt \<times> 'w metrics_model" where
  "reportMetrics now u duration r m =
     (case mm_handler m of
        None \<Rightarrow> (r, m)
      | Some h \<Rightarrow>
          let (rpm, c) = RPM now (mm_counter m);
              (tpm, c) = TPM now c;
              metric = \<lparr>mt_timestamp = now, mt_model_name = mm_name m, mt_usage = u,
                        mt_duration = duration, mt_rpm = rpm, mt_tpm = tpm\<rparr>
          in (r\<lparr>rt_world := h metric (rt_world r)\<rparr>, m\<lparr>mm_counter := c\<rparr>))"

text \<open>\<open>m.counter.Add(now, ...)\<close> and the report, at the end of a successful call.\<close>

definition meter :: "int \<Rightarrow> usage \<Rightarrow> int \<Rightarrow> ('w, 'w metrics_model, unit) op" where
  "meter now u duration r m =
     (case wc_Add now (total_tokens u) (mm_counter m) of
        None \<Rightarrow> (Panic ''integer divide by zero'', r, m)
      | Some c \<Rightarrow> (case reportMetrics now u duration r (m\<lparr>mm_counter := c\<rparr>) of (r', m') \<Rightarrow> (Ok (), r', m')))"

definition metrics_Generate ::
    "chat_message list \<Rightarrow> model_option list \<Rightarrow> ('w, 'w metrics_model, chat_response option) op" where
  "metrics_Generate messages opts r0 m =
     (let (start, r) = read_clock m r0 in
      case cm_generate (mm_model m) r messages opts of
        (Inl e, r) \<Rightarrow> (case read_clock m r of (t, r) \<Rightarrow> (case read_clock m r of (now, r) \<Rightarrow> (Err e, r, m)))
      | (Inr resp, r) \<Rightarrow>
          (case read_clock m r of (t, r) \<Rightarrow>
          (case read_clock m r of (now, r) \<Rightarrow>
            (case resp of
               None \<Rightarrow> (Ok None, r, m)
             | Some x \<Rightarrow> go_bind (meter now (resp_usage x) (t - start)) (\<lambda>_. go_return (Some x)) r m))))"

text \<open>
  The goroutine of \<open>Stream\<close>: it hands on the chunks until the context is done, then the error, and
  counts the last usage it saw when the stream came to its end without one. \<open>sent\<close> is how many
  chunks it could send before it found the context done (\<^const>\<open>None\<close>: all of them). The result is
  what it has put into its two channels.
\<close>

fun last_usage :: "usage option \<Rightarrow> stream_chunk list \<Rightarrow> usage option" where
  "last_usage u [] = u"
| "last_usage u (c # cs) = last_usage (case chunk_usage c of None \<Rightarrow> u | x \<Rightarrow> x) cs"

definition metrics_forward ::
    "int \<Rightarrow> nat option \<Rightarrow> stream_chunk list \<Rightarrow> goerr option \<Rightarrow>
     ('w, 'w metrics_model, stream_chunk list \<times> goerr list) op" where
  "metrics_forward start sent chunks err r0 m =
     (case sent of
        Some n \<Rightarrow> (Ok (take n chunks, []), r0, m)
      | None \<Rightarrow>
          (case err of
             Some e \<Rightarrow> (Ok (chunks, [e]), r0, m)
           | None \<Rightarrow>
               let (t, r) = read_clock m r0; (now, r) = read_clock m r in
               (case last_usage None chunks of
                  None \<Rightarrow> (Ok (chunks, []), r, m)
                | Some u \<Rightarrow> go_bind (meter now u (t - start)) (\<lambda>_. go_return (chunks, [])) r m)))"

definition metrics_Stream ::
    "nat option \<Rightarrow> chat_message list \<Rightarrow> model_option list \<Rightarrow>
     ('w, 'w metrics_model, stream_chunk list \<times> goerr list) op" where
  "metrics_Stream sent messages opts r0 m =
     (let (start, r) = read_clock m r0 in
      case cm_stream (mm_model m) r messages opts of
        (Inl e, r) \<Rightarrow> (Err e, r, m)
      | (Inr (chunks, err), r) \<Rightarrow> metrics_forward start sent chunks err r m)"

section \<open>Functions as models\<close>

definition WrapFunc ::
    "('w rt \<Rightarrow> chat_message list \<Rightarrow> model_option list \<Rightarrow> (goerr + chat_response option) \<times> 'w rt) \<Rightarrow> 'w chat_model" where
  "WrapFunc fn =
     \<lparr>cm_generate = fn, cm_stream = (\<lambda>r _ _. (Inl (ErrSentinel ErrStreamNotSupported), r))\<rparr>"

text \<open>
  A model behind HTTP. The two mappers are the user's; the client is the library's: it takes the URL,
  the headers in the order in which they are set, the body and the timeout, and answers with a transport error or with a status and a body.
\<close>

record http_config =
  hc_headers :: "(string \<times> string) list"
  hc_request_mapper :: "(chat_message list \<Rightarrow> call_options \<Rightarrow> goerr + string) option"
  hc_response_mapper :: "(string \<Rightarrow> goerr + chat_response option) option"
  hc_timeout :: int

type_synonym http_option = "http_config \<Rightarrow> http_config"

type_synonym 'w http_client =
  "string \<Rightarrow> (string \<times> string) list \<Rightarrow> string \<Rightarrow> int \<Rightarrow> 'w rt \<Rightarrow> (goerr + int \<times> string) \<times> 'w rt"

definition WithHTTPHeaders :: "(string \<times> string) list \<Rightarrow> http_option" where
  "WithHTTPHeaders h c = c\<lparr>hc_headers := fold (\<lambda>(k, v) hs. map_put k v hs) h (hc_headers c)\<rparr>"

definition WithRequestMapper :: "(chat_message list \<Rightarrow> call_options \<Rightarrow> goerr + string) option \<Rightarrow> http_option" where
  "WithRequestMapper fn c = c\<lparr>hc_request_mapper := fn\<rparr>"

definition WithResponseMapper :: "(string \<Rightarrow> goerr + chat_response option) option \<Rightarrow> http_option" where
  "WithResponseMapper fn c = c\<lparr>hc_response_mapper := fn\<rparr>"

definition WithHTTPTimeout :: "int \<Rightarrow> http_option" where
  "WithHTTPTimeout d c = c\<lparr>hc_timeout := d\<rparr>"

definition http_Generate ::
    "'w http_client \<Rightarrow> string \<Rightarrow> http_config \<Rightarrow> 'w rt \<Rightarrow> chat_message list \<Rightarrow> model_option list \<Rightarrow>
     (goerr + chat_response option) \<times> 'w rt" where
  "http_Generate client url c r messages opts =
     (case (hc_request_mapper c, hc_response_mapper c) of
        (None, _) \<Rightarrow> (Inl (ErrNew ''model: WithRequestMapper is required''), r)
      | (_, None) \<Rightarrow> (Inl (ErrNew ''model: WithResponseMapper is required''), r)
      | (Some request, Some response) \<Rightarrow>
          (case request messages (ApplyOptions opts) of
             Inl e \<Rightarrow> (Inl e, r)
           | Inr body \<Rightarrow>
               (case client url ((''Content-Type'', ''application/json'') # hc_headers c) body (max 0 (hc_timeout c)) r of
                  (Inl e, r) \<Rightarrow> (Inl e, r)
                | (Inr (status, text), r) \<Rightarrow>
                    if status < 200 \<or> status \<ge> 300
                    then (Inl (ErrNew (''model: unexpected status '' @ int_text status @ '': '' @ text)), r)
                    else (response text, r))))"

definition WrapHTTP :: "'w http_client \<Rightarrow> string \<Rightarrow> http_option list \<Rightarrow> 'w chat_model" where
  "WrapHTTP client url opts =
     (let c = fold (\<lambda>f c. f c) opts
        \<lparr>hc_headers = [], hc_request_mapper = None, hc_response_mapper = None, hc_timeout = 0\<rparr>
      in \<lparr>cm_generate = http_Generate client url c,
          cm_stream = (\<lambda>r _ _. (Inl (ErrSentinel ErrStreamNotSupported), r))\<rparr>)"

section \<open>Stream handlers\<close>

record 'w stream_handler =
  sh_on_chunk :: "stream_chunk \<Rightarrow> 'w rt \<Rightarrow> goerr option \<times> 'w rt"
  sh_on_complete :: "usage option \<Rightarrow> 'w rt \<Rightarrow> goerr option \<times> 'w rt"
  sh_on_error :: "goerr \<Rightarrow> 'w rt \<Rightarrow> goerr option \<times> 'w rt"

definition NopStreamHandler :: "'w stream_handler" where
  "NopStreamHandler =
     \<lparr>sh_on_chunk = (\<lambda>_ r. (None, r)), sh_on_complete = (\<lambda>_ r. (None, r)), sh_on_error = (\<lambda>_ r. (None, r))\<rparr>"

definition StreamHandlerFunc ::
    "(stream_chunk \<Rightarrow> 'w rt \<Rightarrow> goerr option \<times> 'w rt) option \<Rightarrow>
     (usage option \<Rightarrow> 'w rt \<Rightarrow> goerr option \<times> 'w rt) option \<Rightarrow>
     (goerr \<Rightarrow> 'w rt \<Rightarrow> goerr option \<times> 'w rt) option \<Rightarrow> 'w stream_handler" where
  "StreamHandlerFunc onChunk onComplete onError =
     \<lparr>sh_on_chunk = (case onChunk of Some f \<Rightarrow> f | None \<Rightarrow> (\<lambda>_ r. (None, r))),
      sh_on_complete = (case onComplete of Some f \<Rightarrow> f | None \<Rightarrow> (\<lambda>_ r. (None, r))),
      sh_on_error = (case onError of Some f \<Rightarrow> f | None \<Rightarrow> (\<lambda>_ r. (None, r)))\<rparr>"

section \<open>The counter is a queue\<close>

definition wc_good :: "window_counter \<Rightarrow> bool" where
  "wc_good s \<longleftrightarrow> wc_count s \<le> length (wc_calls s) \<and> length (wc_tokens s) = length (wc_calls s)"

definition wc_entries :: "window_counter \<Rightarrow> (int \<times> int) list" where
  "wc_entries s = ring (zip (wc_calls s) (wc_tokens s)) (wc_head s) (wc_count s)"

lemma wc_entries_zip:
  "wc_good s \<Longrightarrow> wc_entries s =
     zip (ring (wc_calls s) (wc_head s) (wc_count s)) (ring (wc_tokens s) (wc_head s) (wc_count s))"
  by (simp add: wc_entries_def wc_good_def ring_zip)

lemma expired_calls:
  assumes "wc_good s"
  shows "expired_from (wc_calls s) (wc_head s) c 0 (wc_count s) =
    length (takeWhile (\<lambda>x. fst x \<le> c) (wc_entries s))"
proof -
  have "map fst (wc_entries s) = ring (wc_calls s) (wc_head s) (wc_count s)"
    using wc_entries_zip [OF assms] by simp
  then have "expired_from (wc_calls s) (wc_head s) c 0 (wc_count s) =
      length (takeWhile (\<lambda>t. t \<le> c) (map fst (wc_entries s)))"
    by (simp add: expired_from_takeWhile)
  then show ?thesis by (simp add: takeWhile_map comp_def)
qed

lemma wc_expire_entries:
  assumes "wc_good s"
  shows "wc_entries (wc_expire c s) = dropWhile (\<lambda>x. fst x \<le> c) (wc_entries s)"
    "wc_good (wc_expire c s)" "wc_size (wc_expire c s) = wc_size s"
    "length (wc_calls (wc_expire c s)) = length (wc_calls s)"
proof -
  let ?k = "expired_from (wc_calls s) (wc_head s) c 0 (wc_count s)"
  have k: "?k \<le> wc_count s" by (rule expired_from_le)
  have len: "length (zip (wc_calls s) (wc_tokens s)) = length (wc_calls s)"
    using assms by (simp add: wc_good_def)
  show "wc_entries (wc_expire c s) = dropWhile (\<lambda>x. fst x \<le> c) (wc_entries s)"
  proof (cases "?k = 0")
    case True
    then show ?thesis
      using expired_calls [OF assms, of c] by (simp add: wc_expire_def dropWhile_drop)
  next
    case False
    have "ring (clear_from (zero_time, 0) (wc_head s) ?k (zip (wc_calls s) (wc_tokens s)))
        ((wc_head s + ?k) mod length (wc_calls s)) (wc_count s - ?k) = drop ?k (wc_entries s)"
      using ring_drop [OF k, of "zip (wc_calls s) (wc_tokens s)" "(zero_time, 0)" "wc_head s"] assms len
      by (simp add: wc_entries_def wc_good_def)
    then have "wc_entries (wc_expire c s) = drop ?k (wc_entries s)"
      using False assms by (simp add: wc_expire_def wc_entries_def Let_def clear_from_zip wc_good_def)
    then show ?thesis by (simp add: dropWhile_drop expired_calls [OF assms])
  qed
qed (use assms in \<open>auto simp: wc_expire_def wc_good_def Let_def\<close>)

lemma wc_push_entries:
  assumes "wc_good s" and "0 < length (wc_calls s)"
  shows "wc_entries (wc_push x s) =
      (if length (wc_entries s) < length (wc_calls s) then wc_entries s else tl (wc_entries s)) @ [x]"
    "wc_good (wc_push x s)" "wc_size (wc_push x s) = wc_size s"
    "length (wc_calls (wc_push x s)) = length (wc_calls s)"
proof -
  let ?z = "zip (wc_calls s) (wc_tokens s)"
  have len: "length ?z = length (wc_calls s)" using assms by (simp add: wc_good_def)
  have upd: "?z[i := x] = zip ((wc_calls s)[i := fst x]) ((wc_tokens s)[i := snd x])" for i
    by (metis prod.collapse zip_update)
  show "wc_entries (wc_push x s) =
      (if length (wc_entries s) < length (wc_calls s) then wc_entries s else tl (wc_entries s)) @ [x]"
  proof (cases "wc_count s < length (wc_calls s)")
    case True
    then show ?thesis
      using ring_push [of "wc_count s" ?z "wc_head s" x] len upd
      by (simp add: wc_push_def wc_entries_def Let_def)
  next
    case False
    then have "wc_count s = length (wc_calls s)" using assms by (simp add: wc_good_def)
    moreover have "0 < length ?z" using len assms(2) by simp
    ultimately show ?thesis
      using ring_push_full [of ?z "wc_head s" x] len upd False
      by (simp add: wc_push_def wc_entries_def Let_def)
  qed
qed (use assms in \<open>auto simp: wc_push_def wc_good_def Let_def\<close>)

lemma wc_entries_bound: "wc_good s \<Longrightarrow> length (wc_entries s) \<le> length (wc_calls s)"
  by (simp add: wc_entries_def wc_good_def)

interpretation wc: window_queue wc_entries fst wc_good "\<lambda>s. length (wc_calls s)" wc_expire wc_push
  by unfold_locales (auto simp: wc_expire_entries wc_push_entries wc_entries_bound)

section \<open>What the counter reports\<close>

fun feed :: "(int \<times> int) list \<Rightarrow> window_counter \<Rightarrow> window_counter option" where
  "feed [] c = Some c"
| "feed ((now, tokens) # xs) c = (case wc_Add now tokens c of None \<Rightarrow> None | Some c' \<Rightarrow> feed xs c')"

lemma feed_snoc: "feed (xs @ [x]) c = (case feed xs c of None \<Rightarrow> None | Some c' \<Rightarrow> wc_Add (fst x) (snd x) c')"
  by (induction xs c rule: feed.induct) (cases x, auto split: option.splits)

lemma feed_entries:
  assumes "wc_good c" and "wc_entries c = []" and "0 < length (wc_calls c)" and "0 < wc_size c"
    and "sorted (map fst xs)"
  shows "\<exists>c'. feed xs c = Some c' \<and> wc_good c' \<and> wc_size c' = wc_size c \<and>
    length (wc_calls c') = length (wc_calls c) \<and>
    wc_entries c' = dropWhile (\<lambda>x. fst x \<le> fst (last xs) - wc_size c) (latest (length (wc_calls c)) xs)"
  using assms(5)
proof (induction xs rule: rev_induct)
  case Nil
  with assms show ?case by (simp add: latest_def)
next
  case (snoc x xs)
  then obtain c1 where c1: "feed xs c = Some c1" "wc_good c1" "wc_size c1 = wc_size c"
      "length (wc_calls c1) = length (wc_calls c)"
    and e1: "wc_entries c1 = dropWhile (\<lambda>x. fst x \<le> fst (last xs) - wc_size c) (latest (length (wc_calls c)) xs)"
    by (auto simp: sorted_append)
  have "\<exists>old. wc_entries c1 = dropWhile (\<lambda>x. fst x \<le> old) (latest (length (wc_calls c1)) xs) \<and>
      old \<le> fst x - wc_size c"
  proof (cases "xs = []")
    case True
    with e1 show ?thesis by (auto simp: latest_def)
  next
    case False
    then have "fst (last xs) \<le> fst x" using snoc.prems by (auto simp: sorted_append)
    with e1 c1(4) show ?thesis by auto
  qed
  then obtain old where old: "wc_entries c1 = dropWhile (\<lambda>x. fst x \<le> old) (latest (length (wc_calls c1)) xs)"
    "old \<le> fst x - wc_size c" by blast
  let ?c2 = "wc_push x (wc_expire (fst x - wc_size c) c1)"
  note good = wc_expire_entries [OF c1(2), of "fst x - wc_size c"]
  have "wc_entries ?c2 = dropWhile (\<lambda>y. fst y \<le> fst x - wc_size c) (latest (length (wc_calls c1)) (xs @ [x]))"
    using wc.push_latest [OF c1(2) _ old(1) snoc.prems old(2) assms(4)] assms(3) c1(4) by simp
  moreover have "0 < length (wc_calls (wc_expire (fst x - wc_size c) c1))" using good(4) c1(4) assms(3) by simp
  moreover have "feed (xs @ [x]) c = Some ?c2"
    using c1 good(4) assms(3) by (auto simp: feed_snoc wc_Add_def wc_cleanup_def Let_def)
  ultimately show ?case
    using wc_push_entries [OF good(2), of x] good c1 by simp
qed

lemma dropWhile_sorted_filter:
  fixes c :: int
  assumes "sorted (map f xs)"
  shows "dropWhile (\<lambda>x. f x \<le> c) xs = filter (\<lambda>x. c < f x) xs"
  using assms
proof (induction xs)
  case (Cons x xs)
  show ?case
  proof (cases "f x \<le> c")
    case False
    then have "filter (\<lambda>x. c < f x) xs = xs" using Cons.prems by (intro filter_True) force
    with False show ?thesis by simp
  qed (use Cons in auto)
qed simp

text \<open>
  C29. The counter reports what it was told. After any calls in the order of time, \<open>RPM\<close> and \<open>TPM\<close>
  are the number of calls and of tokens per minute over exactly the calls of the last \<open>maxSamples\<close>
  whose age is below the window.
\<close>

theorem counter_reports_window:
  assumes "NewSlidingWindowCounter width samples = Some c" and "0 < width" and "0 < samples"
    and "sorted (map fst calls)" and "calls \<noteq> [] \<Longrightarrow> fst (last calls) \<le> now"
  shows "\<exists>c'. feed calls c = Some c' \<and>
    (let recent = filter (\<lambda>x. now - width < fst x) (latest (nat samples) calls) in
      fst (RPM now c') = of_nat (length recent) / seconds width * 60 \<and>
      fst (TPM now c') = of_int (sum_list (map snd recent)) / seconds width * 60)"
proof -
  have c: "wc_good c" "wc_entries c = []" "0 < length (wc_calls c)" "0 < wc_size c"
      "wc_size c = width" "length (wc_calls c) = nat samples"
    using assms(1-3) by (auto simp: NewSlidingWindowCounter_def wc_good_def wc_entries_def ring_def split: if_splits)
  obtain c' where fed: "feed calls c = Some c'" "wc_good c'" "wc_size c' = width"
    and e: "wc_entries c' = dropWhile (\<lambda>x. fst x \<le> fst (last calls) - width) (latest (nat samples) calls)"
    using feed_entries [OF c(1-4) assms(4)] c(5,6) by auto
  let ?s = "wc_cleanup now c'"
  let ?recent = "filter (\<lambda>x. now - width < fst x) (latest (nat samples) calls)"
  note good = wc_expire_entries [OF fed(2), of "now - width"]
  have "sorted (map fst (latest (nat samples) calls))"
    using assms(4) by (simp add: latest_def drop_map [symmetric] sorted_wrt_drop)
  then have "dropWhile (\<lambda>x. fst x \<le> now - width) (latest (nat samples) calls) = ?recent"
    by (rule dropWhile_sorted_filter)
  moreover have "wc_entries ?s = dropWhile (\<lambda>x. fst x \<le> now - width) (latest (nat samples) calls)"
    using good(1) e assms(5) fed(3)
    by (cases "calls = []") (simp_all add: wc_cleanup_def latest_def dropWhile_twice)
  ultimately have "wc_entries ?s = ?recent" by simp
  moreover have "wc_good ?s" "wc_size ?s = width" using good fed(3) by (simp_all add: wc_cleanup_def)
  moreover have "length (wc_entries ?s) = wc_count ?s" by (simp add: wc_entries_def)
  moreover have "map snd (wc_entries ?s) = ring (wc_tokens ?s) (wc_head ?s) (wc_count ?s)"
    using wc_entries_zip [OF \<open>wc_good ?s\<close>] by simp
  ultimately have "wc_count ?s = length ?recent" "ring (wc_tokens ?s) (wc_head ?s) (wc_count ?s) = map snd ?recent"
    by simp_all
  moreover have "0 < seconds width" using assms(2) by (simp add: seconds_def)
  ultimately show ?thesis
    using fed \<open>wc_size ?s = width\<close> by (simp add: RPM_def TPM_def Let_def)
qed

lemma counter_reports_window_witness:
  "\<exists>c'. feed [(0, 5), (10000000000, 7), (70000000000, 1)] (the (NewSlidingWindowCounter 60000000000 2)) = Some c' \<and>
     fst (RPM 70000000000 c') = 1 \<and> fst (TPM 70000000000 c') = 1"
proof -
  have new: "NewSlidingWindowCounter 60000000000 2 = Some (the (NewSlidingWindowCounter 60000000000 2))"
    by (simp add: NewSlidingWindowCounter_def)
  show ?thesis
    using counter_reports_window [OF new, of "[(0, 5), (10000000000, 7), (70000000000, 1)]" 70000000000]
    by (simp add: latest_def seconds_def Let_def numeral_eq_Suc)
qed

end
