(* ===== verification/Retry.thy ===== *)
theory Retry
  imports Complex_Main GoRuntime
begin

text \<open>
  \<open>model/retry.go\<close>: retrying with exponential backoff. \<open>float64\<close> is modelled by exact rationals; the
  clock, from which the jitter is taken, is a parameter. The wait between two attempts ends when the
  timer fires or when the context is done: which of the two is the answer of one poll.
\<close>

section \<open>Errors that may be retried\<close>

definition http_retryable :: "int \<Rightarrow> bool" where
  "http_retryable code \<longleftrightarrow> code = 429 \<or> (code \<ge> 500 \<and> code < 600)"

definition http_retry_after :: "int \<Rightarrow> int" where
  "http_retry_after code = (if code = 429 then 1000000000 else 0)"

text \<open>\<open>errors.As\<close> to the interface \<open>RetryableError\<close>, and its answer.\<close>

fun as_retryable :: "goerr \<Rightarrow> bool option" where
  "as_retryable (ErrHTTPStatus code msg) = Some (http_retryable code)"
| "as_retryable (ErrDefaultRetryable t retryable d) = Some retryable"
| "as_retryable (ErrWrapf p e s) = as_retryable e"
| "as_retryable _ = None"

text \<open>\<open>errors.As\<close> to \<open>*HTTPStatusError\<close>, and its status code.\<close>

fun as_http_status :: "goerr \<Rightarrow> int option" where
  "as_http_status (ErrHTTPStatus code msg) = Some code"
| "as_http_status (ErrWrapf p e s) = as_http_status e"
| "as_http_status _ = None"

definition isRetryable :: "goerr option \<Rightarrow> bool" where
  "isRetryable err =
     (case err of
        None \<Rightarrow> False
      | Some e \<Rightarrow>
          (case as_retryable e of
             Some b \<Rightarrow> b
           | None \<Rightarrow>
               if as_http_status e = Some 429 then True
               else if err_is e ErrCanceled \<or> err_is e ErrDeadlineExceeded then False
               else True))"

definition IsRateLimitError :: "goerr \<Rightarrow> bool" where
  "IsRateLimitError e = (case as_http_status e of Some code \<Rightarrow> code = 429 | None \<Rightarrow> False)"

section \<open>Configuration\<close>

record backoff =
  bo_base :: int
  bo_max_delay :: int
  bo_max_retries :: int
  bo_multiplier :: rat
  bo_jitter :: bool

type_synonym backoff_option = "backoff \<Rightarrow> backoff"

definition DefaultExponentialBackoff :: backoff where
  "DefaultExponentialBackoff =
     \<lparr>bo_base = 1000000000, bo_max_delay = 60 * 1000000000, bo_max_retries = 3, bo_multiplier = 2,
      bo_jitter = True\<rparr>"

definition WithBaseDelay :: "int \<Rightarrow> backoff_option" where
  "WithBaseDelay d e = e\<lparr>bo_base := d\<rparr>"

definition WithMaxDelay :: "int \<Rightarrow> backoff_option" where
  "WithMaxDelay d e = e\<lparr>bo_max_delay := d\<rparr>"

definition WithMaxRetries :: "int \<Rightarrow> backoff_option" where
  "WithMaxRetries n e = e\<lparr>bo_max_retries := n\<rparr>"

definition WithMultiplier :: "rat \<Rightarrow> backoff_option" where
  "WithMultiplier m e = e\<lparr>bo_multiplier := m\<rparr>"

definition WithJitter :: "bool \<Rightarrow> backoff_option" where
  "WithJitter j e = e\<lparr>bo_jitter := j\<rparr>"

text \<open>The conversion of a floating-point number to an integer drops its fraction.\<close>

definition truncate_rat :: "rat \<Rightarrow> int" where
  "truncate_rat x = (if 0 \<le> x then \<lfloor>x\<rfloor> else \<lceil>x\<rceil>)"

definition nextDelay :: "backoff \<Rightarrow> ('w \<Rightarrow> int \<times> 'w) \<Rightarrow> int \<Rightarrow> 'w rt \<Rightarrow> int \<times> 'w rt" where
  "nextDelay e clock currentDelay r =
     (let delay = truncate_rat (of_int currentDelay * bo_multiplier e);
          delay = (if delay > bo_max_delay e then bo_max_delay e else delay)
      in if bo_jitter e then
           (case clock (rt_world r) of (now, w) \<Rightarrow>
             (delay + truncate_rat (of_int delay * (1 / 4) * (of_int (now mod 100) / 100)), r\<lparr>rt_world := w\<rparr>))
         else (delay, r))"

section \<open>The loops\<close>

text \<open>What a run of the loop did: the errors of the calls it made and the delays it waited.\<close>

record retry_log =
  log_errors :: "goerr list"
  log_waits :: "int list"

definition exhausted :: "goerr option \<Rightarrow> goerr" where
  "exhausted lastErr =
     ErrWrapf [] (ErrSentinel ErrMaxRetriesExceeded)
       ('': '' @ (case lastErr of None \<Rightarrow> ''<nil>'' | Some e \<Rightarrow> err_text e))"

text \<open>\<open>n\<close> attempts are left; \<open>again\<close> holds from the second one on.\<close>

fun retry_loop ::
    "backoff \<Rightarrow> ('w \<Rightarrow> int \<times> 'w) \<Rightarrow> ('w rt \<Rightarrow> goerr option \<times> 'w rt) \<Rightarrow> nat \<Rightarrow> bool \<Rightarrow> int \<Rightarrow>
     goerr option \<Rightarrow> retry_log \<Rightarrow> 'w rt \<Rightarrow> goerr option \<times> retry_log \<times> 'w rt" where
  "retry_loop e clock fn 0 again delay lastErr l r = (Some (exhausted lastErr), l, r)"
| "retry_loop e clock fn (Suc n) again delay lastErr l r =
     (case (if again then poll r else (None, r)) of
        (Some err, r) \<Rightarrow> (Some err, l, r)
      | (None, r) \<Rightarrow>
          let l = (if again then l\<lparr>log_waits := log_waits l @ [delay]\<rparr> else l) in
          (case fn r of
             (None, r) \<Rightarrow> (None, l, r)
           | (Some err, r) \<Rightarrow>
               let l = l\<lparr>log_errors := log_errors l @ [err]\<rparr> in
               if \<not> isRetryable (Some err) then (Some err, l, r)
               else (case nextDelay e clock delay r of (delay', r) \<Rightarrow>
                 retry_loop e clock fn n True delay' (Some err) l r)))"

definition Do ::
    "backoff \<Rightarrow> ('w \<Rightarrow> int \<times> 'w) \<Rightarrow> ('w rt \<Rightarrow> goerr option \<times> 'w rt) \<Rightarrow> 'w rt \<Rightarrow>
     goerr option \<times> retry_log \<times> 'w rt" where
  "Do e clock fn r =
     retry_loop e clock fn (nat (bo_max_retries e + 1)) False (bo_base e) None
       \<lparr>log_errors = [], log_waits = []\<rparr> r"

text \<open>\<open>RetryWithBackoff\<close> is given no function to retry: an attempt is a look at the context.\<close>

fun backoff_loop ::
    "backoff \<Rightarrow> ('w \<Rightarrow> int \<times> 'w) \<Rightarrow> nat \<Rightarrow> bool \<Rightarrow> int \<Rightarrow> 'w rt \<Rightarrow> goerr option \<times> 'w rt" where
  "backoff_loop e clock 0 again delay r = (Some (exhausted None), r)"
| "backoff_loop e clock (Suc n) again delay r =
     (case (if again then poll r else (None, r)) of
        (Some err, r) \<Rightarrow> (Some err, r)
      | (None, r) \<Rightarrow>
          (case poll r of
             (Some err, r) \<Rightarrow> (Some err, r)
           | (None, r) \<Rightarrow> (case nextDelay e clock delay r of (delay', r) \<Rightarrow> backoff_loop e clock n True delay' r)))"

definition RetryWithBackoff :: "backoff_option list \<Rightarrow> ('w \<Rightarrow> int \<times> 'w) \<Rightarrow> 'w rt \<Rightarrow> goerr option \<times> 'w rt" where
  "RetryWithBackoff opts clock r =
     (let e = fold (\<lambda>f e. f e) opts DefaultExponentialBackoff
      in backoff_loop e clock (nat (bo_max_retries e + 1)) False (bo_base e) r)"

section \<open>What retrying does\<close>

lemma truncate_rat_le: "x \<le> of_int n \<Longrightarrow> truncate_rat x \<le> n"
  by (auto simp: truncate_rat_def floor_le_iff ceiling_le_iff)

lemma truncate_rat_nonneg: "0 \<le> x \<Longrightarrow> 0 \<le> truncate_rat x"
  by (simp add: truncate_rat_def)

lemma jitter_le:
  fixes j :: rat
  assumes "0 \<le> j" and "j \<le> 1"
  shows "4 * truncate_rat (of_int c * (1 / 4) * j) \<le> max 0 c"
proof (cases "0 \<le> c")
  case True
  have "of_int c * (1 / 4) * j \<le> of_int c * (1 / 4) * 1"
    by (rule mult_left_mono) (use assms True in auto)
  moreover have "0 \<le> of_int c * (1 / 4) * j" using assms True by simp
  ultimately have "of_int (truncate_rat (of_int c * (1 / 4) * j)) \<le> (of_int c * (1 / 4) :: rat)"
    unfolding truncate_rat_def by (simp only: if_True mult_1_right) (meson of_int_floor_le order_trans)
  then have "(of_int (4 * truncate_rat (of_int c * (1 / 4) * j)) :: rat) \<le> of_int c" by simp
  then show ?thesis unfolding of_int_le_iff by simp
next
  case False
  then have "of_int c * (1 / 4) * j \<le> of_int 0" using assms(1) by (simp add: mult_nonpos_nonneg)
  then have "truncate_rat (of_int c * (1 / 4) * j) \<le> 0" by (rule truncate_rat_le)
  then show ?thesis by simp
qed

text \<open>The jitter is at most a quarter of the delay, which may pass the maximum by that much.\<close>

lemma nextDelay_le:
  assumes "0 \<le> bo_max_delay e"
  shows "4 * fst (nextDelay e clock d r) \<le> 5 * bo_max_delay e"
proof -
  let ?d = "truncate_rat (of_int d * bo_multiplier e)"
  define c where "c = (if ?d > bo_max_delay e then bo_max_delay e else ?d)"
  have c: "c \<le> bo_max_delay e" by (simp add: c_def)
  have j: "4 * truncate_rat (of_int c * (1 / 4) * (of_int (now mod 100) / 100)) \<le> max 0 c" for now :: int
    by (rule jitter_le) auto
  have "4 * (c + t) \<le> 5 * bo_max_delay e" if "4 * t \<le> max 0 c" for t
    using that c assms by (cases "0 \<le> c") auto
  from this [OF j] have "4 * (c + truncate_rat (of_int c * (1 / 4) * (of_int (now mod 100) / 100))) \<le> 5 * bo_max_delay e"
    for now :: int .
  with c assms show ?thesis
    by (simp add: nextDelay_def Let_def c_def [symmetric] split: prod.split)
qed

text \<open>How a run of the loop may end, given the errors of the calls it made.\<close>

definition retry_outcome :: "nat \<Rightarrow> goerr option \<Rightarrow> goerr list \<Rightarrow> goerr option \<Rightarrow> bool" where
  "retry_outcome n lastErr es res \<longleftrightarrow>
     (case res of
        None \<Rightarrow> length es < n \<and> (\<forall>e \<in> set es. isRetryable (Some e))
      | Some err \<Rightarrow>
          (\<exists>es'. es = es' @ [err] \<and> \<not> isRetryable (Some err) \<and> (\<forall>e \<in> set es'. isRetryable (Some e))) \<or>
          (length es = n \<and> (\<forall>e \<in> set es. isRetryable (Some e)) \<and>
             err = exhausted (if es = [] then lastErr else Some (last es))) \<or>
          ((\<forall>e \<in> set es. isRetryable (Some e)) \<and> (\<exists>r r'. poll (r :: unit rt) = (Some err, r'))))"

lemma poll_unit: "poll r = (Some err, r') \<Longrightarrow> \<exists>r r'. poll (r :: unit rt) = (Some err, r')"
  by (intro exI [of _ "\<lparr>rt_ctx = rt_ctx r, rt_world = ()\<rparr>"]
      exI [of _ "\<lparr>rt_ctx = snd (ctx_poll (rt_ctx r)), rt_world = ()\<rparr>"]) (auto simp: poll_def split: prod.splits)

lemma retry_outcome_Cons:
  assumes "retry_outcome n (Some e) es res" and "isRetryable (Some e)"
  shows "retry_outcome (Suc n) lastErr (e # es) res"
proof (cases res)
  case None
  with assms show ?thesis by (simp add: retry_outcome_def)
next
  case (Some err)
  from assms(1) Some consider
      (final) es' where "es = es' @ [err]" "\<not> isRetryable (Some err)" "\<forall>e \<in> set es'. isRetryable (Some e)"
    | (out) "length es = n" "\<forall>e \<in> set es. isRetryable (Some e)" "err = exhausted (if es = [] then Some e else Some (last es))"
    | (done_) "\<forall>e \<in> set es. isRetryable (Some e)" "\<exists>r r'. poll (r :: unit rt) = (Some err, r')"
    unfolding retry_outcome_def by auto
  then show ?thesis
  proof cases
    case final
    then have "e # es = (e # es') @ [err]" "\<forall>x \<in> set (e # es'). isRetryable (Some x)" using assms(2) by auto
    with final(2) show ?thesis unfolding retry_outcome_def Some option.case by (intro disjI1) blast
  next
    case out
    with assms(2) Some show ?thesis by (simp add: retry_outcome_def)
  next
    case done_
    with assms(2) Some show ?thesis by (simp add: retry_outcome_def)
  qed
qed

lemma retry_loop_spec:
  assumes "0 \<le> bo_max_delay e" and "again \<Longrightarrow> 4 * delay \<le> 5 * bo_max_delay e"
    and "retry_loop e clock fn n again delay lastErr l r = (res, l', r')"
  shows "\<exists>es ws. log_errors l' = log_errors l @ es \<and> log_waits l' = log_waits l @ ws \<and>
    retry_outcome n lastErr es res \<and> length es \<le> n \<and> length ws \<le> n \<and>
    (\<forall>d \<in> set ws. 4 * d \<le> 5 * bo_max_delay e)"
  using assms(2,3)
proof (induction n arbitrary: again delay lastErr l r)
  case 0
  then show ?case by (auto simp: retry_outcome_def)
next
  case (Suc n)
  obtain stop r1 where poll: "(if again then poll r else (None, r)) = (stop, r1)" by fastforce
  let ?l = "if again then l\<lparr>log_waits := log_waits l @ [delay]\<rparr> else l"
  let ?w = "if again then [delay] else []"
  show ?case
  proof (cases stop)
    case (Some err)
    with Suc.prems(2) poll have "res = Some err" "l' = l" by auto
    moreover have "\<exists>r r'. poll (r :: unit rt) = (Some err, r')"
      using poll Some by (cases again) (auto dest: poll_unit)
    ultimately show ?thesis by (auto simp: retry_outcome_def)
  next
    case None
    obtain res1 r2 where fn: "fn r1 = (res1, r2)" by fastforce
    show ?thesis
    proof (cases res1)
      case None
      with Suc.prems poll \<open>stop = None\<close> fn have "res = None" "l' = ?l" by auto
      then show ?thesis using Suc.prems(1) by (auto simp: retry_outcome_def)
    next
      case (Some err)
      let ?l1 = "?l\<lparr>log_errors := log_errors l @ [err]\<rparr>"
      show ?thesis
      proof (cases "isRetryable (Some err)")
        case False
        with Suc.prems poll None Some fn have "res = Some err" "l' = ?l1" by (auto split: if_splits)
        then show ?thesis using Suc.prems(1) False
          by (intro exI [of _ "[err]"] exI [of _ ?w]) (auto simp: retry_outcome_def)
      next
        case True
        obtain d' r3 where d: "nextDelay e clock delay r2 = (d', r3)" by fastforce
        have "retry_loop e clock fn n True d' (Some err) ?l1 r3 = (res, l', r')"
          using Suc.prems poll None Some fn True d by (auto split: if_splits)
        from Suc.IH [OF _ this] nextDelay_le [OF assms(1), of clock delay r2] d
        obtain es ws where "log_errors l' = log_errors ?l1 @ es" "log_waits l' = log_waits ?l1 @ ws"
          and o: "retry_outcome n (Some err) es res" "length es \<le> n" "length ws \<le> n"
          "\<forall>d \<in> set ws. 4 * d \<le> 5 * bo_max_delay e" by auto
        then have "log_errors l' = log_errors l @ (err # es)" "log_waits l' = log_waits l @ (?w @ ws)" by auto
        moreover have "retry_outcome (Suc n) lastErr (err # es) res"
          using o(1) True by (rule retry_outcome_Cons)
        moreover have "length (?w @ ws) \<le> Suc n" "\<forall>d \<in> set (?w @ ws). 4 * d \<le> 5 * bo_max_delay e"
          using o Suc.prems(1) by auto
        ultimately show ?thesis using o(2) by (intro exI conjI) auto
      qed
    qed
  qed
qed

lemma backoff_loop_fails: "fst (backoff_loop e clock n again delay r) \<noteq> None"
  by (induction n arbitrary: again delay r) (auto split: prod.splits option.splits)

text \<open>
  C30. \<open>Do\<close> calls the function at most \<open>MaxRetries + 1\<close> times and goes on only after errors that may be
  retried: it ends with success, with the first error that may not, with the context's error, or
  with the last error wrapped when all attempts are used up. No delay passes the configured maximum by
  more than a quarter. \<open>RetryWithBackoff\<close>, which takes no function, can only fail, even when nothing
  is wrong.
\<close>

theorem retry_correct:
  assumes "0 \<le> bo_max_delay e" and "Do e clock fn r = (res, l, r')"
  shows "retry_outcome (nat (bo_max_retries e + 1)) None (log_errors l) res \<and>
    length (log_errors l) \<le> nat (bo_max_retries e + 1) \<and>
    (\<forall>d \<in> set (log_waits l). 4 * d \<le> 5 * bo_max_delay e) \<and>
    fst (RetryWithBackoff opts clock r) \<noteq> None"
  using retry_loop_spec [OF assms(1) _ assms(2) [unfolded Do_def]] backoff_loop_fails
  by (auto simp: RetryWithBackoff_def Let_def)

definition failing_twice :: "nat rt \<Rightarrow> goerr option \<times> nat rt" where
  "failing_twice r =
     (if rt_world r < 2 then (Some (ErrHTTPStatus 429 ''slow down''), r\<lparr>rt_world := Suc (rt_world r)\<rparr>)
      else (None, r))"

lemma retry_correct_witness:
  "\<exists>l r'. Do DefaultExponentialBackoff (\<lambda>w. (0, w)) failing_twice \<lparr>rt_ctx = Background, rt_world = 0\<rparr> =
     (None, l, r') \<and> log_waits l = [2000000000, 4000000000] \<and>
     retry_outcome 4 None (log_errors l) None \<and>
     fst (RetryWithBackoff [] (\<lambda>w. (0, w)) \<lparr>rt_ctx = Background, rt_world = 0 :: nat\<rparr>) \<noteq> None"
proof -
  let ?r = "\<lparr>rt_ctx = Background, rt_world = 0\<rparr> :: nat rt"
  have "\<exists>l r'. Do DefaultExponentialBackoff (\<lambda>w. (0, w)) failing_twice ?r = (None, l, r') \<and>
      log_waits l = [2000000000, 4000000000]"
    by (simp add: Do_def DefaultExponentialBackoff_def failing_twice_def isRetryable_def http_retryable_def
        nextDelay_def truncate_rat_def poll_def Let_def eval_nat_numeral)
  then obtain l r' where run: "Do DefaultExponentialBackoff (\<lambda>w. (0, w)) failing_twice ?r = (None, l, r')"
    and w: "log_waits l = [2000000000, 4000000000]" by blast
  have "0 \<le> bo_max_delay DefaultExponentialBackoff" "nat (bo_max_retries DefaultExponentialBackoff + 1) = 4"
    by (simp_all add: DefaultExponentialBackoff_def)
  with retry_correct [OF _ run, of "[]"] run w show ?thesis by auto
qed

end
