(* ===== verification/Anthropic.thy ===== *)
theory Anthropic
  imports Wire
begin

text \<open>
  \<open>model/provider/anthropic/anthropic.go\<close>: a chat model behind the messages interface. The contents of
  a message are a text or a list of blocks; blocks are Go maps, so their members are printed in the
  order of their keys. The decoder's error values are one error.
\<close>

section \<open>Clients\<close>

record 'w anthropic_client =
  an_model_name :: string
  an_api_key :: string
  an_base_url :: string
  an_api_version :: string
  an_http :: "'w http_api"

type_synonym 'w anthropic_option = "'w anthropic_client \<Rightarrow> 'w anthropic_client"

definition an_WithBaseURL :: "string \<Rightarrow> 'w anthropic_option" where
  "an_WithBaseURL url c = c\<lparr>an_base_url := trim_slashes (trim_space url)\<rparr>"

definition an_WithAPIVersion :: "string \<Rightarrow> 'w anthropic_option" where
  "an_WithAPIVersion v c = (if trim_space v \<noteq> [] then c\<lparr>an_api_version := trim_space v\<rparr> else c)"

definition an_WithHTTPClient :: "'w http_api option \<Rightarrow> 'w anthropic_option" where
  "an_WithHTTPClient h c = (case h of None \<Rightarrow> c | Some x \<Rightarrow> c\<lparr>an_http := x\<rparr>)"

definition anthropic_New ::
    "(int \<Rightarrow> 'w http_api) \<Rightarrow> string \<Rightarrow> string \<Rightarrow> 'w anthropic_option list \<Rightarrow> 'w anthropic_client" where
  "anthropic_New new_http modelName apiKey opts =
     fold (\<lambda>f c. f c) opts
       \<lparr>an_model_name = modelName, an_api_key = apiKey, an_base_url = ''https://api.anthropic.com/v1'',
        an_api_version = ''2023-06-01'', an_http = new_http (60 * 1000000000)\<rparr>"

definition messagesURL :: "'w anthropic_client \<Rightarrow> string" where
  "messagesURL c = trim_slash (an_base_url c) @ ''/messages''"

definition anthropic_headers :: "'w anthropic_client \<Rightarrow> bool \<Rightarrow> (string \<times> string) list" where
  "anthropic_headers c stream =
     [(''Content-Type'', ''application/json''), (''anthropic-version'', an_api_version c)] @
     (if an_api_key c \<noteq> [] then [(''x-api-key'', an_api_key c)] else []) @
     (if stream then [(''Accept'', ''text/event-stream''), (''Cache-Control'', ''no-cache'')] else [])"

section \<open>Requests\<close>

datatype content_block_req =
    TextBlock string
  | ToolUse string string params
  | ToolResult string string

datatype anthropic_content = ContentText string | ContentBlocks "content_block_req list"

type_synonym anthropic_msg = "string \<times> anthropic_content"

definition assistantContent :: "chat_message \<Rightarrow> anthropic_content" where
  "assistantContent m =
     (if msg_tool_calls m = [] then ContentText (msg_content m)
      else ContentBlocks
        ((if trim_space (msg_content m) \<noteq> [] then [TextBlock (msg_content m)] else []) @
         map (\<lambda>tc. ToolUse (tc_id tc) (tc_name tc) (tc_arguments tc)) (msg_tool_calls m)))"

definition is_tool_message :: "chat_message \<Rightarrow> bool" where
  "is_tool_message m \<longleftrightarrow> msg_role m = RoleTool"

text \<open>Tool messages in a row become one message of the user.\<close>

function anthropic_msgs :: "chat_message list \<Rightarrow> goerr + anthropic_msg list" where
  "anthropic_msgs [] = Inr []"
| "anthropic_msgs (m # ms) =
     (if msg_role m = RoleSystem then anthropic_msgs ms
      else if is_tool_message m then
        (let run = m # takeWhile is_tool_message ms in
         if \<exists>t \<in> set run. msg_tool_call_id t = []
         then Inl (ErrNew ''anthropic: tool message missing tool_call_id'')
         else case anthropic_msgs (dropWhile is_tool_message ms) of
             Inl e \<Rightarrow> Inl e
           | Inr rest \<Rightarrow>
               Inr ((''user'', ContentBlocks (map (\<lambda>t. ToolResult (msg_tool_call_id t) (msg_content t)) run)) # rest))
      else if msg_role m = RoleUser then
        (case anthropic_msgs ms of
           Inl e \<Rightarrow> Inl e
         | Inr rest \<Rightarrow> Inr ((''user'', ContentText (msg_content m)) # rest))
      else if msg_role m = RoleAssistant then
        (case anthropic_msgs ms of
           Inl e \<Rightarrow> Inl e
         | Inr rest \<Rightarrow> Inr ((''assistant'', assistantContent m) # rest))
      else Inl (ErrNew (''anthropic: unsupported role '' @ go_quote (msg_role m))))"
  by pat_completeness auto
termination
  by (relation "measure length") (auto simp: le_imp_less_Suc length_dropWhile_le)

definition anthropic_system :: "chat_message list \<Rightarrow> string" where
  "anthropic_system messages =
     join (newline @ newline) (map msg_content (filter (\<lambda>m. msg_role m = RoleSystem) messages))"

definition modelMessagesToAnthropic :: "chat_message list \<Rightarrow> goerr + string \<times> anthropic_msg list" where
  "modelMessagesToAnthropic messages =
     (case anthropic_msgs messages of
        Inl e \<Rightarrow> Inl e
      | Inr msgs \<Rightarrow> Inr (anthropic_system messages, msgs))"

fun block_text :: "content_block_req \<Rightarrow> string" where
  "block_text (TextBlock t) =
     json_obj [(''text'', Some (json_string t)), (''type'', Some (json_string ''text''))]"
| "block_text (ToolUse i n args) =
     json_obj [(''id'', Some (json_string i)), (''input'', Some (marshal_params args)),
       (''name'', Some (json_string n)), (''type'', Some (json_string ''tool_use''))]"
| "block_text (ToolResult i c) =
     json_obj [(''content'', Some (json_string c)), (''tool_use_id'', Some (json_string i)),
       (''type'', Some (json_string ''tool_result''))]"

fun content_text :: "anthropic_content \<Rightarrow> string" where
  "content_text (ContentText t) = json_string t"
| "content_text (ContentBlocks bs) = json_arr (map block_text bs)"

definition anthropic_msg_text :: "anthropic_msg \<Rightarrow> string" where
  "anthropic_msg_text m =
     json_obj [(''role'', Some (json_string (fst m))), (''content'', Some (content_text (snd m)))]"

text \<open>Only an absent schema is replaced, not a nil pointer to one.\<close>

definition toolDefsToAnthropic :: "tool_def list \<Rightarrow> string list" where
  "toolDefsToAnthropic tools =
     map (\<lambda>t. json_obj
       [(''name'', Some (json_string (td_name t))), (''description'', omit_empty (td_description t)),
        (''input_schema'', Some (case td_parameters t of
           SchemaNil \<Rightarrow> json_obj [(''properties'', Some ''{}''), (''type'', Some (json_string ''object''))]
         | s \<Rightarrow> any_schema_text s))]) tools"

text \<open>A nil slice of messages prints as \<open>null\<close>.\<close>

definition buildMessagesRequest :: "string \<Rightarrow> chat_message list \<Rightarrow> call_options \<Rightarrow> bool \<Rightarrow> goerr + string" where
  "buildMessagesRequest modelName messages call stream =
     (case modelMessagesToAnthropic messages of
        Inl e \<Rightarrow> Inl e
      | Inr (system, msgs) \<Rightarrow>
          Inr (json_obj
            [(''model'', Some (json_string modelName)),
             (''max_tokens'', Some (int_text (case opt_max_tokens call of None \<Rightarrow> 4096 | Some n \<Rightarrow> n))),
             (''system'', omit_empty system),
             (''messages'', Some (if msgs = [] then ''null'' else json_arr (map anthropic_msg_text msgs))),
             (''tools'', omit_nil (toolDefsToAnthropic (opt_tools call))),
             (''stream'', omit_false stream),
             (''temperature'', opt_temperature call), (''top_p'', opt_top_p call),
             (''stop_sequences'', omit_nil (map json_string (opt_stop_words call)))]))"

section \<open>Answers\<close>

record anthropic_usage =
  au_input :: int
  au_output :: int

definition au_field :: "string \<Rightarrow> gval \<Rightarrow> anthropic_usage \<Rightarrow> anthropic_usage option" where
  "au_field k v u =
     (if field_is ''input_tokens'' k then decode_int (\<lambda>i u. u\<lparr>au_input := i\<rparr>) v u
      else if field_is ''output_tokens'' k then decode_int (\<lambda>i u. u\<lparr>au_output := i\<rparr>) v u
      else Some u)"

definition zero_au :: anthropic_usage where
  "zero_au = \<lparr>au_input = 0, au_output = 0\<rparr>"

definition anthropic_model_usage :: "anthropic_usage \<Rightarrow> usage" where
  "anthropic_model_usage u =
     \<lparr>prompt_tokens = au_input u, completion_tokens = au_output u, total_tokens = au_input u + au_output u\<rparr>"

text \<open>\<open>cb_input\<close> is the raw message; a field that is not there is \<^const>\<open>None\<close>.\<close>

record content_block =
  cb_type :: string
  cb_text :: string
  cb_id :: string
  cb_name :: string
  cb_input :: "gval option"

definition zero_block :: content_block where
  "zero_block = \<lparr>cb_type = [], cb_text = [], cb_id = [], cb_name = [], cb_input = None\<rparr>"

definition block_field :: "string \<Rightarrow> gval \<Rightarrow> content_block \<Rightarrow> content_block option" where
  "block_field k v b =
     (if field_is ''type'' k then decode_string (\<lambda>s b. b\<lparr>cb_type := s\<rparr>) v b
      else if field_is ''text'' k then decode_string (\<lambda>s b. b\<lparr>cb_text := s\<rparr>) v b
      else if field_is ''id'' k then decode_string (\<lambda>s b. b\<lparr>cb_id := s\<rparr>) v b
      else if field_is ''name'' k then decode_string (\<lambda>s b. b\<lparr>cb_name := s\<rparr>) v b
      else if field_is ''input'' k then Some (b\<lparr>cb_input := Some v\<rparr>)
      else Some b)"

record messages_response =
  ms_role :: string
  ms_content :: "content_block list"
  ms_stop_reason :: string
  ms_usage :: anthropic_usage

definition messages_field :: "string \<Rightarrow> gval \<Rightarrow> messages_response \<Rightarrow> messages_response option" where
  "messages_field k v m =
     (if field_is ''role'' k then decode_string (\<lambda>s m. m\<lparr>ms_role := s\<rparr>) v m
      else if field_is ''content'' k then
        decode_list (decode_struct block_field zero_block) (\<lambda>bs m. m\<lparr>ms_content := bs\<rparr>) v m
      else if field_is ''stop_reason'' k then decode_string (\<lambda>s m. m\<lparr>ms_stop_reason := s\<rparr>) v m
      else if field_is ''usage'' k then decode_inner au_field (ms_usage m) (\<lambda>u m. m\<lparr>ms_usage := u\<rparr>) v m
      else Some m)"

definition block_input :: "gval option \<Rightarrow> (string \<times> gval) list option" where
  "block_input v =
     (case v of
        None \<Rightarrow> Some []
      | Some VNil \<Rightarrow> Some []
      | Some (VMap m) \<Rightarrow> Some m
      | _ \<Rightarrow> None)"

text \<open>The blocks of an answer, up to the first tool call whose input cannot be read.\<close>

fun read_blocks :: "content_block list \<Rightarrow> goerr + string list \<times> tool_call list" where
  "read_blocks [] = Inr ([], [])"
| "read_blocks (b # bs) =
     (if cb_type b = ''text'' then
        (case read_blocks bs of Inl e \<Rightarrow> Inl e | Inr (ts, tcs) \<Rightarrow> Inr (cb_text b # ts, tcs))
      else if cb_type b = ''tool_use'' then
        (case block_input (cb_input b) of
           None \<Rightarrow> Inl (wrap_error (''anthropic: tool '' @ go_quote (cb_name b) @ '' input: '') json_error)
         | Some args \<Rightarrow>
             (case read_blocks bs of
                Inl e \<Rightarrow> Inl e
              | Inr (ts, tcs) \<Rightarrow>
                  Inr (ts, \<lparr>tc_id = cb_id b, tc_name = cb_name b, tc_arguments = Some args\<rparr> # tcs)))
      else read_blocks bs)"

definition anthropicResponseToModel :: "messages_response \<Rightarrow> goerr + chat_message" where
  "anthropicResponseToModel resp =
     (case read_blocks (ms_content resp) of
        Inl e \<Rightarrow> Inl e
      | Inr (ts, tcs) \<Rightarrow> Inr ((text_message RoleAssistant (concat ts))\<lparr>msg_tool_calls := tcs\<rparr>))"

definition anthropic_parse :: "string \<Rightarrow> goerr + chat_response" where
  "anthropic_parse body =
     (case unmarshal messages_field \<lparr>ms_role = [], ms_content = [], ms_stop_reason = [], ms_usage = zero_au\<rparr> body of
        None \<Rightarrow> Inl (wrap_error ''anthropic: decode response: '' json_error)
      | Some parsed \<Rightarrow>
          (case anthropicResponseToModel parsed of
             Inl e \<Rightarrow> Inl e
           | Inr msg \<Rightarrow> Inr \<lparr>resp_message = msg, resp_usage = anthropic_model_usage (ms_usage parsed)\<rparr>))"

definition anthropic_send ::
    "'w anthropic_client \<Rightarrow> string \<Rightarrow> bool \<Rightarrow> chat_message list \<Rightarrow> model_option list \<Rightarrow> 'w rt \<Rightarrow>
     (goerr + http_response) \<times> 'w rt" where
  "anthropic_send c prefix stream messages opts r =
     (case buildMessagesRequest (an_model_name c) messages (ApplyOptions opts) stream of
        Inl e \<Rightarrow> (Inl e, r)
      | Inr payload \<Rightarrow>
          (case ha_new_request (an_http c) (messagesURL c) of
             Some e \<Rightarrow> (Inl e, r)
           | None \<Rightarrow>
               (case ha_do (an_http c) (messagesURL c) (anthropic_headers c stream) payload r of
                  (Inl e, r) \<Rightarrow> (Inl (wrap_error prefix e), r)
                | (Inr resp, r) \<Rightarrow> (Inr resp, r))))"

definition anthropic_status_error :: "http_response \<Rightarrow> goerr" where
  "anthropic_status_error resp =
     ErrNew (''anthropic: status '' @ int_text (hr_status resp) @ '': '' @ hr_body resp)"

definition anthropic_Generate ::
    "'w anthropic_client \<Rightarrow> 'w rt \<Rightarrow> chat_message list \<Rightarrow> model_option list \<Rightarrow>
     (goerr + chat_response option) \<times> 'w rt" where
  "anthropic_Generate c r messages opts =
     (case anthropic_send c ''anthropic: request: '' False messages opts r of
        (Inl e, r) \<Rightarrow> (Inl e, r)
      | (Inr resp, r) \<Rightarrow>
          (case hr_read_error resp of
             Some e \<Rightarrow> Inl (wrap_error ''anthropic: read body: '' e)
           | None \<Rightarrow>
               if bad_status (hr_status resp) then Inl (anthropic_status_error resp)
               else (case anthropic_parse (hr_body resp) of Inl e \<Rightarrow> Inl e | Inr x \<Rightarrow> Inr (Some x)), r))"

section \<open>Streams\<close>

record block_accum =
  ba_kind :: string
  ba_id :: string
  ba_name :: string
  ba_text :: string
  ba_json_parts :: "string list"

text \<open>\<open>as_sent\<close> is what the goroutine has put into the channel of chunks.\<close>

record anthropic_stream =
  as_blocks :: "(int \<times> block_accum) list"
  as_usage :: anthropic_usage
  as_sent :: "stream_chunk list"

text \<open>The structs that the events are read into.\<close>

record stream_error =
  se_type :: string
  se_message :: string

definition stream_error_field :: "string \<Rightarrow> gval \<Rightarrow> stream_error \<Rightarrow> stream_error option" where
  "stream_error_field k v e =
     (if field_is ''type'' k then decode_string (\<lambda>s e. e\<lparr>se_type := s\<rparr>) v e
      else if field_is ''message'' k then decode_string (\<lambda>s e. e\<lparr>se_message := s\<rparr>) v e
      else Some e)"

definition base_field ::
    "string \<Rightarrow> gval \<Rightarrow> string \<times> stream_error option \<Rightarrow> (string \<times> stream_error option) option" where
  "base_field k v x =
     (if field_is ''type'' k then decode_string (\<lambda>s (_, e). (s, e)) v x
      else if field_is ''error'' k then
        decode_pointer stream_error_field \<lparr>se_type = [], se_message = []\<rparr> (\<lambda>e (t, _). (t, e)) v x
      else Some x)"

definition start_message_field :: "string \<Rightarrow> gval \<Rightarrow> anthropic_usage \<Rightarrow> anthropic_usage option" where
  "start_message_field k v u = (if field_is ''usage'' k then decode_struct au_field u v else Some u)"

definition message_start_field :: "string \<Rightarrow> gval \<Rightarrow> anthropic_usage \<Rightarrow> anthropic_usage option" where
  "message_start_field k v u = (if field_is ''message'' k then decode_struct start_message_field u v else Some u)"

definition start_block_field :: "string \<Rightarrow> gval \<Rightarrow> block_accum \<Rightarrow> block_accum option" where
  "start_block_field k v b =
     (if field_is ''type'' k then decode_string (\<lambda>s b. b\<lparr>ba_kind := s\<rparr>) v b
      else if field_is ''id'' k then decode_string (\<lambda>s b. b\<lparr>ba_id := s\<rparr>) v b
      else if field_is ''name'' k then decode_string (\<lambda>s b. b\<lparr>ba_name := s\<rparr>) v b
      else Some b)"

definition block_start_field :: "string \<Rightarrow> gval \<Rightarrow> int \<times> block_accum \<Rightarrow> (int \<times> block_accum) option" where
  "block_start_field k v x =
     (if field_is ''index'' k then decode_int (\<lambda>i (_, b). (i, b)) v x
      else if field_is ''content_block'' k then decode_inner start_block_field (snd x) (\<lambda>b (i, _). (i, b)) v x
      else Some x)"

record block_delta =
  bd_type :: string
  bd_text :: string
  bd_partial_json :: string

definition block_delta_inner :: "string \<Rightarrow> gval \<Rightarrow> block_delta \<Rightarrow> block_delta option" where
  "block_delta_inner k v d =
     (if field_is ''type'' k then decode_string (\<lambda>s d. d\<lparr>bd_type := s\<rparr>) v d
      else if field_is ''text'' k then decode_string (\<lambda>s d. d\<lparr>bd_text := s\<rparr>) v d
      else if field_is ''partial_json'' k then decode_string (\<lambda>s d. d\<lparr>bd_partial_json := s\<rparr>) v d
      else Some d)"

definition block_delta_field :: "string \<Rightarrow> gval \<Rightarrow> int \<times> block_delta \<Rightarrow> (int \<times> block_delta) option" where
  "block_delta_field k v x =
     (if field_is ''index'' k then decode_int (\<lambda>i (_, d). (i, d)) v x
      else if field_is ''delta'' k then decode_inner block_delta_inner (snd x) (\<lambda>d (i, _). (i, d)) v x
      else Some x)"

text \<open>\<open>anthropic_delta\<close>: a delta of a block that was started.\<close>

definition anthropic_delta :: "int \<times> block_delta \<Rightarrow> anthropic_stream \<Rightarrow> anthropic_stream" where
  "anthropic_delta ev s =
     (case map_of (as_blocks s) (fst ev) of
        None \<Rightarrow> s
      | Some acc \<Rightarrow>
          if bd_type (snd ev) = ''text_delta'' then
            (if bd_text (snd ev) = [] then s
             else s\<lparr>as_sent := as_sent s @ [\<lparr>chunk_delta = bd_text (snd ev), chunk_tool_calls = [],
                                             chunk_done = False, chunk_usage = None\<rparr>],
                    as_blocks := map_put (fst ev) (acc\<lparr>ba_text := ba_text acc @ bd_text (snd ev)\<rparr>) (as_blocks s)\<rparr>)
          else if bd_type (snd ev) = ''input_json_delta'' then
            (if bd_partial_json (snd ev) = [] then s
             else s\<lparr>as_blocks := map_put (fst ev)
                    (acc\<lparr>ba_json_parts := ba_json_parts acc @ [bd_partial_json (snd ev)]\<rparr>) (as_blocks s)\<rparr>)
          else s)"

definition anthropic_event :: "string \<Rightarrow> string \<Rightarrow> anthropic_stream \<Rightarrow> anthropic_stream" where
  "anthropic_event typ payload s =
     (if typ = ''message_start'' then
        (case unmarshal message_start_field zero_au payload of
           None \<Rightarrow> s
         | Some u \<Rightarrow> s\<lparr>as_usage := (as_usage s)\<lparr>au_input := au_input u\<rparr>\<rparr>)
      else if typ = ''content_block_start'' then
        (case unmarshal block_start_field
            (0, \<lparr>ba_kind = [], ba_id = [], ba_name = [], ba_text = [], ba_json_parts = []\<rparr>) payload of
           None \<Rightarrow> s
         | Some (i, b) \<Rightarrow> s\<lparr>as_blocks := map_put i b (as_blocks s)\<rparr>)
      else if typ = ''content_block_delta'' then
        (case unmarshal block_delta_field (0, \<lparr>bd_type = [], bd_text = [], bd_partial_json = []\<rparr>) payload of
           None \<Rightarrow> s
         | Some ev \<Rightarrow> anthropic_delta ev s)
      else if typ = ''message_delta'' then
        (case unmarshal start_message_field zero_au payload of
           None \<Rightarrow> s
         | Some u \<Rightarrow> s\<lparr>as_usage := (as_usage s)\<lparr>au_output := au_output u\<rparr>\<rparr>)
      else s)"

fun anthropic_lines ::
    "string list \<Rightarrow> goerr option \<Rightarrow> anthropic_stream \<Rightarrow> 'w rt \<Rightarrow> (goerr option \<times> anthropic_stream) \<times> 'w rt" where
  "anthropic_lines [] err s r = ((map_option (wrap_error ''anthropic: stream read: '') err, s), r)"
| "anthropic_lines (line # ls) err s r =
     (case poll r of
        (Some e, r) \<Rightarrow> ((Some e, s), r)
      | (None, r) \<Rightarrow>
          if \<not> has_prefix ''data: '' line then anthropic_lines ls err s r
          else
            let payload = drop 6 line in
            if payload = ''[DONE]'' then ((None, s), r)
            else case unmarshal base_field ([], None) payload of
                None \<Rightarrow> anthropic_lines ls err s r
              | Some (typ, e) \<Rightarrow>
                  (case (typ = ''error'', e) of
                     (True, Some x) \<Rightarrow> ((Some (ErrNew (''anthropic: '' @ se_message x)), s), r)
                   | _ \<Rightarrow> anthropic_lines ls err (anthropic_event typ payload s) r))"

fun finalize_blocks :: "block_accum list \<Rightarrow> goerr + tool_call list" where
  "finalize_blocks [] = Inr []"
| "finalize_blocks (b # bs) =
     (if ba_kind b \<noteq> ''tool_use'' then finalize_blocks bs
      else case read_arguments (concat (ba_json_parts b)) of
          None \<Rightarrow> Inl (wrap_error (''anthropic: tool '' @ go_quote (ba_name b) @ '' arguments: '') json_error)
        | Some args \<Rightarrow>
            (case finalize_blocks bs of
               Inl e \<Rightarrow> Inl e
             | Inr tcs \<Rightarrow> Inr (\<lparr>tc_id = ba_id b, tc_name = ba_name b, tc_arguments = Some args\<rparr> # tcs)))"

definition anthropic_read :: "http_response \<Rightarrow> 'w rt \<Rightarrow> (stream_chunk list \<times> goerr list) \<times> 'w rt" where
  "anthropic_read resp r =
     (let (ls, err) = scan resp in
      case anthropic_lines ls err \<lparr>as_blocks = [], as_usage = zero_au, as_sent = []\<rparr> r of
        ((Some e, s), r) \<Rightarrow> ((as_sent s, [e]), r)
      | ((None, s), r) \<Rightarrow>
          ((case finalize_blocks (map snd (sort_key fst (as_blocks s))) of
             Inl e \<Rightarrow> (as_sent s, [e])
           | Inr tcs \<Rightarrow>
               (as_sent s @ [\<lparr>chunk_delta = [], chunk_tool_calls = tcs, chunk_done = True,
                  chunk_usage = (if au_input (as_usage s) > 0 \<or> au_output (as_usage s) > 0
                    then Some (anthropic_model_usage (as_usage s)) else None)\<rparr>], [])), r))"

definition anthropic_Stream ::
    "'w anthropic_client \<Rightarrow> 'w rt \<Rightarrow> chat_message list \<Rightarrow> model_option list \<Rightarrow>
     (goerr + stream_chunk list \<times> goerr list) \<times> 'w rt" where
  "anthropic_Stream c r messages opts =
     (case anthropic_send c ''anthropic: stream request: '' True messages opts r of
        (Inl e, r) \<Rightarrow> (Inl e, r)
      | (Inr resp, r) \<Rightarrow>
          if bad_status (hr_status resp) then (Inl (anthropic_status_error resp), r)
          else (case anthropic_read resp r of (out, r) \<Rightarrow> (Inr out, r)))"

section \<open>A stream says what the whole answer says\<close>

text \<open>The events of a body, by type and text; \<^const>\<open>None\<close> when the service reports an error.\<close>

fun events_of :: "string list \<Rightarrow> (string \<times> string) list option" where
  "events_of [] = Some []"
| "events_of (line # ls) =
     (if \<not> has_prefix ''data: '' line then events_of ls
      else if drop 6 line = ''[DONE]'' then Some []
      else case unmarshal base_field ([], None) (drop 6 line) of
          None \<Rightarrow> events_of ls
        | Some (typ, e) \<Rightarrow>
            if typ = ''error'' \<and> e \<noteq> None then None
            else map_option ((#) (typ, drop 6 line)) (events_of ls))"

lemma anthropic_lines_events:
  assumes "rt_ctx r = Background" and "events_of ls = Some evs"
  shows "anthropic_lines ls None s r = ((None, fold (\<lambda>(typ, p). anthropic_event typ p) evs s), r)"
  using assms(2)
proof (induction ls arbitrary: s evs)
  case (Cons line ls)
  have "poll r = (None, r)" using assms(1) by (simp add: poll_def)
  with Cons show ?case
    by (auto simp: Let_def split: option.splits if_splits prod.splits bool.splits)
qed simp

text \<open>Of these, blocks that begin and pieces of a block; what they do to blocks and chunks.\<close>

datatype block_event = BlockStart int block_accum | BlockDelta int block_delta

definition block_event_of :: "string \<times> string \<Rightarrow> block_event option" where
  "block_event_of ev =
     (if fst ev = ''content_block_start'' then
        map_option (\<lambda>(i, b). BlockStart i b) (unmarshal block_start_field
          (0, \<lparr>ba_kind = [], ba_id = [], ba_name = [], ba_text = [], ba_json_parts = []\<rparr>) (snd ev))
      else if fst ev = ''content_block_delta'' then
        map_option (\<lambda>(i, d). BlockDelta i d) (unmarshal block_delta_field
          (0, \<lparr>bd_type = [], bd_text = [], bd_partial_json = []\<rparr>) (snd ev))
      else None)"

fun take_block_event :: "block_event \<Rightarrow> anthropic_stream \<Rightarrow> anthropic_stream" where
  "take_block_event (BlockStart i b) s = s\<lparr>as_blocks := map_put i b (as_blocks s)\<rparr>"
| "take_block_event (BlockDelta i d) s = anthropic_delta (i, d) s"

definition same_but_usage :: "anthropic_stream \<Rightarrow> anthropic_stream \<Rightarrow> bool" where
  "same_but_usage s t \<longleftrightarrow> as_blocks s = as_blocks t \<and> as_sent s = as_sent t"

lemma delta_same: "same_but_usage s t \<Longrightarrow> same_but_usage (take_block_event e s) (take_block_event e t)"
  by (cases e) (auto simp: same_but_usage_def anthropic_delta_def split: option.splits)

lemma start_same: "same_but_usage s t \<Longrightarrow>
    same_but_usage (s\<lparr>as_blocks := map_put i b (as_blocks s)\<rparr>) (t\<lparr>as_blocks := map_put i b (as_blocks t)\<rparr>)"
  and usage_same: "same_but_usage s t \<Longrightarrow> same_but_usage (s\<lparr>as_usage := u\<rparr>) t"
  and piece_same: "same_but_usage s t \<Longrightarrow> same_but_usage (anthropic_delta (i, d) s) (anthropic_delta (i, d) t)"
  using delta_same [of s t "BlockDelta i d"] by (simp_all add: same_but_usage_def)

lemma event_same:
  "same_but_usage s t \<Longrightarrow>
   same_but_usage (anthropic_event typ p s) (case block_event_of (typ, p) of None \<Rightarrow> t | Some e \<Rightarrow> take_block_event e t)"
  by (cases "typ = ''content_block_start''"; cases "typ = ''content_block_delta''")
    (auto simp: anthropic_event_def block_event_of_def start_same usage_same piece_same
      split: option.split prod.split)

lemma events_same:
  "same_but_usage s t \<Longrightarrow>
   same_but_usage (fold (\<lambda>(typ, p). anthropic_event typ p) evs s)
     (fold take_block_event (List.map_filter block_event_of evs) t)"
proof (induction evs arbitrary: s t)
  case (Cons ev evs)
  obtain ty p where ev: "ev = (ty, p)" by force
  from Cons.IH [OF event_same [OF Cons.prems, of ty p]] show ?case
    by (auto simp: ev List.map_filter_simps split: option.split)
qed (simp add: List.map_filter_simps)

text \<open>
  The events \<open>es\<close> bring the block \<open>cb\<close> of the whole answer under the index \<open>i\<close>: its beginning and then
  pieces that join to its text or to the JSON of its input.
\<close>

definition delta_text :: "block_delta \<Rightarrow> string" where
  "delta_text d = (if bd_type d = ''text_delta'' then bd_text d else [])"

definition delta_json :: "block_delta \<Rightarrow> string" where
  "delta_json d = (if bd_type d = ''input_json_delta'' then bd_partial_json d else [])"

definition answer_text :: "content_block \<Rightarrow> string" where
  "answer_text cb = (if cb_type cb = ''text'' then cb_text cb else [])"

definition brings :: "int \<Rightarrow> content_block \<Rightarrow> block_event list \<Rightarrow> bool" where
  "brings i cb es \<longleftrightarrow>
     (\<exists>ds. es = BlockStart i \<lparr>ba_kind = cb_type cb, ba_id = cb_id cb, ba_name = cb_name cb, ba_text = [],
                              ba_json_parts = []\<rparr> # map (BlockDelta i) ds \<and>
       concat (map delta_text ds) = answer_text cb \<and>
       (cb_type cb = ''tool_use'' \<longrightarrow> read_arguments (concat (map delta_json ds)) = block_input (cb_input cb)))"

fun bring_all :: "int \<Rightarrow> content_block list \<Rightarrow> block_event list \<Rightarrow> bool" where
  "bring_all i [] es \<longleftrightarrow> es = []"
| "bring_all i (cb # cbs) es \<longleftrightarrow> (\<exists>xs ys. es = xs @ ys \<and> brings i cb xs \<and> bring_all (i + 1) cbs ys)"

definition sent_text :: "string \<Rightarrow> stream_chunk" where
  "sent_text t = \<lparr>chunk_delta = t, chunk_tool_calls = [], chunk_done = False, chunk_usage = None\<rparr>"

lemma map_put_last: "k \<notin> fst ` set xs \<Longrightarrow> map_put k v (xs @ [(k, w)]) = xs @ [(k, v)]"
  by (induction xs) auto

lemma map_of_last: "k \<notin> fst ` set xs \<Longrightarrow> map_of (xs @ [(k, v)]) k = Some v"
  by (induction xs) auto

lemma take_deltas:
  assumes "i \<notin> fst ` set bs" and "as_blocks s = bs @ [(i, acc)]"
  shows "\<exists>acc' pieces. as_blocks (fold take_block_event (map (BlockDelta i) ds) s) = bs @ [(i, acc')] \<and>
    as_sent (fold take_block_event (map (BlockDelta i) ds) s) = as_sent s @ map sent_text pieces \<and>
    concat pieces = concat (map delta_text ds) \<and>
    ba_kind acc' = ba_kind acc \<and> ba_id acc' = ba_id acc \<and> ba_name acc' = ba_name acc \<and>
    concat (ba_json_parts acc') = concat (ba_json_parts acc) @ concat (map delta_json ds)"
  using assms(2)
proof (induction ds arbitrary: s acc)
  case Nil
  then show ?case by (intro exI [of _ acc] exI [of _ "[]"]) simp
next
  case (Cons d ds)
  note mo = map_of_last [OF assms(1)] map_put_last [OF assms(1)]
  let ?s = "take_block_event (BlockDelta i d) s"
  have lookup: "map_of (as_blocks s) i = Some acc"
    and put: "map_put i v (as_blocks s) = bs @ [(i, v)]" for v
    using Cons.prems mo by simp_all
  have "\<exists>a ps. as_blocks ?s = bs @ [(i, a)] \<and> as_sent ?s = as_sent s @ map sent_text ps \<and> concat ps = delta_text d \<and>
      ba_kind a = ba_kind acc \<and> ba_id a = ba_id acc \<and> ba_name a = ba_name acc \<and>
      concat (ba_json_parts a) = concat (ba_json_parts acc) @ delta_json d"
  proof -
    consider "bd_type d = ''text_delta''" "bd_text d \<noteq> []"
      | "bd_type d = ''input_json_delta''" "bd_partial_json d \<noteq> []"
      | "?s = s" "delta_text d = []" "delta_json d = []"
      by (cases "bd_text d = []"; cases "bd_partial_json d = []"; cases "bd_type d = ''text_delta''";
          cases "bd_type d = ''input_json_delta''")
        (simp_all add: anthropic_delta_def lookup delta_text_def delta_json_def)
    then show ?thesis
    proof cases
      case 1
      then show ?thesis
        by (intro exI [of _ "acc\<lparr>ba_text := ba_text acc @ bd_text d\<rparr>"] exI [of _ "[bd_text d]"])
          (simp add: anthropic_delta_def lookup put delta_text_def delta_json_def sent_text_def)
    next
      case 2
      then show ?thesis
        by (intro exI [of _ "acc\<lparr>ba_json_parts := ba_json_parts acc @ [bd_partial_json d]\<rparr>"] exI [of _ "[]"])
          (simp add: anthropic_delta_def lookup put delta_text_def delta_json_def)
    next
      case 3
      then show ?thesis
        using Cons.prems by (intro exI [of _ acc] exI [of _ "[]"]) simp
    qed
  qed
  then obtain a ps where a: "as_blocks ?s = bs @ [(i, a)]" "as_sent ?s = as_sent s @ map sent_text ps"
      "concat ps = delta_text d" "ba_kind a = ba_kind acc" "ba_id a = ba_id acc" "ba_name a = ba_name acc"
      "concat (ba_json_parts a) = concat (ba_json_parts acc) @ delta_json d" by blast
  from Cons.IH [OF a(1)] obtain acc' pieces where
    "as_blocks (fold take_block_event (map (BlockDelta i) ds) ?s) = bs @ [(i, acc')]"
    "as_sent (fold take_block_event (map (BlockDelta i) ds) ?s) = as_sent ?s @ map sent_text pieces"
    "concat pieces = concat (map delta_text ds)"
    "ba_kind acc' = ba_kind a" "ba_id acc' = ba_id a" "ba_name acc' = ba_name a"
    "concat (ba_json_parts acc') = concat (ba_json_parts a) @ concat (map delta_json ds)" by blast
  with a show ?case by (intro exI [of _ acc'] exI [of _ "ps @ pieces"]) simp
qed

lemma take_block:
  assumes "brings i cb es" and "i \<notin> fst ` set (as_blocks s)"
  shows "\<exists>acc pieces. as_blocks (fold take_block_event es s) = as_blocks s @ [(i, acc)] \<and>
    as_sent (fold take_block_event es s) = as_sent s @ map sent_text pieces \<and>
    concat pieces = answer_text cb \<and> ba_kind acc = cb_type cb \<and> ba_id acc = cb_id cb \<and> ba_name acc = cb_name cb \<and>
    (cb_type cb = ''tool_use'' \<longrightarrow> read_arguments (concat (ba_json_parts acc)) = block_input (cb_input cb))"
proof -
  let ?b = "\<lparr>ba_kind = cb_type cb, ba_id = cb_id cb, ba_name = cb_name cb, ba_text = [], ba_json_parts = []\<rparr>"
  from assms(1) obtain ds where ds: "es = BlockStart i ?b # map (BlockDelta i) ds"
    "concat (map delta_text ds) = answer_text cb"
    "cb_type cb = ''tool_use'' \<longrightarrow> read_arguments (concat (map delta_json ds)) = block_input (cb_input cb)"
    by (auto simp: brings_def)
  let ?s = "take_block_event (BlockStart i ?b) s"
  have "as_blocks ?s = as_blocks s @ [(i, ?b)]" using assms(2) by (simp add: map_put_fresh)
  from take_deltas [OF assms(2) this, of ds] ds show ?thesis by auto
qed

text \<open>\<open>kept\<close>: a block of the stream is what the block of the answer says.\<close>

definition kept :: "content_block \<Rightarrow> block_accum \<Rightarrow> bool" where
  "kept cb acc \<longleftrightarrow> ba_kind acc = cb_type cb \<and> ba_id acc = cb_id cb \<and> ba_name acc = cb_name cb \<and>
     (cb_type cb = ''tool_use'' \<longrightarrow> read_arguments (concat (ba_json_parts acc)) = block_input (cb_input cb))"

lemma take_all_blocks:
  assumes "bring_all i cbs es" and "\<forall>k \<in> fst ` set (as_blocks s). k < i" and "sorted (map fst (as_blocks s))"
  shows "\<exists>accs pieces. map snd (as_blocks (fold take_block_event es s)) = map snd (as_blocks s) @ accs \<and>
    sorted (map fst (as_blocks (fold take_block_event es s))) \<and>
    as_sent (fold take_block_event es s) = as_sent s @ map sent_text pieces \<and>
    concat pieces = concat (map answer_text cbs) \<and> list_all2 kept cbs accs"
  using assms
proof (induction cbs arbitrary: i es s)
  case Nil
  then show ?case by (intro exI [of _ "[]"]) simp
next
  case (Cons cb cbs)
  from Cons.prems(1) obtain xs ys where es: "es = xs @ ys" and cb: "brings i cb xs" and ys: "bring_all (i + 1) cbs ys"
    by auto
  have fresh: "i \<notin> fst ` set (as_blocks s)" using Cons.prems(2) by force
  from take_block [OF cb fresh] obtain acc ps where a:
    "as_blocks (fold take_block_event xs s) = as_blocks s @ [(i, acc)]"
    "as_sent (fold take_block_event xs s) = as_sent s @ map sent_text ps"
    "concat ps = answer_text cb" "kept cb acc"
    by (auto simp: kept_def)
  let ?s = "fold take_block_event xs s"
  have below: "\<forall>k \<in> fst ` set (as_blocks ?s). k < i + 1" using Cons.prems(2) a(1) by force
  have srt: "sorted (map fst (as_blocks ?s))"
    using Cons.prems(2,3) a(1) by (force simp: sorted_append)
  from Cons.IH [OF ys below srt] obtain accs pieces where
    "map snd (as_blocks (fold take_block_event ys ?s)) = map snd (as_blocks ?s) @ accs"
    "sorted (map fst (as_blocks (fold take_block_event ys ?s)))"
    "as_sent (fold take_block_event ys ?s) = as_sent ?s @ map sent_text pieces"
    "concat pieces = concat (map answer_text cbs)" "list_all2 kept cbs accs" by blast
  with a show ?case by (intro exI [of _ "acc # accs"] exI [of _ "ps @ pieces"]) (simp add: es)
qed

text \<open>Its calls are those of the answer, and an input that cannot be read is an error of both.\<close>

lemma kept_calls:
  assumes "list_all2 kept cbs accs"
  shows "case read_blocks cbs of
     Inl _ \<Rightarrow> \<exists>e. finalize_blocks accs = Inl e
   | Inr (ts, tcs) \<Rightarrow> concat ts = concat (map answer_text cbs) \<and> finalize_blocks accs = Inr tcs"
  using assms
proof (induction rule: list_all2_induct)
  case (Cons cb cbs acc accs)
  consider "cb_type cb = ''text''" "answer_text cb = cb_text cb"
    | "cb_type cb = ''tool_use''" "answer_text cb = []"
    | "cb_type cb \<noteq> ''text''" "cb_type cb \<noteq> ''tool_use''" "answer_text cb = []"
    by (cases "cb_type cb = ''text''"; cases "cb_type cb = ''tool_use''") (simp_all add: answer_text_def)
  then show ?case
    using Cons by cases (auto simp: kept_def split: sum.splits option.splits)
qed simp

text \<open>
  C37. A stream of the Anthropic provider says what the whole answer would have said. When the events
  in the body bring the blocks of the answer \<open>m\<close> one after the other, each under its index and cut in
  any way, then the chunks' texts join to the texts of \<open>m\<close>, and the last chunk has the tool calls that
  \<open>Generate\<close> reads from \<open>m\<close>, in their order; when \<open>Generate\<close> would fail on an input, so does the
  stream. Pings, events of other kinds, lines that are no event and payloads that cannot be read
  change nothing, and the end of the body is the end of the answer, with or without \<open>message_stop\<close>.
\<close>

theorem anthropic_stream_is_answer:
  assumes ctx: "rt_ctx r = Background" and lines: "scan resp = (ls, None)" and evs: "events_of ls = Some evs"
    and blocks: "bring_all 0 (ms_content m) (List.map_filter block_event_of evs)"
  shows "\<exists>pieces. concat pieces = concat (map answer_text (ms_content m)) \<and>
    (case anthropicResponseToModel m of
       Inr msg \<Rightarrow> msg_content msg = concat pieces \<and> (\<exists>u. anthropic_read resp r =
         ((map sent_text pieces @ [\<lparr>chunk_delta = [], chunk_tool_calls = msg_tool_calls msg, chunk_done = True,
                                     chunk_usage = u\<rparr>], []), r))
     | Inl _ \<Rightarrow> \<exists>e. anthropic_read resp r = ((map sent_text pieces, [e]), r))"
proof -
  let ?init = "\<lparr>as_blocks = [], as_usage = zero_au, as_sent = []\<rparr>"
  define s where "s = fold (\<lambda>(typ, p). anthropic_event typ p) evs ?init"
  define t where "t = fold take_block_event (List.map_filter block_event_of evs) ?init"
  have "same_but_usage s t" unfolding s_def t_def by (rule events_same) (simp add: same_but_usage_def)
  then have same: "as_blocks s = as_blocks t" "as_sent s = as_sent t" by (simp_all add: same_but_usage_def)
  from take_all_blocks [OF blocks, of ?init] obtain accs pieces where t:
    "map snd (as_blocks t) = accs" "sorted (map fst (as_blocks t))" "as_sent t = map sent_text pieces"
    "concat pieces = concat (map answer_text (ms_content m))" "list_all2 kept (ms_content m) accs"
    by (auto simp: t_def)
  have "sort_key fst (as_blocks s) = as_blocks s" using t(2) same(1) by (simp add: sort_key_id_if_sorted)
  then have blocks: "map snd (sort_key fst (as_blocks s)) = accs" and sent: "as_sent s = map sent_text pieces"
    using t(1,3) same by simp_all
  have "anthropic_lines ls None ?init r = ((None, s), r)"
    unfolding s_def by (rule anthropic_lines_events [OF ctx evs])
  then have "anthropic_read resp r =
      ((case finalize_blocks accs of
          Inl e \<Rightarrow> (map sent_text pieces, [e])
        | Inr tcs \<Rightarrow> (map sent_text pieces @ [\<lparr>chunk_delta = [], chunk_tool_calls = tcs, chunk_done = True,
                  chunk_usage = (if au_input (as_usage s) > 0 \<or> au_output (as_usage s) > 0
                    then Some (anthropic_model_usage (as_usage s)) else None)\<rparr>], [])), r)"
    by (simp add: anthropic_read_def lines blocks sent del: if_split split: sum.split)
  with kept_calls [OF t(5)] t(4) show ?thesis
    by (intro exI [of _ pieces]) (auto simp: anthropicResponseToModel_def simp del: if_split split: sum.splits)
qed

text \<open>A small body: a text in two pieces, a ping, then a tool call; it ends without \<open>message_stop\<close>.\<close>

definition demo_events :: "string list" where
  "demo_events =
     [''data: {\"type\":\"content_block_start\",\"content_block\":{\"type\":\"text\"}}'',
      ''data: {\"type\":\"content_block_delta\",\"delta\":{\"type\":\"text_delta\",\"text\":\"h\"}}'',
      ''event: ping'', ''data: {\"type\":\"ping\"}'', [],
      ''data: {\"type\":\"content_block_delta\",\"delta\":{\"type\":\"text_delta\",\"text\":\"i\"}}'',
      ''data: {\"type\":\"content_block_start\",\"index\":1,\"content_block\":{\"type\":\"tool_use\",\"id\":\"c\",\"name\":\"f\"}}'',
      ''data: {\"type\":\"content_block_delta\",\"index\":1,\"delta\":{\"type\":\"input_json_delta\",\"partial_json\":\"{}\"}}'']"

definition demo_body :: http_response where
  "demo_body = \<lparr>hr_status = 200, hr_body = join [CHR 0x0A] demo_events, hr_read_error = None\<rparr>"

definition demo_answer :: messages_response where
  "demo_answer =
     \<lparr>ms_role = ''assistant'',
      ms_content =
        [\<lparr>cb_type = ''text'', cb_text = ''hi'', cb_id = [], cb_name = [], cb_input = None\<rparr>,
         \<lparr>cb_type = ''tool_use'', cb_text = [], cb_id = ''c'', cb_name = ''f'', cb_input = Some (VMap [])\<rparr>],
      ms_stop_reason = ''tool_use'', ms_usage = zero_au\<rparr>"

lemma demo_body_scan: "scan demo_body = (demo_events, None)"
  by code_simp

lemma demo_block_events:
  "map_option (List.map_filter block_event_of) (events_of demo_events) = Some
     [BlockStart 0 \<lparr>ba_kind = ''text'', ba_id = [], ba_name = [], ba_text = [], ba_json_parts = []\<rparr>,
      BlockDelta 0 \<lparr>bd_type = ''text_delta'', bd_text = ''h'', bd_partial_json = []\<rparr>,
      BlockDelta 0 \<lparr>bd_type = ''text_delta'', bd_text = ''i'', bd_partial_json = []\<rparr>,
      BlockStart 1 \<lparr>ba_kind = ''tool_use'', ba_id = ''c'', ba_name = ''f'', ba_text = [], ba_json_parts = []\<rparr>,
      BlockDelta 1 \<lparr>bd_type = ''input_json_delta'', bd_text = [], bd_partial_json = ''{}''\<rparr>]"
  by code_simp

lemma anthropic_stream_is_answer_witness:
  "\<exists>pieces u. concat pieces = ''hi'' \<and>
     anthropic_read demo_body \<lparr>rt_ctx = Background, rt_world = ()\<rparr> =
       ((map sent_text pieces @
         [\<lparr>chunk_delta = [], chunk_tool_calls = [\<lparr>tc_id = ''c'', tc_name = ''f'', tc_arguments = Some []\<rparr>],
           chunk_done = True, chunk_usage = u\<rparr>], []), \<lparr>rt_ctx = Background, rt_world = ()\<rparr>)"
proof -
  let ?r = "\<lparr>rt_ctx = Background, rt_world = ()\<rparr>"
  have args: "read_arguments ''{}'' = Some []" by code_simp
  obtain evs where evs: "events_of demo_events = Some evs" using demo_block_events by (cases "events_of demo_events") auto
  have first: "brings 0 (ms_content demo_answer ! 0)
      [BlockStart 0 \<lparr>ba_kind = ''text'', ba_id = [], ba_name = [], ba_text = [], ba_json_parts = []\<rparr>,
       BlockDelta 0 \<lparr>bd_type = ''text_delta'', bd_text = ''h'', bd_partial_json = []\<rparr>,
       BlockDelta 0 \<lparr>bd_type = ''text_delta'', bd_text = ''i'', bd_partial_json = []\<rparr>]"
    unfolding brings_def
    by (intro exI [of _ "[\<lparr>bd_type = ''text_delta'', bd_text = ''h'', bd_partial_json = []\<rparr>,
          \<lparr>bd_type = ''text_delta'', bd_text = ''i'', bd_partial_json = []\<rparr>]"])
      (simp add: demo_answer_def delta_text_def answer_text_def)
  have second: "brings 1 (ms_content demo_answer ! 1)
      [BlockStart 1 \<lparr>ba_kind = ''tool_use'', ba_id = ''c'', ba_name = ''f'', ba_text = [], ba_json_parts = []\<rparr>,
       BlockDelta 1 \<lparr>bd_type = ''input_json_delta'', bd_text = [], bd_partial_json = ''{}''\<rparr>]"
    unfolding brings_def
    by (intro exI [of _ "[\<lparr>bd_type = ''input_json_delta'', bd_text = [], bd_partial_json = ''{}''\<rparr>]"])
      (simp add: demo_answer_def delta_text_def delta_json_def answer_text_def block_input_def args)
  obtain a b where two: "ms_content demo_answer = [a, b]" by (simp add: demo_answer_def)
  have blocks: "bring_all 0 (ms_content demo_answer) (List.map_filter block_event_of evs)"
  proof -
    have "bring_all 0 [a, b] (xs @ ys)" if "brings 0 a xs" "brings 1 b ys" for xs ys
      unfolding bring_all.simps using that by (intro exI [of _ xs] exI [of _ ys] exI [of _ "[]"] conjI) simp_all
    from this [OF first [unfolded two nth_Cons_0] second [unfolded two One_nat_def nth_Cons_Suc nth_Cons_0]]
    show ?thesis
      using evs demo_block_events unfolding two by (simp only: option.map option.inject append.simps)
  qed
  have answer: "anthropicResponseToModel demo_answer =
      Inr ((text_message RoleAssistant ''hi'')\<lparr>msg_tool_calls := [\<lparr>tc_id = ''c'', tc_name = ''f'', tc_arguments = Some []\<rparr>]\<rparr>)"
    by (simp add: anthropicResponseToModel_def demo_answer_def block_input_def)
  have "concat (map answer_text (ms_content demo_answer)) = ''hi''"
    by (simp add: demo_answer_def answer_text_def)
  with anthropic_stream_is_answer [of ?r demo_body demo_events evs demo_answer] demo_body_scan evs blocks answer
  show ?thesis by fastforce
qed

end
