(* ===== verification/Remote.thy ===== *)
theory Remote
  imports Wire Retriever "HOL-Library.Multiset"
begin

text \<open>
  The clients of services that are neither models nor in this process: the embedder of
  \<open>retriever/embedder/openai.go\<close>, the vector store of \<open>retriever/vectorstore/chroma.go\<close>, the remote
  tools of \<open>tool/mcp/mcp_client.go\<close> and the runtimes of package \<open>runtime\<close>. The HTTP client, the
  processes of the operating system and the printing of a \<open>float64\<close> are parameters; a \<open>float64\<close> is an
  exact rational.
\<close>

section \<open>HTTP with any method\<close>

text \<open>What \<open>resp.Status\<close> says is the code and its text.\<close>

record http_reply = http_response +
  hr_status_text :: string

record 'w http_client =
  hc_new_request :: "string \<Rightarrow> string \<Rightarrow> goerr option"
  hc_do :: "string \<Rightarrow> string \<Rightarrow> (string \<times> string) list \<Rightarrow> string \<Rightarrow> 'w rt \<Rightarrow> (goerr + http_reply) \<times> 'w rt"

text \<open>
  A request is made, sent and its response read. Each of the three steps may have a text to put before
  its error; with an empty one the error is handed on as it is.
\<close>

definition prefixed :: "string \<Rightarrow> goerr \<Rightarrow> goerr" where
  "prefixed p e = (if p = [] then e else wrap_error p e)"

definition http_send ::
    "'w http_client \<Rightarrow> string \<Rightarrow> string \<Rightarrow> string \<Rightarrow> string \<Rightarrow> (string \<times> string) list \<Rightarrow> string \<Rightarrow>
     'w rt \<Rightarrow> (goerr + http_reply) \<times> 'w rt" where
  "http_send c e1 e2 verb url headers body r =
     (case hc_new_request c verb url of
        Some e \<Rightarrow> (Inl (prefixed e1 e), r)
      | None \<Rightarrow>
          (case hc_do c verb url headers body r of
             (Inl e, r) \<Rightarrow> (Inl (prefixed e2 e), r)
           | (Inr resp, r) \<Rightarrow> (Inr resp, r)))"

definition http_call ::
    "'w http_client \<Rightarrow> string \<Rightarrow> string \<Rightarrow> string \<Rightarrow> string \<Rightarrow> string \<Rightarrow> (string \<times> string) list \<Rightarrow> string \<Rightarrow>
     'w rt \<Rightarrow> (goerr + http_reply) \<times> 'w rt" where
  "http_call c e1 e2 e3 verb url headers body r =
     (case http_send c e1 e2 verb url headers body r of
        (Inl e, r) \<Rightarrow> (Inl e, r)
      | (Inr resp, r) \<Rightarrow>
          (case hr_read_error resp of
             Some e \<Rightarrow> (Inl (prefixed e3 e), r)
           | None \<Rightarrow> (Inr resp, r)))"

definition json_content :: "(string \<times> string) list" where
  "json_content = [(''Content-Type'', ''application/json'')]"

text \<open>\<open>context.Background()\<close> for the time of a call.\<close>

definition in_background :: "('w rt \<Rightarrow> 'a \<times> 'w rt) \<Rightarrow> 'w rt \<Rightarrow> 'a \<times> 'w rt" where
  "in_background f r = (case f (r\<lparr>rt_ctx := Background\<rparr>) of (x, r') \<Rightarrow> (x, r'\<lparr>rt_ctx := rt_ctx r\<rparr>))"

text \<open>
  The value of a number as JSON writes it. A number beyond the range of \<open>float64\<close>, which the decoder
  refuses, is read here.
\<close>

definition power_of_ten :: "int \<Rightarrow> rat" where
  "power_of_ten k = (if 0 \<le> k then 10 ^ nat k else 1 / 10 ^ nat (- k))"

definition text_rat :: "string \<Rightarrow> rat option" where
  "text_rat s =
     (let s1 = (if has_prefix ''-'' s then drop 1 s else s);
          (ip, s2) = digits s1;
          (fp, s3) = (if has_prefix ''.'' s2 then digits (drop 1 s2) else ([], s2));
          e = (case s3 of [] \<Rightarrow> Some 0 | _ # t \<Rightarrow> text_int (if has_prefix ''+'' t then drop 1 t else t))
      in case (digits_value 0 (ip @ fp), e) of
           (Some n, Some k) \<Rightarrow>
             Some ((if has_prefix ''-'' s then - 1 else 1) * of_int n * power_of_ten (k - int (length fp)))
         | _ \<Rightarrow> None)"

text \<open>An element of \<open>[]float64\<close>; \<open>null\<close> leaves its zero.\<close>

fun read_float :: "gval \<Rightarrow> rat option" where
  "read_float (VNum t) = text_rat t"
| "read_float VNil = Some 0"
| "read_float _ = None"

text \<open>The same for the elements of slices of texts, and of slices of slices.\<close>

fun read_text :: "gval \<Rightarrow> string option" where
  "read_text (VStr s) = Some s"
| "read_text VNil = Some []"
| "read_text _ = None"

fun read_slice :: "(gval \<Rightarrow> 'a option) \<Rightarrow> gval \<Rightarrow> 'a list option" where
  "read_slice f (VList vs) = decode_all f vs"
| "read_slice f VNil = Some []"
| "read_slice f _ = None"

section \<open>Embeddings (\<open>embedder/openai.go\<close>)\<close>

record openai_embedder =
  oe_api_key :: string
  oe_model :: string
  oe_base_url :: string

definition NewOpenAI :: "string \<Rightarrow> string \<Rightarrow> openai_embedder" where
  "NewOpenAI apiKey model =
     \<lparr>oe_api_key = apiKey, oe_model = model, oe_base_url = ''https://api.openai.com/v1''\<rparr>"

record embedding =
  em_vector :: "rat list"
  em_index :: int

definition embedding_field :: "string \<Rightarrow> gval \<Rightarrow> embedding \<Rightarrow> embedding option" where
  "embedding_field k v e =
     (if field_is ''embedding'' k then map_option (\<lambda>xs. e\<lparr>em_vector := xs\<rparr>) (read_slice read_float v)
      else if field_is ''index'' k then decode_int (\<lambda>i e. e\<lparr>em_index := i\<rparr>) v e
      else Some e)"

definition error_message_field :: "string \<Rightarrow> gval \<Rightarrow> string \<Rightarrow> string option" where
  "error_message_field k v m = (if field_is ''message'' k then decode_string (\<lambda>s _. s) v m else Some m)"

definition embeddings_field ::
    "string \<Rightarrow> gval \<Rightarrow> embedding list \<times> string option \<Rightarrow> (embedding list \<times> string option) option" where
  "embeddings_field k v x =
     (if field_is ''data'' k then
        decode_list (decode_struct embedding_field \<lparr>em_vector = [], em_index = 0\<rparr>) (\<lambda>es (_, m). (es, m)) v x
      else if field_is ''error'' k then
        decode_pointer error_message_field [] (\<lambda>m (es, _). (es, m)) v x
      else Some x)"

text \<open>
  The vectors in the order of their indices. \<open>sort.Slice\<close> may exchange entries with equal indices when
  there are more than twelve, which this definition does not.
\<close>

definition vectors_in_order :: "embedding list \<Rightarrow> rat list list" where
  "vectors_in_order es = map em_vector (sort_key em_index es)"

definition embed_answer :: "nat \<Rightarrow> http_reply \<Rightarrow> goerr + rat list list" where
  "embed_answer n resp =
     (case unmarshal embeddings_field ([], None) (hr_body resp) of
        None \<Rightarrow> Inl (wrap_error ''embeddings decode: '' json_error)
      | Some (es, err) \<Rightarrow>
          if bad_status (hr_status resp) then
            Inl (ErrNew (''embeddings '' @ hr_status_text resp @ '': '' @
              (case err of Some m \<Rightarrow> if m \<noteq> [] then m else hr_status_text resp | None \<Rightarrow> hr_status_text resp)))
          else if length es \<noteq> n then
            Inl (ErrNew (''embeddings: got '' @ nat_text (length es) @ '' vectors for '' @ nat_text n @ '' inputs''))
          else Inr (vectors_in_order es))"

definition Embed ::
    "'w http_client \<Rightarrow> openai_embedder \<Rightarrow> string list \<Rightarrow> 'w rt \<Rightarrow> (goerr + rat list list) \<times> 'w rt" where
  "Embed c e texts r =
     (if texts = [] then (Inr [], r)
      else
        (case http_call c [] [] [] ''POST'' (trim_slashes (oe_base_url e) @ ''/embeddings'')
                (json_content @ [(''Authorization'', ''Bearer '' @ oe_api_key e)])
                (json_obj [(''input'', Some (json_arr (map json_string texts))),
                           (''model'', Some (json_string (oe_model e)))]) r of
           (Inl err, r) \<Rightarrow> (Inl err, r)
         | (Inr resp, r) \<Rightarrow> (embed_answer (length texts) resp, r)))"

text \<open>
  When the service answers with one vector for each input, in any order, they come back in the order of
  the inputs.
\<close>

lemma vectors_by_index:
  assumes "distinct (map em_index es)" and "em_index ` set es = {0..<int (length es)}" and "e \<in> set es"
  shows "vectors_in_order es ! nat (em_index e) = em_vector e"
proof -
  let ?s = "sort_key em_index es"
  have "sorted (map em_index ?s)" "distinct (map em_index ?s)" "set (map em_index ?s) = set [0..int (length es) - 1]"
    using assms(1,2) by (auto simp: distinct_map)
  then have idx: "map em_index ?s = [0..int (length es) - 1]"
    by (intro sorted_distinct_set_unique) simp_all
  have i: "0 \<le> em_index e" "em_index e < int (length es)" using assms(2,3) by auto
  then have n: "nat (em_index e) < length ?s" by (simp add: nat_less_iff)
  have "em_index (?s ! nat (em_index e)) = [0..int (length es) - 1] ! nat (em_index e)"
    using n by (simp flip: idx)
  also have "\<dots> = em_index e" using i by (simp add: nth_upto)
  finally have "?s ! nat (em_index e) = e"
    using assms(1,3) n nth_mem [OF n] unfolding distinct_map by (metis inj_onD set_sort)
  with n show ?thesis by (simp add: vectors_in_order_def)
qed


definition demo_service :: "string \<Rightarrow> unit http_client" where
  "demo_service body =
     \<lparr>hc_new_request = (\<lambda>_ _. None),
      hc_do = (\<lambda>_ _ _ _ r. (Inr \<lparr>hr_status = 200, hr_body = body, hr_read_error = None, hr_status_text = ''200 OK''\<rparr>, r))\<rparr>"

text \<open>Two vectors in the wrong order.\<close>

definition demo_answer :: string where
  "demo_answer =
     (let d = [quote_char] in
      ''{'' @ d @ ''data'' @ d @ '':[{'' @ d @ ''index'' @ d @ '':1,'' @ d @ ''embedding'' @ d @ '':[5]},{'' @ d @ ''embedding'' @ d @
      '':[7]}]}'')"

lemma demo_answer_reads:
  "unmarshal embeddings_field ([], None) demo_answer =
     Some ([\<lparr>em_vector = [5], em_index = 1\<rparr>, \<lparr>em_vector = [7], em_index = 0\<rparr>], None)"
  by code_simp


section \<open>The vector store Chroma (\<open>vectorstore/chroma.go\<close>)\<close>

text \<open>The collection's ID is asked for once and kept; it is the state.\<close>

record chroma_store =
  ch_base_url :: string
  ch_collection :: string

definition NewChroma :: "string \<Rightarrow> string \<Rightarrow> chroma_store" where
  "NewChroma baseURL collection = \<lparr>ch_base_url = trim_slashes baseURL, ch_collection = collection\<rparr>"

record named_id =
  ni_id :: string
  ni_name :: string

definition named_id_field :: "string \<Rightarrow> gval \<Rightarrow> named_id \<Rightarrow> named_id option" where
  "named_id_field k v x =
     (if field_is ''id'' k then decode_string (\<lambda>s x. x\<lparr>ni_id := s\<rparr>) v x
      else if field_is ''name'' k then decode_string (\<lambda>s x. x\<lparr>ni_name := s\<rparr>) v x
      else Some x)"

abbreviation read_named_id :: "gval \<Rightarrow> named_id option" where
  "read_named_id \<equiv> decode_struct named_id_field \<lparr>ni_id = [], ni_name = []\<rparr>"

text \<open>The collections are a list, or the member \<open>data\<close> of an object.\<close>

definition listed_collections :: "string \<Rightarrow> goerr + named_id list" where
  "listed_collections body =
     (case (case json_parse body of None \<Rightarrow> None | Some v \<Rightarrow> read_slice read_named_id v) of
        Some cols \<Rightarrow> Inr cols
      | None \<Rightarrow>
          (case unmarshal (\<lambda>k v (xs :: named_id list).
                  if field_is ''data'' k then read_slice read_named_id v else Some xs) [] body of
             Some (c # cs) \<Rightarrow> Inr (c # cs)
           | _ \<Rightarrow> Inl (wrap_error ''chroma list collections: '' json_error)))"

definition created_id :: "http_reply \<Rightarrow> goerr + string" where
  "created_id resp =
     (if bad_status (hr_status resp) then
        Inl (ErrNew (''chroma create collection: '' @ hr_status_text resp @ '': '' @ hr_body resp))
      else (case unmarshal (\<lambda>k v s. if field_is ''id'' k then decode_string (\<lambda>t _. t) v s else Some s) []
               (hr_body resp) of
          None \<Rightarrow> Inl json_error
        | Some x \<Rightarrow> Inr x))"

definition ensureCollection :: "'w http_client \<Rightarrow> chroma_store \<Rightarrow> ('w, string, string) op" where
  "ensureCollection c ch r known =
     (if known \<noteq> [] then (Ok known, r, known)
      else
        (case http_call c [] [] [] ''GET'' (ch_base_url ch @ ''/collections'') [] [] r of
           (Inl e, r) \<Rightarrow> (Err e, r, known)
         | (Inr resp, r) \<Rightarrow>
             (case listed_collections (hr_body resp) of
                Inl e \<Rightarrow> (Err e, r, known)
              | Inr cols \<Rightarrow>
                  (case find (\<lambda>x. ni_name x = ch_collection ch) cols of
                     Some x \<Rightarrow> (Ok (ni_id x), r, ni_id x)
                   | None \<Rightarrow>
                       (case http_call c [] [] [] ''POST'' (ch_base_url ch @ ''/collections'') json_content
                               (json_obj [(''name'', Some (json_string (ch_collection ch)))]) r of
                          (Inl e, r) \<Rightarrow> (Err e, r, known)
                        | (Inr resp2, r) \<Rightarrow>
                            (case created_id resp2 of
                               Inl e \<Rightarrow> (Err e, r, known)
                             | Inr x \<Rightarrow> (Ok x, r, x)))))))"

text \<open>
  What is sent of a document: a map prints with sorted keys. \<open>float_text\<close> prints a \<open>float64\<close>. A vector
  without elements is taken to be an empty slice and not a nil one, which would print \<open>null\<close>.
\<close>

definition upsert_id :: "nat \<Rightarrow> document \<Rightarrow> string" where
  "upsert_id i d = (if doc_id d = [] then ''doc-'' @ nat_text i else doc_id d)"

definition upsert_metadata :: "document \<Rightarrow> (string \<times> string) list" where
  "upsert_metadata d =
     (let m = (case doc_metadata d of None \<Rightarrow> [] | Some m \<Rightarrow> m)
      in if doc_source d \<noteq> [] then map_put ''source'' (doc_source d) m else m)"

definition vector_text :: "(rat \<Rightarrow> string) \<Rightarrow> rat list \<Rightarrow> string" where
  "vector_text float_text v = json_arr (map float_text v)"

definition upsert_body :: "(rat \<Rightarrow> string) \<Rightarrow> document list \<Rightarrow> rat list list \<Rightarrow> string" where
  "upsert_body float_text docs vectors =
     json_obj
       [(''documents'', Some (json_arr (map (\<lambda>d. json_string (doc_content d)) docs))),
        (''embeddings'', Some (json_arr (map (vector_text float_text) vectors))),
        (''ids'', Some (json_arr (map (\<lambda>(i, d). json_string (upsert_id i d)) (enumerate 0 docs)))),
        (''metadatas'', Some (json_arr (map (\<lambda>d. marshal (VMap (map (\<lambda>(k, v). (k, VStr v)) (upsert_metadata d)))) docs)))]"

text \<open>In both operations a failure to read the whole body goes unnoticed.\<close>

definition Upsert ::
    "'w http_client \<Rightarrow> (rat \<Rightarrow> string) \<Rightarrow> chroma_store \<Rightarrow> document list \<Rightarrow> rat list list \<Rightarrow> ('w, string, unit) op" where
  "Upsert c float_text ch docs vectors =
     (if docs = [] then go_return ()
      else if length docs \<noteq> length vectors then
        go_fail (ErrNew (''chroma upsert: '' @ nat_text (length docs) @ '' docs vs '' @ nat_text (length vectors) @ '' vectors''))
      else
        go_bind (ensureCollection c ch) (\<lambda>cid r s.
          case http_send c [] [] ''POST'' (ch_base_url ch @ ''/collections/'' @ cid @ ''/upsert'') json_content
                 (upsert_body float_text docs vectors) r of
            (Inl e, r) \<Rightarrow> (Err e, r, s)
          | (Inr resp, r) \<Rightarrow>
              (if bad_status (hr_status resp)
               then Err (ErrNew (''chroma upsert: '' @ hr_status_text resp @ '': '' @ hr_body resp))
               else Ok (), r, s)))"

record query_answer =
  qa_ids :: "string list list"
  qa_documents :: "string list list"
  qa_metadatas :: "(string \<times> gval) list option list list"
  qa_distances :: "rat list list"

fun read_map :: "gval \<Rightarrow> (string \<times> gval) list option option" where
  "read_map (VMap m) = Some (Some m)"
| "read_map VNil = Some None"
| "read_map _ = None"

definition query_field :: "string \<Rightarrow> gval \<Rightarrow> query_answer \<Rightarrow> query_answer option" where
  "query_field k v x =
     (if field_is ''ids'' k then map_option (\<lambda>y. x\<lparr>qa_ids := y\<rparr>) (read_slice (read_slice read_text) v)
      else if field_is ''documents'' k then map_option (\<lambda>y. x\<lparr>qa_documents := y\<rparr>) (read_slice (read_slice read_text) v)
      else if field_is ''metadatas'' k then map_option (\<lambda>y. x\<lparr>qa_metadatas := y\<rparr>) (read_slice (read_slice read_map) v)
      else if field_is ''distances'' k then map_option (\<lambda>y. x\<lparr>qa_distances := y\<rparr>) (read_slice (read_slice read_float) v)
      else Some x)"

text \<open>\<open>fmt.Sprint\<close> of a decoded value; \<open>sprint_number\<close> prints a \<open>float64\<close>.\<close>

fun go_sprint :: "(string \<Rightarrow> string) \<Rightarrow> gval \<Rightarrow> string" where
  "go_sprint num VNil = ''<nil>''"
| "go_sprint num (VBool b) = (if b then ''true'' else ''false'')"
| "go_sprint num (VNum t) = num t"
| "go_sprint num (VStr s) = s"
| "go_sprint num (VStrs ss) = ''['' @ join '' '' ss @ '']''"
| "go_sprint num (VList vs) = ''['' @ join '' '' (map (go_sprint num) vs) @ '']''"
| "go_sprint num (VMap m) =
     ''map['' @ join '' '' (map (\<lambda>(k, t). k @ '':'' @ t) (sort_keys (map (\<lambda>(k, v). (k, go_sprint num v)) m))) @ '']''"

text \<open>The first row of a table, at a position, if there is one. A distance is never minus one.\<close>

definition cell :: "'a list list \<Rightarrow> nat \<Rightarrow> 'a option" where
  "cell rows i = (case rows of [] \<Rightarrow> None | row # _ \<Rightarrow> if i < length row then Some (row ! i) else None)"

definition found_document :: "(string \<Rightarrow> string) \<Rightarrow> query_answer \<Rightarrow> nat \<Rightarrow> string \<Rightarrow> document" where
  "found_document num qa i did =
     (let meta = (case cell (qa_metadatas qa) i of Some (Some m) \<Rightarrow> map (\<lambda>(k, v). (k, go_sprint num v)) m | _ \<Rightarrow> []) in
      \<lparr>doc_id = did,
       doc_content = zero_string (cell (qa_documents qa) i),
       doc_score = (case cell (qa_distances qa) i of None \<Rightarrow> 0 | Some far \<Rightarrow> 1 / (1 + far)),
       doc_metadata = Some meta,
       doc_source = zero_string (map_of meta ''source'')\<rparr>)"

definition query_documents :: "(string \<Rightarrow> string) \<Rightarrow> query_answer \<Rightarrow> document list" where
  "query_documents num qa =
     (case qa_ids qa of
        [] \<Rightarrow> []
      | ids # _ \<Rightarrow> map (\<lambda>(i, did). found_document num qa i did) (enumerate 0 ids))"

definition query_body :: "(rat \<Rightarrow> string) \<Rightarrow> rat list \<Rightarrow> int \<Rightarrow> string" where
  "query_body float_text vector k =
     json_obj
       [(''include'', Some (json_arr (map json_string [''documents'', ''metadatas'', ''distances'']))),
        (''n_results'', Some (int_text k)),
        (''query_embeddings'', Some (json_arr [vector_text float_text vector]))]"

definition chroma_Search ::
    "'w http_client \<Rightarrow> (rat \<Rightarrow> string) \<Rightarrow> (string \<Rightarrow> string) \<Rightarrow> chroma_store \<Rightarrow> rat list \<Rightarrow> int \<Rightarrow>
     ('w, string, document list) op" where
  "chroma_Search c float_text num ch vector topK =
     (let k = (if topK \<le> 0 then 5 else topK) in
      go_bind (ensureCollection c ch) (\<lambda>cid r s.
        case http_send c [] [] ''POST'' (ch_base_url ch @ ''/collections/'' @ cid @ ''/query'') json_content
               (query_body float_text vector k) r of
          (Inl e, r) \<Rightarrow> (Err e, r, s)
        | (Inr resp, r) \<Rightarrow>
            (if bad_status (hr_status resp)
             then Err (ErrNew (''chroma query: '' @ hr_status_text resp @ '': '' @ hr_body resp))
             else (case unmarshal query_field \<lparr>qa_ids = [], qa_documents = [], qa_metadatas = [], qa_distances = []\<rparr>
                      (hr_body resp) of
                None \<Rightarrow> Err json_error
              | Some qa \<Rightarrow> Ok (query_documents num qa)), r, s)))"

text \<open>One document for each ID, in their order; the nearer the higher its score, up to one.\<close>

lemma query_documents_ids:
  "map doc_id (query_documents num qa) = (case qa_ids qa of [] \<Rightarrow> [] | ids # _ \<Rightarrow> ids)"
  by (simp add: query_documents_def found_document_def Let_def comp_def case_prod_unfold split: list.split)

lemma query_documents_score:
  assumes "qa_ids qa = ids # ids2" and "qa_distances qa = ds # rest" and "length ds = length ids"
    and "\<forall>d \<in> set ds. 0 \<le> d" and "i < length ids" and "j < length ids" and "ds ! i \<le> ds ! j"
  shows "0 < doc_score (query_documents num qa ! j)"
    and "doc_score (query_documents num qa ! j) \<le> doc_score (query_documents num qa ! i)"
    and "doc_score (query_documents num qa ! i) \<le> 1"
proof -
  have s: "doc_score (query_documents num qa ! k) = 1 / (1 + ds ! k)" if "k < length ids" for k
    using that assms(1,2,3)
    by (simp add: query_documents_def found_document_def cell_def Let_def nth_enumerate_eq)
  have pos: "0 \<le> ds ! i" "0 \<le> ds ! j" using assms(3-6) by simp_all
  show "0 < doc_score (query_documents num qa ! j)" using pos by (simp add: s [OF assms(6)])
  show "doc_score (query_documents num qa ! j) \<le> doc_score (query_documents num qa ! i)"
    using pos assms(7) by (simp add: s [OF assms(5)] s [OF assms(6)] frac_le)
  show "doc_score (query_documents num qa ! i) \<le> 1" using pos by (simp add: s [OF assms(5)])
qed

section \<open>Remote tools (\<open>tool/mcp/mcp_client.go\<close>)\<close>

record mcp_tool =
  mc_server_url :: string
  mc_tool_name :: string
  mc_description :: string
  mc_schema :: "schema_property option"

type_synonym mcp_option = "mcp_tool \<Rightarrow> mcp_tool"

definition mcp_NewTool :: "string \<Rightarrow> string \<Rightarrow> mcp_option list \<Rightarrow> mcp_tool" where
  "mcp_NewTool serverURL toolName opts =
     fold (\<lambda>f t. f t) opts
       \<lparr>mc_server_url = trim_slashes serverURL, mc_tool_name = toolName, mc_description = [], mc_schema = None\<rparr>"

definition mcp_WithDescription :: "string \<Rightarrow> mcp_option" where
  "mcp_WithDescription d t = t\<lparr>mc_description := d\<rparr>"

definition mcp_WithSchema :: "schema_property option \<Rightarrow> mcp_option" where
  "mcp_WithSchema s t = t\<lparr>mc_schema := s\<rparr>"

text \<open>With an error the tool hands on what the server said, too.\<close>

definition mcp_Execute :: "'w http_client \<Rightarrow> mcp_tool \<Rightarrow> params \<Rightarrow> 'w rt \<Rightarrow> tool_result \<times> 'w rt" where
  "mcp_Execute c t input r =
     (case http_call c [] [] [] ''POST'' (mc_server_url t @ ''/tools/'' @ mc_tool_name t) json_content
             (marshal_params input) r of
        (Inl e, r) \<Rightarrow> (([], Some e), r)
      | (Inr resp, r) \<Rightarrow>
          ((hr_body resp,
            if bad_status (hr_status resp)
            then Some (ErrNew (''mcp tool '' @ mc_tool_name t @ '': HTTP '' @ int_text (hr_status resp))) else None), r))"

definition MCPTool :: "'w http_client \<Rightarrow> mcp_tool \<Rightarrow> 'w tool" where
  "MCPTool c t =
     \<lparr>tool_name = mc_tool_name t, tool_description = mc_description t, tool_schema = mc_schema t,
      tool_execute = mcp_Execute c t\<rparr>"

text \<open>
  A schema from JSON. A property that is \<open>null\<close>, in Go a nil pointer, is left out. What a value is as a
  schema and what it is as a map of schemas are read together.
\<close>

definition empty_schema :: schema_property where
  "empty_schema = SchemaProperty [] [] [] None [] None"

fun put_schema_field ::
    "string \<times> gval \<times> schema_property option \<times> (string \<times> schema_property) list option \<Rightarrow>
     schema_property option \<Rightarrow> schema_property option" where
  "put_schema_field (k, v, as_schema, as_map) None = None"
| "put_schema_field (k, v, as_schema, as_map) (Some (SchemaProperty t d e ps req it)) =
     (if field_is ''type'' k then decode_string (\<lambda>s _. SchemaProperty s d e ps req it) v (SchemaProperty t d e ps req it)
      else if field_is ''description'' k then
        decode_string (\<lambda>s _. SchemaProperty t s e ps req it) v (SchemaProperty t d e ps req it)
      else if field_is ''enum'' k then map_option (\<lambda>xs. SchemaProperty t d xs ps req it) (read_slice read_text v)
      else if field_is ''properties'' k then
        (if v = VNil then Some (SchemaProperty t d e None req it)
         else map_option (\<lambda>m. SchemaProperty t d e (Some m) req it) as_map)
      else if field_is ''required'' k then map_option (\<lambda>xs. SchemaProperty t d e ps xs it) (read_slice read_text v)
      else if field_is ''items'' k then
        (if v = VNil then Some (SchemaProperty t d e ps req None)
         else map_option (\<lambda>s. SchemaProperty t d e ps req (Some s)) as_schema)
      else Some (SchemaProperty t d e ps req it))"

fun all_schemas :: "(string \<times> gval \<times> 'a option \<times> 'b) list \<Rightarrow> (string \<times> 'a) list option" where
  "all_schemas [] = Some []"
| "all_schemas ((k, v, s, _) # m) =
     (case all_schemas m of
        None \<Rightarrow> None
      | Some ys \<Rightarrow> if v = VNil then Some ys else (case s of None \<Rightarrow> None | Some x \<Rightarrow> Some ((k, x) # ys)))"

fun read_schema :: "gval \<Rightarrow> schema_property option \<times> (string \<times> schema_property) list option" where
  "read_schema (VMap m) =
     (let inner = map (\<lambda>(k, v). (k, v, read_schema v)) m
      in (fold put_schema_field inner (Some empty_schema), all_schemas inner))"
| "read_schema _ = (None, None)"

text \<open>The tools of a server: a list that is not empty, or the member \<open>tools\<close> of an object.\<close>

record tool_meta =
  tm_name :: string
  tm_description :: string
  tm_schema :: "schema_property option"

definition tool_meta_field :: "string \<Rightarrow> gval \<Rightarrow> tool_meta \<Rightarrow> tool_meta option" where
  "tool_meta_field k v x =
     (if field_is ''name'' k then decode_string (\<lambda>s x. x\<lparr>tm_name := s\<rparr>) v x
      else if field_is ''description'' k then decode_string (\<lambda>s x. x\<lparr>tm_description := s\<rparr>) v x
      else if field_is ''schema'' k then
        (if v = VNil then Some (x\<lparr>tm_schema := None\<rparr>)
         else map_option (\<lambda>s. x\<lparr>tm_schema := Some s\<rparr>) (fst (read_schema v)))
      else Some x)"

abbreviation read_tool_meta :: "gval \<Rightarrow> tool_meta option" where
  "read_tool_meta \<equiv> decode_struct tool_meta_field \<lparr>tm_name = [], tm_description = [], tm_schema = None\<rparr>"

definition wrapDiscovered :: "string \<Rightarrow> tool_meta list \<Rightarrow> mcp_tool list" where
  "wrapDiscovered serverURL metas =
     map (\<lambda>m. mcp_NewTool serverURL (tm_name m)
            (mcp_WithDescription (tm_description m) #
             (case tm_schema m of None \<Rightarrow> [] | Some s \<Rightarrow> [mcp_WithSchema (Some s)])))
       (filter (\<lambda>m. tm_name m \<noteq> []) metas)"

definition discovered :: "string \<Rightarrow> string \<Rightarrow> goerr + mcp_tool list" where
  "discovered base body =
     (case (case json_parse body of None \<Rightarrow> None | Some v \<Rightarrow> read_slice read_tool_meta v) of
        Some (m # ms) \<Rightarrow> Inr (wrapDiscovered base (m # ms))
      | _ \<Rightarrow>
          (case unmarshal (\<lambda>k v (xs :: tool_meta list).
                  if field_is ''tools'' k then read_slice read_tool_meta v else Some xs) [] body of
             None \<Rightarrow> Inl json_error
           | Some [] \<Rightarrow> Inl (ErrNew ''discover tools: empty tool list'')
           | Some (m # ms) \<Rightarrow> Inr (wrapDiscovered base (m # ms))))"

definition DiscoverTools :: "'w http_client \<Rightarrow> string \<Rightarrow> 'w rt \<Rightarrow> (goerr + mcp_tool list) \<times> 'w rt" where
  "DiscoverTools c serverURL r =
     (let base = trim_slashes serverURL in
      case in_background (http_call c [] [] [] ''GET'' (base @ ''/tools'') [] []) r of
        (Inl e, r) \<Rightarrow> (Inl e, r)
      | (Inr resp, r) \<Rightarrow>
          (if bad_status (hr_status resp)
           then Inl (ErrNew (''discover tools: HTTP '' @ int_text (hr_status resp)))
           else discovered base (hr_body resp), r))"

section \<open>Runtimes (package \<open>runtime\<close>)\<close>

record exec_output =
  eo_stdout :: string
  eo_stderr :: string
  eo_exit_code :: int

text \<open>
  A process of the operating system, by its directory, command and arguments: what it wrote, and how
  \<open>cmd.Run()\<close> failed, if it did.
\<close>

datatype run_error = Exited int | NotRun goerr

type_synonym 'w processes =
  "string \<Rightarrow> string \<Rightarrow> string list \<Rightarrow> 'w rt \<Rightarrow> (string \<times> string \<times> run_error option) \<times> 'w rt"

definition local_Exec ::
    "'w processes \<Rightarrow> string \<Rightarrow> string \<Rightarrow> string list \<Rightarrow> 'w rt \<Rightarrow> (goerr + exec_output) \<times> 'w rt" where
  "local_Exec run workDir command args r =
     (case run workDir command args r of
        ((out, err, failure), r) \<Rightarrow>
          (case failure of
             None \<Rightarrow> Inr \<lparr>eo_stdout = out, eo_stderr = err, eo_exit_code = 0\<rparr>
           | Some (Exited code) \<Rightarrow> Inr \<lparr>eo_stdout = out, eo_stderr = err, eo_exit_code = code\<rparr>
           | Some (NotRun e) \<Rightarrow> Inl e, r))"

record e2b_config =
  ec_api_key :: string
  ec_template_id :: string
  ec_api_base_url :: string
  ec_timeout :: int
  ec_env_vars :: "(string \<times> string) list option"

record e2b_runtime =
  er_api_key :: string
  er_api_base :: string
  er_sandbox_id :: string
  er_envd_base :: string

definition omit_empty_map :: "(string \<times> string) list option \<Rightarrow> string option" where
  "omit_empty_map m =
     (case m of
        None \<Rightarrow> None
      | Some kvs \<Rightarrow> if kvs = [] then None else Some (marshal (VMap (map (\<lambda>(k, v). (k, VStr v)) kvs))))"

definition e2b_create_body :: "string \<Rightarrow> int \<Rightarrow> (string \<times> string) list option \<Rightarrow> string" where
  "e2b_create_body templateID timeout envVars =
     json_obj
       [(''templateID'', Some (json_string templateID)),
        (''timeout'', if timeout = 0 then None else Some (int_text timeout)),
        (''envVars'', omit_empty_map envVars)]"

text \<open>Of the answer the sandbox and the client are used; the other members must be texts all the same.\<close>

definition e2b_create_field :: "string \<Rightarrow> gval \<Rightarrow> string \<times> string \<Rightarrow> (string \<times> string) option" where
  "e2b_create_field k v x =
     (if field_is ''sandboxid'' k then decode_string (\<lambda>s (_, cl). (s, cl)) v x
      else if field_is ''clientid'' k then decode_string (\<lambda>s (sb, _). (sb, s)) v x
      else if field_is ''templateid'' k \<or> field_is ''envdversion'' k \<or> field_is ''envdaccesstoken'' k then
        decode_string (\<lambda>_ x. x) v x
      else Some x)"

definition e2b_error_field :: "string \<Rightarrow> gval \<Rightarrow> int \<times> string \<Rightarrow> (int \<times> string) option" where
  "e2b_error_field k v x =
     (if field_is ''code'' k then decode_int (\<lambda>i (_, m). (i, m)) v x
      else if field_is ''message'' k then decode_string (\<lambda>s (i, _). (i, s)) v x
      else Some x)"

definition e2b_failure :: "string \<Rightarrow> string \<Rightarrow> string \<Rightarrow> http_reply \<Rightarrow> goerr" where
  "e2b_failure before between after resp =
     (case unmarshal e2b_error_field (0, []) (hr_body resp) of
        Some (code, m) \<Rightarrow>
          if m \<noteq> [] then ErrNew (''e2b api error '' @ int_text code @ '': '' @ m)
          else ErrNew (before @ int_text (hr_status resp) @ between @ hr_body resp @ after)
      | None \<Rightarrow> ErrNew (before @ int_text (hr_status resp) @ between @ hr_body resp @ after))"

definition createSandbox ::
    "'w http_client \<Rightarrow> string \<Rightarrow> string \<Rightarrow> string \<Rightarrow> 'w rt \<Rightarrow> (goerr + string \<times> string) \<times> 'w rt" where
  "createSandbox c apiKey apiBase body r =
     (case http_call c [] [] [] ''POST'' (apiBase @ ''/sandboxes'') (json_content @ [(''X-API-Key'', apiKey)]) body r of
        (Inl e, r) \<Rightarrow> (Inl e, r)
      | (Inr resp, r) \<Rightarrow>
          (if hr_status resp \<noteq> 201 \<and> hr_status resp \<noteq> 200
           then Inl (e2b_failure ''create sandbox failed ('' ''): '' [] resp)
           else (case unmarshal e2b_create_field ([], []) (hr_body resp) of
               None \<Rightarrow> Inl (wrap_error ''decode response: '' json_error)
             | Some x \<Rightarrow> Inr x), r))"

definition NewE2B :: "'w http_client \<Rightarrow> e2b_config \<Rightarrow> 'w rt \<Rightarrow> (goerr + e2b_runtime) \<times> 'w rt" where
  "NewE2B c cfg r =
     (if ec_api_key cfg = [] then (Inl (ErrNew ''e2b: API key is required''), r)
      else
        let apiBase = (if ec_api_base_url cfg = [] then ''https://api.e2b.app'' else ec_api_base_url cfg);
            templateID = (if ec_template_id cfg = [] then ''base'' else ec_template_id cfg);
            timeout = (if ec_timeout cfg \<le> 0 then 300 else ec_timeout cfg)
        in case in_background (createSandbox c (ec_api_key cfg) apiBase
                  (e2b_create_body templateID timeout (ec_env_vars cfg))) r of
             (Inl e, r) \<Rightarrow> (Inl (wrap_error ''e2b: create sandbox: '' e), r)
           | (Inr (sandboxID, clientID), r) \<Rightarrow>
               (Inr \<lparr>er_api_key = ec_api_key cfg, er_api_base = apiBase, er_sandbox_id = sandboxID,
                     er_envd_base = ''https://'' @ sandboxID @ ''-'' @ clientID @ ''.e2b.dev''\<rparr>, r))"

record e2b_command_resp =
  er_stdout :: string
  er_stderr :: string
  er_exit_code :: int
  er_error :: string

definition e2b_command_field :: "string \<Rightarrow> gval \<Rightarrow> e2b_command_resp \<Rightarrow> e2b_command_resp option" where
  "e2b_command_field k v x =
     (if field_is ''stdout'' k then decode_string (\<lambda>s x. x\<lparr>er_stdout := s\<rparr>) v x
      else if field_is ''stderr'' k then decode_string (\<lambda>s x. x\<lparr>er_stderr := s\<rparr>) v x
      else if field_is ''exitcode'' k then decode_int (\<lambda>i x. x\<lparr>er_exit_code := i\<rparr>) v x
      else if field_is ''pid'' k then decode_int (\<lambda>_ x. x) v x
      else if field_is ''error'' k then decode_string (\<lambda>s x. x\<lparr>er_error := s\<rparr>) v x
      else Some x)"

text \<open>The arguments are put behind the command, each after a space and none of them quoted.\<close>

definition e2b_command :: "string \<Rightarrow> string list \<Rightarrow> string" where
  "e2b_command command args = command @ concat (map (\<lambda>a. '' '' @ a) args)"

definition e2b_output :: "http_reply \<Rightarrow> goerr + exec_output" where
  "e2b_output resp =
     (if hr_status resp \<ge> 400 then Inl (e2b_failure ''e2b: command failed with status '' '': '' [] resp)
      else (case unmarshal e2b_command_field \<lparr>er_stdout = [], er_stderr = [], er_exit_code = 0, er_error = []\<rparr>
               (hr_body resp) of
          None \<Rightarrow> Inl (wrap_error ''e2b: decode response: '' json_error)
        | Some x \<Rightarrow>
            Inr \<lparr>eo_stdout = er_stdout x, eo_stderr = (if er_error x \<noteq> [] then er_error x else er_stderr x),
                 eo_exit_code = er_exit_code x\<rparr>))"

definition e2b_Exec ::
    "'w http_client \<Rightarrow> e2b_runtime \<Rightarrow> string \<Rightarrow> string list \<Rightarrow> 'w rt \<Rightarrow> (goerr + exec_output) \<times> 'w rt" where
  "e2b_Exec c rt command args r =
     (case http_call c ''e2b: build request: '' ''e2b: execute command: '' ''e2b: read response: '' ''POST''
             (er_envd_base rt @ ''/commands'') (json_content @ [(''X-API-Key'', er_api_key rt)])
             (json_obj [(''cmd'', Some (json_string (e2b_command command args)))]) r of
        (Inl e, r) \<Rightarrow> (Inl e, r)
      | (Inr resp, r) \<Rightarrow> (e2b_output resp, r))"

definition e2b_Close :: "'w http_client \<Rightarrow> 'w rt \<Rightarrow> e2b_runtime \<Rightarrow> goerr option \<times> 'w rt \<times> e2b_runtime" where
  "e2b_Close c r rt =
     (if er_sandbox_id rt = [] then (None, r, rt)
      else
        (case in_background (http_send c ''e2b: build delete request: '' ''e2b: delete sandbox: '' ''DELETE''
                (er_api_base rt @ ''/sandboxes/'' @ er_sandbox_id rt) [(''X-API-Key'', er_api_key rt)] []) r of
           (Inl e, r) \<Rightarrow> (Some e, r, rt)
         | (Inr resp, r) \<Rightarrow>
             if hr_status resp \<ge> 400 \<and> hr_status resp \<noteq> 404 then
               (Some (ErrNew (''e2b: delete sandbox '' @ er_sandbox_id rt @ '' failed ('' @ int_text (hr_status resp) @
                  ''): '' @ hr_body resp)), r, rt)
             else (None, r, rt\<lparr>er_sandbox_id := []\<rparr>)))"

datatype sandbox_type = SandboxDocker | SandboxWorktree | SandboxE2B | OtherSandbox int

record sandbox_config =
  sb_type :: sandbox_type
  sb_image :: string
  sb_work_dir :: string
  sb_git_repo :: string
  sb_branch_name :: string
  sb_e2b :: "e2b_config option"

datatype runtime = LocalRuntime string | E2BRuntime e2b_runtime

definition NewSandbox :: "'w http_client \<Rightarrow> sandbox_config \<Rightarrow> 'w rt \<Rightarrow> (goerr + runtime) \<times> 'w rt" where
  "NewSandbox c cfg r =
     (case sb_type cfg of
        SandboxDocker \<Rightarrow> (Inr (LocalRuntime (sb_work_dir cfg)), r)
      | SandboxWorktree \<Rightarrow> (Inr (LocalRuntime (sb_work_dir cfg)), r)
      | SandboxE2B \<Rightarrow>
          (case sb_e2b cfg of
             None \<Rightarrow> (Inl (ErrNew ''E2B config is required for SandboxE2B type''), r)
           | Some e2b \<Rightarrow>
               (case NewE2B c e2b r of
                  (Inl e, r) \<Rightarrow> (Inl (wrap_error ''create E2B sandbox: '' e), r)
                | (Inr rt, r) \<Rightarrow> (Inr (E2BRuntime rt), r)))
      | OtherSandbox n \<Rightarrow> (Inl (ErrNew (''unknown sandbox type: '' @ int_text n)), r))"

definition sandbox_Exec ::
    "'w processes \<Rightarrow> 'w http_client \<Rightarrow> runtime \<Rightarrow> string \<Rightarrow> string list \<Rightarrow> 'w rt \<Rightarrow> (goerr + exec_output) \<times> 'w rt" where
  "sandbox_Exec run c rt command args r =
     (case rt of
        LocalRuntime dir \<Rightarrow> local_Exec run dir command args r
      | E2BRuntime e \<Rightarrow> e2b_Exec c e command args r)"

definition sandbox_Close :: "'w http_client \<Rightarrow> 'w rt \<Rightarrow> runtime \<Rightarrow> goerr option \<times> 'w rt \<times> runtime" where
  "sandbox_Close c r rt =
     (case rt of
        LocalRuntime dir \<Rightarrow> (None, r, rt)
      | E2BRuntime e \<Rightarrow> (case e2b_Close c r e of (err, r, e) \<Rightarrow> (err, r, E2BRuntime e)))"

section \<open>What a sandbox is\<close>

text \<open>
  C33. Only with E2B do commands run elsewhere: a sandbox of type Docker or Worktree is the local
  runtime, whatever image, repository or branch it was given, and its commands are processes of the host
  in its working directory. With E2B no process of the host is started; but the arguments are not quoted,
  so one argument with a space is two. Closing that succeeded is done once and for all; closing that
  failed changes nothing and can be tried again.
\<close>

theorem sandbox_isolation:
  assumes "NewSandbox c cfg r = (Inr rt, r')"
  shows "(sb_type cfg = SandboxE2B \<or>
      r' = r \<and> (\<forall>command args s. sandbox_Exec run c rt command args s = local_Exec run (sb_work_dir cfg) command args s)) \<and>
    (sb_type cfg \<noteq> SandboxE2B \<or>
      (\<forall>run2 command args s. sandbox_Exec run c rt command args s = sandbox_Exec run2 c rt command args s) \<and>
      (\<forall>command a b args s. sandbox_Exec run c rt command ((a @ '' '' @ b) # args) s =
        sandbox_Exec run c rt command (a # b # args) s)) \<and>
    (case sandbox_Close c s rt of (err, s', rt') \<Rightarrow>
      if err = None then (\<forall>s. sandbox_Close c s rt' = (None, s, rt')) else rt' = rt)"
proof -
  have close: "case sandbox_Close c s rt of (err, s', rt') \<Rightarrow>
      if err = None then (\<forall>s. sandbox_Close c s rt' = (None, s, rt')) else rt' = rt"
    by (auto simp: sandbox_Close_def e2b_Close_def split: runtime.split prod.split sum.split)
  show ?thesis
  proof (cases "sb_type cfg = SandboxE2B")
    case True
    then obtain e where "rt = E2BRuntime e"
      using assms by (auto simp: NewSandbox_def split: option.splits prod.splits sum.splits)
    with True close show ?thesis by (simp add: sandbox_Exec_def e2b_Exec_def e2b_command_def)
  next
    case False
    then have "r' = r" "rt = LocalRuntime (sb_work_dir cfg)"
      using assms by (auto simp: NewSandbox_def split: sandbox_type.splits)
    with False close show ?thesis by (simp add: sandbox_Exec_def)
  qed
qed

definition demo_sandbox :: sandbox_config where
  "demo_sandbox =
     \<lparr>sb_type = SandboxDocker, sb_image = ''alpine'', sb_work_dir = ''/home/me'', sb_git_repo = [],
      sb_branch_name = [], sb_e2b = None\<rparr>"

definition demo_processes :: "unit processes" where
  "demo_processes dir command args r = (('' on the host in '' @ dir, [], None), r)"

lemma sandbox_isolation_witness:
  "sandbox_Exec demo_processes (demo_service []) (LocalRuntime ''/home/me'') ''rm'' [''-rf'', ''x'']
     \<lparr>rt_ctx = Background, rt_world = ()\<rparr> =
   (Inr \<lparr>eo_stdout = '' on the host in /home/me'', eo_stderr = [], eo_exit_code = 0\<rparr>,
    \<lparr>rt_ctx = Background, rt_world = ()\<rparr>)"
proof -
  let ?r = "\<lparr>rt_ctx = Background, rt_world = ()\<rparr>"
  have "NewSandbox (demo_service []) demo_sandbox ?r = (Inr (LocalRuntime ''/home/me''), ?r)"
    by (simp add: NewSandbox_def demo_sandbox_def)
  from sandbox_isolation [OF this, of demo_processes] show ?thesis
    by (simp add: demo_sandbox_def local_Exec_def demo_processes_def)
qed

end
