(* ===== verification/Logger.thy ===== *)
theory Logger
  imports Hook GoFormat Metrics
begin

text \<open>
  \<open>hook/logger.go\<close>, the hook that writes every event as a line, with the payloads of \<open>hook/payload.go\<close>
  and their durations, and \<open>metrics/log_handler.go\<close>. A time stamp is the text it is printed as. Writing
  is a parameter: an operation answers the texts it writes, in order.
\<close>

section \<open>Quoting any bytes\<close>

text \<open>
  A preview may be cut in the middle of a rune, so \<open>strconv.Quote\<close> is modelled for every list of bytes
  here: bytes that are no UTF-8 are printed as numbers. Runes outside ASCII are taken to be printable.
\<close>

definition tail_byte :: "nat \<Rightarrow> nat \<Rightarrow> char list \<Rightarrow> nat \<Rightarrow> bool" where
  "tail_byte lo hi s i \<longleftrightarrow> i < length s \<and> lo \<le> char_code (s ! i) \<and> char_code (s ! i) \<le> hi"

text \<open>The length of the rune a text starts with; zero when these bytes are no rune.\<close>

definition rune_size :: "string \<Rightarrow> nat" where
  "rune_size s =
     (case s of
        [] \<Rightarrow> 0
      | c # _ \<Rightarrow>
          let b = char_code c; more = tail_byte 0x80 0xBF s in
          if b < 0x80 then 1
          else if 0xC2 \<le> b \<and> b \<le> 0xDF then (if more 1 then 2 else 0)
          else if 0xE0 \<le> b \<and> b \<le> 0xEF then
            (if tail_byte (if b = 0xE0 then 0xA0 else 0x80) (if b = 0xED then 0x9F else 0xBF) s 1 \<and> more 2 then 3 else 0)
          else if 0xF0 \<le> b \<and> b \<le> 0xF4 then
            (if tail_byte (if b = 0xF0 then 0x90 else 0x80) (if b = 0xF4 then 0x8F else 0xBF) s 1 \<and> more 2 \<and> more 3
             then 4 else 0)
          else 0)"

definition byte_escape :: "char \<Rightarrow> string" where
  "byte_escape c =
     (let n = char_code c in [backslash, CHR ''x'', hex_digit (n div 16), hex_digit (n mod 16)])"

function quote_bytes :: "string \<Rightarrow> string" where
  "quote_bytes [] = []"
| "quote_bytes (c # s) =
     (let n = rune_size (c # s) in
      if n = 0 then byte_escape c @ quote_bytes s
      else if n = 1 then quote_escape c @ quote_bytes s
      else take n (c # s) @ quote_bytes (drop n (c # s)))"
  by pat_completeness auto
termination
  by (relation "measure length") (auto simp: length_drop)

definition quoted :: "string \<Rightarrow> string" where
  "quoted s = [quote_char] @ quote_bytes s @ [quote_char]"

section \<open>Payloads\<close>

record plan_done_payload =
  pd_iteration :: int
  pd_reasoning :: string
  pd_action_summary :: string
  pd_duration :: int

record tool_call_start_payload =
  ts_tool_name :: string
  ts_input :: params

record tool_call_done_payload =
  td_tool_name :: string
  td_output :: string
  td_error :: "goerr option"
  td_duration :: int

record eval_start_payload =
  es_iteration :: int
  es_steps :: int

record eval_done_payload =
  ed_iteration :: int
  ed_steps :: int
  ed_decision :: string
  ed_feedback :: string
  ed_duration :: int

record error_payload =
  ep_error :: "goerr option"
  ep_state :: string

text \<open>A value of type \<open>any\<close> holds a struct or a pointer to one, which may be nil.\<close>

datatype 'a boxed = Value 'a | Pointer "'a option"

datatype payload_data =
    NoPayload
  | PlanStartP int
  | PlanDoneP "plan_done_payload boxed"
  | ToolCallStartP "tool_call_start_payload boxed"
  | ToolCallDoneP "tool_call_done_payload boxed"
  | EvalStartP "eval_start_payload boxed"
  | EvalDoneP "eval_done_payload boxed"
  | ErrorP "error_payload boxed"
  | StringP string
  | StringMapP "(string \<times> string) list option"
  | OtherP

text \<open>With it, what reflection makes of it: the name of its type, its JSON, and how it is printed.\<close>

record payload =
  pl_data :: payload_data
  pl_type :: string
  pl_json :: "goerr + string"
  pl_print :: string

fun unbox :: "'a boxed \<Rightarrow> 'a option" where
  "unbox (Value x) = Some x"
| "unbox (Pointer p) = p"

definition planDonePayload :: "payload \<Rightarrow> plan_done_payload option" where
  "planDonePayload v = (case pl_data v of PlanDoneP p \<Rightarrow> unbox p | _ \<Rightarrow> None)"

definition toolCallStartPayload :: "payload \<Rightarrow> tool_call_start_payload option" where
  "toolCallStartPayload v = (case pl_data v of ToolCallStartP p \<Rightarrow> unbox p | _ \<Rightarrow> None)"

definition toolCallDonePayload :: "payload \<Rightarrow> tool_call_done_payload option" where
  "toolCallDonePayload v = (case pl_data v of ToolCallDoneP p \<Rightarrow> unbox p | _ \<Rightarrow> None)"

definition evalStartPayload :: "payload \<Rightarrow> eval_start_payload option" where
  "evalStartPayload v = (case pl_data v of EvalStartP p \<Rightarrow> unbox p | _ \<Rightarrow> None)"

definition evalDonePayload :: "payload \<Rightarrow> eval_done_payload option" where
  "evalDonePayload v = (case pl_data v of EvalDoneP p \<Rightarrow> unbox p | _ \<Rightarrow> None)"

definition errorPayload :: "payload \<Rightarrow> error_payload option" where
  "errorPayload v = (case pl_data v of ErrorP p \<Rightarrow> unbox p | _ \<Rightarrow> None)"

definition stringPayload :: "payload \<Rightarrow> string option" where
  "stringPayload v = (case pl_data v of StringP s \<Rightarrow> Some s | _ \<Rightarrow> None)"

definition stringMapPayload :: "payload \<Rightarrow> (string \<times> string) list option" where
  "stringMapPayload v = (case pl_data v of StringMapP m \<Rightarrow> Some (case m of None \<Rightarrow> [] | Some kvs \<Rightarrow> kvs) | _ \<Rightarrow> None)"

section \<open>Previews\<close>

definition previewText :: "string \<Rightarrow> int \<Rightarrow> string" where
  "previewText s limit =
     (let s = trim_space (map (\<lambda>c. if c = CHR 0x0A then CHR '' '' else c) s) in
      if s = [] \<or> limit \<le> 0 then s
      else if int (length s) \<le> limit then s
      else take (nat limit) s @ ''...(truncated)'')"

text \<open>What cannot be marshalled is printed instead.\<close>

definition previewJSON :: "(goerr + string) \<Rightarrow> string \<Rightarrow> int \<Rightarrow> string" where
  "previewJSON json printed limit =
     (case json of
        Inl _ \<Rightarrow> quoted (previewText printed limit)
      | Inr t \<Rightarrow> quoted (previewText t limit))"

definition payload_preview :: "payload \<Rightarrow> int \<Rightarrow> string" where
  "payload_preview v limit = (if pl_data v = NoPayload then [] else previewJSON (pl_json v) (pl_print v) limit)"

section \<open>The hook\<close>

datatype event_type =
    TPlanStart | TPlanDone | TToolCallStart | TToolCallDone | TEvalStart | TEvalDone | TLoopComplete | TError
  | TStreamChunk | TSkillContextLog | TRuleView | TSkillCallStart | TSkillCallDone | TOther int

fun eventTypeName :: "event_type \<Rightarrow> string" where
  "eventTypeName TPlanStart = ''PLAN_START''"
| "eventTypeName TPlanDone = ''PLAN_DONE''"
| "eventTypeName TToolCallStart = ''TOOL_CALL_START''"
| "eventTypeName TToolCallDone = ''TOOL_CALL_DONE''"
| "eventTypeName TEvalStart = ''EVAL_START''"
| "eventTypeName TEvalDone = ''EVAL_DONE''"
| "eventTypeName TLoopComplete = ''LOOP_COMPLETE''"
| "eventTypeName TError = ''ERROR''"
| "eventTypeName TStreamChunk = ''STREAM_CHUNK''"
| "eventTypeName TSkillContextLog = ''SKILL_CONTEXT_LOG''"
| "eventTypeName TRuleView = ''RULE_VIEW''"
| "eventTypeName TSkillCallStart = ''SKILL_CALL_START''"
| "eventTypeName TSkillCallDone = ''SKILL_CALL_DONE''"
| "eventTypeName (TOther n) = ''EVENT_'' @ int_text n"

record hook_event =
  he_type :: event_type
  he_payload :: payload
  he_time :: string

datatype logger_mode = LoggerModeConcise | LoggerModeDetailed

record logger_hook =
  lh_prefix :: string
  lh_mode :: logger_mode

definition NewLogger :: logger_hook where
  "NewLogger = \<lparr>lh_prefix = ''[agent]'', lh_mode = LoggerModeDetailed\<rparr>"

definition NewLoggerWithPrefix :: "string \<Rightarrow> logger_hook" where
  "NewLoggerWithPrefix prefix = \<lparr>lh_prefix = prefix, lh_mode = LoggerModeDetailed\<rparr>"

definition NewLoggerWithMode :: "logger_mode \<Rightarrow> logger_hook" where
  "NewLoggerWithMode mode = \<lparr>lh_prefix = ''[agent]'', lh_mode = mode\<rparr>"

definition NewLoggerWithPrefixAndMode :: "string \<Rightarrow> logger_mode \<Rightarrow> logger_hook" where
  "NewLoggerWithPrefixAndMode prefix mode = \<lparr>lh_prefix = prefix, lh_mode = mode\<rparr>"

definition loggerPreviewLimit :: int where
  "loggerPreviewLimit = 160"

text \<open>\<open> name=value\<close> where there is a preview, and the texts of detailed mode only.\<close>

definition shown :: "string \<Rightarrow> string \<Rightarrow> string list" where
  "shown name text =
     (let p = previewText text loggerPreviewLimit in if p \<noteq> [] then ['' '' @ name @ ''='' @ quoted p] else [])"

definition detailed :: "logger_hook \<Rightarrow> string list \<Rightarrow> string list" where
  "detailed l ts = (if lh_mode l = LoggerModeDetailed then ts else [])"

definition other_payload :: "payload \<Rightarrow> string list" where
  "other_payload v = ['' payload_type='' @ pl_type v @ newline]"

definition unknown_payload :: "payload \<Rightarrow> string list" where
  "unknown_payload v = ['' payload='' @ payload_preview v loggerPreviewLimit @ newline]"

definition log_plan_done :: "logger_hook \<Rightarrow> payload \<Rightarrow> string list" where
  "log_plan_done l v =
     (case planDonePayload v of
        None \<Rightarrow> other_payload v
      | Some p \<Rightarrow>
          ['' iteration='' @ int_text (pd_iteration p)] @
          detailed l (('' duration='' @ duration_text (pd_duration p)) #
            (if previewText (pd_reasoning p) loggerPreviewLimit \<noteq> [] then shown ''reasoning'' (pd_reasoning p)
             else shown ''action'' (pd_action_summary p))) @
          [newline])"

definition log_tool_start :: "logger_hook \<Rightarrow> payload \<Rightarrow> string list" where
  "log_tool_start l v =
     (case toolCallStartPayload v of
        None \<Rightarrow> other_payload v
      | Some p \<Rightarrow>
          ['' tool='' @ quoted (ts_tool_name p)] @
          detailed l ['' input='' @ previewJSON (Inr (marshal_params (ts_input p))) [] loggerPreviewLimit] @
          [newline])"

definition log_tool_done :: "logger_hook \<Rightarrow> payload \<Rightarrow> string list" where
  "log_tool_done l v =
     (case toolCallDonePayload v of
        None \<Rightarrow> other_payload v
      | Some p \<Rightarrow>
          ['' tool='' @ quoted (td_tool_name p)] @
          detailed l (('' duration='' @ duration_text (td_duration p)) # shown ''output'' (td_output p)) @
          (case td_error p of None \<Rightarrow> [] | Some e \<Rightarrow> ['' err='' @ quoted (err_text e)]) @
          [newline])"

definition log_eval_start :: "payload \<Rightarrow> string list" where
  "log_eval_start v =
     (case evalStartPayload v of
        None \<Rightarrow> [newline]
      | Some p \<Rightarrow> ['' iteration='' @ int_text (es_iteration p) @ '' steps='' @ int_text (es_steps p) @ newline])"

definition log_eval_done :: "logger_hook \<Rightarrow> payload \<Rightarrow> string list" where
  "log_eval_done l v =
     (case evalDonePayload v of
        None \<Rightarrow> other_payload v
      | Some p \<Rightarrow>
          ['' iteration='' @ int_text (ed_iteration p) @ '' steps='' @ int_text (ed_steps p) @ '' decision='' @
             quoted (ed_decision p)] @
          detailed l (('' duration='' @ duration_text (ed_duration p)) # shown ''feedback'' (ed_feedback p)) @
          [newline])"

definition log_error :: "payload \<Rightarrow> string list" where
  "log_error v =
     (case errorPayload v of
        None \<Rightarrow> other_payload v
      | Some p \<Rightarrow>
          ['' error='' @ quoted (case ep_error p of None \<Rightarrow> ''<nil>'' | Some e \<Rightarrow> err_text e) @ '' state='' @
             quoted (ep_state p) @ newline])"

definition log_rule_view :: "payload \<Rightarrow> string list" where
  "log_rule_view v =
     (case stringPayload v of
        None \<Rightarrow> unknown_payload v
      | Some name \<Rightarrow> ['' rule='' @ quoted name @ newline])"

text \<open>\<open>key\<close> is \<open>input\<close> at the start of a skill and \<open>output\<close> at its end.\<close>

definition log_skill :: "logger_hook \<Rightarrow> string \<Rightarrow> payload \<Rightarrow> string list" where
  "log_skill l key v =
     (case stringMapPayload v of
        None \<Rightarrow> unknown_payload v
      | Some m \<Rightarrow>
          ['' skill='' @ quoted (zero_string (map_of m ''skill''))] @
          detailed l (shown key (zero_string (map_of m key))) @
          [newline])"

definition log_skill_context :: "logger_hook \<Rightarrow> payload \<Rightarrow> string list" where
  "log_skill_context l v =
     (if lh_mode l = LoggerModeDetailed then
        (case pl_data v of
           StringP s \<Rightarrow> ['' log='' @ quoted (previewText s loggerPreviewLimit) @ newline]
         | _ \<Rightarrow> ['' log='' @ payload_preview v loggerPreviewLimit @ newline])
      else [newline])"

text \<open>It never answers an error.\<close>

definition OnEvent :: "logger_hook \<Rightarrow> hook_event \<Rightarrow> string list" where
  "OnEvent l ev =
     (he_time ev @ '' '' @ lh_prefix l @ '' '' @ eventTypeName (he_type ev)) #
     (let v = he_payload ev in
      case he_type ev of
        TPlanDone \<Rightarrow> log_plan_done l v
      | TToolCallStart \<Rightarrow> log_tool_start l v
      | TToolCallDone \<Rightarrow> log_tool_done l v
      | TEvalStart \<Rightarrow> log_eval_start v
      | TEvalDone \<Rightarrow> log_eval_done l v
      | TError \<Rightarrow> log_error v
      | TRuleView \<Rightarrow> log_rule_view v
      | TSkillCallStart \<Rightarrow> log_skill l ''input'' v
      | TSkillCallDone \<Rightarrow> log_skill l ''output'' v
      | TSkillContextLog \<Rightarrow> log_skill_context l v
      | _ \<Rightarrow> [newline])"

section \<open>Metrics (\<open>log_handler.go\<close>)\<close>

text \<open>
  The line of a metric; the two rates are printed with two decimals. \<open>time_text\<close> prints a time as
  RFC 3339 has it.
\<close>

definition NewLogMetricsHandler :: string where
  "NewLogMetricsHandler = ''[metrics]''"

definition OnMetrics :: "(int \<Rightarrow> string) \<Rightarrow> string \<Rightarrow> call_metric \<Rightarrow> string" where
  "OnMetrics time_text prefix m =
     time_text (mt_timestamp m) @ '' '' @ prefix @ '' model='' @ quoted (mt_model_name m) @
     '' duration='' @ duration_text (mt_duration m) @
     '' prompt_tokens='' @ int_text (prompt_tokens (mt_usage m)) @
     '' completion_tokens='' @ int_text (completion_tokens (mt_usage m)) @
     '' total_tokens='' @ int_text (total_tokens (mt_usage m)) @
     '' rpm='' @ fixed_text 2 (mt_rpm m) @ '' tpm='' @ fixed_text 2 (mt_tpm m) @ newline"

section \<open>One event, one line\<close>

definition one_line :: "string \<Rightarrow> bool" where
  "one_line s \<longleftrightarrow> (\<forall>c \<in> set s. char_code c \<noteq> 10)"

lemma one_line_simps [simp]:
  "one_line []" "one_line (c # s) \<longleftrightarrow> char_code c \<noteq> 10 \<and> one_line s"
  "one_line (s @ t) \<longleftrightarrow> one_line s \<and> one_line t"
  by (auto simp: one_line_def)

lemma hex_digit_line: "n < 16 \<Longrightarrow> char_code (hex_digit n) \<noteq> 10"
  by (simp add: hex_digit_def char_code_def)

lemma quote_escape_line: "one_line (quote_escape c)"
proof -
  have "char_code c < 256" by simp
  then have "char_code c div 16 < 16" by presburger
  then have h: "char_code (hex_digit (char_code c div 16)) \<noteq> 10" "char_code (hex_digit (char_code c mod 16)) \<noteq> 10"
    by (simp_all add: hex_digit_line)
  show ?thesis
    unfolding quote_escape_def Let_def using h by (auto simp: char_code_def)
qed

lemma byte_escape_line: "one_line (byte_escape c)"
proof -
  have "char_code c < 256" by simp
  then have "char_code c div 16 < 16" by presburger
  then show ?thesis by (simp add: byte_escape_def Let_def hex_digit_line) (simp add: char_code_def)
qed

text \<open>A rune of several bytes has none below 128.\<close>

lemma rune_bytes:
  assumes "1 < rune_size (c # s)" and "i < rune_size (c # s)"
  shows "128 \<le> char_code ((c # s) ! i)"
proof -
  have tails: "128 \<le> char_code ((c # s) ! k)" if "tail_byte lo hi (c # s) k" "128 \<le> lo" for k lo hi
    using that by (simp add: tail_byte_def)
  have b: "128 \<le> char_code c" using assms(1) by (simp add: rune_size_def Let_def split: if_splits)
  have "i = 0 \<or> i = 1 \<or> i = 2 \<or> i = 3" using assms(2) by (auto simp: rune_size_def Let_def split: if_splits)
  with assms b tails show ?thesis
    by (fastforce simp: rune_size_def Let_def split: if_splits)
qed

lemma rune_line:
  assumes "1 < rune_size (c # s)"
  shows "one_line (take (rune_size (c # s)) (c # s))"
  unfolding one_line_def
proof
  fix x assume "x \<in> set (take (rune_size (c # s)) (c # s))"
  then obtain i where "i < rune_size (c # s)" "x = (c # s) ! i"
    by (metis in_set_conv_nth length_take min_less_iff_conj nth_take)
  with rune_bytes [OF assms] show "char_code x \<noteq> 10" by fastforce
qed

lemma quote_bytes_line: "one_line (quote_bytes s)"
proof (induction s rule: quote_bytes.induct)
  case (2 c s)
  let ?n = "rune_size (c # s)"
  consider "?n = 0" | "?n = 1" | "1 < ?n" by linarith
  then show ?case
  proof cases
    case 1
    then show ?thesis using 2(1) byte_escape_line by (simp add: Let_def)
  next
    case b: 2
    then show ?thesis using 2(2) quote_escape_line by (simp add: Let_def)
  next
    case 3
    then show ?thesis using 2(3) [OF refl] rune_line [OF 3] by (simp add: Let_def)
  qed
qed simp

lemma quoted_line [simp]: "one_line (quoted s)"
  using quote_bytes_line by (simp add: quoted_def) (simp add: char_code_def)

lemma nat_text_line: "one_line (nat_text n)"
  using nat_text_digits [of n] by (auto simp: one_line_def list_all_iff is_digit_def)

lemma int_text_line [simp]: "one_line (int_text i)"
  by (simp add: int_text_def nat_text_line) (simp add: char_code_def)

lemma digits_text_line: "one_line (digits_text k n)"
  by (induction k n rule: digits_text.induct) (simp_all add: char_code_def)

lemma frac_text_line: "one_line (frac_text v prec)"
  using digits_text_line [of prec "v mod 10 ^ prec"]
  by (auto simp: frac_text_def Let_def one_line_def char_code_def dest!: set_dropWhileD)

lemma duration_text_line [simp]: "one_line (duration_text d)"
  by (simp add: duration_text_def Let_def nat_text_line frac_text_line) (simp add: char_code_def)

lemma fixed_text_line [simp]: "one_line (fixed_text k x)"
  by (simp add: fixed_text_def Let_def nat_text_line digits_text_line) (simp add: char_code_def)

lemma event_name_line [simp]: "one_line (eventTypeName t)"
  by (cases t) (simp_all, simp_all add: char_code_def)

lemma shown_line [simp]: "one_line name \<Longrightarrow> one_line (concat (shown name t))"
  by (simp add: shown_def Let_def) (simp add: char_code_def)

lemma preview_line [simp]: "one_line (payload_preview v k)" "one_line (previewJSON j t k)"
  by (simp_all add: payload_preview_def previewJSON_def split: sum.split)

text \<open>Texts that together are the rest of a line.\<close>

definition ends_line :: "string list \<Rightarrow> bool" where
  "ends_line ts \<longleftrightarrow> (\<exists>rest. concat ts = rest @ newline \<and> one_line rest)"

lemma ends_line_end: "ends_line [newline]" "one_line t \<Longrightarrow> ends_line [t @ newline]"
  by (auto simp: ends_line_def)

lemma ends_line_app: "one_line (concat ts) \<Longrightarrow> ends_line us \<Longrightarrow> ends_line (ts @ us)"
proof -
  assume t: "one_line (concat ts)" and "ends_line us"
  then obtain rest where "concat us = rest @ newline" "one_line rest" by (auto simp: ends_line_def)
  with t show "ends_line (ts @ us)" unfolding ends_line_def by (intro exI [of _ "concat ts @ rest"]) simp
qed

lemma ends_line_Cons: "one_line t \<Longrightarrow> ends_line us \<Longrightarrow> ends_line (t # us)"
  using ends_line_app [of "[t]" us] by simp

lemmas line_intros = ends_line_Cons ends_line_app ends_line_end

lemma detailed_line: "one_line (concat ts) \<Longrightarrow> one_line (concat (detailed l ts))"
  by (simp add: detailed_def)

lemma other_line: "one_line (pl_type v) \<Longrightarrow> ends_line (other_payload v)"
  unfolding other_payload_def ends_line_def
  by (intro exI [of _ "'' payload_type='' @ pl_type v"]) (simp, simp add: char_code_def)

lemma unknown_line: "ends_line (unknown_payload v)"
  unfolding unknown_payload_def ends_line_def
  by (intro exI [of _ "'' payload='' @ payload_preview v loggerPreviewLimit"]) (simp, simp add: char_code_def)

lemma log_lines:
  assumes "one_line (pl_type v)"
  shows "ends_line (log_plan_done l v)" "ends_line (log_tool_start l v)" "ends_line (log_tool_done l v)"
    "ends_line (log_eval_done l v)"
proof -
  note other = other_line [OF assms]
  have c: "char_code CHR '' '' \<noteq> 10" "char_code CHR ''='' \<noteq> 10" by (simp_all add: char_code_def)
  show "ends_line (log_plan_done l v)"
    unfolding log_plan_done_def using other
    by (cases "planDonePayload v") (auto intro!: line_intros detailed_line simp: char_code_def)
  show "ends_line (log_tool_start l v)"
    unfolding log_tool_start_def using other
    by (cases "toolCallStartPayload v") (auto intro!: line_intros detailed_line simp: char_code_def)
  show "ends_line (log_tool_done l v)"
    unfolding log_tool_done_def using other
    by (cases "toolCallDonePayload v")
      (auto intro!: line_intros detailed_line simp: char_code_def split: option.split)
  show "ends_line (log_eval_done l v)"
    unfolding log_eval_done_def using other
    by (cases "evalDonePayload v") (auto intro!: line_intros detailed_line simp: char_code_def)
qed

lemma log_lines_more:
  assumes "one_line (pl_type v)"
  shows "ends_line (log_eval_start v)" "ends_line (log_error v)" "ends_line (log_rule_view v)"
    "one_line key \<Longrightarrow> ends_line (log_skill l key v)" "ends_line (log_skill_context l v)"
proof -
  have one: "ends_line [s @ t @ u @ newline]" if "one_line (s @ t @ u)" for s t u
    using ends_line_end(2) [OF that] by simp
  show "ends_line (log_eval_start v)"
    unfolding log_eval_start_def ends_line_def
    by (cases "evalStartPayload v")
      (auto simp: char_code_def intro!: exI [of _ "'' iteration='' @ int_text (es_iteration x) @ '' steps='' @ int_text (es_steps x)" for x])
  show "ends_line (log_error v)"
  proof (cases "errorPayload v")
    case (Some p)
    let ?t = "'' error='' @ quoted (case ep_error p of None \<Rightarrow> ''<nil>'' | Some e \<Rightarrow> err_text e) @ '' state='' @ quoted (ep_state p)"
    have "one_line ?t" by (simp add: char_code_def)
    from ends_line_end(2) [OF this] Some show ?thesis by (simp add: log_error_def)
  qed (simp add: log_error_def other_line [OF assms])
  show "ends_line (log_rule_view v)"
  proof (cases "stringPayload v")
    case (Some n)
    have "one_line ('' rule='' @ quoted n)" by (simp add: char_code_def)
    from ends_line_end(2) [OF this] Some show ?thesis by (simp add: log_rule_view_def)
  qed (simp add: log_rule_view_def unknown_line)
  show "ends_line (log_skill l key v)" if "one_line key"
    unfolding log_skill_def using unknown_line that
    by (cases "stringMapPayload v") (auto intro!: line_intros detailed_line simp: char_code_def)
  have "ends_line ['' log='' @ t @ newline]" if "one_line t" for t
    using ends_line_end(2) [of "'' log='' @ t"] that by (simp add: char_code_def)
  then show "ends_line (log_skill_context l v)"
    by (auto simp: log_skill_context_def ends_line_end split: payload_data.split)
qed

text \<open>A payload without what only the detailed mode shows.\<close>

fun map_boxed :: "('a \<Rightarrow> 'a) \<Rightarrow> 'a boxed \<Rightarrow> 'a boxed" where
  "map_boxed f (Value x) = Value (f x)"
| "map_boxed f (Pointer p) = Pointer (map_option f p)"

fun without_details :: "payload_data \<Rightarrow> payload_data" where
  "without_details (PlanDoneP p) =
     PlanDoneP (map_boxed (\<lambda>x. x\<lparr>pd_reasoning := [], pd_action_summary := [], pd_duration := 0\<rparr>) p)"
| "without_details (ToolCallStartP p) = ToolCallStartP (map_boxed (\<lambda>x. x\<lparr>ts_input := None\<rparr>) p)"
| "without_details (ToolCallDoneP p) = ToolCallDoneP (map_boxed (\<lambda>x. x\<lparr>td_output := [], td_duration := 0\<rparr>) p)"
| "without_details (EvalDoneP p) = EvalDoneP (map_boxed (\<lambda>x. x\<lparr>ed_feedback := [], ed_duration := 0\<rparr>) p)"
| "without_details (StringMapP m) = StringMapP (map_option (filter (\<lambda>(k, v). k = ''skill'')) m)"
| "without_details d = d"

lemma unbox_map: "unbox (map_boxed f p) = map_option f (unbox p)"
  by (cases p) simp_all

lemma concise_hides:
  assumes "lh_mode l = LoggerModeConcise"
  shows "OnEvent l (ev\<lparr>he_payload := (he_payload ev)\<lparr>pl_data := without_details (pl_data (he_payload ev))\<rparr>\<rparr>) = OnEvent l ev"
proof -
  have skill: "map_of (filter (\<lambda>(k, v). k = ''skill'') m) ''skill'' = map_of m ''skill''" for m :: "(string \<times> string) list"
    by (induction m) auto
  have opt: "map_of (case x of None \<Rightarrow> [] | Some m \<Rightarrow> filter (\<lambda>(k, v). k = ''skill'') m) ''skill'' =
      map_of (case x of None \<Rightarrow> [] | Some m \<Rightarrow> m) ''skill''" for x :: "(string \<times> string) list option"
    by (simp add: skill split: option.split)
  show ?thesis
    using assms opt
    by (cases "pl_data (he_payload ev)"; cases "he_type ev")
      (simp_all add: OnEvent_def Let_def detailed_def log_plan_done_def log_tool_start_def log_tool_done_def
        log_eval_start_def log_eval_done_def log_error_def log_rule_view_def log_skill_def log_skill_context_def
        planDonePayload_def toolCallStartPayload_def toolCallDonePayload_def evalStartPayload_def evalDonePayload_def
        errorPayload_def stringPayload_def stringMapPayload_def other_payload_def unknown_payload_def
        payload_preview_def unbox_map case_map_option comp_def cong: option.case_cong)
qed


definition demo_event :: hook_event where
  "demo_event =
     \<lparr>he_type = TToolCallStart,
      he_payload = \<lparr>pl_data = ToolCallStartP (Value \<lparr>ts_tool_name = ''rm'' @ newline @ ''forged'', ts_input = None\<rparr>),
        pl_type = ''hook.ToolCallStartPayload'', pl_json = Inr ''{}'', pl_print = ''{}''\<rparr>,
      he_time = ''2024-01-01T00:00:00Z''\<rparr>"


end
