(* ===== verification/Spec2Isabelle.thy ===== *)
theory Spec2Isabelle
  imports PlanRuns AgentCalls Approval StreamedPlan ExampleRuns Metrics Retry Retriever Prompt SkillContext OutputHook OpenAI Anthropic Remote Logger FileStore
begin

text \<open>
  A verification library for simple-agent-framework, a Go framework for agents that let a language model
  use tools. Sources are named relative to \<open>src/\<close>; a definition has the name of the Go function or
  method it translates, with a prefix where several have one name (\<open>rule_Add\<close>, \<open>tb_Allow\<close>).

  \<^bold>\<open>The program.\<close> An application makes an \<open>Agent\<close> from options (\<open>agent/option.go\<close>) and gives it tasks.
  The agent holds what all sessions share: model, tools, rules, skills, hooks, planners. A \<open>Session\<close> has a
  memory, a content store, a loop detector and a context compressor. \<open>Session.Run\<close> adds the task to the
  memory and enters \<open>runLoop\<close> (\<open>agent/loop.go\<close>), a state machine over ten states: a planner proposes an
  action, a human may be asked, a tool is executed, an evaluator judges, until there is an answer or an
  error. Around it: registries, schemas, memories and compression, checkpoints, prompts, skills that run in
  a conversation of their own, retrieval, rate limiting and retrying, clients of model providers.

  \<^bold>\<open>How Go is modelled.\<close> An operation with state is a function on a runtime (the context and the world
  outside, whose type is a parameter) and its own state: type \<open>op\<close> of theory \<open>GoRuntime\<close>. It answers
  \<open>Ok\<close>, \<open>Err\<close> with an error value, or \<open>Panic\<close>, so that nil dereferences and indices out of range are
  branches. A context that may be cancelled at any moment is \<open>CancelAfter n\<close> for any \<open>n\<close>, the number of
  times the code may still ask. Strings are lists of bytes. Maps are finite functions, or lists of entries
  where their order shows. A Go \<open>int\<close> is an integer: the counters here are far from 64 bits; where a text
  is read into an \<open>int\<close> its width is checked. A \<open>float64\<close> is an exact rational. Clocks are arguments or
  parameters. What is outside the repository (models, HTTP, files and processes of the operating system,
  SHA-256, \<open>text/template\<close>, the validator and hujson) is a parameter, and what a theorem needs of it is a
  hypothesis.

  \<^bold>\<open>The theories.\<close>
  \<^item> \<open>Prelude\<close>: prefixes, joining, trimming, decimal text, slices. \<open>GoRuntime\<close>: errors (\<open>errors/\<close>), contexts,
    operations and how they are composed, values of type \<open>any\<close>. \<open>Json\<close>, \<open>GoFormat\<close>: the parts of
    \<open>encoding/json\<close> and \<open>fmt\<close> that are used. \<open>Wire\<close>: HTTP, lines of a stream.
  \<^item> \<open>Schema\<close>, \<open>Registry\<close> (\<open>tool/\<close>, \<open>rule/\<close>, \<open>skill/\<close>): schemas from types; the three registries, which
    implement lists of entries (locale \<open>registry_laws\<close>).
  \<^item> \<open>ChatModel\<close>, \<open>Window\<close>, \<open>RateLimit\<close>, \<open>Retry\<close>, \<open>Metrics\<close> (\<open>model/\<close>, \<open>metrics/\<close>): messages, options, the
    stream iterator as a step relation; both ring buffers as queues (locale \<open>window_queue\<close>); backoff.
  \<^item> \<open>OpenAI\<close>, \<open>Anthropic\<close> (\<open>model/provider/\<close>): requests, answers, streams.
  \<^item> \<open>Store\<close>, \<open>Memory\<close>, \<open>Summary\<close>, \<open>Compressor\<close>, \<open>FileStore\<close> (\<open>memory/\<close>): message stores (locale
    \<open>message_store_laws\<close>), the memories over them, what keeps a conversation small, content stores
    (locale \<open>content_store_laws\<close>).
  \<^item> \<open>Planner\<close>, \<open>Executor\<close>, \<open>Evaluator\<close>, \<open>Interrupter\<close>, \<open>Hook\<close>, \<open>Logger\<close>, \<open>OutputHook\<close>: the parts the loop
    calls; a batch of tools is a step relation over its goroutines; checkpoint stores have the locale
    \<open>checkpoint_laws\<close>.
  \<^item> \<open>Paths\<close>, \<open>Loaders\<close>, \<open>Builtin\<close>, \<open>SkillContext\<close>, \<open>Prompt\<close>, \<open>Retriever\<close>, \<open>Remote\<close>: files of rules and skills, the
    built-in tools, the run of a skill, prompts, retrieval, services behind HTTP and sandboxes.
  \<^item> \<open>LoopDetector\<close>, \<open>Loop\<close>: one definition for each state of \<open>runLoop\<close>, its local variables in the record
    \<open>loop_vars\<close>, what it calls in \<open>loop_env\<close>. \<open>Agent\<close>, \<open>Session\<close>: the agent, all its options and operations,
    sessions, and the environment with which a session enters the loop.
  \<^item> \<open>LoopControl\<close> shows that one turn of the loop follows a control skeleton, a relation on the few variables
    that decide what happens next; \<open>LoopProofs\<close>, \<open>PlanRuns\<close> and \<open>LoopFrame\<close> argue about runs on it;
    \<open>Approval\<close> about what was granted in a run, \<open>StreamedPlan\<close> about plans made of streams,
    \<open>AgentProofs\<close> and \<open>AgentCalls\<close> about agents after any options and any sequence of calls.
  \<^item> \<open>Examples\<close>, \<open>ExampleRuns\<close> (\<open>examples/\<close>): tools, helpers, agents, evaluators and humans at a terminal, and
    what follows for these programs from the theorems about the framework.

  \<^bold>\<open>What is shown.\<close> About the loop: it ends (C1), runs no tool that was not granted earlier in the same run
  (C2), with the human in the loop not without the human (C3), does not panic (C4), stays within its bounds (C5)
  and validates its answer (C6); and that this holds of every agent, whatever its options and its past (C7), whose
  prompt and tools moreover are always those of its present rules and skills (C8). A streamed plan is the plan made
  of the whole answer (C9). Then where the loop does what it should not: C10, C11, C12 and, when a context is
  cancelled, C13. The other properties belong to single components and say what they are at the theorem. Some
  state the conditions under which code is right, and with it where it is not; those are listed as findings.

  \<^bold>\<open>Bounds and fuel.\<close> \<open>runLoop\<close> has a number of turns as fuel and answers \<open>None\<close> when they do not suffice.
  \<open>enough_fuel\<close>, maximum of iterations times (twice the threshold plus six), plus four, is enough whenever the
  human rejects no plan: each iteration plans once, and between two iterations the loop detector ends a
  sequence of equal calls after threshold plus one, each with two turns. \<open>agent_fuel\<close> is the same number for
  an agent. Skills have their maximum of iterations as fuel, the JSON reader twice the length of the text,
  retries their number; these recursions are total.

  \<^bold>\<open>Not modelled.\<close> What the programs under \<open>examples/\<close> print, \<open>examples/simple\<close>, whose tool panics when it is
  called without a city, and the demos of \<open>examples/comprehensive\<close> that only call one function after the other.
  Locks: calls of an agent are made one after the other;
  only the batch executor and the stream iterator are interleaved. Durations and time stamps of events,
  except where the logger prints them. The saving of checkpoints in the background, which a run
  only records. Go's choice of an order for the keys of a map, its sorting of more than twelve elements with
  equal keys, and integers beyond 64 bits.
\<close>

end
